(* ===== verification/Prelude.thy ===== *)
theory Prelude
  imports "HOL-Library.Word" "HOL-Library.Signed_Division"
begin

text \<open>
  Shared vocabulary of the development: the machine integer types of the C++ code, the
  outcomes of an operation that does not return normally, the sequencing of operations
  that may fail, and the generic facts on words, lists and results the component
  theories use.
\<close>

unbundle bit_operations_syntax

subsection \<open>Machine integers\<close>

text \<open>
  \<open>uint8_t\<close> to \<open>uint64_t\<close> and \<open>unsigned __int128\<close>. The signed types of the same width
  are the same bit patterns read by \<^const>\<open>sint\<close>; a widening cast of a signed value is
  \<^const>\<open>scast\<close>, of an unsigned value \<^const>\<open>ucast\<close>, and every narrowing cast
  is \<^const>\<open>ucast\<close> (C++20 narrows modulo two to the width).
\<close>

type_synonym u8 = "8 word"
type_synonym u16 = "16 word"
type_synonym u32 = "32 word"
type_synonym u64 = "64 word"
type_synonym u128 = "128 word"

definition INT64_MIN :: u64 where "INT64_MIN = 0x8000000000000000"
definition INT64_MAX :: u64 where "INT64_MAX = 0x7FFFFFFFFFFFFFFF"
definition INT32_MIN :: u32 where "INT32_MIN = 0x80000000"
definition INT32_MAX :: u32 where "INT32_MAX = 0x7FFFFFFF"

subsection \<open>Outcomes\<close>

text \<open>
  A C++ exception is its type; \<open>Undefined\<close> is an execution whose behaviour the language
  does not define (an integer division that overflows or divides by zero, an access
  outside an array); \<open>ExitProgram\<close> is a call of \<open>exit\<close> and \<open>Blocked\<close> a wait
  for input that has not arrived. \<open>OutOfFuel\<close> is no outcome of the code: a loop of the
  model that takes a bound on its rounds has reached it.
\<close>

datatype vm_error =
    OutOfRange
  | InvalidArgument
  | RuntimeError
  | Undefined
  | ExitProgram
  | Blocked
  | OutOfFuel

type_synonym 'a result = "vm_error + 'a"

definition bindr :: "'e + 'a \<Rightarrow> ('a \<Rightarrow> 'e + 'b) \<Rightarrow> 'e + 'b" where
  "bindr r f = (case r of Inl e \<Rightarrow> Inl e | Inr a \<Rightarrow> f a)"

lemma bindr_simps [simp]:
  "bindr (Inl e) f = Inl e"
  "bindr (Inr a) f = f a"
  by (simp_all add: bindr_def)

lemma bindr_Inr_iff: "bindr r f = Inr b \<longleftrightarrow> (\<exists>a. r = Inr a \<and> f a = Inr b)"
  by (cases r) simp_all

lemma bindr_Inl_iff: "bindr r f = Inl e \<longleftrightarrow> r = Inl e \<or> (\<exists>a. r = Inr a \<and> f a = Inl e)"
  by (cases r) simp_all

lemma bindr_InrE [elim!]:
  assumes "bindr r f = Inr b"
  obtains a where "r = Inr a" and "f a = Inr b"
  using assms by (auto simp: bindr_Inr_iff)

lemma bindr_assoc: "bindr (bindr r f) g = bindr r (\<lambda>a. bindr (f a) g)"
  by (cases r) simp_all

lemma bindr_cong [fundef_cong]:
  "r = r' \<Longrightarrow> (\<And>a. r' = Inr a \<Longrightarrow> f a = f' a) \<Longrightarrow> bindr r f = bindr r' f'"
  by (cases r') simp_all

subsection \<open>Outcomes that do not depend on fuel\<close>

text \<open>\<open>returns P r\<close>: the result is not an exhausted bound, and a normal result satisfies \<open>P\<close>.\<close>

definition returns :: "('a \<Rightarrow> bool) \<Rightarrow> 'a result \<Rightarrow> bool" where
  "returns P r \<longleftrightarrow> (case r of Inl e \<Rightarrow> e \<noteq> OutOfFuel | Inr x \<Rightarrow> P x)"

lemma returns_simps [simp]:
  "returns P (Inr x) = P x" "returns P (Inl e) \<longleftrightarrow> e \<noteq> OutOfFuel"
  "returns P (bindr r f) = returns (\<lambda>x. returns P (f x)) r"
  "returns P (if c then s else t) \<longleftrightarrow> (c \<longrightarrow> returns P s) \<and> (\<not> c \<longrightarrow> returns P t)"
  by (simp_all add: returns_def bindr_def split: sum.split)

lemma returns_bind: "returns Q r \<Longrightarrow> (\<And>x. Q x \<Longrightarrow> returns P (f x)) \<Longrightarrow> returns P (bindr r f)"
  by (cases r) simp_all

lemma returns_weaken: "returns Q r \<Longrightarrow> (\<And>x. Q x \<Longrightarrow> P x) \<Longrightarrow> returns P r"
  by (simp add: returns_def split: sum.splits)

text \<open>An operation that always comes to an end, whatever is asked of its value.\<close>

definition ends :: "'a result \<Rightarrow> bool" where
  "ends r \<longleftrightarrow> r \<noteq> Inl OutOfFuel"

lemma ends_simps [simp]:
  "ends (Inr x)" "ends (Inl e) \<longleftrightarrow> e \<noteq> OutOfFuel"
  "ends (if c then r else s) \<longleftrightarrow> (c \<longrightarrow> ends r) \<and> (\<not> c \<longrightarrow> ends s)"
  by (simp_all add: ends_def)

lemma ends_bindr [intro!]: "ends r \<Longrightarrow> (\<And>x. ends (f x)) \<Longrightarrow> ends (bindr r f)"
  by (cases r) (auto simp: ends_def)

lemma returns_ends: "ends r \<Longrightarrow> (\<And>x. P x) \<Longrightarrow> returns P r"
  by (cases r) (simp_all add: ends_def)

subsection \<open>Two's complement helpers\<close>

text \<open>The flag of \<open>__builtin_add_overflow\<close> and its kin: the wrapped result differs
  from the exact one.\<close>

definition add_overflow :: "'a::len word \<Rightarrow> 'a word \<Rightarrow> bool" where
  "add_overflow a b \<longleftrightarrow> sint (a + b) \<noteq> sint a + sint b"

definition sub_overflow :: "'a::len word \<Rightarrow> 'a word \<Rightarrow> bool" where
  "sub_overflow a b \<longleftrightarrow> sint (a - b) \<noteq> sint a - sint b"

definition mul_overflow :: "'a::len word \<Rightarrow> 'a word \<Rightarrow> bool" where
  "mul_overflow a b \<longleftrightarrow> sint (a * b) \<noteq> sint a * sint b"

text \<open>C++ integer division truncates towards zero, as \<open>sdiv\<close> and \<open>smod\<close> do.\<close>

definition c_div :: "'a::len word \<Rightarrow> 'a word \<Rightarrow> 'a word" where
  "c_div a b = word_of_int (sint a sdiv sint b)"

definition c_mod :: "'a::len word \<Rightarrow> 'a word \<Rightarrow> 'a word" where
  "c_mod a b = word_of_int (sint a smod sint b)"

definition b2w :: "bool \<Rightarrow> u64" where
  "b2w p = (if p then 1 else 0)"

lemma b2w_simps [simp]: "b2w True = 1" "b2w False = 0"
  by (simp_all add: b2w_def)

lemma b2w_eq_iff [simp]: "b2w p = 1 \<longleftrightarrow> p" "b2w p = 0 \<longleftrightarrow> \<not> p"
  by (simp_all add: b2w_def)

subsection \<open>Facts on words\<close>

lemma sint_word_of_int_fits:
  "- (2 ^ (LENGTH('a) - 1)) \<le> k \<Longrightarrow> k < 2 ^ (LENGTH('a) - 1) \<Longrightarrow> sint (word_of_int k :: 'a::len word) = k"
  by (simp add: sint_sbintrunc' signed_take_bit_int_eq_self)

lemma sint_bounds64: "- (2 ^ 63) \<le> sint (a :: u64)" "sint (a :: u64) < 2 ^ 63"
  using sint_ge [of a] sint_lt [of a] by simp_all

lemma sint_bounds32: "- (2 ^ 31) \<le> sint (a :: u32)" "sint (a :: u32) < 2 ^ 31"
  using sint_ge [of a] sint_lt [of a] by simp_all

lemma uint_bounds64: "0 \<le> uint (a :: u64)" "uint (a :: u64) < 2 ^ 64"
  using uint_lt2p [of a] by simp_all

lemma ucast_128_64: "(ucast (w :: u128) :: u64) = word_of_int (sint w)"
  by (rule bit_word_eqI) (auto simp: bit_simps)

lemma high64: "(ucast (signed_drop_bit 64 (w :: u128)) :: u64) = word_of_int (sint w div 2 ^ 64)"
  by (simp add: ucast_128_64 sint_signed_drop_bit_eq drop_bit_eq_div)

lemma high64_unsigned: "(ucast (signed_drop_bit 64 (w :: u128)) :: u64) = word_of_int (uint w div 2 ^ 64)"
  unfolding drop_bit_eq_div [symmetric] by (rule bit_word_eqI) (auto simp: bit_simps)

lemma sint_scast_64_128: "sint (scast (a :: u64) :: u128) = sint a"
  by (rule sint_up_scast) (simp add: is_up)

lemma sint_ucast_64_128: "sint (ucast (a :: u64) :: u128) = uint a"
proof -
  have "uint (ucast a :: u128) = uint a" by (rule uint_up_ucast) (simp add: is_up)
  moreover have "signed_take_bit 127 (uint a) = uint a"
  proof (rule signed_take_bit_int_eq_self)
    show "- (2 ^ 127) \<le> uint a" using uint_bounds64(1) [of a] by (rule order_trans [rotated]) simp
    show "uint a < 2 ^ 127" using uint_bounds64(2) [of a] by (rule order_less_trans) simp
  qed
  ultimately show ?thesis by (simp add: sint_uint)
qed

lemma sint_mulh_product:
  "sint ((scast (a :: u64) :: u128) * scast (b :: u64)) = sint a * sint b"
proof -
  have "\<bar>sint a\<bar> \<le> 2 ^ 63" "\<bar>sint b\<bar> \<le> 2 ^ 63"
    using sint_bounds64 [of a] sint_bounds64 [of b] by linarith+
  then have "\<bar>sint a\<bar> * \<bar>sint b\<bar> \<le> 2 ^ 63 * 2 ^ 63"
    by (rule mult_mono) simp_all
  then have "\<bar>sint a * sint b\<bar> \<le> 2 ^ 126"
    by (simp add: abs_mult)
  then have "- (2 ^ 127) \<le> sint a * sint b" "sint a * sint b < 2 ^ 127"
    by (simp_all add: abs_le_iff)
  then show ?thesis
    by (simp add: sint_word_mult sint_scast_64_128 signed_take_bit_int_eq_self)
qed

lemma add_overflow_iff:
  "add_overflow (a :: 'a::len word) b \<longleftrightarrow>
     \<not> (- (2 ^ (LENGTH('a) - 1)) \<le> sint a + sint b \<and> sint a + sint b < 2 ^ (LENGTH('a) - 1))"
  by (auto simp: add_overflow_def sint_word_add signed_take_bit_int_eq_self_iff)

lemma sub_overflow_iff:
  "sub_overflow (a :: 'a::len word) b \<longleftrightarrow>
     \<not> (- (2 ^ (LENGTH('a) - 1)) \<le> sint a - sint b \<and> sint a - sint b < 2 ^ (LENGTH('a) - 1))"
  by (auto simp: sub_overflow_def sint_word_diff signed_take_bit_int_eq_self_iff)

lemma mul_overflow_iff:
  "mul_overflow (a :: 'a::len word) b \<longleftrightarrow>
     \<not> (- (2 ^ (LENGTH('a) - 1)) \<le> sint a * sint b \<and> sint a * sint b < 2 ^ (LENGTH('a) - 1))"
  by (auto simp: mul_overflow_def sint_word_mult signed_take_bit_int_eq_self_iff)

lemma sint_eq_0_iff: "sint (b :: 'a::len word) = 0 \<longleftrightarrow> b = 0"
  by (metis signed_eq_0_iff)

lemma sint_INT64_MIN: "sint INT64_MIN = - (2 ^ 63)"
  by (simp add: INT64_MIN_def)

lemma sint_c_mod:
  assumes "b \<noteq> (0 :: 'a::len word)"
  shows "sint (c_mod a b) = sint a smod sint b"
proof -
  have "sint b \<noteq> 0" using assms by (simp add: sint_eq_0_iff)
  then have "sint a smod sint b \<in> {- \<bar>sint b\<bar> + 1..\<bar>sint b\<bar> - 1}"
    by (rule smod_int_range)
  moreover have "\<bar>sint b\<bar> \<le> 2 ^ (LENGTH('a) - 1)"
    using sint_ge [of b] sint_lt [of b] by linarith
  ultimately show ?thesis
    by (auto simp: c_mod_def intro!: sint_word_of_int_fits)
qed

lemma sint_c_div:
  assumes b: "b \<noteq> (0 :: 'a::len word)" and o: "\<not> (sint a = - (2 ^ (LENGTH('a) - 1)) \<and> b = -1)"
  shows "sint (c_div a b) = sint a sdiv sint b"
proof -
  let ?q = "sint a sdiv sint b" and ?m = "2 ^ (LENGTH('a) - 1) :: int"
  have r: "- \<bar>sint a\<bar> \<le> ?q" "?q \<le> \<bar>sint a\<bar>"
    using sdiv_int_range [of "sint a" "sint b"] by simp_all
  have a: "- ?m \<le> sint a" "sint a < ?m" using sint_ge [of a] sint_lt [of a] by simp_all
  have "?q \<noteq> ?m"
  proof
    assume q: "?q = ?m"
    with r a have am: "sint a = - ?m" by linarith
    with q have "?q = - sint a" by simp
    moreover have "sint a \<noteq> 0" using am by simp
    ultimately have "sint b = -1" using int_sdiv_negated_is_minus1 by blast
    then have "(word_of_int (sint b) :: 'a word) = word_of_int (-1)" by simp
    then have "b = -1" by simp
    with am o show False by simp
  qed
  with r a have "- ?m \<le> ?q" "?q < ?m" by linarith+
  then show ?thesis by (simp add: c_div_def sint_word_of_int_fits)
qed

lemma signed_division:
  assumes "b \<noteq> (0 :: 'a::len word)" and "\<not> (sint a = - (2 ^ (LENGTH('a) - 1)) \<and> b = -1)"
  shows "sint (c_div a b) * sint b + sint (c_mod a b) = sint a \<and> \<bar>sint (c_mod a b)\<bar> < \<bar>sint b\<bar>"
proof -
  have "sint b \<noteq> 0" using assms by (simp add: sint_eq_0_iff)
  from smod_int_range [OF this, of "sint a"] have "\<bar>sint a smod sint b\<bar> < \<bar>sint b\<bar>"
    by (auto simp: abs_less_iff)
  then show ?thesis
    using assms by (simp add: sint_c_div sint_c_mod sdiv_mult_smod_eq)
qed

lemma smod_sign: "(x::int) smod y = 0 \<or> sgn (x smod y) = sgn x"
proof -
  have "0 \<le> \<bar>x\<bar> mod \<bar>y\<bar> \<or> y = 0" by auto
  then show ?thesis
    by (cases "\<bar>x\<bar> mod \<bar>y\<bar> = 0") (auto simp: smod_int_alt_def sgn_mult order_less_le)
qed

lemma uint_drop_bit_div: "uint (drop_bit n (a :: 'a::len word)) = uint a div 2 ^ n"
  by (simp add: unsigned_drop_bit_eq bintr_uint drop_bit_eq_div [where 'a = int])

lemma sint_signed_drop_bit_div: "sint (signed_drop_bit n (a :: 'a::len word)) = sint a div 2 ^ n"
  by (simp add: sint_signed_drop_bit_eq drop_bit_eq_div [where 'a = int])

lemma scast_ucast_scast: "scast (ucast (scast (w :: u32) :: u64) :: u32) = (scast w :: u64)"
  by (rule bit_word_eqI) (auto simp: bit_simps min_def)

lemma unat_u64_less: "unat (x :: u64) < 2 ^ 64"
  using unsigned_less [of x] by simp

lemma unat_diff_eqD: "unat (x - a) = i \<Longrightarrow> x = a + of_nat i" for x a :: u64
  by auto

lemma consecutive_in_range:
  fixes a L :: u64
  assumes "k \<le> unat L" and "a < L - of_nat (k - 1)" and "j < k"
  shows "a + of_nat j < L"
proof -
  have L: "unat L < 2 ^ 64" using unat_u64_less by simp
  have k: "k - 1 \<le> unat L" "k - 1 < 2 ^ 64" using assms(1) L by linarith+
  have "unat (of_nat (k - 1) :: u64) = k - 1" using k by (simp add: unat_of_nat)
  then have "unat (L - of_nat (k - 1)) = unat L - (k - 1)"
    using k by (simp add: unat_sub word_le_nat_alt)
  with assms have "unat a + j < unat L" by (simp add: word_less_nat_alt)
  moreover have "unat (of_nat j :: u64) = j" using assms(1,3) L by (simp add: unat_of_nat)
  ultimately have "unat (a + of_nat j) = unat a + j"
    using L by (simp add: unat_word_ariths)
  with \<open>unat a + j < unat L\<close> show ?thesis by (simp add: word_less_nat_alt)
qed

lemma offset_in_block: "s \<noteq> 0 \<Longrightarrow> unat (a mod ucast (s :: u32)) < unat s" for a :: u64
proof -
  assume "s \<noteq> 0"
  moreover have "unat (ucast s :: u64) = unat s"
  proof -
    have "unat s < 2 ^ 64" using unsigned_less [of s, where ?'a = nat] by simp
    then show ?thesis by (simp add: unsigned_ucast_eq take_bit_nat_eq_self)
  qed
  ultimately show ?thesis by (simp add: unat_mod unat_gt_0)
qed

end
