(* ===== verification/CString.thy ===== *)
theory CString
  imports Prelude
begin

text \<open>
  The conversions between strings and numbers the simulator takes from the C++ standard
  library: \<open>std::stoi\<close>, \<open>std::stoll\<close> and \<open>std::stoull\<close> (leading blanks, an optional sign,
  for base 16 an optional \<open>0x\<close>, then the longest run of digits; no digits is
  \<open>invalid_argument\<close>, a value outside the type is \<open>out_of_range\<close>) and
  \<open>std::to_string\<close>.
\<close>

subsection \<open>Parsing\<close>

definition is_space :: "char \<Rightarrow> bool" where
  "is_space c \<longleftrightarrow> (let n = (of_char c :: nat) in n = 32 \<or> (9 \<le> n \<and> n \<le> 13))"

definition digit_val :: "char \<Rightarrow> nat option" where
  "digit_val c = (let n = (of_char c :: nat) in
     if 48 \<le> n \<and> n \<le> 57 then Some (n - 48)
     else if 97 \<le> n \<and> n \<le> 122 then Some (n - 87)
     else if 65 \<le> n \<and> n \<le> 90 then Some (n - 55)
     else None)"

definition is_digit_of :: "nat \<Rightarrow> char \<Rightarrow> bool" where
  "is_digit_of base c = (case digit_val c of None \<Rightarrow> False | Some d \<Rightarrow> d < base)"

text \<open>The value of the longest prefix of digits, given the value of those before it.\<close>

fun scan_digits :: "nat \<Rightarrow> nat \<Rightarrow> string \<Rightarrow> nat" where
  "scan_digits base acc [] = acc"
| "scan_digits base acc (c # cs) =
     (if is_digit_of base c then scan_digits base (acc * base + the (digit_val c)) cs else acc)"

definition skip_hex_prefix :: "nat \<Rightarrow> string \<Rightarrow> string" where
  "skip_hex_prefix base s = (case s of
       z # x # d # r \<Rightarrow> if base = 16 \<and> z = CHR ''0'' \<and> (x = CHR ''x'' \<or> x = CHR ''X'') \<and> is_digit_of 16 d
                      then d # r else s
     | _ \<Rightarrow> s)"

definition parse_sign :: "string \<Rightarrow> bool \<times> string" where
  "parse_sign s = (case s of
       [] \<Rightarrow> (False, [])
     | c # r \<Rightarrow> if c = CHR ''-'' then (True, r) else if c = CHR ''+'' then (False, r) else (False, s))"

definition parse_number :: "nat \<Rightarrow> string \<Rightarrow> (bool \<times> nat) option" where
  "parse_number base s =
     (let (neg, r) = parse_sign (dropWhile is_space s); ds = skip_hex_prefix base r
      in case ds of
           [] \<Rightarrow> None
         | c # _ \<Rightarrow> if is_digit_of base c then Some (neg, scan_digits base 0 ds) else None)"

definition signed_value :: "bool \<times> nat \<Rightarrow> int" where
  "signed_value p = (if fst p then - int (snd p) else int (snd p))"

definition stoi :: "string \<Rightarrow> int result" where
  "stoi s = (case parse_number 10 s of
       None \<Rightarrow> Inl InvalidArgument
     | Some p \<Rightarrow> if - (2 ^ 31) \<le> signed_value p \<and> signed_value p < 2 ^ 31
                then Inr (signed_value p) else Inl OutOfRange)"

definition stoll :: "nat \<Rightarrow> string \<Rightarrow> int result" where
  "stoll base s = (case parse_number base s of
       None \<Rightarrow> Inl InvalidArgument
     | Some p \<Rightarrow> if - (2 ^ 63) \<le> signed_value p \<and> signed_value p < 2 ^ 63
                then Inr (signed_value p) else Inl OutOfRange)"

text \<open>A negative argument of \<open>stoull\<close> is negated modulo two to the 64.\<close>

definition stoull :: "nat \<Rightarrow> string \<Rightarrow> u64 result" where
  "stoull base s = (case parse_number base s of
       None \<Rightarrow> Inl InvalidArgument
     | Some p \<Rightarrow> if snd p < 2 ^ 64 then Inr (word_of_int (signed_value p)) else Inl OutOfRange)"

subsection \<open>Printing\<close>

definition digit_char :: "nat \<Rightarrow> char" where
  "digit_char d = char_of (48 + d)"

fun nat_to_string :: "nat \<Rightarrow> string" where
  "nat_to_string n =
     (if n < 10 then [digit_char n] else nat_to_string (n div 10) @ [digit_char (n mod 10)])"

declare nat_to_string.simps [simp del]

definition to_string :: "int \<Rightarrow> string" where
  "to_string k = (if k < 0 then CHR ''-'' # nat_to_string (nat (- k)) else nat_to_string (nat k))"

subsection \<open>Parsing what was printed\<close>

lemma digit_val_digit_char [simp]: "d < 10 \<Longrightarrow> digit_val (digit_char d) = Some d"
  by (simp add: digit_val_def digit_char_def)

lemma is_digit_of_digit_char [simp]: "d < 10 \<Longrightarrow> is_digit_of 10 (digit_char d)"
  by (simp add: is_digit_of_def)

lemma scan_digits_append:
  "\<forall>c \<in> set xs. is_digit_of base c \<Longrightarrow>
     scan_digits base acc (xs @ ys) = scan_digits base (scan_digits base acc xs) ys"
  by (induction xs arbitrary: acc) auto

lemma nat_to_string_digits: "c \<in> set (nat_to_string n) \<Longrightarrow> is_digit_of 10 c"
proof (induction n rule: nat_to_string.induct)
  case (1 n)
  then show ?case by (subst (asm) nat_to_string.simps) (auto split: if_splits)
qed

lemma nat_to_string_nonempty: "nat_to_string n \<noteq> []"
  by (subst nat_to_string.simps) simp

lemma scan_nat_to_string: "scan_digits 10 0 (nat_to_string n) = n"
proof (induction n rule: nat_to_string.induct)
  case (1 n)
  show ?case
  proof (cases "n < 10")
    case True
    then show ?thesis by (subst nat_to_string.simps) simp
  next
    case False
    have "scan_digits 10 0 (nat_to_string (n div 10) @ [digit_char (n mod 10)]) = n"
      using 1 [OF False] by (simp add: scan_digits_append nat_to_string_digits)
    with False show ?thesis by (subst nat_to_string.simps) simp
  qed
qed

lemma is_digit_of_10_chars:
  assumes "is_digit_of 10 c"
  shows "c \<noteq> CHR ''-''" "c \<noteq> CHR ''+''" "\<not> is_space c"
  using assms
  by (auto simp: is_digit_of_def digit_val_def is_space_def Let_def split: if_splits)

lemma skip_hex_prefix_10 [simp]: "skip_hex_prefix 10 s = s"
  by (simp add: skip_hex_prefix_def split: list.split)

lemma parse_nat_to_string: "parse_number 10 (nat_to_string n) = Some (False, n)"
proof -
  obtain c cs where s: "nat_to_string n = c # cs"
    using nat_to_string_nonempty by (cases "nat_to_string n") auto
  then have d: "is_digit_of 10 c" using nat_to_string_digits [of c n] by simp
  show ?thesis
    using scan_nat_to_string [of n] d is_digit_of_10_chars [OF d]
    by (simp add: s parse_number_def parse_sign_def)
qed

lemma parse_minus_nat_to_string:
  "parse_number 10 (CHR ''-'' # nat_to_string n) = Some (True, n)"
proof -
  obtain c cs where s: "nat_to_string n = c # cs"
    using nat_to_string_nonempty by (cases "nat_to_string n") auto
  then have d: "is_digit_of 10 c" using nat_to_string_digits [of c n] by simp
  show ?thesis
    using scan_nat_to_string [of n] d
    by (simp add: s parse_number_def parse_sign_def is_space_def)
qed

lemma stoi_to_string:
  "- (2 ^ 31) \<le> k \<Longrightarrow> k < 2 ^ 31 \<Longrightarrow> stoi (to_string k) = Inr k"
  by (simp add: to_string_def stoi_def parse_nat_to_string parse_minus_nat_to_string signed_value_def)

end
