(* ===== verification/Config.thy ===== *)
theory Config
  imports CString
begin

text \<open>
  The global \<open>vm_config::config\<close> (include/config.h): its fields, their defaults and
  \<open>modifyConfig\<close>, which sets one field from the text of a command.
\<close>

datatype VmTypes = SINGLE_STAGE | MULTI_STAGE

record VmConfig =
  vm_type :: VmTypes
  run_step_delay :: u64
  memory_size :: u64
  memory_block_size :: u64
  data_section_start :: u64
  text_section_start :: u64
  bss_section_start :: u64
  instruction_execution_limit :: u64
  m_extension_enabled :: bool
  f_extension_enabled :: bool
  d_extension_enabled :: bool

definition default_config :: VmConfig where
  "default_config = \<lparr>
     vm_type = SINGLE_STAGE,
     run_step_delay = 300,
     memory_size = 0xffffffffffffffff,
     memory_block_size = 1024,
     data_section_start = 0x10000000,
     text_section_start = 0x0,
     bss_section_start = 0x11000000,
     instruction_execution_limit = 1000000,
     m_extension_enabled = True,
     f_extension_enabled = True,
     d_extension_enabled = True\<rparr>"

definition parse_bool :: "string \<Rightarrow> bool result" where
  "parse_bool v = (if v = ''true'' then Inr True else if v = ''false'' then Inr False
                   else Inl InvalidArgument)"

definition modifyConfig :: "VmConfig \<Rightarrow> string \<Rightarrow> string \<Rightarrow> string \<Rightarrow> VmConfig result" where
  "modifyConfig c sect key v =
     (if sect = ''Execution'' then
        (if key = ''processor_type'' then
           (if v = ''single_stage'' then Inr (c\<lparr>vm_type := SINGLE_STAGE\<rparr>)
            else if v = ''multi_stage'' then Inr (c\<lparr>vm_type := MULTI_STAGE\<rparr>)
            else Inl InvalidArgument)
         else if key = ''run_step_delay'' then
           bindr (stoull 10 v) (\<lambda>n. Inr (c\<lparr>run_step_delay := n\<rparr>))
         else if key = ''instruction_execution_limit'' then
           bindr (stoull 10 v) (\<lambda>n. Inr (c\<lparr>instruction_execution_limit := n\<rparr>))
         else Inl InvalidArgument)
      else if sect = ''Memory'' then
        (if key = ''memory_size'' then
           bindr (stoull 10 v) (\<lambda>n. Inr (c\<lparr>memory_size := n\<rparr>))
         else if key = ''memory_block_size'' then
           bindr (stoull 10 v) (\<lambda>n. Inr (c\<lparr>memory_block_size := n\<rparr>))
         else if key = ''data_section_start'' then
           bindr (stoull 16 v) (\<lambda>n. Inr (c\<lparr>data_section_start := n\<rparr>))
         else if key = ''text_section_start'' then
           bindr (stoull 16 v) (\<lambda>n. Inr (c\<lparr>text_section_start := n\<rparr>))
         else if key = ''bss_section_start'' then
           bindr (stoull 16 v) (\<lambda>n. Inr (c\<lparr>bss_section_start := n\<rparr>))
         else Inl InvalidArgument)
      else if sect = ''Assembler'' then
        (if key = ''m_extension_enabled'' then
           bindr (parse_bool v) (\<lambda>b. Inr (c\<lparr>m_extension_enabled := b\<rparr>))
         else if key = ''f_extension_enabled'' then
           bindr (parse_bool v) (\<lambda>b. Inr (c\<lparr>f_extension_enabled := b\<rparr>))
         else if key = ''d_extension_enabled'' then
           bindr (parse_bool v) (\<lambda>b. Inr (c\<lparr>d_extension_enabled := b\<rparr>))
         else Inr c)
      else Inl InvalidArgument)"

end
