(* ===== verification/Memory.thy ===== *)
theory Memory
  imports Config
begin

text \<open>
  The main memory: \<open>MemoryBlock\<close> and class \<open>Memory\<close> (include/vm/main_memory.h,
  src/vm/main_memory.cpp) and the pass-through \<open>MemoryController\<close>
  (include/vm/memory_controller.h). Blocks are allocated on the first write to them. The
  block size of the class is read from the configuration when the memory is constructed,
  that of a new block when the block is: the functions that may allocate take the
  configuration's current block size \<open>bs\<close>.
\<close>

record Memory =
  blocks :: "u64 \<rightharpoonup> u8 list"
  block_size :: u32
  mem_size :: u64

definition new_Memory :: "VmConfig \<Rightarrow> Memory" where
  "new_Memory c = \<lparr>blocks = Map.empty, block_size = ucast (memory_block_size c),
                   mem_size = memory_size c\<rparr>"

text \<open>\<open>MemoryBlock()\<close> resizes its data to an \<open>unsigned int\<close> number of zero bytes.\<close>

definition new_MemoryBlock :: "u64 \<Rightarrow> u8 list" where
  "new_MemoryBlock bs = replicate (unat (ucast bs :: u32)) 0"

definition Memory_Reset :: "Memory \<Rightarrow> Memory" where
  "Memory_Reset m = m\<lparr>blocks := Map.empty\<rparr>"

definition GetBlockIndex :: "Memory \<Rightarrow> u64 \<Rightarrow> u64 result" where
  "GetBlockIndex m a = (if block_size m = 0 then Inl Undefined else Inr (a div ucast (block_size m)))"

definition GetBlockOffset :: "Memory \<Rightarrow> u64 \<Rightarrow> u64 result" where
  "GetBlockOffset m a = (if block_size m = 0 then Inl Undefined else Inr (a mod ucast (block_size m)))"

definition IsBlockPresent :: "Memory \<Rightarrow> u64 \<Rightarrow> bool" where
  "IsBlockPresent m i \<longleftrightarrow> blocks m i \<noteq> None"

definition EnsureBlockExists :: "u64 \<Rightarrow> Memory \<Rightarrow> u64 \<Rightarrow> Memory" where
  "EnsureBlockExists bs m i =
     (if blocks m i = None then m\<lparr>blocks := (blocks m)(i \<mapsto> new_MemoryBlock bs)\<rparr> else m)"

definition Read :: "Memory \<Rightarrow> u64 \<Rightarrow> u8 result" where
  "Read m a =
     (if a \<ge> mem_size m then Inl OutOfRange
      else bindr (GetBlockIndex m a) (\<lambda>i. bindr (GetBlockOffset m a) (\<lambda>off.
        case blocks m i of
          None \<Rightarrow> Inr 0
        | Some d \<Rightarrow> if unat off < length d then Inr (d ! unat off) else Inl Undefined)))"

definition Write :: "u64 \<Rightarrow> Memory \<Rightarrow> u64 \<Rightarrow> u8 \<Rightarrow> Memory result" where
  "Write bs m a v =
     (if a \<ge> mem_size m then Inl OutOfRange
      else bindr (GetBlockIndex m a) (\<lambda>i. bindr (GetBlockOffset m a) (\<lambda>off.
        let m' = EnsureBlockExists bs m i in
        case blocks m' i of
          None \<Rightarrow> Inl Undefined
        | Some d \<Rightarrow> if unat off < length d
                   then Inr (m'\<lparr>blocks := (blocks m')(i \<mapsto> d[unat off := v])\<rparr>)
                   else Inl Undefined)))"

subsection \<open>Reads and writes of several bytes\<close>

text \<open>
  \<open>ReadGeneric<T>\<close> and \<open>WriteGeneric<T>\<close> move \<open>sizeof(T)\<close> bytes, least significant
  first, through \<open>Read\<close> and \<open>Write\<close>; the address \<open>address + i\<close> wraps. Each is its loop
  from byte \<open>i\<close> with \<open>k\<close> bytes to go, over the byte operation it calls.
\<close>

fun read_loop :: "(u64 \<Rightarrow> u8 result) \<Rightarrow> u64 \<Rightarrow> nat \<Rightarrow> nat \<Rightarrow> 'a::len word \<Rightarrow> 'a word result" where
  "read_loop rd a i 0 val = Inr val"
| "read_loop rd a i (Suc k) val =
     bindr (rd (a + of_nat i)) (\<lambda>b.
       read_loop rd a (Suc i) k (val OR push_bit (8 * i) (ucast b)))"

fun write_loop :: "('m \<Rightarrow> u64 \<Rightarrow> u8 \<Rightarrow> 'm result) \<Rightarrow> 'm \<Rightarrow> u64 \<Rightarrow> nat \<Rightarrow> nat \<Rightarrow> 'a::len word \<Rightarrow> 'm result" where
  "write_loop wr m a i 0 val = Inr m"
| "write_loop wr m a i (Suc k) val =
     bindr (wr m (a + of_nat i) (ucast (drop_bit (8 * i) val))) (\<lambda>m'.
       write_loop wr m' a (Suc i) k val)"

definition ReadGeneric :: "nat \<Rightarrow> Memory \<Rightarrow> u64 \<Rightarrow> 'a::len word result" where
  "ReadGeneric size_T m a = read_loop (Read m) a 0 size_T 0"

definition WriteGeneric :: "nat \<Rightarrow> u64 \<Rightarrow> Memory \<Rightarrow> u64 \<Rightarrow> 'a::len word \<Rightarrow> Memory result" where
  "WriteGeneric size_T bs m a v = write_loop (Write bs) m a 0 size_T v"

definition ReadByte :: "Memory \<Rightarrow> u64 \<Rightarrow> u8 result" where
  "ReadByte m a = (if a \<ge> mem_size m then Inl OutOfRange else Read m a)"

definition ReadHalfWord :: "Memory \<Rightarrow> u64 \<Rightarrow> u16 result" where
  "ReadHalfWord m a =
     (if a \<ge> mem_size m - 1 then Inl OutOfRange else ReadGeneric 2 m a)"

definition ReadWord :: "Memory \<Rightarrow> u64 \<Rightarrow> u32 result" where
  "ReadWord m a =
     (if a \<ge> mem_size m - 3 then Inl OutOfRange else ReadGeneric 4 m a)"

definition ReadDoubleWord :: "Memory \<Rightarrow> u64 \<Rightarrow> u64 result" where
  "ReadDoubleWord m a =
     (if a \<ge> mem_size m - 7 then Inl OutOfRange else ReadGeneric 8 m a)"

definition WriteByte :: "u64 \<Rightarrow> Memory \<Rightarrow> u64 \<Rightarrow> u8 \<Rightarrow> Memory result" where
  "WriteByte bs m a v = (if a \<ge> mem_size m then Inl OutOfRange else Write bs m a v)"

definition WriteHalfWord :: "u64 \<Rightarrow> Memory \<Rightarrow> u64 \<Rightarrow> u16 \<Rightarrow> Memory result" where
  "WriteHalfWord bs m a v =
     (if a \<ge> mem_size m - 1 then Inl OutOfRange else WriteGeneric 2 bs m a v)"

definition WriteWord :: "u64 \<Rightarrow> Memory \<Rightarrow> u64 \<Rightarrow> u32 \<Rightarrow> Memory result" where
  "WriteWord bs m a v =
     (if a \<ge> mem_size m - 3 then Inl OutOfRange else WriteGeneric 4 bs m a v)"

definition WriteDoubleWord :: "u64 \<Rightarrow> Memory \<Rightarrow> u64 \<Rightarrow> u64 \<Rightarrow> Memory result" where
  "WriteDoubleWord bs m a v =
     (if a \<ge> mem_size m - 7 then Inl OutOfRange else WriteGeneric 8 bs m a v)"

subsection \<open>Abstract view: a flat array of bytes\<close>

text \<open>
  \<open>bytes m\<close> is what the memory holds at every address, absent blocks reading as zero.
  \<open>wf_memory bs m\<close>: the block size is not zero, new blocks will get it too (the
  configuration still holds the size the memory was constructed with), and every block has
  it.
\<close>

definition bytes :: "Memory \<Rightarrow> u64 \<Rightarrow> u8" where
  "bytes m a = (case blocks m (a div ucast (block_size m)) of
       None \<Rightarrow> 0 | Some d \<Rightarrow> d ! unat (a mod ucast (block_size m)))"

definition wf_memory :: "u64 \<Rightarrow> Memory \<Rightarrow> bool" where
  "wf_memory bs m \<longleftrightarrow> block_size m \<noteq> 0 \<and> ucast bs = block_size m \<and>
     (\<forall>i d. blocks m i = Some d \<longrightarrow> length d = unat (block_size m))"

text \<open>
  The interface the multi-byte accesses rely on: a byte read and a byte write that behave
  like an array of bytes below a limit and fail at and above it.
\<close>

locale byte_store =
  fixes rd :: "'m \<Rightarrow> u64 \<Rightarrow> u8 result"
    and wr :: "'m \<Rightarrow> u64 \<Rightarrow> u8 \<Rightarrow> 'm result"
    and abs :: "'m \<Rightarrow> u64 \<Rightarrow> u8"
    and limit :: "'m \<Rightarrow> u64"
    and inv :: "'m \<Rightarrow> bool"
  assumes rd_in: "inv m \<Longrightarrow> a < limit m \<Longrightarrow> rd m a = Inr (abs m a)"
    and rd_out: "inv m \<Longrightarrow> \<not> a < limit m \<Longrightarrow> rd m a = Inl OutOfRange"
    and wr_in: "inv m \<Longrightarrow> a < limit m \<Longrightarrow>
      \<exists>m'. wr m a v = Inr m' \<and> inv m' \<and> limit m' = limit m \<and> abs m' = (abs m)(a := v)"
    and wr_out: "inv m \<Longrightarrow> \<not> a < limit m \<Longrightarrow> wr m a v = Inl OutOfRange"
begin

lemma read_loop_bits:
  assumes "inv m" and "\<And>j. i \<le> j \<Longrightarrow> j < i + k \<Longrightarrow> a + of_nat j < limit m"
  shows "\<exists>w. read_loop (rd m) a i k (val :: 'a::len word) = Inr w \<and>
    (\<forall>n < LENGTH('a). bit w n = (bit val n \<or>
       8 * i \<le> n \<and> n < 8 * (i + k) \<and> bit (abs m (a + of_nat (n div 8))) (n mod 8)))"
  using assms(2)
proof (induction k arbitrary: i val)
  case 0
  then show ?case by auto
next
  case (Suc k)
  have r: "rd m (a + of_nat i) = Inr (abs m (a + of_nat i))"
    using Suc.prems [of i] assms(1) by (intro rd_in) simp_all
  let ?v = "val OR push_bit (8 * i) (ucast (abs m (a + of_nat i)))"
  have "\<And>j. Suc i \<le> j \<Longrightarrow> j < Suc i + k \<Longrightarrow> a + of_nat j < limit m"
    using Suc.prems by simp
  from Suc.IH [of "Suc i" ?v, OF this] obtain w where
    w: "read_loop (rd m) a (Suc i) k ?v = Inr w" and
    b: "\<And>n. n < LENGTH('a) \<Longrightarrow> bit w n = (bit ?v n \<or>
       8 * Suc i \<le> n \<and> n < 8 * (Suc i + k) \<and> bit (abs m (a + of_nat (n div 8))) (n mod 8))"
    by blast
  have "bit w n = (bit val n \<or> 8 * i \<le> n \<and> n < 8 * (i + Suc k) \<and>
      bit (abs m (a + of_nat (n div 8))) (n mod 8))" if n: "n < LENGTH('a)" for n
  proof (cases "8 * i \<le> n \<and> n < 8 * Suc i")
    case True
    define t where "t = n - 8 * i"
    with True have t: "n = 8 * i + t" "t < 8" by auto
    with b [OF n] n show ?thesis by (simp add: bit_or_iff bit_push_bit_iff bit_unsigned_iff)
  next
    case False
    then have "\<not> bit (push_bit (8 * i) (ucast (abs m (a + of_nat i)) :: 'a word)) n"
      by (auto simp: bit_simps dest!: bit_imp_le_length)
    with b [OF n] False show ?thesis by (auto simp: bit_or_iff)
  qed
  with w r show ?case by simp
qed

lemma write_loop_bytes:
  assumes "inv m" and "\<And>j. i \<le> j \<Longrightarrow> j < i + k \<Longrightarrow> a + of_nat j < limit m" and "i + k \<le> 2 ^ 64"
  shows "\<exists>m'. write_loop wr m a i k (val :: 'a::len word) = Inr m' \<and> inv m' \<and> limit m' = limit m \<and>
    (\<forall>x. abs m' x = (let j = unat (x - a) in
       if i \<le> j \<and> j < i + k then ucast (drop_bit (8 * j) val) else abs m x))"
  using assms
proof (induction k arbitrary: i m)
  case 0
  then show ?case by (auto simp: Let_def)
next
  case (Suc k)
  have "a + of_nat i < limit m" using Suc.prems(2) [of i] by simp
  from wr_in [OF Suc.prems(1) this] obtain m1 where
    m1: "wr m (a + of_nat i) (ucast (drop_bit (8 * i) val)) = Inr m1" "inv m1" "limit m1 = limit m"
      "abs m1 = (abs m)(a + of_nat i := ucast (drop_bit (8 * i) val))"
    by blast
  have r: "\<And>j. Suc i \<le> j \<Longrightarrow> j < Suc i + k \<Longrightarrow> a + of_nat j < limit m1"
    using Suc.prems(2) m1(3) by simp
  have "Suc i + k \<le> 2 ^ 64" using Suc.prems(3) by simp
  from Suc.IH [OF m1(2) r this] obtain m' where
    m': "write_loop wr m1 a (Suc i) k val = Inr m'" "inv m'" "limit m' = limit m1"
      "\<And>x. abs m' x = (let j = unat (x - a) in
       if Suc i \<le> j \<and> j < Suc i + k then ucast (drop_bit (8 * j) val) else abs m1 x)"
    by blast
  have i: "i < 2 ^ 64" using Suc.prems(3) by simp
  have "abs m' x = (let j = unat (x - a) in
       if i \<le> j \<and> j < i + Suc k then ucast (drop_bit (8 * j) val) else abs m x)" for x
  proof (cases "x = a + of_nat i")
    case True
    then have "unat (x - a) = i" using i by (simp add: unat_of_nat)
    with True show ?thesis by (simp add: m'(4) m1(4))
  next
    case False
    then have "unat (x - a) \<noteq> i" using unat_diff_eqD by blast
    with False show ?thesis by (auto simp: m'(4) m1(4) Let_def)
  qed
  with m1 m' show ?case by auto
qed

lemma write_then_read:
  assumes "inv m" and "LENGTH('a) = 8 * k" and "k \<le> unat (limit m)" and "a < limit m - of_nat (k - 1)"
  shows "\<exists>m'. write_loop wr m a 0 k (v :: 'a::len word) = Inr m' \<and> inv m' \<and> limit m' = limit m \<and>
    read_loop (rd m') a 0 k 0 = Inr v \<and> (\<forall>x. \<not> unat (x - a) < k \<longrightarrow> abs m' x = abs m x)"
proof -
  have r: "\<And>j. 0 \<le> j \<Longrightarrow> j < 0 + k \<Longrightarrow> a + of_nat j < limit m"
    using assms(3,4) consecutive_in_range by simp
  have k: "k < 2 ^ 64" using assms(3) unat_u64_less [of "limit m"] by linarith
  from write_loop_bytes [where i = 0 and k = k and val = v, OF assms(1) r] k obtain m' where
    m': "write_loop wr m a 0 k v = Inr m'" "inv m'" "limit m' = limit m"
      "\<And>x. abs m' x = (if unat (x - a) < k then ucast (drop_bit (8 * unat (x - a)) v) else abs m x)"
    by (auto simp: Let_def)
  from r m'(3) have r': "\<And>j. 0 \<le> j \<Longrightarrow> j < 0 + k \<Longrightarrow> a + of_nat j < limit m'" by simp
  from read_loop_bits [where i = 0 and k = k and val = "0 :: 'a word", OF m'(2) r'] obtain w :: "'a word" where
    w: "read_loop (rd m') a 0 k 0 = Inr w" and
    b: "\<And>n. n < LENGTH('a) \<Longrightarrow> bit w n = bit (abs m' (a + of_nat (n div 8))) (n mod 8)"
    using assms(2) by auto
  have "w = v"
  proof (rule bit_word_eqI)
    fix n assume n: "n < LENGTH('a)"
    then have d: "n div 8 < k" using assms(2) by simp
    then have u: "unat (of_nat (n div 8) :: u64) = n div 8" using k by (simp add: unat_of_nat)
    show "bit w n = bit v n"
      using n d by (simp add: b m'(4) u bit_simps)
  qed
  with m' w show ?thesis by auto
qed

lemma read_reads_bytes:
  assumes "inv m" and "LENGTH('a) = 8 * k" and "k \<le> unat (limit m)" and "a < limit m - of_nat (k - 1)"
  shows "\<exists>w :: 'a::len word. read_loop (rd m) a 0 k 0 = Inr w \<and>
    (\<forall>j < k. rd m (a + of_nat j) = Inr (ucast (drop_bit (8 * j) w)))"
proof -
  have r: "\<And>j. 0 \<le> j \<Longrightarrow> j < 0 + k \<Longrightarrow> a + of_nat j < limit m"
    using assms(3,4) consecutive_in_range by simp
  from read_loop_bits [where i = 0 and k = k and val = "0 :: 'a word", OF assms(1) r] obtain w :: "'a word" where
    w: "read_loop (rd m) a 0 k 0 = Inr w" and
    b: "\<And>n. n < LENGTH('a) \<Longrightarrow> bit w n = bit (abs m (a + of_nat (n div 8))) (n mod 8)"
    using assms(2) by auto
  have "abs m (a + of_nat j) = ucast (drop_bit (8 * j) w)" if "j < k" for j
  proof (rule bit_word_eqI)
    fix n assume "n < LENGTH(8)"
    then show "bit (abs m (a + of_nat j)) n = bit (ucast (drop_bit (8 * j) w) :: u8) n"
      using that assms(2) b [of "8 * j + n"] by (simp add: bit_simps)
  qed
  with w r assms(1) show ?thesis by (auto simp: rd_in)
qed

end

subsection \<open>The memory provides that interface\<close>

lemma wf_EnsureBlockExists:
  assumes "wf_memory bs m"
  shows "wf_memory bs (EnsureBlockExists bs m i)" and "bytes (EnsureBlockExists bs m i) = bytes m"
    and "mem_size (EnsureBlockExists bs m i) = mem_size m"
    and "block_size (EnsureBlockExists bs m i) = block_size m"
    and "blocks (EnsureBlockExists bs m i) i \<noteq> None"
  using assms offset_in_block [of "block_size m"]
  by (auto simp: wf_memory_def EnsureBlockExists_def bytes_def new_MemoryBlock_def fun_eq_iff
      split: option.splits)

lemma Read_bytes: "wf_memory bs m \<Longrightarrow> a < mem_size m \<Longrightarrow> Read m a = Inr (bytes m a)"
  using offset_in_block [of "block_size m" a]
  by (auto simp: Read_def wf_memory_def GetBlockIndex_def GetBlockOffset_def bytes_def split: option.splits)

lemma same_cell_iff:
  fixes a x s :: u64
  shows "a = x \<longleftrightarrow> a div s = x div s \<and> a mod s = x mod s"
  by (metis div_mult_mod_eq)

lemma Write_bytes:
  assumes "wf_memory bs m" and "a < mem_size m"
  shows "\<exists>m'. Write bs m a v = Inr m' \<and> wf_memory bs m' \<and> mem_size m' = mem_size m \<and>
    bytes m' = (bytes m)(a := v)"
proof -
  let ?s = "ucast (block_size m) :: u64"
  let ?e = "EnsureBlockExists bs m (a div ?s)"
  note e = wf_EnsureBlockExists [OF assms(1), of "a div ?s"]
  from e(5) obtain d where d: "blocks ?e (a div ?s) = Some d" by blast
  have s: "block_size m \<noteq> 0" using assms(1) by (simp add: wf_memory_def)
  from e(1) d e(4) have len: "length d = unat (block_size m)" by (auto simp: wf_memory_def)
  have off: "unat (x mod ?s) < length d" for x using offset_in_block [OF s] by (simp add: len)
  let ?m' = "?e\<lparr>blocks := (blocks ?e)(a div ?s \<mapsto> d[unat (a mod ?s) := v])\<rparr>"
  have w: "Write bs m a v = Inr ?m'"
    using assms(2) s d off by (simp add: Write_def GetBlockIndex_def GetBlockOffset_def Let_def)
  have "bytes ?m' x = (if x = a then v else bytes m x)" for x
  proof -
    have "bytes ?m' x = (if x div ?s = a div ?s then d[unat (a mod ?s) := v] ! unat (x mod ?s) else bytes ?e x)"
      by (simp add: bytes_def e(4) split: option.split)
    also have "\<dots> = (if x = a then v else bytes ?e x)"
      using d off [of x] off [of a] same_cell_iff [of x a ?s]
        word_unat_eq_iff [of "a mod ?s" "x mod ?s"]
      by (auto simp: bytes_def e(4) nth_list_update)
    finally show ?thesis by (simp add: e(2))
  qed
  moreover have "wf_memory bs ?m'" using e(1) d by (auto simp: wf_memory_def)
  ultimately show ?thesis using w e(3) by (intro exI [of _ ?m']) (auto simp: fun_eq_iff)
qed

interpretation mem: byte_store Read "Write bs" bytes mem_size "wf_memory bs" for bs
  by unfold_locales (simp_all add: Read_bytes Write_bytes, simp_all add: Read_def Write_def linorder_not_less)

subsection \<open>Properties\<close>

lemma word_minus_bound:
  fixes a s :: u64
  assumes "Suc k \<le> unat s"
  shows "a < s - of_nat k \<longleftrightarrow> unat a + Suc k \<le> unat s"
proof -
  have "k < 2 ^ 64" using assms unat_u64_less [of s] by simp
  then have k: "unat (of_nat k :: u64) = k" by (simp add: unat_of_nat)
  with assms have "unat (s - of_nat k) = unat s - k" by (simp add: unat_sub word_le_nat_alt)
  with assms show ?thesis by (auto simp: word_less_nat_alt)
qed

text \<open>
  C8. Reads and writes of one byte refine a flat array of bytes: on a well-formed memory a
  read returns the byte of the array, and a write updates exactly that byte, keeps the memory
  well-formed and its size, and both fail exactly at addresses not below the memory size.
\<close>

theorem memory_refines_bytes:
  assumes "wf_memory bs m"
  shows "Read m a = (if a < mem_size m then Inr (bytes m a) else Inl OutOfRange) \<and>
    (if a < mem_size m
     then \<exists>m'. Write bs m a v = Inr m' \<and> wf_memory bs m' \<and> mem_size m' = mem_size m \<and>
          bytes m' = (bytes m)(a := v)
     else Write bs m a v = Inl OutOfRange)"
  using assms mem.rd_in mem.rd_out mem.wr_in mem.wr_out by simp

definition small_memory :: Memory where
  "small_memory = \<lparr>blocks = Map.empty, block_size = 16, mem_size = 64\<rparr>"

lemma wf_small_memory: "wf_memory 16 small_memory"
  by (simp add: wf_memory_def small_memory_def)

theorem memory_refines_bytes_witness:
  "Read small_memory 3 = (if 3 < mem_size small_memory then Inr (bytes small_memory 3) else Inl OutOfRange) \<and>
    (if 3 < mem_size small_memory
     then \<exists>m'. Write 16 small_memory 3 7 = Inr m' \<and> wf_memory 16 m' \<and> mem_size m' = mem_size small_memory \<and>
          bytes m' = (bytes small_memory)(3 := 7)
     else Write 16 small_memory 3 7 = Inl OutOfRange)"
  by (rule memory_refines_bytes [OF wf_small_memory])

lemma WriteWord_ReadWord:
  assumes "wf_memory bs m" and "4 \<le> unat (mem_size m)" and "unat a + 4 \<le> unat (mem_size m)"
  shows "\<exists>m'. WriteWord bs m a v = Inr m' \<and> wf_memory bs m' \<and> mem_size m' = mem_size m \<and>
    ReadWord m' a = Inr v \<and> (\<forall>x. \<not> unat (x - a) < 4 \<longrightarrow> bytes m' x = bytes m x)"
proof -
  have a: "a < mem_size m - of_nat (4 - 1)" using assms(2,3) by (subst word_minus_bound) simp_all
  from mem.write_then_read [OF assms(1) _ assms(2) a, of v] obtain m' where
    m': "write_loop (Write bs) m a 0 4 v = Inr m'" "wf_memory bs m'" "mem_size m' = mem_size m"
      "read_loop (Read m') a 0 4 0 = Inr v" "\<forall>x. \<not> unat (x - a) < 4 \<longrightarrow> bytes m' x = bytes m x"
    by auto
  with a show ?thesis
    by (intro exI [of _ m']) (simp add: WriteWord_def ReadWord_def ReadGeneric_def WriteGeneric_def not_le)
qed

lemma double_write_read:
  assumes "wf_memory bs m" and "8 \<le> unat (mem_size m)" and "unat a + 8 \<le> unat (mem_size m)"
  shows "\<exists>m'. WriteDoubleWord bs m a v = Inr m' \<and> wf_memory bs m' \<and> mem_size m' = mem_size m \<and>
    ReadDoubleWord m' a = Inr v \<and> (\<forall>x. \<not> unat (x - a) < 8 \<longrightarrow> bytes m' x = bytes m x)"
proof -
  have a: "a < mem_size m - of_nat (8 - 1)" using assms(2,3) by (subst word_minus_bound) simp_all
  from mem.write_then_read [OF assms(1) _ assms(2) a, of v] obtain m' where
    m': "write_loop (Write bs) m a 0 8 v = Inr m'" "wf_memory bs m'" "mem_size m' = mem_size m"
      "read_loop (Read m') a 0 8 0 = Inr v" "\<forall>x. \<not> unat (x - a) < 8 \<longrightarrow> bytes m' x = bytes m x"
    by auto
  with a show ?thesis
    by (intro exI [of _ m']) (simp add: WriteDoubleWord_def ReadDoubleWord_def ReadGeneric_def WriteGeneric_def not_le)
qed

text \<open>
  C9. A double word written to a well-formed memory of at least eight bytes, at an address
  where it fits, is read back; the write succeeds, keeps the memory well-formed and its size,
  and no byte outside the eight written changes.
\<close>

theorem WriteDoubleWord_ReadDoubleWord:
  assumes "wf_memory bs m" and "8 \<le> unat (mem_size m)" and "unat a + 8 \<le> unat (mem_size m)"
  shows "\<exists>m'. WriteDoubleWord bs m a v = Inr m' \<and> wf_memory bs m' \<and> mem_size m' = mem_size m \<and>
    ReadDoubleWord m' a = Inr v \<and> (\<forall>x. \<not> unat (x - a) < 8 \<longrightarrow> bytes m' x = bytes m x)"
  using assms by (rule double_write_read)

theorem WriteDoubleWord_ReadDoubleWord_witness:
  "\<exists>m'. WriteDoubleWord 16 small_memory 12 0x1122334455667788 = Inr m' \<and> wf_memory 16 m' \<and>
    mem_size m' = mem_size small_memory \<and> ReadDoubleWord m' 12 = Inr 0x1122334455667788 \<and>
    (\<forall>x. \<not> unat (x - 12) < 8 \<longrightarrow> bytes m' x = bytes small_memory x)"
  by (rule WriteDoubleWord_ReadDoubleWord [OF wf_small_memory]) (simp_all add: small_memory_def)

text \<open>
  C23. Reads are little endian: a double word that can be read consists, byte by byte, of the
  eight bytes at its address, the least significant first.
\<close>

theorem ReadDoubleWord_little_endian:
  assumes "wf_memory bs m" and "8 \<le> unat (mem_size m)" and "unat a + 8 \<le> unat (mem_size m)"
  shows "\<exists>w. ReadDoubleWord m a = Inr w \<and>
    (\<forall>j < 8. ReadByte m (a + of_nat j) = Inr (ucast (drop_bit (8 * j) w)))"
proof -
  have a: "a < mem_size m - of_nat (8 - 1)" using assms(2,3) by (subst word_minus_bound) simp_all
  from mem.read_reads_bytes [where 'a = 64, OF assms(1) _ assms(2) a] obtain w :: u64 where
    w: "read_loop (Read m) a 0 8 0 = Inr w" and
    b: "\<And>j. j < 8 \<Longrightarrow> Read m (a + of_nat j) = Inr (ucast (drop_bit (8 * j) w))" by auto
  have "ReadByte m (a + of_nat j) = Inr (ucast (drop_bit (8 * j) w))" if "j < 8" for j
    using b [OF that] by (auto simp: ReadByte_def Read_def split: if_splits)
  with w a show ?thesis by (auto simp: ReadDoubleWord_def ReadGeneric_def not_le)
qed

theorem ReadDoubleWord_little_endian_witness:
  "\<exists>w. ReadDoubleWord small_memory 12 = Inr w \<and>
    (\<forall>j < 8. ReadByte small_memory (12 + of_nat j) = Inr (ucast (drop_bit (8 * j) w)))"
  by (rule ReadDoubleWord_little_endian [OF wf_small_memory]) (simp_all add: small_memory_def)

lemma read_loop_succeeds:
  assumes "wf_memory bs m" and "a < mem_size m - of_nat k" and "Suc k \<le> unat (mem_size m)"
    and "LENGTH('a) = 8 * Suc k"
  shows "\<exists>w :: 'a::len word. read_loop (Read m) a 0 (Suc k) 0 = Inr w"
  using mem.read_reads_bytes [where 'a = 'a and k = "Suc k" and a = a, OF assms(1)] assms(2-4)
  by auto

text \<open>
  C24. On a well-formed memory of at least eight bytes, a read of one, two, four or eight
  bytes succeeds exactly when all its bytes lie below the memory size, and is out of range
  otherwise.
\<close>

theorem reads_in_range_iff:
  assumes "wf_memory bs m" and "8 \<le> unat (mem_size m)"
  shows "(\<exists>w. ReadByte m a = Inr w) = (unat a + 1 \<le> unat (mem_size m)) \<and>
    (\<exists>w. ReadHalfWord m a = Inr w) = (unat a + 2 \<le> unat (mem_size m)) \<and>
    (\<exists>w. ReadWord m a = Inr w) = (unat a + 4 \<le> unat (mem_size m)) \<and>
    (\<exists>w. ReadDoubleWord m a = Inr w) = (unat a + 8 \<le> unat (mem_size m))"
proof -
  have b: "a < mem_size m - of_nat k \<longleftrightarrow> unat a + Suc k \<le> unat (mem_size m)" if "k < 8" for k
    using that assms(2) by (intro word_minus_bound) simp
  note r = read_loop_succeeds [OF assms(1), where a = a]
  have "(\<exists>w. ReadHalfWord m a = Inr w) = (a < mem_size m - 1)"
    using r [where k = 1 and 'a = 16] assms(2)
    by (auto simp: ReadHalfWord_def ReadGeneric_def not_le numeral_2_eq_2)
  moreover have "(\<exists>w. ReadWord m a = Inr w) = (a < mem_size m - 3)"
    using r [where k = 3 and 'a = 32] assms(2) by (auto simp: ReadWord_def ReadGeneric_def not_le)
  moreover have "(\<exists>w. ReadDoubleWord m a = Inr w) = (a < mem_size m - 7)"
    using r [where k = 7 and 'a = 64] assms(2) by (auto simp: ReadDoubleWord_def ReadGeneric_def not_le)
  moreover have "(\<exists>w. ReadByte m a = Inr w) = (a < mem_size m)"
    using mem.rd_in [OF assms(1)] by (auto simp: ReadByte_def not_le)
  ultimately show ?thesis
    using b [of 0] b [of 1] b [of 3] b [of 7] by simp
qed

theorem reads_in_range_iff_witness:
  "(\<exists>w. ReadByte small_memory 57 = Inr w) = (unat (57 :: u64) + 1 \<le> unat (mem_size small_memory)) \<and>
    (\<exists>w. ReadHalfWord small_memory 57 = Inr w) = (unat (57 :: u64) + 2 \<le> unat (mem_size small_memory)) \<and>
    (\<exists>w. ReadWord small_memory 57 = Inr w) = (unat (57 :: u64) + 4 \<le> unat (mem_size small_memory)) \<and>
    (\<exists>w. ReadDoubleWord small_memory 57 = Inr w) = (unat (57 :: u64) + 8 \<le> unat (mem_size small_memory))"
  by (rule reads_in_range_iff [OF wf_small_memory]) (simp add: small_memory_def)

end
