(* ===== verification/Instructions.thy ===== *)
theory Instructions
  imports Prelude
begin

text \<open>
  The instruction set: namespace \<open>instruction_set\<close> (include/common/instructions.h,
  src/common/instructions.cpp). An enumerator of the enum \<open>Instruction\<close> is its name; a
  \<open>std::unordered_set\<close> of mnemonics is a list, a \<open>std::unordered_map\<close> an association list
  in the order of its initialiser (an initialiser keeps the first of two equal keys, as
  \<open>map_of\<close> does). A \<open>std::bitset\<close> field is a natural number below two to its width.
\<close>

subsection \<open>The encoding table of the simulator\<close>

record InstructionEncoding =
  instr :: string
  opcode :: int
  funct2 :: int
  funct3 :: int
  funct5 :: int
  funct6 :: int
  funct7 :: int

definition enc :: "string \<Rightarrow> int \<Rightarrow> int \<Rightarrow> int \<Rightarrow> int \<Rightarrow> int \<Rightarrow> int \<Rightarrow> InstructionEncoding" where
  "enc i op f2 f3 f5 f6 f7 = \<lparr>instr = i, opcode = op, funct2 = f2, funct3 = f3, funct5 = f5,
     funct6 = f6, funct7 = f7\<rparr>"

definition compiletime_instruction_encoding_array :: "InstructionEncoding list" where
  "compiletime_instruction_encoding_array = [
   enc ''kRtype'' 51 (-1) (-1) (-1) (-1) (-1), enc ''kItype'' 19 (-1) (-1) (-1) (-1) (-1),
   enc ''kStype'' 35 (-1) (-1) (-1) (-1) (-1), enc ''kBtype'' 99 (-1) (-1) (-1) (-1) (-1),
   enc ''kJtype'' 111 (-1) (-1) (-1) (-1) (-1), enc ''kLoadType'' 3 (-1) (-1) (-1) (-1) (-1),
   enc ''kSRtype'' 63 (-1) (-1) (-1) (-1) (-1), enc ''kRLtype'' 42 (-1) (-1) (-1) (-1) (-1),
   enc ''kCsrType'' 115 (-1) (-1) (-1) (-1) (-1), enc ''kadd'' 51 (-1) 0 (-1) (-1) 0,
   enc ''ksub'' 51 (-1) 0 (-1) (-1) 32, enc ''ksll'' 51 (-1) 1 (-1) (-1) 0,
   enc ''kslt'' 51 (-1) 2 (-1) (-1) 0, enc ''ksltu'' 51 (-1) 3 (-1) (-1) 0,
   enc ''kxor'' 51 (-1) 4 (-1) (-1) 0, enc ''ksrl'' 51 (-1) 5 (-1) (-1) 0,
   enc ''ksra'' 51 (-1) 5 (-1) (-1) 32, enc ''kor'' 51 (-1) 6 (-1) (-1) 0,
   enc ''kand'' 51 (-1) 7 (-1) (-1) 0, enc ''kldbm'' 42 (-1) 0 (-1) (-1) 0,
   enc ''kbigmul'' 63 (-1) 0 (-1) (-1) (-1), enc ''kmul'' 51 (-1) 0 (-1) (-1) 1,
   enc ''kmulh'' 51 (-1) 1 (-1) (-1) 1, enc ''kmulhsu'' 51 (-1) 2 (-1) (-1) 1,
   enc ''kmulhu'' 51 (-1) 3 (-1) (-1) 1, enc ''kdiv'' 51 (-1) 4 (-1) (-1) 1,
   enc ''kdivu'' 51 (-1) 5 (-1) (-1) 1, enc ''krem'' 51 (-1) 6 (-1) (-1) 1,
   enc ''kremu'' 51 (-1) 7 (-1) (-1) 1, enc ''kaddw'' 59 (-1) 0 (-1) (-1) 0,
   enc ''ksubw'' 59 (-1) 0 (-1) (-1) 32, enc ''ksllw'' 59 (-1) 1 (-1) (-1) 0,
   enc ''ksrlw'' 59 (-1) 5 (-1) (-1) 0, enc ''ksraw'' 59 (-1) 5 (-1) (-1) 32,
   enc ''kmulw'' 59 (-1) 0 (-1) (-1) 1, enc ''kdivw'' 59 (-1) 4 (-1) (-1) 1,
   enc ''kdivuw'' 59 (-1) 5 (-1) (-1) 1, enc ''kremw'' 59 (-1) 6 (-1) (-1) 1,
   enc ''kremuw'' 59 (-1) 7 (-1) (-1) 1, enc ''kecall'' 115 (-1) 0 (-1) (-1) 0,
   enc ''kaddi'' 19 (-1) 0 (-1) (-1) (-1), enc ''kslli'' 19 (-1) 1 (-1) (-1) 0,
   enc ''kslti'' 19 (-1) 2 (-1) (-1) (-1), enc ''ksltiu'' 19 (-1) 3 (-1) (-1) (-1),
   enc ''kxori'' 19 (-1) 4 (-1) (-1) (-1), enc ''ksrli'' 19 (-1) 5 (-1) (-1) 0,
   enc ''ksrai'' 19 (-1) 5 (-1) (-1) 32, enc ''kori'' 19 (-1) 6 (-1) (-1) (-1),
   enc ''kandi'' 19 (-1) 7 (-1) (-1) (-1), enc ''kaddiw'' 27 (-1) 0 (-1) (-1) (-1),
   enc ''kslliw'' 27 (-1) 1 (-1) (-1) 0, enc ''ksrliw'' 27 (-1) 5 (-1) (-1) 0,
   enc ''ksraiw'' 27 (-1) 5 (-1) (-1) 32, enc ''klb'' 3 (-1) 0 (-1) (-1) (-1),
   enc ''klh'' 3 (-1) 1 (-1) (-1) (-1), enc ''klw'' 3 (-1) 2 (-1) (-1) (-1),
   enc ''kld'' 3 (-1) 3 (-1) (-1) (-1), enc ''klbu'' 3 (-1) 4 (-1) (-1) (-1),
   enc ''klhu'' 3 (-1) 5 (-1) (-1) (-1), enc ''klwu'' 3 (-1) 6 (-1) (-1) (-1),
   enc ''kjalr'' 103 (-1) 0 (-1) (-1) (-1), enc ''ksb'' 35 (-1) 0 (-1) (-1) (-1),
   enc ''ksh'' 35 (-1) 1 (-1) (-1) (-1), enc ''ksw'' 35 (-1) 2 (-1) (-1) (-1),
   enc ''ksd'' 35 (-1) 3 (-1) (-1) (-1), enc ''kbeq'' 99 (-1) 0 (-1) (-1) (-1),
   enc ''kbne'' 99 (-1) 1 (-1) (-1) (-1), enc ''kblt'' 99 (-1) 4 (-1) (-1) (-1),
   enc ''kbge'' 99 (-1) 5 (-1) (-1) (-1), enc ''kbltu'' 99 (-1) 6 (-1) (-1) (-1),
   enc ''kbgeu'' 99 (-1) 7 (-1) (-1) (-1), enc ''klui'' 55 (-1) (-1) (-1) (-1) (-1),
   enc ''kauipc'' 23 (-1) (-1) (-1) (-1) (-1), enc ''kjal'' 111 (-1) (-1) (-1) (-1) (-1),
   enc ''kcsrrw'' 115 (-1) 1 (-1) (-1) (-1), enc ''kcsrrs'' 115 (-1) 2 (-1) (-1) (-1),
   enc ''kcsrrc'' 115 (-1) 3 (-1) (-1) (-1), enc ''kcsrrwi'' 115 (-1) 5 (-1) (-1) (-1),
   enc ''kcsrrsi'' 115 (-1) 6 (-1) (-1) (-1), enc ''kcsrrci'' 115 (-1) 7 (-1) (-1) (-1),
   enc ''kfsgnj_s'' 83 (-1) 0 (-1) (-1) 16, enc ''kfsgnjn_s'' 83 (-1) 1 (-1) (-1) 16,
   enc ''kfsgnjx_s'' 83 (-1) 2 (-1) (-1) 16, enc ''kfmin_s'' 83 (-1) 0 (-1) (-1) 20,
   enc ''kfmax_s'' 83 (-1) 1 (-1) (-1) 20, enc ''kfle_s'' 83 (-1) 0 (-1) (-1) 80,
   enc ''kflt_s'' 83 (-1) 1 (-1) (-1) 80, enc ''kfeq_s'' 83 (-1) 2 (-1) (-1) 80,
   enc ''kfsgnj_d'' 83 (-1) 0 (-1) (-1) 17, enc ''kfsgnjn_d'' 83 (-1) 1 (-1) (-1) 17,
   enc ''kfsgnjx_d'' 83 (-1) 2 (-1) (-1) 17, enc ''kfmin_d'' 83 (-1) 0 (-1) (-1) 21,
   enc ''kfmax_d'' 83 (-1) 1 (-1) (-1) 21, enc ''kfle_d'' 83 (-1) 0 (-1) (-1) 81,
   enc ''kflt_d'' 83 (-1) 1 (-1) (-1) 81, enc ''kfeq_d'' 83 (-1) 2 (-1) (-1) 81,
   enc ''kflw'' 7 (-1) 2 (-1) (-1) (-1), enc ''kfsw'' 39 (-1) 2 (-1) (-1) (-1),
   enc ''kfld'' 7 (-1) 3 (-1) (-1) (-1), enc ''kfsw'' 39 (-1) 3 (-1) (-1) (-1),
   enc ''kfadd_s'' 83 (-1) (-1) (-1) (-1) 0, enc ''kfsub_s'' 83 (-1) (-1) (-1) (-1) 4,
   enc ''kfmul_s'' 83 (-1) (-1) (-1) (-1) 8, enc ''kfdiv_s'' 83 (-1) (-1) (-1) (-1) 12,
   enc ''kfadd_d'' 83 (-1) (-1) (-1) (-1) 1, enc ''kfsub_d'' 83 (-1) (-1) (-1) (-1) 5,
   enc ''kfmul_d'' 83 (-1) (-1) (-1) (-1) 9, enc ''kfdiv_d'' 83 (-1) (-1) (-1) (-1) 13,
   enc ''kfsqrt_s'' 83 (-1) (-1) 0 (-1) 44, enc ''kfcvt_w_s'' 83 (-1) (-1) 0 (-1) 96,
   enc ''kfcvt_wu_s'' 83 (-1) (-1) 1 (-1) 96, enc ''kfcvt_l_s'' 83 (-1) (-1) 2 (-1) 96,
   enc ''kfcvt_lu_s'' 83 (-1) (-1) 3 (-1) 96, enc ''kfcvt_s_w'' 83 (-1) (-1) 0 (-1) 104,
   enc ''kfcvt_s_wu'' 83 (-1) (-1) 1 (-1) 104, enc ''kfcvt_s_l'' 83 (-1) (-1) 2 (-1) 104,
   enc ''kfcvt_s_lu'' 83 (-1) (-1) 3 (-1) 104, enc ''kfsqrt_d'' 83 (-1) (-1) 0 (-1) 45,
   enc ''kfcvt_w_d'' 83 (-1) (-1) 0 (-1) 97, enc ''kfcvt_wu_d'' 83 (-1) (-1) 1 (-1) 97,
   enc ''kfcvt_l_d'' 83 (-1) (-1) 2 (-1) 97, enc ''kfcvt_lu_d'' 83 (-1) (-1) 3 (-1) 97,
   enc ''kfcvt_d_w'' 83 (-1) (-1) 0 (-1) 105, enc ''kfcvt_d_wu'' 83 (-1) (-1) 1 (-1) 105,
   enc ''kfcvt_d_l'' 83 (-1) (-1) 2 (-1) 105, enc ''kfcvt_d_lu'' 83 (-1) (-1) 3 (-1) 105,
   enc ''kfcvt_s_d'' 83 (-1) (-1) 1 (-1) 32, enc ''kfcvt_d_s'' 83 (-1) (-1) 0 (-1) 33,
   enc ''kfmv_x_w'' 83 (-1) 0 0 (-1) 112, enc ''kfmv_x_d'' 83 (-1) 0 0 (-1) 113,
   enc ''kfmv_w_x'' 83 (-1) 0 0 (-1) 120, enc ''kfmv_d_x'' 83 (-1) 0 0 (-1) 121,
   enc ''kfclass_s'' 83 (-1) 1 0 (-1) 112, enc ''kfclass_d'' 83 (-1) 1 0 (-1) 113,
   enc ''kfmadd_s'' 67 0 (-1) (-1) (-1) (-1), enc ''kfmsub_s'' 71 0 (-1) (-1) (-1) (-1),
   enc ''kfnmsub_s'' 75 0 (-1) (-1) (-1) (-1), enc ''kfnmadd_s'' 79 0 (-1) (-1) (-1) (-1),
   enc ''kfmadd_d'' 67 1 (-1) (-1) (-1) (-1), enc ''kfmsub_d'' 71 1 (-1) (-1) (-1) (-1),
   enc ''kfnmsub_d'' 75 1 (-1) (-1) (-1) (-1), enc ''kfnmadd_d'' 79 1 (-1) (-1) (-1) (-1)]"

text \<open>
  The array has one place for every enumerator; the places the initialiser leaves over hold
  the default encoding, of the enumerator \<open>INVALID\<close>, which is what a name without a row gets.
\<close>

definition default_encoding :: InstructionEncoding where
  "default_encoding = enc ''INVALID'' (-1) (-1) (-1) (-1) (-1) (-1)"

definition get_instr_encoding :: "string \<Rightarrow> InstructionEncoding" where
  "get_instr_encoding i =
     (case find (\<lambda>e. instr e = i) compiletime_instruction_encoding_array of
        Some e \<Rightarrow> e
      | None \<Rightarrow> default_encoding)"

subsection \<open>Fields of an instruction word\<close>

text \<open>The shifts and masks the simulator repeats wherever it takes a word apart.\<close>

definition opcode_of :: "u32 \<Rightarrow> u8" where "opcode_of w = ucast (w AND 0x7F)"
definition funct3_of :: "u32 \<Rightarrow> u8" where "funct3_of w = ucast (drop_bit 12 w AND 7)"
definition funct7_of :: "u32 \<Rightarrow> u8" where "funct7_of w = ucast (drop_bit 25 w AND 0x7F)"
definition rd_of :: "u32 \<Rightarrow> u8" where "rd_of w = ucast (drop_bit 7 w AND 0x1F)"
definition rs1_of :: "u32 \<Rightarrow> u8" where "rs1_of w = ucast (drop_bit 15 w AND 0x1F)"
definition rs2_of :: "u32 \<Rightarrow> u8" where "rs2_of w = ucast (drop_bit 20 w AND 0x1F)"
definition rs3_of :: "u32 \<Rightarrow> u8" where "rs3_of w = ucast (drop_bit 27 w AND 0x1F)"

definition isFInstruction :: "u32 \<Rightarrow> bool" where
  "isFInstruction w =
     (let opc = opcode_of w; f3 = funct3_of w; f7 = funct7_of w
      in if opc = 0x07 \<or> opc = 0x27 then f3 = 2
         else if opc = 0x53 then
           (if f7 AND 1 = 0 then f7 \<noteq> 0x20 else False)
         else False)"

definition isDInstruction :: "u32 \<Rightarrow> bool" where
  "isDInstruction w =
     (let opc = opcode_of w; f3 = funct3_of w; f7 = funct7_of w
      in if opc = 0x07 \<or> opc = 0x27 then f3 = 3
         else if opc = 0x53 then
           (if f7 AND 1 \<noteq> 0 then True else f7 = 0x20)
         else False)"

subsection \<open>Mnemonics\<close>

definition valid_instructions :: "string list" where
  "valid_instructions = [
   ''add'', ''sub'', ''and'', ''or'', ''xor'', ''sll'', ''srl'', ''sra'', ''slt'', ''sltu'',
   ''addw'', ''subw'', ''sllw'', ''srlw'', ''sraw'', ''addi'', ''xori'', ''ori'', ''andi'',
   ''slli'', ''srli'', ''srai'', ''slti'', ''sltiu'', ''addiw'', ''slliw'', ''srliw'',
   ''sraiw'', ''lb'', ''lh'', ''lw'', ''ld'', ''lbu'', ''lhu'', ''lwu'', ''sb'', ''sh'',
   ''sw'', ''sd'', ''beq'', ''bne'', ''blt'', ''bge'', ''bltu'', ''bgeu'', ''lui'', ''auipc'',
   ''jal'', ''jalr'', ''ecall'', ''csrrw'', ''csrrs'', ''csrrc'', ''csrrwi'', ''csrrsi'',
   ''csrrci'', ''la'', ''nop'', ''li'', ''mv'', ''not'', ''neg'', ''negw'', ''sext.w'',
   ''seqz'', ''snez'', ''sltz'', ''sgtz'', ''beqz'', ''bnez'', ''blez'', ''bgez'', ''bltz'',
   ''bgtz'', ''bgt'', ''ble'', ''bgtu'', ''bleu'', ''j'', ''jr'', ''ret'', ''call'', ''tail'',
   ''fence'', ''fence_i'', ''mul'', ''mulh'', ''mulhsu'', ''mulhu'', ''div'', ''divu'',
   ''rem'', ''remu'', ''mulw'', ''divw'', ''divuw'', ''remw'', ''remuw'', ''flw'', ''fsw'',
   ''fmadd.s'', ''fmsub.s'', ''fnmsub.s'', ''fnmadd.s'', ''fadd.s'', ''fsub.s'', ''fmul.s'',
   ''fdiv.s'', ''fsqrt.s'', ''fsgnj.s'', ''fsgnjn.s'', ''fsgnjx.s'', ''fmin.s'', ''fmax.s'',
   ''fcvt.w.s'', ''fcvt.wu.s'', ''fmv.x.w'', ''feq.s'', ''flt.s'', ''fle.s'', ''fclass.s'',
   ''fcvt.s.w'', ''fcvt.s.wu'', ''fmv.w.x'', ''fcvt.l.s'', ''fcvt.lu.s'', ''fcvt.s.l'',
   ''fcvt.s.lu'', ''fld'', ''fsd'', ''fmadd.d'', ''fmsub.d'', ''fnmsub.d'', ''fnmadd.d'',
   ''fadd.d'', ''fsub.d'', ''fmul.d'', ''fdiv.d'', ''fsqrt.d'', ''fsgnj.d'', ''fsgnjn.d'',
   ''fsgnjx.d'', ''fmin.d'', ''fmax.d'', ''fcvt.s.d'', ''fcvt.d.s'', ''feq.d'', ''flt.d'',
   ''fle.d'', ''fclass.d'', ''fcvt.w.d'', ''fcvt.wu.d'', ''fcvt.d.w'', ''fcvt.d.wu'',
   ''fcvt.l.d'', ''fcvt.lu.d'', ''fmv.x.d'', ''fcvt.d.l'', ''fcvt.d.lu'', ''fmv.d.x'',
   ''ldbm'', ''bigmul'']"

definition RTypeInstructions :: "string list" where
  "RTypeInstructions = [
   ''add'', ''sub'', ''and'', ''or'', ''xor'', ''sll'', ''srl'', ''sra'', ''slt'', ''sltu'',
   ''addw'', ''subw'', ''sllw'', ''srlw'', ''sraw'', ''mul'', ''mulh'', ''mulhsu'', ''mulhu'',
   ''div'', ''divu'', ''rem'', ''remu'', ''mulw'', ''divw'', ''divuw'', ''remw'', ''remuw'']"

definition RLTypeInstructions :: "string list" where
  "RLTypeInstructions = [
   ''ldbm'']"

definition SRTypeInstructions :: "string list" where
  "SRTypeInstructions = [
   ''bigmul'']"

definition ITypeInstructions :: "string list" where
  "ITypeInstructions = [
   ''addi'', ''xori'', ''ori'', ''andi'', ''slli'', ''srli'', ''srai'', ''slti'', ''sltiu'',
   ''addiw'', ''slliw'', ''srliw'', ''sraiw'', ''lb'', ''lh'', ''lw'', ''ld'', ''lbu'',
   ''lhu'', ''lwu'', ''jalr'']"

definition I1TypeInstructions :: "string list" where
  "I1TypeInstructions = [
   ''addi'', ''xori'', ''ori'', ''andi'', ''sltiu'', ''slti'', ''addiw'', ''lb'', ''lh'',
   ''lw'', ''ld'', ''lbu'', ''lhu'', ''lwu'', ''jalr'']"

definition I2TypeInstructions :: "string list" where
  "I2TypeInstructions = [
   ''slli'', ''srli'', ''srai'', ''slliw'', ''srliw'', ''sraiw'']"

definition I3TypeInstructions :: "string list" where
  "I3TypeInstructions = [
   ''ecall'']"

definition STypeInstructions :: "string list" where
  "STypeInstructions = [
   ''sb'', ''sh'', ''sw'', ''sd'']"

definition BTypeInstructions :: "string list" where
  "BTypeInstructions = [
   ''beq'', ''bne'', ''blt'', ''bge'', ''bltu'', ''bgeu'']"

definition UTypeInstructions :: "string list" where
  "UTypeInstructions = [
   ''lui'', ''auipc'']"

definition JTypeInstructions :: "string list" where
  "JTypeInstructions = [
   ''jal'']"

definition PseudoInstructions :: "string list" where
  "PseudoInstructions = [
   ''la'', ''nop'', ''li'', ''mv'', ''not'', ''neg'', ''negw'', ''sext.w'', ''seqz'', ''snez'',
   ''sltz'', ''sgtz'', ''beqz'', ''bnez'', ''blez'', ''bgez'', ''bltz'', ''bgtz'', ''bgt'',
   ''ble'', ''bgtu'', ''bleu'', ''j'', ''jr'', ''ret'', ''call'', ''tail'', ''fence'',
   ''fence_i'']"

definition BaseExtensionInstructions :: "string list" where
  "BaseExtensionInstructions = [
   ''add'', ''sub'', ''and'', ''or'', ''xor'', ''sll'', ''srl'', ''sra'', ''slt'', ''sltu'',
   ''addw'', ''subw'', ''sllw'', ''srlw'', ''sraw'', ''addi'', ''xori'', ''ori'', ''andi'',
   ''slli'', ''srli'', ''srai'', ''slti'', ''sltiu'', ''addiw'', ''slliw'', ''srliw'',
   ''sraiw'', ''lb'', ''lh'', ''lw'', ''ld'', ''lbu'', ''lhu'', ''lwu'', ''sb'', ''sh'',
   ''sw'', ''sd'', ''beq'', ''bne'', ''blt'', ''bge'', ''bltu'', ''bgeu'', ''lui'', ''auipc'',
   ''jal'', ''jalr'', ''ecall'', ''ldbm'', ''bigmul'']"

definition CSRRInstructions :: "string list" where
  "CSRRInstructions = [
   ''csrrw'', ''csrrs'', ''csrrc'']"

definition CSRIInstructions :: "string list" where
  "CSRIInstructions = [
   ''csrrwi'', ''csrrsi'', ''csrrci'']"

definition CSRInstructions :: "string list" where
  "CSRInstructions = [
   ''csrrw'', ''csrrs'', ''csrrc'', ''csrrwi'', ''csrrsi'', ''csrrci'']"

definition MExtensionInstructions :: "string list" where
  "MExtensionInstructions = [
   ''mul'', ''mulh'', ''mulhsu'', ''mulhu'', ''div'', ''divu'', ''rem'', ''remu'', ''mulw'',
   ''divw'', ''divuw'', ''remw'', ''remuw'']"

definition FDExtensionRTypeInstructions :: "string list" where
  "FDExtensionRTypeInstructions = [
   ''fsgnj.s'', ''fsgnjn.s'', ''fsgnjx.s'', ''fmin.s'', ''fmax.s'', ''feq.s'', ''flt.s'',
   ''fle.s'', ''fsgnj.d'', ''fsgnjn.d'', ''fsgnjx.d'', ''fmin.d'', ''fmax.d'', ''feq.d'',
   ''flt.d'', ''fle.d'']"

definition FDExtensionR1TypeInstructions :: "string list" where
  "FDExtensionR1TypeInstructions = [
   ''fadd.s'', ''fsub.s'', ''fmul.s'', ''fdiv.s'', ''fadd.d'', ''fsub.d'', ''fmul.d'',
   ''fdiv.d'']"

definition FDExtensionR2TypeInstructions :: "string list" where
  "FDExtensionR2TypeInstructions = [
   ''fsqrt.s'', ''fcvt.w.s'', ''fcvt.wu.s'', ''fcvt.s.w'', ''fcvt.s.wu'', ''fcvt.l.s'',
   ''fcvt.lu.s'', ''fcvt.s.l'', ''fcvt.s.lu'', ''fsqrt.d'', ''fcvt.s.d'', ''fcvt.d.s'',
   ''fcvt.w.d'', ''fcvt.wu.d'', ''fcvt.d.w'', ''fcvt.d.wu'', ''fcvt.l.d'', ''fcvt.lu.d'',
   ''fcvt.d.l'', ''fcvt.d.lu'']"

definition FDExtensionR3TypeInstructions :: "string list" where
  "FDExtensionR3TypeInstructions = [
   ''fmv.x.w'', ''fmv.w.x'', ''fclass.s'', ''fclass.d'', ''fmv.x.d'', ''fmv.d.x'']"

definition FDExtensionR4TypeInstructions :: "string list" where
  "FDExtensionR4TypeInstructions = [
   ''fmadd.s'', ''fmsub.s'', ''fnmsub.s'', ''fnmadd.s'', ''fmadd.d'', ''fmsub.d'',
   ''fnmsub.d'', ''fnmadd.d'']"

definition FDExtensionITypeInstructions :: "string list" where
  "FDExtensionITypeInstructions = [
   ''flw'', ''fld'']"

definition FDExtensionSTypeInstructions :: "string list" where
  "FDExtensionSTypeInstructions = [
   ''fsw'', ''fsd'']"

definition FExtensionInstructions :: "string list" where
  "FExtensionInstructions = [
   ''flw'', ''fsw'', ''fmadd.s'', ''fmsub.d'', ''fnmsub.s'', ''fnmadd.s'', ''fadd.s'',
   ''fsub.s'', ''fmul.s'', ''fdiv.s'', ''fsqrt.s'', ''fsgnj.s'', ''fsgnjn.s'', ''fsgnjx.s'',
   ''fmin.s'', ''fmax.s'', ''fcvt.w.s'', ''fcvt.wu.s'', ''fmv.x.w'', ''feq.s'', ''flt.s'',
   ''fle.s'', ''fclass.s'', ''fcvt.s.w'', ''fcvt.s.wu'', ''fmv.w.x'', ''fcvt.l.s'',
   ''fcvt.lu.s'', ''fcvt.s.l'', ''fcvt.s.lu'']"

definition DExtensionInstructions :: "string list" where
  "DExtensionInstructions = []"

definition instruction_string_map :: "(string \<times> string) list" where
  "instruction_string_map = [
   (''add'', ''kadd''), (''sub'', ''ksub''), (''and'', ''kand''), (''or'', ''kor''),
   (''xor'', ''kxor''), (''sll'', ''ksll''), (''srl'', ''ksrl''), (''sra'', ''ksra''),
   (''slt'', ''kslt''), (''sltu'', ''ksltu''), (''addw'', ''kaddw''), (''subw'', ''ksubw''),
   (''sllw'', ''ksllw''), (''srliw'', ''ksrliw''), (''sraiw'', ''ksraiw''),
   (''sllw'', ''ksllw''), (''srlw'', ''ksrlw''), (''sraw'', ''ksraw''), (''mul'', ''kmul''),
   (''mulh'', ''kmulh''), (''mulhsu'', ''kmulhsu''), (''mulhu'', ''kmulhu''),
   (''div'', ''kdiv''), (''divu'', ''kdivu''), (''rem'', ''krem''), (''remu'', ''kremu''),
   (''mulw'', ''kmulw''), (''divw'', ''kdivw''), (''divuw'', ''kdivuw''),
   (''remw'', ''kremw''), (''remuw'', ''kremuw''), (''addi'', ''kaddi''),
   (''xori'', ''kxori''), (''ori'', ''kori''), (''andi'', ''kandi''), (''slli'', ''kslli''),
   (''srli'', ''ksrli''), (''srai'', ''ksrai''), (''slti'', ''kslti''),
   (''sltiu'', ''ksltiu''), (''addiw'', ''kaddiw''), (''slliw'', ''kslliw''),
   (''srliw'', ''ksrliw''), (''sraiw'', ''ksraiw''), (''lb'', ''klb''), (''lh'', ''klh''),
   (''lw'', ''klw''), (''ld'', ''kld''), (''lbu'', ''klbu''), (''lhu'', ''klhu''),
   (''lwu'', ''klwu''), (''sb'', ''ksb''), (''sh'', ''ksh''), (''sw'', ''ksw''),
   (''sd'', ''ksd''), (''beq'', ''kbeq''), (''bne'', ''kbne''), (''blt'', ''kblt''),
   (''bge'', ''kbge''), (''bltu'', ''kbltu''), (''bgeu'', ''kbgeu''), (''lui'', ''klui''),
   (''auipc'', ''kauipc''), (''jal'', ''kjal''), (''jalr'', ''kjalr''),
   (''ecall'', ''kecall''), (''csrrw'', ''kcsrrw''), (''csrrs'', ''kcsrrs''),
   (''csrrc'', ''kcsrrc''), (''csrrwi'', ''kcsrrwi''), (''csrrsi'', ''kcsrrsi''),
   (''csrrci'', ''kcsrrci''), (''fsgnj.s'', ''kfsgnj_s''), (''fsgnjn.s'', ''kfsgnjn_s''),
   (''fsgnjx.s'', ''kfsgnjx_s''), (''fmin.s'', ''kfmin_s''), (''fmax.s'', ''kfmax_s''),
   (''fle.s'', ''kfle_s''), (''flt.s'', ''kflt_s''), (''feq.s'', ''kfeq_s''),
   (''fsgnj.d'', ''kfsgnj_d''), (''fsgnjn.d'', ''kfsgnjn_d''), (''fsgnjx.d'', ''kfsgnjx_d''),
   (''fmin.d'', ''kfmin_d''), (''fmax.d'', ''kfmax_d''), (''fle.d'', ''kfle_d''),
   (''flt.d'', ''kflt_d''), (''feq.d'', ''kfeq_d''), (''fadd.s'', ''kfadd_s''),
   (''fsub.s'', ''kfsub_s''), (''fmul.s'', ''kfmul_s''), (''fdiv.s'', ''kfdiv_s''),
   (''fsqrt.s'', ''kfsqrt_s''), (''fadd.d'', ''kfadd_d''), (''fsub.d'', ''kfsub_d''),
   (''fmul.d'', ''kfmul_d''), (''fdiv.d'', ''kfdiv_d''), (''fsqrt.d'', ''kfsqrt_d''),
   (''fcvt.w.s'', ''kfcvt_w_s''), (''fcvt.wu.s'', ''kfcvt_wu_s''),
   (''fcvt.l.s'', ''kfcvt_l_s''), (''fcvt.lu.s'', ''kfcvt_lu_s''),
   (''fcvt.s.w'', ''kfcvt_s_w''), (''fcvt.s.wu'', ''kfcvt_s_wu''),
   (''fcvt.s.l'', ''kfcvt_s_l''), (''fcvt.s.lu'', ''kfcvt_s_lu''),
   (''fcvt.w.d'', ''kfcvt_w_d''), (''fcvt.wu.d'', ''kfcvt_wu_d''),
   (''fcvt.l.d'', ''kfcvt_l_d''), (''fcvt.lu.d'', ''kfcvt_lu_d''),
   (''fcvt.d.w'', ''kfcvt_d_w''), (''fcvt.d.wu'', ''kfcvt_d_wu''),
   (''fcvt.d.l'', ''kfcvt_d_l''), (''fcvt.d.lu'', ''kfcvt_d_lu''),
   (''fcvt.s.d'', ''kfcvt_s_d''), (''fcvt.d.s'', ''kfcvt_d_s''), (''fmv.x.s'', ''kfmv_x_w''),
   (''fmv.x.d'', ''kfmv_x_d''), (''fmv.s.x'', ''kfmv_w_x''), (''fmv.d.x'', ''kfmv_d_x''),
   (''fclass.s'', ''kfclass_s''), (''fclass.d'', ''kfclass_d''), (''fmadd.s'', ''kfmadd_s''),
   (''fmsub.s'', ''kfmsub_s''), (''fnmsub.s'', ''kfnmsub_s''), (''fnmadd.s'', ''kfnmadd_s''),
   (''fmadd.d'', ''kfmadd_d''), (''fmsub.d'', ''kfmsub_d''), (''fnmsub.d'', ''kfnmsub_d''),
   (''fnmadd.d'', ''kfnmadd_d''), (''flw'', ''kflw''), (''fsw'', ''kfsw''),
   (''fld'', ''kfld''), (''fsd'', ''kfsd''), (''ldbm'', ''kldbm''), (''bigmul'', ''kbigmul'')]"

definition isValidInstruction :: "string \<Rightarrow> bool" where "isValidInstruction s \<longleftrightarrow> s \<in> set valid_instructions"
definition isValidRTypeInstruction :: "string \<Rightarrow> bool" where "isValidRTypeInstruction s \<longleftrightarrow> s \<in> set RTypeInstructions"
definition isValidRLTypeInstruction :: "string \<Rightarrow> bool" where "isValidRLTypeInstruction s \<longleftrightarrow> s \<in> set RLTypeInstructions"
definition isValidSRTypeInstruction :: "string \<Rightarrow> bool" where "isValidSRTypeInstruction s \<longleftrightarrow> s \<in> set SRTypeInstructions"
definition isValidITypeInstruction :: "string \<Rightarrow> bool" where "isValidITypeInstruction s \<longleftrightarrow> s \<in> set I1TypeInstructions \<or> s \<in> set I2TypeInstructions \<or> s \<in> set I3TypeInstructions"
definition isValidI1TypeInstruction :: "string \<Rightarrow> bool" where "isValidI1TypeInstruction s \<longleftrightarrow> s \<in> set I1TypeInstructions"
definition isValidI2TypeInstruction :: "string \<Rightarrow> bool" where "isValidI2TypeInstruction s \<longleftrightarrow> s \<in> set I2TypeInstructions"
definition isValidI3TypeInstruction :: "string \<Rightarrow> bool" where "isValidI3TypeInstruction s \<longleftrightarrow> s \<in> set I3TypeInstructions"
definition isValidSTypeInstruction :: "string \<Rightarrow> bool" where "isValidSTypeInstruction s \<longleftrightarrow> s \<in> set STypeInstructions"
definition isValidBTypeInstruction :: "string \<Rightarrow> bool" where "isValidBTypeInstruction s \<longleftrightarrow> s \<in> set BTypeInstructions"
definition isValidUTypeInstruction :: "string \<Rightarrow> bool" where "isValidUTypeInstruction s \<longleftrightarrow> s \<in> set UTypeInstructions"
definition isValidJTypeInstruction :: "string \<Rightarrow> bool" where "isValidJTypeInstruction s \<longleftrightarrow> s \<in> set JTypeInstructions"
definition isValidPseudoInstruction :: "string \<Rightarrow> bool" where "isValidPseudoInstruction s \<longleftrightarrow> s \<in> set PseudoInstructions"
definition isValidBaseExtensionInstruction :: "string \<Rightarrow> bool" where "isValidBaseExtensionInstruction s \<longleftrightarrow> s \<in> set BaseExtensionInstructions"
definition isValidMExtensionInstruction :: "string \<Rightarrow> bool" where "isValidMExtensionInstruction s \<longleftrightarrow> s \<in> set MExtensionInstructions"
definition isValidCSRRTypeInstruction :: "string \<Rightarrow> bool" where "isValidCSRRTypeInstruction s \<longleftrightarrow> s \<in> set CSRRInstructions"
definition isValidCSRITypeInstruction :: "string \<Rightarrow> bool" where "isValidCSRITypeInstruction s \<longleftrightarrow> s \<in> set CSRIInstructions"
definition isValidCSRInstruction :: "string \<Rightarrow> bool" where "isValidCSRInstruction s \<longleftrightarrow> s \<in> set CSRRInstructions \<or> s \<in> set CSRIInstructions"
definition isValidFDRTypeInstruction :: "string \<Rightarrow> bool" where "isValidFDRTypeInstruction s \<longleftrightarrow> s \<in> set FDExtensionRTypeInstructions"
definition isValidFDR1TypeInstruction :: "string \<Rightarrow> bool" where "isValidFDR1TypeInstruction s \<longleftrightarrow> s \<in> set FDExtensionR1TypeInstructions"
definition isValidFDR2TypeInstruction :: "string \<Rightarrow> bool" where "isValidFDR2TypeInstruction s \<longleftrightarrow> s \<in> set FDExtensionR2TypeInstructions"
definition isValidFDR3TypeInstruction :: "string \<Rightarrow> bool" where "isValidFDR3TypeInstruction s \<longleftrightarrow> s \<in> set FDExtensionR3TypeInstructions"
definition isValidFDR4TypeInstruction :: "string \<Rightarrow> bool" where "isValidFDR4TypeInstruction s \<longleftrightarrow> s \<in> set FDExtensionR4TypeInstructions"
definition isValidFDITypeInstruction :: "string \<Rightarrow> bool" where "isValidFDITypeInstruction s \<longleftrightarrow> s \<in> set FDExtensionITypeInstructions"
definition isValidFDSTypeInstruction :: "string \<Rightarrow> bool" where "isValidFDSTypeInstruction s \<longleftrightarrow> s \<in> set FDExtensionSTypeInstructions"

subsection \<open>The encoding maps of the assembler\<close>

text \<open>Fields: opcode, funct3, funct7.\<close>

definition R_type_instruction_encoding_map :: "(string \<times> nat \<times> nat \<times> nat) list" where
  "R_type_instruction_encoding_map = [
   (''add'', (51, 0, 0)), (''sub'', (51, 0, 32)), (''xor'', (51, 4, 0)), (''or'', (51, 6, 0)),
   (''and'', (51, 7, 0)), (''sll'', (51, 1, 0)), (''srl'', (51, 5, 0)), (''sra'', (51, 5, 32)),
   (''slt'', (51, 2, 0)), (''sltu'', (51, 3, 0)), (''addw'', (59, 0, 0)),
   (''subw'', (59, 0, 32)), (''sllw'', (59, 1, 0)), (''srlw'', (59, 5, 0)),
   (''sraw'', (59, 5, 32)), (''mul'', (51, 0, 1)), (''mulh'', (51, 1, 1)),
   (''mulhsu'', (51, 2, 1)), (''mulhu'', (51, 3, 1)), (''div'', (51, 4, 1)),
   (''divu'', (51, 5, 1)), (''rem'', (51, 6, 1)), (''remu'', (51, 7, 1)),
   (''mulw'', (59, 0, 1)), (''divw'', (59, 4, 1)), (''divuw'', (59, 5, 1)),
   (''remw'', (59, 6, 1)), (''remuw'', (59, 7, 1))]"

text \<open>Fields: opcode, funct3, funct7.\<close>

definition RL_type_instruction_encoding_map :: "(string \<times> nat \<times> nat \<times> nat) list" where
  "RL_type_instruction_encoding_map = [
   (''ldbm'', (42, 0, 0))]"

text \<open>Fields: opcode, funct3.\<close>

definition SR_type_instruction_encoding_map :: "(string \<times> nat \<times> nat) list" where
  "SR_type_instruction_encoding_map = [
   (''bigmul'', (63, 0))]"

text \<open>Fields: opcode, funct3.\<close>

definition I1_type_instruction_encoding_map :: "(string \<times> nat \<times> nat) list" where
  "I1_type_instruction_encoding_map = [
   (''addi'', (19, 0)), (''xori'', (19, 4)), (''ori'', (19, 6)), (''andi'', (19, 7)),
   (''sltiu'', (19, 3)), (''slti'', (19, 2)), (''addiw'', (27, 0)), (''lb'', (3, 0)),
   (''lh'', (3, 1)), (''lw'', (3, 2)), (''ld'', (3, 3)), (''lbu'', (3, 4)), (''lhu'', (3, 5)),
   (''lwu'', (3, 6)), (''jalr'', (103, 0))]"

text \<open>Fields: opcode, funct3, funct7.\<close>

definition I3_type_instruction_encoding_map :: "(string \<times> nat \<times> nat \<times> nat) list" where
  "I3_type_instruction_encoding_map = [
   (''ecall'', (115, 0, 0))]"

text \<open>Fields: opcode, funct3, funct6.\<close>

definition I2_type_instruction_encoding_map :: "(string \<times> nat \<times> nat \<times> nat) list" where
  "I2_type_instruction_encoding_map = [
   (''slli'', (19, 1, 0)), (''srli'', (19, 5, 0)), (''srai'', (19, 5, 16)),
   (''slliw'', (27, 1, 0)), (''srliw'', (27, 5, 0)), (''sraiw'', (27, 5, 16))]"

text \<open>Fields: opcode, funct3.\<close>

definition S_type_instruction_encoding_map :: "(string \<times> nat \<times> nat) list" where
  "S_type_instruction_encoding_map = [
   (''sb'', (35, 0)), (''sh'', (35, 1)), (''sw'', (35, 2)), (''sd'', (35, 3))]"

text \<open>Fields: opcode, funct3.\<close>

definition B_type_instruction_encoding_map :: "(string \<times> nat \<times> nat) list" where
  "B_type_instruction_encoding_map = [
   (''beq'', (99, 0)), (''bne'', (99, 1)), (''blt'', (99, 4)), (''bge'', (99, 5)),
   (''bltu'', (99, 6)), (''bgeu'', (99, 7))]"

text \<open>Fields: opcode.\<close>

definition U_type_instruction_encoding_map :: "(string \<times> nat) list" where
  "U_type_instruction_encoding_map = [
   (''lui'', 55), (''auipc'', 23)]"

text \<open>Fields: opcode.\<close>

definition J_type_instruction_encoding_map :: "(string \<times> nat) list" where
  "J_type_instruction_encoding_map = [
   (''jal'', 111)]"

text \<open>Fields: opcode, funct3.\<close>

definition CSR_R_type_instruction_encoding_map :: "(string \<times> nat \<times> nat) list" where
  "CSR_R_type_instruction_encoding_map = [
   (''csrrw'', (115, 1)), (''csrrs'', (115, 2)), (''csrrc'', (115, 3))]"

text \<open>Fields: opcode, funct3.\<close>

definition CSR_I_type_instruction_encoding_map :: "(string \<times> nat \<times> nat) list" where
  "CSR_I_type_instruction_encoding_map = [
   (''csrrwi'', (115, 5)), (''csrrsi'', (115, 6)), (''csrrci'', (115, 7))]"

text \<open>Fields: opcode, funct3, funct7.\<close>

definition F_D_R_type_instruction_encoding_map :: "(string \<times> nat \<times> nat \<times> nat) list" where
  "F_D_R_type_instruction_encoding_map = [
   (''fsgnj.s'', (83, 0, 16)), (''fsgnjn.s'', (83, 1, 16)), (''fsgnjx.s'', (83, 2, 16)),
   (''fmin.s'', (83, 0, 20)), (''fmax.s'', (83, 1, 20)), (''feq.s'', (83, 2, 80)),
   (''flt.s'', (83, 1, 80)), (''fle.s'', (83, 0, 80)), (''feq.d'', (83, 2, 81)),
   (''flt.d'', (83, 1, 81)), (''fle.d'', (83, 0, 81)), (''fsgnj.d'', (83, 0, 17)),
   (''fsgnjn.d'', (83, 1, 17)), (''fsgnjx.d'', (83, 2, 17)), (''fmin.d'', (83, 0, 21)),
   (''fmax.d'', (83, 1, 21))]"

text \<open>Fields: opcode, funct7.\<close>

definition F_D_R1_type_instruction_encoding_map :: "(string \<times> nat \<times> nat) list" where
  "F_D_R1_type_instruction_encoding_map = [
   (''fadd.s'', (83, 0)), (''fsub.s'', (83, 4)), (''fmul.s'', (83, 8)), (''fdiv.s'', (83, 12)),
   (''fadd.d'', (83, 1)), (''fsub.d'', (83, 5)), (''fmul.d'', (83, 9)), (''fdiv.d'', (83, 13))]"

text \<open>Fields: opcode, funct5, funct7.\<close>

definition F_D_R2_type_instruction_encoding_map :: "(string \<times> nat \<times> nat \<times> nat) list" where
  "F_D_R2_type_instruction_encoding_map = [
   (''fsqrt.s'', (83, 0, 44)), (''fcvt.w.s'', (83, 0, 96)), (''fcvt.wu.s'', (83, 1, 96)),
   (''fcvt.l.s'', (83, 2, 96)), (''fcvt.lu.s'', (83, 3, 96)), (''fcvt.s.w'', (83, 0, 104)),
   (''fcvt.s.wu'', (83, 1, 104)), (''fcvt.s.l'', (83, 2, 104)), (''fcvt.s.lu'', (83, 3, 104)),
   (''fsqrt.d'', (83, 0, 45)), (''fcvt.w.d'', (83, 0, 97)), (''fcvt.wu.d'', (83, 1, 97)),
   (''fcvt.l.d'', (83, 2, 97)), (''fcvt.lu.d'', (83, 3, 97)), (''fcvt.d.w'', (83, 0, 105)),
   (''fcvt.d.wu'', (83, 1, 105)), (''fcvt.d.l'', (83, 2, 105)), (''fcvt.d.lu'', (83, 3, 105)),
   (''fcvt.s.d'', (83, 1, 32)), (''fcvt.d.s'', (83, 0, 33))]"

text \<open>Fields: opcode, funct3, funct5, funct7.\<close>

definition F_D_R3_type_instruction_encoding_map :: "(string \<times> nat \<times> nat \<times> nat \<times> nat) list" where
  "F_D_R3_type_instruction_encoding_map = [
   (''fmv.w.x'', (83, 0, 0, 120)), (''fmv.x.w'', (83, 0, 0, 112)),
   (''fclass.s'', (83, 1, 0, 112)), (''fmv.d.x'', (83, 0, 0, 121)),
   (''fmv.x.d'', (83, 0, 0, 113)), (''fclass.d'', (83, 1, 0, 113))]"

text \<open>Fields: opcode, funct2.\<close>

definition F_D_R4_type_instruction_encoding_map :: "(string \<times> nat \<times> nat) list" where
  "F_D_R4_type_instruction_encoding_map = [
   (''fmadd.s'', (67, 0)), (''fmsub.s'', (71, 0)), (''fnmsub.s'', (75, 0)),
   (''fnmadd.s'', (79, 0)), (''fmadd.d'', (67, 1)), (''fmsub.d'', (71, 1)),
   (''fnmsub.d'', (75, 1)), (''fnmadd.d'', (79, 1))]"

text \<open>Fields: opcode, funct3.\<close>

definition F_D_I_type_instruction_encoding_map :: "(string \<times> nat \<times> nat) list" where
  "F_D_I_type_instruction_encoding_map = [
   (''flw'', (7, 2)), (''fld'', (7, 3))]"

text \<open>Fields: opcode, funct3.\<close>

definition F_D_S_type_instruction_encoding_map :: "(string \<times> nat \<times> nat) list" where
  "F_D_S_type_instruction_encoding_map = [
   (''fsw'', (39, 2)), (''fsd'', (39, 3))]"

subsection \<open>Operand syntax\<close>

datatype SyntaxType =
    O_GPR_C_GPR_C_GPR | O_GPR_C_GPR_C_I | O_GPR_C_I | O_GPR_C_GPR_C_IL | O_GPR_C_GPR_C_DL | O_GPR_C_IL | O_GPR_C_DL | O_GPR_C_I_LP_GPR_RP | O_none | PSEUDO | O_GPR_C_CSR_C_GPR | O_GPR_C_CSR_C_I
  | O_FPR_C_FPR_C_FPR_C_FPR | O_FPR_C_FPR_C_FPR_C_FPR_C_RM | O_FPR_C_FPR_C_FPR | O_FPR_C_FPR_C_FPR_C_RM | O_FPR_C_FPR | O_FPR_C_FPR_C_RM | O_FPR_C_GPR | O_FPR_C_GPR_C_RM | O_GPR_C_FPR | O_GPR_C_FPR_C_RM
  | O_GPR_C_FPR_C_FPR | O_FPR_C_I_LP_GPR_RP

definition instruction_syntax_map :: "(string \<times> SyntaxType list) list" where
  "instruction_syntax_map = [
   (''add'', [O_GPR_C_GPR_C_GPR]), (''sub'', [O_GPR_C_GPR_C_GPR]),
   (''xor'', [O_GPR_C_GPR_C_GPR]), (''or'', [O_GPR_C_GPR_C_GPR]),
   (''and'', [O_GPR_C_GPR_C_GPR]), (''sll'', [O_GPR_C_GPR_C_GPR]),
   (''srl'', [O_GPR_C_GPR_C_GPR]), (''sra'', [O_GPR_C_GPR_C_GPR]),
   (''slt'', [O_GPR_C_GPR_C_GPR]), (''sltu'', [O_GPR_C_GPR_C_GPR]),
   (''ldbm'', [O_GPR_C_GPR_C_GPR]), (''bigmul'', [O_GPR_C_I_LP_GPR_RP]),
   (''addi'', [O_GPR_C_GPR_C_I]), (''xori'', [O_GPR_C_GPR_C_I]), (''ori'', [O_GPR_C_GPR_C_I]),
   (''andi'', [O_GPR_C_GPR_C_I]), (''slli'', [O_GPR_C_GPR_C_I]), (''srli'', [O_GPR_C_GPR_C_I]),
   (''srai'', [O_GPR_C_GPR_C_I]), (''slti'', [O_GPR_C_GPR_C_I]),
   (''sltiu'', [O_GPR_C_GPR_C_I]), (''lb'', [O_GPR_C_I_LP_GPR_RP, O_GPR_C_DL]),
   (''lh'', [O_GPR_C_I_LP_GPR_RP, O_GPR_C_DL]), (''lw'', [O_GPR_C_I_LP_GPR_RP, O_GPR_C_DL]),
   (''ld'', [O_GPR_C_I_LP_GPR_RP, O_GPR_C_DL]), (''lbu'', [O_GPR_C_I_LP_GPR_RP]),
   (''lhu'', [O_GPR_C_I_LP_GPR_RP]), (''lwu'', [O_GPR_C_I_LP_GPR_RP]),
   (''sb'', [O_GPR_C_I_LP_GPR_RP]), (''sh'', [O_GPR_C_I_LP_GPR_RP]),
   (''sw'', [O_GPR_C_I_LP_GPR_RP]), (''sd'', [O_GPR_C_I_LP_GPR_RP]),
   (''beq'', [O_GPR_C_GPR_C_I, O_GPR_C_GPR_C_IL]),
   (''bne'', [O_GPR_C_GPR_C_I, O_GPR_C_GPR_C_IL]),
   (''blt'', [O_GPR_C_GPR_C_I, O_GPR_C_GPR_C_IL]),
   (''bge'', [O_GPR_C_GPR_C_I, O_GPR_C_GPR_C_IL]),
   (''bltu'', [O_GPR_C_GPR_C_I, O_GPR_C_GPR_C_IL]),
   (''bgeu'', [O_GPR_C_GPR_C_I, O_GPR_C_GPR_C_IL]), (''lui'', [O_GPR_C_I]),
   (''auipc'', [O_GPR_C_I]), (''jal'', [O_GPR_C_I, O_GPR_C_IL]),
   (''jalr'', [O_GPR_C_I_LP_GPR_RP]), (''ecall'', [O_none]), (''csrrw'', [O_GPR_C_CSR_C_GPR]),
   (''csrrs'', [O_GPR_C_CSR_C_GPR]), (''csrrc'', [O_GPR_C_CSR_C_GPR]),
   (''csrrwi'', [O_GPR_C_CSR_C_I]), (''csrrsi'', [O_GPR_C_CSR_C_I]),
   (''csrrci'', [O_GPR_C_CSR_C_I]), (''fence'', [O_none]), (''fence_i'', [O_none]),
   (''nop'', [PSEUDO]), (''li'', [PSEUDO]), (''la'', [PSEUDO]), (''mv'', [PSEUDO]),
   (''not'', [PSEUDO]), (''neg'', [PSEUDO]), (''negw'', [PSEUDO]), (''sext.w'', [PSEUDO]),
   (''seqz'', [PSEUDO]), (''snez'', [PSEUDO]), (''sltz'', [PSEUDO]), (''sgtz'', [PSEUDO]),
   (''beqz'', [PSEUDO]), (''bnez'', [PSEUDO]), (''blez'', [PSEUDO]), (''bgez'', [PSEUDO]),
   (''bltz'', [PSEUDO]), (''bgtz'', [PSEUDO]), (''bgt'', [PSEUDO]), (''ble'', [PSEUDO]),
   (''bgtu'', [PSEUDO]), (''bleu'', [PSEUDO]), (''j'', [PSEUDO]), (''jr'', [PSEUDO]),
   (''ret'', [PSEUDO]), (''call'', [PSEUDO]), (''tail'', [PSEUDO]), (''fence'', [PSEUDO]),
   (''fence_i'', [PSEUDO]), (''mul'', [O_GPR_C_GPR_C_GPR]), (''mulh'', [O_GPR_C_GPR_C_GPR]),
   (''mulhsu'', [O_GPR_C_GPR_C_GPR]), (''mulhu'', [O_GPR_C_GPR_C_GPR]),
   (''div'', [O_GPR_C_GPR_C_GPR]), (''divu'', [O_GPR_C_GPR_C_GPR]),
   (''rem'', [O_GPR_C_GPR_C_GPR]), (''remu'', [O_GPR_C_GPR_C_GPR]),
   (''mulw'', [O_GPR_C_GPR_C_GPR]), (''divw'', [O_GPR_C_GPR_C_GPR]),
   (''divuw'', [O_GPR_C_GPR_C_GPR]), (''remw'', [O_GPR_C_GPR_C_GPR]),
   (''remuw'', [O_GPR_C_GPR_C_GPR]), (''flw'', [O_FPR_C_I_LP_GPR_RP]),
   (''fsw'', [O_FPR_C_I_LP_GPR_RP]),
   (''fmadd.s'', [O_FPR_C_FPR_C_FPR_C_FPR, O_FPR_C_FPR_C_FPR_C_FPR_C_RM]),
   (''fmsub.s'', [O_FPR_C_FPR_C_FPR_C_FPR, O_FPR_C_FPR_C_FPR_C_FPR_C_RM]),
   (''fnmsub.s'', [O_FPR_C_FPR_C_FPR_C_FPR, O_FPR_C_FPR_C_FPR_C_FPR_C_RM]),
   (''fnmadd.s'', [O_FPR_C_FPR_C_FPR_C_FPR, O_FPR_C_FPR_C_FPR_C_FPR_C_RM]),
   (''fadd.s'', [O_FPR_C_FPR_C_FPR, O_FPR_C_FPR_C_FPR_C_RM]),
   (''fsub.s'', [O_FPR_C_FPR_C_FPR, O_FPR_C_FPR_C_FPR_C_RM]),
   (''fmul.s'', [O_FPR_C_FPR_C_FPR, O_FPR_C_FPR_C_FPR_C_RM]),
   (''fdiv.s'', [O_FPR_C_FPR_C_FPR, O_FPR_C_FPR_C_FPR_C_RM]),
   (''fsqrt.s'', [O_FPR_C_FPR, O_FPR_C_FPR_C_RM]), (''fsgnj.s'', [O_FPR_C_FPR_C_FPR]),
   (''fsgnjn.s'', [O_FPR_C_FPR_C_FPR]), (''fsgnjx.s'', [O_FPR_C_FPR_C_FPR]),
   (''fmin.s'', [O_FPR_C_FPR_C_FPR]), (''fmax.s'', [O_FPR_C_FPR_C_FPR]),
   (''feq.s'', [O_GPR_C_FPR_C_FPR]), (''flt.s'', [O_GPR_C_FPR_C_FPR]),
   (''fle.s'', [O_GPR_C_FPR_C_FPR]), (''fclass.s'', [O_GPR_C_FPR]),
   (''fmv.x.w'', [O_GPR_C_FPR]), (''fmv.w.x'', [O_FPR_C_GPR]),
   (''fcvt.w.s'', [O_GPR_C_FPR, O_GPR_C_FPR_C_RM]),
   (''fcvt.wu.s'', [O_GPR_C_FPR, O_GPR_C_FPR_C_RM]),
   (''fcvt.l.s'', [O_GPR_C_FPR, O_GPR_C_FPR_C_RM]),
   (''fcvt.lu.s'', [O_GPR_C_FPR, O_GPR_C_FPR_C_RM]),
   (''fcvt.s.w'', [O_FPR_C_GPR, O_FPR_C_GPR_C_RM]),
   (''fcvt.s.wu'', [O_FPR_C_GPR, O_FPR_C_GPR_C_RM]),
   (''fcvt.s.l'', [O_FPR_C_GPR, O_FPR_C_GPR_C_RM]),
   (''fcvt.s.lu'', [O_FPR_C_GPR, O_FPR_C_GPR_C_RM]), (''fld'', [O_FPR_C_I_LP_GPR_RP]),
   (''fsd'', [O_FPR_C_I_LP_GPR_RP]),
   (''fmadd.d'', [O_FPR_C_FPR_C_FPR_C_FPR, O_FPR_C_FPR_C_FPR_C_FPR_C_RM]),
   (''fmsub.d'', [O_FPR_C_FPR_C_FPR_C_FPR, O_FPR_C_FPR_C_FPR_C_FPR_C_RM]),
   (''fnmsub.d'', [O_FPR_C_FPR_C_FPR_C_FPR, O_FPR_C_FPR_C_FPR_C_FPR_C_RM]),
   (''fnmadd.d'', [O_FPR_C_FPR_C_FPR_C_FPR, O_FPR_C_FPR_C_FPR_C_FPR_C_RM]),
   (''fadd.d'', [O_FPR_C_FPR_C_FPR, O_FPR_C_FPR_C_FPR_C_RM]),
   (''fsub.d'', [O_FPR_C_FPR_C_FPR, O_FPR_C_FPR_C_FPR_C_RM]),
   (''fmul.d'', [O_FPR_C_FPR_C_FPR, O_FPR_C_FPR_C_FPR_C_RM]),
   (''fdiv.d'', [O_FPR_C_FPR_C_FPR, O_FPR_C_FPR_C_FPR_C_RM]),
   (''fsqrt.d'', [O_FPR_C_FPR, O_FPR_C_FPR_C_RM]), (''fsgnj.d'', [O_FPR_C_FPR_C_FPR]),
   (''fsgnjn.d'', [O_FPR_C_FPR_C_FPR]), (''fsgnjx.d'', [O_FPR_C_FPR_C_FPR]),
   (''fmin.d'', [O_FPR_C_FPR_C_FPR]), (''fmax.d'', [O_FPR_C_FPR_C_FPR]),
   (''feq.d'', [O_GPR_C_FPR_C_FPR]), (''flt.d'', [O_GPR_C_FPR_C_FPR]),
   (''fle.d'', [O_GPR_C_FPR_C_FPR]), (''fclass.d'', [O_GPR_C_FPR]),
   (''fcvt.w.d'', [O_GPR_C_FPR, O_FPR_C_GPR_C_RM]),
   (''fcvt.wu.d'', [O_GPR_C_FPR, O_FPR_C_GPR_C_RM]),
   (''fcvt.l.d'', [O_GPR_C_FPR, O_FPR_C_GPR_C_RM]),
   (''fcvt.lu.d'', [O_GPR_C_FPR, O_FPR_C_GPR_C_RM]),
   (''fcvt.d.w'', [O_FPR_C_GPR, O_GPR_C_FPR_C_RM]),
   (''fcvt.d.wu'', [O_FPR_C_GPR, O_GPR_C_FPR_C_RM]),
   (''fcvt.d.l'', [O_FPR_C_GPR, O_FPR_C_GPR_C_RM]),
   (''fcvt.d.lu'', [O_FPR_C_GPR, O_FPR_C_GPR_C_RM]),
   (''fcvt.s.d'', [O_FPR_C_FPR, O_GPR_C_FPR_C_RM]),
   (''fcvt.d.s'', [O_FPR_C_FPR, O_GPR_C_FPR_C_RM]), (''fmv.x.d'', [O_GPR_C_FPR]),
   (''fmv.d.x'', [O_FPR_C_GPR])]"

definition opcodeSyntaxMap :: "(string \<times> string) list" where
  "opcodeSyntaxMap = [
   (''nop'', ''nop''), (''li'', ''li <reg>, <imm>''), (''mv'', ''mv <reg>, <reg>''),
   (''not'', ''not <reg>, <reg>''), (''neg'', ''neg <reg>, <reg>''),
   (''seqz'', ''seqz <reg>, <reg>''), (''snez'', ''snez <reg>, <reg>''),
   (''sltz'', ''sltz <reg>, <reg>''), (''sgtz'', ''sgtz <reg>, <reg>''),
   (''beqz'', ''beqz <reg>, <text label>''), (''bnez'', ''bnez <reg>, <text label>''),
   (''blez'', ''blez <reg>, <text label>''), (''bgez'', ''bgez <reg>, <text label>''),
   (''bltz'', ''bltz <reg>, <text label>''), (''bgtz'', ''bgtz <reg>, <text label>''),
   (''j'', ''j <text label>''), (''jr'', ''jr <reg>''), (''la'', ''la <reg>, <text label>''),
   (''call'', ''call <text label>''), (''tail'', ''tail <text label>''), (''fence'', ''fence'')]"

definition syntaxTypeToString :: "(SyntaxType \<times> string) list" where
  "syntaxTypeToString = [
   (O_none, ''<empty>''), (O_GPR_C_GPR_C_GPR, ''<gp-reg>, <gp-reg>, <gp-reg>''),
   (O_GPR_C_GPR_C_I, ''<gp-reg>, <gp-reg>, <imm>''),
   (O_GPR_C_GPR_C_IL, ''<gp-reg>, <gp-reg>, <text-label>''),
   (O_GPR_C_GPR_C_DL, ''<gp-reg>, <gp-reg>, <data-label>''),
   (O_GPR_C_I_LP_GPR_RP, ''<gp-reg>, <gp-imm>(<gp-reg>)''), (O_GPR_C_I, ''<gp-reg>, <imm>''),
   (O_GPR_C_IL, ''<gp-reg>, <text-label>''), (O_GPR_C_DL, ''<gp-reg>, <data-label>''),
   (O_GPR_C_CSR_C_GPR, ''<gp-reg>, <csr>, <gp-reg>''),
   (O_GPR_C_CSR_C_I, ''<gp-reg>, <csr>, <uimm>''),
   (O_FPR_C_FPR_C_FPR_C_FPR, ''<fp-reg>, <fp-reg>, <fp-reg>, <fp-reg>''),
   (O_FPR_C_FPR_C_FPR_C_FPR_C_RM, ''<fp-reg>, <fp-reg>, <fp-reg>, <fp-reg>, <rm>''),
   (O_FPR_C_FPR_C_FPR, ''<fp-reg>, <fp-reg>, <fp-reg>''),
   (O_FPR_C_FPR_C_FPR_C_RM, ''<fp-reg>, <fp-reg>, <fp-reg>, <rm>''),
   (O_FPR_C_FPR, ''<fp-reg>, <fp-reg>''), (O_FPR_C_FPR_C_RM, ''<fp-reg>, <fp-reg>, <rm>''),
   (O_FPR_C_GPR, ''<fp-reg>, <gp-reg>''), (O_FPR_C_GPR_C_RM, ''<fp-reg>, <gp-reg>, <rm>''),
   (O_GPR_C_FPR, ''<gp-reg>, <fp-reg>''), (O_GPR_C_FPR_C_RM, ''<gp-reg>, <fp-reg>, <rm>''),
   (O_GPR_C_FPR_C_FPR, ''<gp-reg>, <fp-reg>, <fp-reg>''),
   (O_FPR_C_I_LP_GPR_RP, ''<fp-reg>, <imm>(<gp-reg>)'')]"

fun expected_loop :: "string \<Rightarrow> SyntaxType list \<Rightarrow> nat \<Rightarrow> string \<Rightarrow> string" where
  "expected_loop op [] i acc = acc"
| "expected_loop op (t # ts) i acc =
     (let acc = (if i > 0 then acc @ '' or '' else acc);
          acc = (case map_of syntaxTypeToString t of Some s \<Rightarrow> acc @ op @ '' '' @ s | None \<Rightarrow> acc)
      in expected_loop op ts (i + 1) acc)"

definition getExpectedSyntaxes :: "string \<Rightarrow> string" where
  "getExpectedSyntaxes op =
     (case map_of opcodeSyntaxMap op of
        Some s \<Rightarrow> s
      | None \<Rightarrow> expected_loop op
          (case map_of instruction_syntax_map op of Some ts \<Rightarrow> ts | None \<Rightarrow> []) 0 [])"

subsection \<open>The encodings the simulator asks for\<close>

lemma opcode_constants [simp]:
  "opcode (get_instr_encoding ''kldbm'') = 42"
  "opcode (get_instr_encoding ''kbigmul'') = 63"
  "opcode (get_instr_encoding ''kecall'') = 115"
  "opcode (get_instr_encoding ''kjalr'') = 103"
  "opcode (get_instr_encoding ''kjal'') = 111"
  "opcode (get_instr_encoding ''kbeq'') = 99"
  "opcode (get_instr_encoding ''kbne'') = 99"
  "opcode (get_instr_encoding ''kblt'') = 99"
  "opcode (get_instr_encoding ''kbge'') = 99"
  "opcode (get_instr_encoding ''kbltu'') = 99"
  "opcode (get_instr_encoding ''kbgeu'') = 99"
  "opcode (get_instr_encoding ''kauipc'') = 23"
  "opcode (get_instr_encoding ''kRtype'') = 51"
  "opcode (get_instr_encoding ''kItype'') = 19"
  "opcode (get_instr_encoding ''kLoadType'') = 3"
  "opcode (get_instr_encoding ''klui'') = 55"
  "opcode (get_instr_encoding ''kflw'') = 7"
  by code_simp+

lemma funct_constants [simp]:
  "funct3 (get_instr_encoding ''kecall'') = 0"
  "funct3 (get_instr_encoding ''kcsrrw'') = 1"
  "funct3 (get_instr_encoding ''kcsrrs'') = 2"
  "funct3 (get_instr_encoding ''kcsrrc'') = 3"
  "funct3 (get_instr_encoding ''kcsrrwi'') = 5"
  "funct3 (get_instr_encoding ''kcsrrsi'') = 6"
  "funct3 (get_instr_encoding ''kcsrrci'') = 7"
  "funct7 (get_instr_encoding ''kfle_s'') = 80"
  "funct7 (get_instr_encoding ''kfcvt_w_s'') = 96"
  "funct7 (get_instr_encoding ''kfmv_x_w'') = 112"
  by code_simp+

end
