(* ===== verification/VmBase.thy ===== *)
theory VmBase
  imports Memory Registers Instructions
begin

text \<open>
  The base of the virtual machine: class \<open>VmBase\<close> (include/vm/vm_base.h,
  src/vm/vm_base.cpp) with loading of a program, breakpoints, immediates and the
  program counter. The record also carries the globals the machine reads
  (\<open>vm_config::config\<close>, \<open>globals::vm_as_backend\<close>) and \<open>cout\<close>, what the machine
  has written to its standard streams. The files \<open>DumpState\<close> and \<open>DumpRegisters\<close> write
  are not part of it.
\<close>

subsection \<open>State\<close>

datatype DataItem =
    DataByte u8
  | DataHalf u16
  | DataWord u32
  | DataDouble u64
  | DataString string
  | DataFloat u32
  | DataDoubleFloat u64

record AssembledProgram =
  line_number_instruction_number_mapping :: "u32 \<rightharpoonup> u32"
  instruction_number_line_number_mapping :: "u32 \<rightharpoonup> u32"
  instruction_number_disassembly_mapping :: "u32 \<rightharpoonup> u32"
  filename :: string
  data_buffer :: "DataItem list"
  text_buffer :: "u32 list"

datatype Output =
    OutText string
  | OutInt int
  | OutHex u64
  | OutFloat u32
  | OutDouble u64
  | OutChar u8
  | ErrText string
  | ErrInt int

record VmBase =
  program :: AssembledProgram
  base_stop_requested :: bool
  input_queue :: "string list"
  breakpoints :: "u64 list"
  current_instruction :: u32
  program_counter :: u64
  cycle_s :: u32
  instructions_retired :: u32
  output_status :: string
  memory :: Memory
  registers :: RegisterFile
  program_size :: u64
  vm_config :: VmConfig
  vm_as_backend :: bool
  cout :: "Output list"

definition print :: "Output list \<Rightarrow> 'a VmBase_scheme \<Rightarrow> 'a VmBase_scheme" where
  "print out v = v\<lparr>cout := cout v @ out\<rparr>"

definition empty_program :: AssembledProgram where
  "empty_program = \<lparr>line_number_instruction_number_mapping = Map.empty,
     instruction_number_line_number_mapping = Map.empty,
     instruction_number_disassembly_mapping = Map.empty, filename = '''', data_buffer = [],
     text_buffer = []\<rparr>"

definition new_VmBase :: "VmConfig \<Rightarrow> bool \<Rightarrow> VmBase" where
  "new_VmBase c backend = \<lparr>program = empty_program, base_stop_requested = False, input_queue = [],
     breakpoints = [], current_instruction = 0, program_counter = 0, cycle_s = 0,
     instructions_retired = 0, output_status = '''', memory = new_Memory c,
     registers = new_RegisterFile, program_size = 0, vm_config = c, vm_as_backend = backend,
     cout = []\<rparr>"

subsection \<open>The memory controller\<close>

text \<open>\<open>memory_controller_\<close> hands every call to its \<open>Memory\<close>; new blocks get the block
  size the configuration holds at that time.\<close>

definition mc_write_byte :: "u64 \<Rightarrow> u8 \<Rightarrow> 'a VmBase_scheme \<Rightarrow> 'a VmBase_scheme result" where
  "mc_write_byte a x v = bindr (WriteByte (memory_block_size (vm_config v)) (memory v) a x)
     (\<lambda>m. Inr (v\<lparr>memory := m\<rparr>))"

definition mc_write_half :: "u64 \<Rightarrow> u16 \<Rightarrow> 'a VmBase_scheme \<Rightarrow> 'a VmBase_scheme result" where
  "mc_write_half a x v = bindr (WriteHalfWord (memory_block_size (vm_config v)) (memory v) a x)
     (\<lambda>m. Inr (v\<lparr>memory := m\<rparr>))"

definition mc_write_word :: "u64 \<Rightarrow> u32 \<Rightarrow> 'a VmBase_scheme \<Rightarrow> 'a VmBase_scheme result" where
  "mc_write_word a x v = bindr (WriteWord (memory_block_size (vm_config v)) (memory v) a x)
     (\<lambda>m. Inr (v\<lparr>memory := m\<rparr>))"

definition mc_write_double :: "u64 \<Rightarrow> u64 \<Rightarrow> 'a VmBase_scheme \<Rightarrow> 'a VmBase_scheme result" where
  "mc_write_double a x v = bindr (WriteDoubleWord (memory_block_size (vm_config v)) (memory v) a x)
     (\<lambda>m. Inr (v\<lparr>memory := m\<rparr>))"

subsection \<open>Program counter and immediates\<close>

text \<open>
  The code adds two \<open>int64_t\<close> values here. The model adds modulo \<open>2 ^ 64\<close>; the two differ only where
  the counter or the target of a jump is within an immediate of \<open>2 ^ 63\<close>, far outside any program that
  the counter is compared with before an instruction is fetched.
\<close>

definition UpdateProgramCounter :: "u64 \<Rightarrow> 'a VmBase_scheme \<Rightarrow> 'a VmBase_scheme" where
  "UpdateProgramCounter d v = v\<lparr>program_counter := program_counter v + d\<rparr>"

definition sign_extend :: "u32 \<Rightarrow> nat \<Rightarrow> u32" where
  "sign_extend x bits = (let mask = push_bit (bits - 1) 1 in (x XOR mask) - mask)"

definition ImmGenerator :: "u32 \<Rightarrow> u32" where
  "ImmGenerator w =
     (let op = opcode_of w in
      if op = 0x13 \<or> op = 0x03 \<or> op = 0x67 \<or> op = 0x0F \<or> op = 0x07 then
        sign_extend (drop_bit 20 w AND 0xFFF) 12
      else if op = 0x23 \<or> op = 0x27 then
        sign_extend ((drop_bit 7 w AND 0x1F) OR push_bit 5 (drop_bit 25 w AND 0x7F)) 12
      else if op = 0x63 then
        (let imm = (drop_bit 8 w AND 0xF) OR push_bit 4 (drop_bit 25 w AND 0x3F) OR
                   push_bit 10 (drop_bit 7 w AND 1) OR push_bit 11 (drop_bit 31 w AND 1)
         in sign_extend (push_bit 1 imm) 13)
      else if op = 0x37 \<or> op = 0x17 then drop_bit 12 (w AND 0xFFFFF000)
      else if op = 0x6F then
        (let imm = (drop_bit 21 w AND 0x3FF) OR push_bit 10 (drop_bit 20 w AND 1) OR
                   push_bit 11 (drop_bit 12 w AND 0xFF) OR push_bit 19 (drop_bit 31 w AND 1)
         in sign_extend (push_bit 1 imm) 21)
      else 0)"

subsection \<open>Breakpoints\<close>

definition CheckBreakpoint :: "u64 \<Rightarrow> 'a VmBase_scheme \<Rightarrow> bool" where
  "CheckBreakpoint a v \<longleftrightarrow> a \<in> set (breakpoints v)"

text \<open>The keys of the mapping are \<open>unsigned int\<close>: a line number is truncated to 32 bits.\<close>

definition line_address :: "u64 \<Rightarrow> 'a VmBase_scheme \<Rightarrow> u64 option" where
  "line_address line v =
     (case line_number_instruction_number_mapping (program v) (ucast line) of
        None \<Rightarrow> None | Some n \<Rightarrow> Some (ucast (n * 4 :: u32)))"

definition AddBreakpoint :: "u64 \<Rightarrow> bool \<Rightarrow> 'a VmBase_scheme \<Rightarrow> 'a VmBase_scheme" where
  "AddBreakpoint val is_line v =
     (if is_line then
        (case line_address val v of
           None \<Rightarrow> print [ErrText ''Invalid line number: '', ErrInt (uint val)] v
         | Some bp \<Rightarrow>
             if CheckBreakpoint bp v
             then print [ErrText ''Breakpoint already exists at line: '', ErrInt (uint val)] v
             else v\<lparr>breakpoints := breakpoints v @ [bp]\<rparr>)
      else if val mod 4 \<noteq> 0 then
        print [ErrText ''Invalid instruction address: '', ErrInt (uint val),
               ErrText ''. Must be a multiple of 4.''] v
      else if CheckBreakpoint val v then
        print [ErrText ''Breakpoint already exists at address: '', ErrInt (uint val)] v
      else v\<lparr>breakpoints := breakpoints v @ [val]\<rparr>)"

definition RemoveBreakpoint :: "u64 \<Rightarrow> bool \<Rightarrow> 'a VmBase_scheme \<Rightarrow> 'a VmBase_scheme" where
  "RemoveBreakpoint val is_line v =
     (if is_line then
        (case line_address val v of
           None \<Rightarrow> print [ErrText ''Invalid line number: '', ErrInt (uint val)] v
         | Some bp \<Rightarrow>
             if \<not> CheckBreakpoint bp v
             then print [ErrText ''No breakpoint exists at line: '', ErrInt (uint val)] v
             else v\<lparr>breakpoints := removeAll bp (breakpoints v)\<rparr>)
      else if val mod 4 \<noteq> 0 then
        print [ErrText ''Invalid instruction address: '', ErrInt (uint val),
               ErrText ''. Must be a multiple of 4.''] v
      else if \<not> CheckBreakpoint val v then
        print [ErrText ''No breakpoint exists at address: '', ErrInt (uint val)] v
      else v\<lparr>breakpoints := removeAll val (breakpoints v)\<rparr>)"

subsection \<open>Loading a program\<close>

fun load_text :: "u32 list \<Rightarrow> u32 \<Rightarrow> 'a VmBase_scheme \<Rightarrow> ('a VmBase_scheme \<times> u32) result" where
  "load_text [] counter v = Inr (v, counter)"
| "load_text (w # ws) counter v =
     bindr (mc_write_word (ucast counter) w v) (\<lambda>v. load_text ws (counter + 4) v)"

definition align :: "u32 \<Rightarrow> u32 \<Rightarrow> u32" where
  "align alignment counter =
     (if counter mod alignment \<noteq> 0 then counter + (alignment - counter mod alignment) else counter)"

fun load_string :: "u64 \<Rightarrow> string \<Rightarrow> u32 \<Rightarrow> 'a VmBase_scheme \<Rightarrow> ('a VmBase_scheme \<times> u32) result" where
  "load_string base [] counter v = Inr (v, counter)"
| "load_string base (c # cs) counter v =
     bindr (mc_write_byte (base + ucast counter) (word_of_nat (of_char c)) v)
       (\<lambda>v. load_string base cs (counter + 1) v)"

definition load_item :: "u64 \<Rightarrow> DataItem \<Rightarrow> u32 \<Rightarrow> 'a VmBase_scheme \<Rightarrow> ('a VmBase_scheme \<times> u32) result" where
  "load_item base item counter v = (case item of
       DataByte x \<Rightarrow> let c = align 1 counter in
         bindr (mc_write_byte (base + ucast c) x v) (\<lambda>v. Inr (v, c + 1))
     | DataHalf x \<Rightarrow> let c = align 2 counter in
         bindr (mc_write_half (base + ucast c) x v) (\<lambda>v. Inr (v, c + 2))
     | DataWord x \<Rightarrow> let c = align 4 counter in
         bindr (mc_write_word (base + ucast c) x v) (\<lambda>v. Inr (v, c + 4))
     | DataDouble x \<Rightarrow> let c = align 8 counter in
         bindr (mc_write_double (base + ucast c) x v) (\<lambda>v. Inr (v, c + 8))
     | DataFloat x \<Rightarrow> let c = align 4 counter in
         bindr (mc_write_word (base + ucast c) x v) (\<lambda>v. Inr (v, c + 4))
     | DataDoubleFloat x \<Rightarrow> let c = align 8 counter in
         bindr (mc_write_double (base + ucast c) x v) (\<lambda>v. Inr (v, c + 8))
     | DataString s \<Rightarrow> load_string base s (align 1 counter) v)"

fun load_data :: "u64 \<Rightarrow> DataItem list \<Rightarrow> u32 \<Rightarrow> 'a VmBase_scheme \<Rightarrow> ('a VmBase_scheme \<times> u32) result" where
  "load_data base [] counter v = Inr (v, counter)"
| "load_data base (x # xs) counter v =
     bindr (load_item base x counter v) (\<lambda>(v, counter). load_data base xs counter v)"

definition LoadProgram :: "AssembledProgram \<Rightarrow> 'a VmBase_scheme \<Rightarrow> 'a VmBase_scheme result" where
  "LoadProgram p v =
     bindr (load_text (text_buffer p) 0 (v\<lparr>program := p\<rparr>)) (\<lambda>(v, counter).
       let v = v\<lparr>program_size := ucast counter\<rparr>;
           v = AddBreakpoint (program_size v) False v
       in bindr (load_data (data_section_start (vm_config v)) (data_buffer p) 0 v) (\<lambda>(v, _).
            Inr ((print [OutText ''VM_PROGRAM_LOADED''] v)\<lparr>output_status := ''VM_PROGRAM_LOADED''\<rparr>)))"

subsection \<open>Printing a string of the memory\<close>

text \<open>The loop ends at a zero byte or fails at the end of the memory.\<close>

function string_at :: "Memory \<Rightarrow> u64 \<Rightarrow> u8 list result" where
  "string_at m a =
     (case ReadByte m a of
        Inl e \<Rightarrow> Inl e
      | Inr c \<Rightarrow> if c = 0 then Inr [] else bindr (string_at m (a + 1)) (\<lambda>cs. Inr (c # cs)))"
  by pat_completeness auto
termination
proof (relation "measure (\<lambda>(m, a). unat (mem_size m) - unat a)")
  show "wf (measure (\<lambda>(m :: Memory, a). unat (mem_size m) - unat a))" by simp
next
  fix m :: Memory and a c
  assume "ReadByte m a = Inr c"
  then have a: "unat a < unat (mem_size m)"
    by (auto simp: ReadByte_def word_less_nat_alt not_le split: if_splits)
  then have "unat (a + 1) = unat a + 1"
    using unat_u64_less [of "mem_size m"] by (simp add: unat_word_ariths)
  with a show "((m, a + 1), m, a) \<in> measure (\<lambda>(m, a). unat (mem_size m) - unat a)" by simp
qed

declare string_at.simps [simp del]

definition PrintString :: "u64 \<Rightarrow> 'a VmBase_scheme \<Rightarrow> 'a VmBase_scheme result" where
  "PrintString a v = bindr (string_at (memory v) a) (\<lambda>cs. Inr (print (map OutChar cs) v))"

end
