(* ===== verification/Alu.thy ===== *)
theory Alu
  imports Prelude
begin

text \<open>
  The integer side of the ALU: \<open>alu::AluOp\<close> (include/vm/alu.h) and
  \<open>alu::Alu::execute\<close> (src/vm/alu.cpp). The enumeration is one C++ enum; here it is
  split along the enum's own comment blocks (integer, single precision, double precision)
  into three datatypes joined by \<open>AluOp\<close>. \<open>execute\<close> returns the result and the
  overflow flag, or \<open>Undefined\<close> where the C++ expression has no defined value: a division
  by zero, or a signed sum, difference, product or quotient that does not fit its type.
\<close>

datatype IntOp =
    kNone | kAdd | kAddw | kSub | kSubw | kMul | kMulh | kMulhsu | kMulhu | kMulw
  | kDiv | kDivw | kDivu | kDivuw | kRem | kRemw | kRemu | kRemuw | kAnd | kOr | kXor
  | kSll | kSllw | kSrl | kSrlw | kSra | kSraw | kSlt | kSltu

datatype SingleOp =
    kFmadd_s | kFmsub_s | kFnmadd_s | kFnmsub_s | FADD_S | FSUB_S | FMUL_S | FDIV_S
  | FSQRT_S | FSGNJ_S | FSGNJN_S | FSGNJX_S | FMIN_S | FMAX_S | FEQ_S | FLT_S | FLE_S
  | FCLASS_S | FCVT_W_S | FCVT_WU_S | FCVT_L_S | FCVT_LU_S | FCVT_S_W | FCVT_S_WU
  | FCVT_S_L | FCVT_S_LU | FMV_X_W | FMV_W_X

datatype DoubleOp =
    FMADD_D | FMSUB_D | FNMADD_D | FNMSUB_D | FADD_D | FSUB_D | FMUL_D | FDIV_D
  | FSQRT_D | FSGNJ_D | FSGNJN_D | FSGNJX_D | FMIN_D | FMAX_D | FEQ_D | FLT_D | FLE_D
  | FCLASS_D | FCVT_W_D | FCVT_WU_D | FCVT_L_D | FCVT_LU_D | FCVT_D_W | FCVT_D_WU
  | FCVT_D_L | FCVT_D_LU | FCVT_S_D | FCVT_D_S | FMV_D_X | FMV_X_D

datatype AluOp = IntOp IntOp | SingleOp SingleOp | DoubleOp DoubleOp

subsection \<open>The integer operations\<close>

definition alu_mulh :: "u64 \<Rightarrow> u64 \<Rightarrow> u64" where
  "alu_mulh a b =
     (let result = (scast a :: u128) * (scast b :: u128)
      in ucast (signed_drop_bit 64 result))"

definition alu_mulhsu :: "u64 \<Rightarrow> u64 \<Rightarrow> u64" where
  "alu_mulhsu a b =
     (let result = (scast a :: u128) * (ucast b :: u128)
      in ucast (signed_drop_bit 64 result))"

definition alu_mulhu :: "u64 \<Rightarrow> u64 \<Rightarrow> u64" where
  "alu_mulhu a b =
     (let result = (ucast a :: u128) * (ucast b :: u128)
      in ucast (signed_drop_bit 64 result))"

definition alu_mulw :: "u64 \<Rightarrow> u64 \<Rightarrow> u64 \<times> bool" where
  "alu_mulw a b =
     (let sa = (ucast a :: u32); sb = (ucast b :: u32);
          result = (scast sa :: u64) * (scast sb :: u64);
          lower_result = (ucast result :: u32)
      in (scast lower_result, result \<noteq> scast lower_result))"

definition alu_div :: "u64 \<Rightarrow> u64 \<Rightarrow> u64 \<times> bool" where
  "alu_div a b =
     (if b = 0 then (0, False)
      else if a = INT64_MIN \<and> b = -1 then (INT64_MAX, True)
      else (c_div a b, False))"

definition alu_divw :: "u64 \<Rightarrow> u64 \<Rightarrow> u64 \<times> bool" where
  "alu_divw a b =
     (let sa = (ucast a :: u32); sb = (ucast b :: u32)
      in if sb = 0 then (0, False)
         else if sa = INT32_MIN \<and> sb = -1 then (scast INT32_MIN, True)
         else (scast (c_div sa sb), False))"

definition alu_divuw :: "u64 \<Rightarrow> u64 \<Rightarrow> (u64 \<times> bool) result" where
  "alu_divuw a b =
     (if b = 0 then Inr (0, False)
      else if (ucast b :: u32) = 0 then Inl Undefined
      else Inr (ucast ((ucast a :: u32) div (ucast b :: u32)), False))"

definition alu_rem :: "u64 \<Rightarrow> u64 \<Rightarrow> (u64 \<times> bool) result" where
  "alu_rem a b =
     (if b = 0 then Inr (0, False)
      else if a = INT64_MIN \<and> b = -1 then Inl Undefined
      else Inr (c_mod a b, False))"

definition alu_remw :: "u64 \<Rightarrow> u64 \<Rightarrow> (u64 \<times> bool) result" where
  "alu_remw a b =
     (let sa = (ucast a :: u32); sb = (ucast b :: u32)
      in if b = 0 then Inr (0, False)
         else if sb = 0 \<or> (sa = INT32_MIN \<and> sb = -1) then Inl Undefined
         else Inr (scast (c_mod sa sb), False))"

definition alu_remuw :: "u64 \<Rightarrow> u64 \<Rightarrow> (u64 \<times> bool) result" where
  "alu_remuw a b =
     (if b = 0 then Inr (0, False)
      else if (ucast b :: u32) = 0 then Inl Undefined
      else Inr (ucast ((ucast a :: u32) mod (ucast b :: u32)), False))"

text \<open>The shift amounts are masked to five or six bits, as in the source.\<close>

definition shamt6 :: "u64 \<Rightarrow> nat" where "shamt6 b = unat (b AND 63)"
definition shamt5 :: "u64 \<Rightarrow> nat" where "shamt5 b = unat ((ucast b :: u32) AND 31)"

definition alu_sllw :: "u64 \<Rightarrow> u64 \<Rightarrow> u64" where
  "alu_sllw a b = scast (push_bit (shamt5 b) (ucast a :: u32))"

definition alu_srlw :: "u64 \<Rightarrow> u64 \<Rightarrow> u64" where
  "alu_srlw a b = scast (drop_bit (shamt5 b) (ucast a :: u32))"

definition alu_sraw :: "u64 \<Rightarrow> u64 \<Rightarrow> u64" where
  "alu_sraw a b = scast (signed_drop_bit (unat (b AND 31)) (ucast a :: u32))"

text \<open>
  The cases of addition, subtraction and multiplication compute \<open>sa + sb\<close>, \<open>sa - sb\<close> or
  \<open>sa*sb\<close> as a signed expression to initialise \<open>result\<close>, before they ask the builtin for
  the wrapped result and its flag: where the flag would be set, the initialiser has already
  overflowed. The case of MULHU multiplies two \<open>__int128\<close> values below \<open>2 ^ 64\<close>, whose
  product can exceed \<open>2 ^ 127\<close>.
\<close>

definition signed_initialiser :: "bool \<Rightarrow> u64 \<Rightarrow> (u64 \<times> bool) result" where
  "signed_initialiser overflow result = (if overflow then Inl Undefined else Inr (result, overflow))"

definition int_execute :: "IntOp \<Rightarrow> u64 \<Rightarrow> u64 \<Rightarrow> (u64 \<times> bool) result" where
  "int_execute op a b = (case op of
       kAdd \<Rightarrow> signed_initialiser (add_overflow a b) (a + b)
     | kAddw \<Rightarrow> (let sa = (ucast a :: u32); sb = (ucast b :: u32)
                in signed_initialiser (add_overflow sa sb) (scast (sa + sb)))
     | kSub \<Rightarrow> signed_initialiser (sub_overflow a b) (a - b)
     | kSubw \<Rightarrow> (let sa = (ucast a :: u32); sb = (ucast b :: u32)
                in signed_initialiser (sub_overflow sa sb) (scast (sa - sb)))
     | kMul \<Rightarrow> signed_initialiser (mul_overflow a b) (a * b)
     | kMulh \<Rightarrow> Inr (alu_mulh a b, False)
     | kMulhsu \<Rightarrow> Inr (alu_mulhsu a b, False)
     | kMulhu \<Rightarrow> (if mul_overflow (ucast a :: u128) (ucast b) then Inl Undefined
                 else Inr (alu_mulhu a b, False))
     | kMulw \<Rightarrow> Inr (alu_mulw a b)
     | kDiv \<Rightarrow> Inr (alu_div a b)
     | kDivw \<Rightarrow> Inr (alu_divw a b)
     | kDivu \<Rightarrow> Inr (if b = 0 then 0 else a div b, False)
     | kDivuw \<Rightarrow> alu_divuw a b
     | kRem \<Rightarrow> alu_rem a b
     | kRemw \<Rightarrow> alu_remw a b
     | kRemu \<Rightarrow> Inr (if b = 0 then 0 else a mod b, False)
     | kRemuw \<Rightarrow> alu_remuw a b
     | kAnd \<Rightarrow> Inr (a AND b, False)
     | kOr \<Rightarrow> Inr (a OR b, False)
     | kXor \<Rightarrow> Inr (a XOR b, False)
     | kSll \<Rightarrow> Inr (push_bit (shamt6 b) a, False)
     | kSllw \<Rightarrow> Inr (alu_sllw a b, False)
     | kSrl \<Rightarrow> Inr (drop_bit (shamt6 b) a, False)
     | kSrlw \<Rightarrow> Inr (alu_srlw a b, False)
     | kSra \<Rightarrow> Inr (signed_drop_bit (shamt6 b) a, False)
     | kSraw \<Rightarrow> Inr (alu_sraw a b, False)
     | kSlt \<Rightarrow> Inr (b2w (sint a < sint b), False)
     | kSltu \<Rightarrow> Inr (b2w (a < b), False)
     | kNone \<Rightarrow> Inr (0, False))"

definition execute :: "AluOp \<Rightarrow> u64 \<Rightarrow> u64 \<Rightarrow> (u64 \<times> bool) result" where
  "execute op a b = (case op of IntOp i \<Rightarrow> int_execute i a b | _ \<Rightarrow> Inr (0, False))"

lemma mulh_high_half:
  "sint (alu_mulh a b) = (sint a * sint b) div 2 ^ 64"
proof -
  have "\<bar>sint a\<bar> \<le> 2 ^ 63" "\<bar>sint b\<bar> \<le> 2 ^ 63"
    using sint_bounds64 [of a] sint_bounds64 [of b] by linarith+
  then have "\<bar>sint a\<bar> * \<bar>sint b\<bar> \<le> 2 ^ 63 * 2 ^ 63"
    by (rule mult_mono) simp_all
  then have "- (2 ^ 126) \<le> sint a * sint b" "sint a * sint b \<le> 2 ^ 126"
    by (simp_all add: abs_mult [symmetric] abs_le_iff)
  then have "- (2 ^ 126) div 2 ^ 64 \<le> (sint a * sint b) div 2 ^ 64"
    "(sint a * sint b) div 2 ^ 64 \<le> 2 ^ 126 div 2 ^ 64"
    by (intro zdiv_mono1; simp)+
  then have "- (2 ^ 63) \<le> (sint a * sint b) div 2 ^ 64" "(sint a * sint b) div 2 ^ 64 < 2 ^ 63"
    by simp_all
  then show ?thesis
    by (simp add: alu_mulh_def high64 sint_mulh_product sint_word_of_int_fits)
qed

lemma mulhu_high_half:
  "uint (alu_mulhu a b) = (uint a * uint b) div 2 ^ 64"
proof -
  have u: "uint (ucast a :: u128) = uint a" "uint (ucast b :: u128) = uint b"
    by (rule uint_up_ucast, simp add: is_up)+
  have "uint a * uint b < 2 ^ 64 * 2 ^ 64"
    by (rule mult_strict_mono) (use uint_bounds64 in simp_all)
  then have "uint ((ucast a :: u128) * ucast b) = uint a * uint b"
    by (simp add: uint_word_ariths u)
  moreover from \<open>uint a * uint b < 2 ^ 64 * 2 ^ 64\<close>
  have "(uint a * uint b) div 2 ^ 64 < 2 ^ 64" by simp
  moreover have "0 \<le> (uint a * uint b) div 2 ^ 64"
    by (simp add: pos_imp_zdiv_nonneg_iff)
  ultimately show ?thesis
    by (simp add: alu_mulhu_def high64_unsigned uint_word_of_int mod_pos_pos_trivial)
qed

lemma mulhsu_high_half:
  "sint (alu_mulhsu a b) = (sint a * uint b) div 2 ^ 64"
proof -
  have "\<bar>sint a\<bar> \<le> 2 ^ 63" "\<bar>uint b\<bar> \<le> 2 ^ 64 - 1"
    using sint_bounds64 [of a] uint_bounds64 [of b] by linarith+
  then have "\<bar>sint a\<bar> * \<bar>uint b\<bar> \<le> 2 ^ 63 * (2 ^ 64 - 1)"
    by (rule mult_mono) simp_all
  then have m: "- (2 ^ 63 * (2 ^ 64 - 1)) \<le> sint a * uint b" "sint a * uint b \<le> 2 ^ 63 * (2 ^ 64 - 1)"
    unfolding abs_mult [symmetric] abs_le_iff by linarith+
  have s: "sint ((scast a :: u128) * ucast b) = sint a * uint b"
    unfolding sint_word_mult sint_scast_64_128 sint_ucast_64_128
  proof (rule signed_take_bit_int_eq_self)
    show "- (2 ^ (LENGTH(128) - 1)) \<le> sint a * uint b" using m(1) by (rule order_trans [rotated]) simp
    show "sint a * uint b < 2 ^ (LENGTH(128) - 1)" using m(2) by (rule le_less_trans) simp
  qed
  have "- (2 ^ 63 * (2 ^ 64 - 1)) div 2 ^ 64 \<le> (sint a * uint b) div 2 ^ 64"
    "(sint a * uint b) div 2 ^ 64 \<le> (2 ^ 63 * (2 ^ 64 - 1)) div 2 ^ 64"
    using m by (intro zdiv_mono1; simp)+
  then have "- (2 ^ 63) \<le> (sint a * uint b) div 2 ^ 64" "(sint a * uint b) div 2 ^ 64 < 2 ^ 63"
    by simp_all
  then show ?thesis
    by (simp add: alu_mulhsu_def high64 s sint_word_of_int_fits)
qed

lemma shamt6_mod: "shamt6 b = unat b mod 64"
proof -
  have "b AND 63 = take_bit 6 b" by (simp add: take_bit_eq_mask mask_eq_exp_minus_1)
  then show ?thesis by (simp add: shamt6_def unsigned_take_bit_eq take_bit_eq_mod unat_mod_distrib)
qed

lemma mulhu_overflow_iff:
  "mul_overflow (ucast a :: u128) (ucast b) \<longleftrightarrow> 2 ^ 127 \<le> uint a * uint b" for a b :: u64
proof -
  have "- (2 ^ 127) \<le> (0 :: int)" "0 \<le> uint a * uint b" by simp_all
  then have "- (2 ^ 127) \<le> uint a * uint b" by (rule order_trans)
  then show ?thesis by (auto simp: mul_overflow_iff sint_ucast_64_128)
qed

text \<open>Whether an exact value is one of the signed type of the given width.\<close>

definition fits_signed :: "nat \<Rightarrow> int \<Rightarrow> bool" where
  "fits_signed n k \<longleftrightarrow> - (2 ^ (n - 1)) \<le> k \<and> k < 2 ^ (n - 1)"

lemma overflow_fits:
  "add_overflow a b \<longleftrightarrow> \<not> fits_signed LENGTH('a) (sint a + sint b)"
  "sub_overflow a b \<longleftrightarrow> \<not> fits_signed LENGTH('a) (sint a - sint b)"
  "mul_overflow a b \<longleftrightarrow> \<not> fits_signed LENGTH('a) (sint a * sint b)" for a b :: "'a::len word"
  by (simp_all add: fits_signed_def add_overflow_iff sub_overflow_iff mul_overflow_iff)

lemma signed_initialiser_exact:
  assumes "ov \<longleftrightarrow> \<not> fits_signed n k" and "\<not> ov \<Longrightarrow> r = word_of_int k"
  shows "signed_initialiser ov r = (if fits_signed n k then Inr (word_of_int k, False) else Inl Undefined)"
  using assms by (cases "fits_signed n k") (simp_all add: signed_initialiser_def)

lemma signed_initialiser_64:
  "signed_initialiser (add_overflow a b) (a + b) =
     (if fits_signed 64 (sint a + sint b) then Inr (word_of_int (sint a + sint b), False) else Inl Undefined)"
  "signed_initialiser (sub_overflow a b) (a - b) =
     (if fits_signed 64 (sint a - sint b) then Inr (word_of_int (sint a - sint b), False) else Inl Undefined)"
  "signed_initialiser (mul_overflow a b) (a * b) =
     (if fits_signed 64 (sint a * sint b) then Inr (word_of_int (sint a * sint b), False) else Inl Undefined)"
  for a b :: u64
proof -
  have w: "a + b = word_of_int (sint a + sint b)" "a - b = word_of_int (sint a - sint b)"
    "a * b = word_of_int (sint a * sint b)"
    by (simp_all only: of_int_add of_int_diff of_int_mult of_int_sint scast_id)
  have l: "LENGTH(64) = 64" by simp
  note o = overflow_fits [of a b, unfolded l]
  show "signed_initialiser (add_overflow a b) (a + b) =
     (if fits_signed 64 (sint a + sint b) then Inr (word_of_int (sint a + sint b), False) else Inl Undefined)"
    by (rule signed_initialiser_exact [OF o(1) w(1)])
  show "signed_initialiser (sub_overflow a b) (a - b) =
     (if fits_signed 64 (sint a - sint b) then Inr (word_of_int (sint a - sint b), False) else Inl Undefined)"
    by (rule signed_initialiser_exact [OF o(2) w(2)])
  show "signed_initialiser (mul_overflow a b) (a * b) =
     (if fits_signed 64 (sint a * sint b) then Inr (word_of_int (sint a * sint b), False) else Inl Undefined)"
    by (rule signed_initialiser_exact [OF o(3) w(3)])
qed

lemma signed_initialiser_32:
  "signed_initialiser (add_overflow a b) (scast (a + b)) =
     (if fits_signed 32 (sint a + sint b) then Inr (word_of_int (sint a + sint b), False) else Inl Undefined)"
  "signed_initialiser (sub_overflow a b) (scast (a - b)) =
     (if fits_signed 32 (sint a - sint b) then Inr (word_of_int (sint a - sint b), False) else Inl Undefined)"
  for a b :: u32
proof -
  have s: "(scast x :: u64) = word_of_int (sint x)" for x :: u32 by (rule of_int_sint [symmetric])
  show "signed_initialiser (add_overflow a b) (scast (a + b)) =
     (if fits_signed 32 (sint a + sint b) then Inr (word_of_int (sint a + sint b), False) else Inl Undefined)"
  proof (rule signed_initialiser_exact)
    show "add_overflow a b \<longleftrightarrow> \<not> fits_signed 32 (sint a + sint b)" using overflow_fits(1) [of a b] by simp
    show "(scast (a + b) :: u64) = word_of_int (sint a + sint b)" if "\<not> add_overflow a b"
      using that unfolding add_overflow_def s not_not by (rule arg_cong)
  qed
  show "signed_initialiser (sub_overflow a b) (scast (a - b)) =
     (if fits_signed 32 (sint a - sint b) then Inr (word_of_int (sint a - sint b), False) else Inl Undefined)"
  proof (rule signed_initialiser_exact)
    show "sub_overflow a b \<longleftrightarrow> \<not> fits_signed 32 (sint a - sint b)" using overflow_fits(2) [of a b] by simp
    show "(scast (a - b) :: u64) = word_of_int (sint a - sint b)" if "\<not> sub_overflow a b"
      using that unfolding sub_overflow_def s not_not by (rule arg_cong)
  qed
qed

subsection \<open>Properties\<close>

text \<open>
  C20. The high multiplications MULH and MULHSU return the upper 64 bits of the exact 128-bit product of their
  operands, read as signed, and as signed by unsigned, without an overflow flag, for all operands.
  MULHU returns the upper half of the exact unsigned product wherever that product is below
  \<open>2 ^ 127\<close>; from there on the signed 128-bit multiplication of the code overflows.
\<close>

theorem execute_high_products:
  "\<exists>h s u. execute (IntOp kMulh) a b = Inr (h, False) \<and> sint h = (sint a * sint b) div 2 ^ 64
     \<and> execute (IntOp kMulhsu) a b = Inr (s, False) \<and> sint s = (sint a * uint b) div 2 ^ 64
     \<and> execute (IntOp kMulhu) a b = (if uint a * uint b < 2 ^ 127 then Inr (u, False) else Inl Undefined)
     \<and> uint u = (uint a * uint b) div 2 ^ 64"
proof -
  have "execute (IntOp kMulhu) a b =
      (if uint a * uint b < 2 ^ 127 then Inr (alu_mulhu a b, False) else Inl Undefined)"
    unfolding execute_def int_execute_def AluOp.simps IntOp.simps mulhu_overflow_iff not_less [symmetric] if_not_P
    by (simp only: if_not_P not_not split: if_split) blast
  then show ?thesis
    by (intro exI [of _ "alu_mulh a b"] exI [of _ "alu_mulhsu a b"] exI [of _ "alu_mulhu a b"])
      (simp add: execute_def int_execute_def mulh_high_half mulhsu_high_half mulhu_high_half)
qed

text \<open>
  ADD, SUB and MUL, and ADDW and SUBW on the low halves of their operands, return the exact
  signed result with a clear flag when it fits their type, and have undefined behaviour when it does not: the
  overflow flag they compute is never set in a defined execution.
\<close>

lemma execute_signed_arithmetic:
  "execute (IntOp kAdd) a b = (if fits_signed 64 (sint a + sint b)
     then Inr (word_of_int (sint a + sint b), False) else Inl Undefined) \<and>
   execute (IntOp kSub) a b = (if fits_signed 64 (sint a - sint b)
     then Inr (word_of_int (sint a - sint b), False) else Inl Undefined) \<and>
   execute (IntOp kMul) a b = (if fits_signed 64 (sint a * sint b)
     then Inr (word_of_int (sint a * sint b), False) else Inl Undefined) \<and>
   execute (IntOp kAddw) a b = (if fits_signed 32 (sint (ucast a :: u32) + sint (ucast b :: u32))
     then Inr (word_of_int (sint (ucast a :: u32) + sint (ucast b :: u32)), False) else Inl Undefined) \<and>
   execute (IntOp kSubw) a b = (if fits_signed 32 (sint (ucast a :: u32) - sint (ucast b :: u32))
     then Inr (word_of_int (sint (ucast a :: u32) - sint (ucast b :: u32)), False) else Inl Undefined)"
  unfolding execute_def int_execute_def AluOp.simps IntOp.simps Let_def signed_initialiser_64 signed_initialiser_32
  by (intro conjI refl)

text \<open>
  C18. For a nonzero divisor, and unless the quotient overflows, DIV and REM return the
  truncating quotient and remainder: the quotient times the divisor plus the remainder is the
  dividend, the remainder is smaller than the divisor, and it has the sign of the dividend.
\<close>

theorem execute_division:
  assumes "b \<noteq> 0" and "\<not> (a = INT64_MIN \<and> b = -1)"
  shows "\<exists>q r. execute (IntOp kDiv) a b = Inr (q, False) \<and> execute (IntOp kRem) a b = Inr (r, False) \<and>
    sint q * sint b + sint r = sint a \<and> \<bar>sint r\<bar> < \<bar>sint b\<bar> \<and> (sint r \<noteq> 0 \<longrightarrow> sgn (sint r) = sgn (sint a))"
proof -
  have n: "\<not> (sint a = - (2 ^ (LENGTH(64) - 1)) \<and> b = -1)"
  proof
    assume h: "sint a = - (2 ^ (LENGTH(64) - 1)) \<and> b = -1"
    then have "sint a = sint INT64_MIN" by (simp add: sint_INT64_MIN)
    with h assms(2) show False by (simp add: signed_word_eqI)
  qed
  have "sint (c_mod a b) = 0 \<or> sgn (sint (c_mod a b)) = sgn (sint a)"
    using assms(1) smod_sign by (simp add: sint_c_mod)
  with signed_division [OF assms(1) n] show ?thesis
    using assms by (auto simp: execute_def int_execute_def alu_div_def alu_rem_def)
qed

theorem execute_division_witness:
  "\<exists>q r. execute (IntOp kDiv) (- 7) 2 = Inr (q, False) \<and> execute (IntOp kRem) (- 7) 2 = Inr (r, False) \<and>
    sint q * sint (2 :: u64) + sint r = sint (- 7 :: u64) \<and> \<bar>sint r\<bar> < \<bar>sint (2 :: u64)\<bar> \<and>
    (sint r \<noteq> 0 \<longrightarrow> sgn (sint r) = sgn (sint (- 7 :: u64)))"
  by (rule execute_division) (simp_all add: INT64_MIN_def)

text \<open>
  C19. The ALU has a defined result on every operation and operands except these: ADD, SUB and
  MUL whose exact signed result does not fit 64 bits; ADDW and SUBW whose result on the low
  halves does not fit 32 bits; MULHU whose unsigned product is at least \<open>2 ^ 127\<close>; REM of the
  most negative dividend by minus one; DIVUW and REMUW whose 64-bit divisor is nonzero but
  whose low 32 bits are zero; REMW with such a divisor, or with the most negative 32-bit
  dividend by minus one. There a signed C++ operation overflows or a division is by zero.
\<close>

theorem execute_undefined_iff:
  "execute op a b = Inl e \<longleftrightarrow> e = Undefined \<and>
    (op = IntOp kAdd \<and> \<not> fits_signed 64 (sint a + sint b) \<or>
     op = IntOp kSub \<and> \<not> fits_signed 64 (sint a - sint b) \<or>
     op = IntOp kMul \<and> \<not> fits_signed 64 (sint a * sint b) \<or>
     op = IntOp kAddw \<and> \<not> fits_signed 32 (sint (ucast a :: u32) + sint (ucast b :: u32)) \<or>
     op = IntOp kSubw \<and> \<not> fits_signed 32 (sint (ucast a :: u32) - sint (ucast b :: u32)) \<or>
     op = IntOp kMulhu \<and> 2 ^ 127 \<le> uint a * uint b \<or>
     op = IntOp kRem \<and> a = INT64_MIN \<and> b = -1 \<or>
     op \<in> {IntOp kDivuw, IntOp kRemuw} \<and> b \<noteq> 0 \<and> (ucast b :: u32) = 0 \<or>
     op = IntOp kRemw \<and> b \<noteq> 0 \<and>
       ((ucast b :: u32) = 0 \<or> (ucast a :: u32) = INT32_MIN \<and> (ucast b :: u32) = -1))"
proof (cases op)
  case (IntOp i)
  then show ?thesis
    by (cases i) (auto simp: execute_def int_execute_def alu_divuw_def alu_rem_def
          alu_remuw_def alu_remw_def Let_def mulhu_overflow_iff signed_initialiser_64 signed_initialiser_32 split: if_splits)
qed (auto simp: execute_def)

text \<open>The 32-bit operations whose C++ result is a signed 32-bit value cast to 64 bits.\<close>

definition is_signed_word_op :: "IntOp \<Rightarrow> bool" where
  "is_signed_word_op i \<longleftrightarrow> i \<in> {kAddw, kSubw, kMulw, kDivw, kRemw, kSllw, kSrlw, kSraw}"

text \<open>
  The result of every 32-bit operation on signed values is sign extended: it is its own low
  32 bits, sign extended.
\<close>

lemma execute_word_ops_sign_extended:
  assumes "is_signed_word_op i" and "execute (IntOp i) a b = Inr (r, f)"
  shows "r = scast (ucast r :: u32)"
  using assms
  by (auto simp: is_signed_word_op_def execute_def int_execute_def signed_initialiser_def alu_divw_def alu_remw_def
        alu_mulw_def alu_sllw_def alu_srlw_def alu_sraw_def Let_def scast_ucast_scast split: if_splits)

text \<open>
  DIVUW and REMUW divide the low 32 bits of their operands, read as unsigned, and return quotient and
  remainder zero extended: read as 64-bit numbers they are the quotient and the remainder of the
  unsigned 32-bit division, whatever the upper halves of the operands, so that they lie below
  \<open>2 ^ 32\<close> where the architecture asks for sign extension.
\<close>

lemma execute_divuw_zero_extended:
  assumes "(ucast b :: u32) \<noteq> 0"
  shows "\<exists>q r. execute (IntOp kDivuw) a b = Inr (q, False) \<and> execute (IntOp kRemuw) a b = Inr (r, False) \<and>
    uint q * uint (ucast b :: u32) + uint r = uint (ucast a :: u32) \<and> uint r < uint (ucast b :: u32) \<and>
    uint q < 2 ^ 32"
proof -
  let ?a = "ucast a :: u32" and ?b = "ucast b :: u32"
  have b: "b \<noteq> 0" using assms by auto
  have u: "uint (ucast x :: u64) = uint x" for x :: u32 by (rule uint_up_ucast) (simp add: is_up)
  have "uint ?b \<noteq> 0" using assms uint_0_iff by blast
  then have "0 < uint ?b" using uint_ge_0 [of ?b] by linarith
  moreover have "uint (?a div ?b) < 2 ^ 32" using uint_lt2p [of "?a div ?b"] by simp
  ultimately show ?thesis using assms b
    by (intro exI [of _ "ucast (?a div ?b)"] exI [of _ "ucast (?a mod ?b)"])
      (simp add: execute_def int_execute_def alu_divuw_def alu_remuw_def u uint_div uint_mod)
qed

text \<open>
  C28. The 64-bit shifts use the low six bits of the second operand, and multiply or divide the
  unsigned or signed value of the first by that power of two.
\<close>

theorem execute_shifts:
  "\<exists>l r s. execute (IntOp kSll) a b = Inr (l, False) \<and> l = a * 2 ^ (unat b mod 64)
     \<and> execute (IntOp kSrl) a b = Inr (r, False) \<and> uint r = uint a div 2 ^ (unat b mod 64)
     \<and> execute (IntOp kSra) a b = Inr (s, False) \<and> sint s = sint a div 2 ^ (unat b mod 64)"
  by (simp add: execute_def int_execute_def shamt6_mod push_bit_eq_mult uint_drop_bit_div
       sint_signed_drop_bit_div)

end
