(* ===== verification/AluFp.thy ===== *)
theory AluFp
  imports Alu
begin

text \<open>
  The floating-point side of the ALU: \<open>alu::Alu::fpexecute\<close> and
  \<open>alu::Alu::dfpexecute\<close> (src/vm/alu.cpp). A C++ \<open>float\<close> or \<open>double\<close> is its bit
  pattern. Classification, comparison, sign operations and the rounding to an integer are
  defined on the bit patterns; the arithmetic of the host's floating-point unit (sums,
  products, roots, conversions, with the exceptions they raise) is the parameter
  \<open>HostFloat\<close>. The host's rounding mode is state: the functions change it with
  \<open>fesetround\<close> and restore it only on some of their paths.
\<close>

subsection \<open>The floating-point environment\<close>

datatype host_rm = FE_TONEAREST | FE_TOWARDZERO | FE_DOWNWARD | FE_UPWARD

record FeExcept =
  fe_invalid :: bool
  fe_divbyzero :: bool
  fe_overflow :: bool
  fe_underflow :: bool
  fe_inexact :: bool

definition no_except :: FeExcept where
  "no_except = \<lparr>fe_invalid = False, fe_divbyzero = False, fe_overflow = False,
     fe_underflow = False, fe_inexact = False\<rparr>"

definition invalid_if :: "bool \<Rightarrow> FeExcept" where
  "invalid_if p = no_except\<lparr>fe_invalid := p\<rparr>"

definition FCSR_INVALID_OP :: u8 where "FCSR_INVALID_OP = 1"
definition FCSR_DIV_BY_ZERO :: u8 where "FCSR_DIV_BY_ZERO = 2"
definition FCSR_OVERFLOW :: u8 where "FCSR_OVERFLOW = 4"
definition FCSR_UNDERFLOW :: u8 where "FCSR_UNDERFLOW = 8"
definition FCSR_INEXACT :: u8 where "FCSR_INEXACT = 16"

text \<open>\<open>if (raised & FE_...) fcsr |= FCSR_...\<close> for the five exceptions.\<close>

definition add_raised :: "FeExcept \<Rightarrow> u8 \<Rightarrow> u8" where
  "add_raised r f =
     (let f = (if fe_invalid r then f OR FCSR_INVALID_OP else f);
          f = (if fe_divbyzero r then f OR FCSR_DIV_BY_ZERO else f);
          f = (if fe_overflow r then f OR FCSR_OVERFLOW else f);
          f = (if fe_underflow r then f OR FCSR_UNDERFLOW else f)
      in if fe_inexact r then f OR FCSR_INEXACT else f)"

text \<open>The \<open>switch (rm)\<close>: a rounding mode the host lacks leaves the mode as it is.\<close>

definition set_round :: "u8 \<Rightarrow> host_rm \<Rightarrow> host_rm" where
  "set_round rm m =
     (if rm = 0 then FE_TONEAREST else if rm = 1 then FE_TOWARDZERO
      else if rm = 2 then FE_DOWNWARD else if rm = 3 then FE_UPWARD else m)"

subsection \<open>The host's arithmetic\<close>

record HostFloat =
  f32_add :: "host_rm \<Rightarrow> u32 \<Rightarrow> u32 \<Rightarrow> u32 \<times> FeExcept"
  f32_sub :: "host_rm \<Rightarrow> u32 \<Rightarrow> u32 \<Rightarrow> u32 \<times> FeExcept"
  f32_mul :: "host_rm \<Rightarrow> u32 \<Rightarrow> u32 \<Rightarrow> u32 \<times> FeExcept"
  f32_div :: "host_rm \<Rightarrow> u32 \<Rightarrow> u32 \<Rightarrow> u32 \<times> FeExcept"
  f32_sqrt :: "host_rm \<Rightarrow> u32 \<Rightarrow> u32 \<times> FeExcept"
  f32_fma :: "host_rm \<Rightarrow> u32 \<Rightarrow> u32 \<Rightarrow> u32 \<Rightarrow> u32 \<times> FeExcept"
  f32_fmin :: "u32 \<Rightarrow> u32 \<Rightarrow> u32 \<times> FeExcept"
  f32_fmax :: "u32 \<Rightarrow> u32 \<Rightarrow> u32 \<times> FeExcept"
  f32_of_int :: "host_rm \<Rightarrow> int \<Rightarrow> u32 \<times> FeExcept"
  f64_add :: "host_rm \<Rightarrow> u64 \<Rightarrow> u64 \<Rightarrow> u64 \<times> FeExcept"
  f64_sub :: "host_rm \<Rightarrow> u64 \<Rightarrow> u64 \<Rightarrow> u64 \<times> FeExcept"
  f64_mul :: "host_rm \<Rightarrow> u64 \<Rightarrow> u64 \<Rightarrow> u64 \<times> FeExcept"
  f64_div :: "host_rm \<Rightarrow> u64 \<Rightarrow> u64 \<Rightarrow> u64 \<times> FeExcept"
  f64_sqrt :: "host_rm \<Rightarrow> u64 \<Rightarrow> u64 \<times> FeExcept"
  f64_fma :: "host_rm \<Rightarrow> u64 \<Rightarrow> u64 \<Rightarrow> u64 \<Rightarrow> u64 \<times> FeExcept"
  f64_fmin :: "u64 \<Rightarrow> u64 \<Rightarrow> u64 \<times> FeExcept"
  f64_fmax :: "u64 \<Rightarrow> u64 \<Rightarrow> u64 \<times> FeExcept"
  f64_of_int :: "host_rm \<Rightarrow> int \<Rightarrow> u64 \<times> FeExcept"
  f64_of_f32 :: "u32 \<Rightarrow> u64 \<times> FeExcept"
  f32_of_f64 :: "host_rm \<Rightarrow> u64 \<Rightarrow> u32 \<times> FeExcept"

definition either_except :: "FeExcept \<Rightarrow> FeExcept \<Rightarrow> FeExcept" where
  "either_except r s = \<lparr>fe_invalid = fe_invalid r \<or> fe_invalid s,
     fe_divbyzero = fe_divbyzero r \<or> fe_divbyzero s, fe_overflow = fe_overflow r \<or> fe_overflow s,
     fe_underflow = fe_underflow r \<or> fe_underflow s, fe_inexact = fe_inexact r \<or> fe_inexact s\<rparr>"

text \<open>
  Rounding the number \<open>m * 2 ^ e\<close> to an integer (\<open>std::nearbyint\<close> in the current mode).
\<close>

definition round_quotient :: "host_rm \<Rightarrow> int \<Rightarrow> int \<Rightarrow> int" where
  "round_quotient md n d =
     (case md of
        FE_DOWNWARD \<Rightarrow> n div d
      | FE_UPWARD \<Rightarrow> - ((- n) div d)
      | FE_TOWARDZERO \<Rightarrow> if n < 0 then - ((- n) div d) else n div d
      | FE_TONEAREST \<Rightarrow>
          (let q = n div d; r = n mod d
           in if 2 * r < d then q else if 2 * r > d then q + 1 else if even q then q else q + 1))"

definition round_scaled :: "host_rm \<Rightarrow> int \<Rightarrow> int \<Rightarrow> int" where
  "round_scaled md m e = (if e \<ge> 0 then m * 2 ^ nat e else round_quotient md m (2 ^ nat (- e)))"

text \<open>
  \<open>static_cast\<close> of an already integral floating-point value to an integer type of \<open>w\<close>
  bits: undefined when the value does not fit.
\<close>

definition cast_signed :: "nat \<Rightarrow> int \<Rightarrow> u64 result" where
  "cast_signed w n = (if - (2 ^ (w - 1)) \<le> n \<and> n < 2 ^ (w - 1) then Inr (word_of_int n) else Inl Undefined)"

definition cast_unsigned :: "nat \<Rightarrow> int \<Rightarrow> u64 result" where
  "cast_unsigned w n = (if 0 \<le> n \<and> n < 2 ^ w then Inr (word_of_int n) else Inl Undefined)"


subsection \<open>Single precision bit patterns\<close>

definition f32_sign :: "u32 \<Rightarrow> bool" where "f32_sign a = bit a 31"
definition f32_exp :: "u32 \<Rightarrow> u32" where "f32_exp a = drop_bit 23 a AND 0xFF"
definition f32_frac :: "u32 \<Rightarrow> u32" where "f32_frac a = a AND 0x7FFFFF"
definition f32_mag :: "u32 \<Rightarrow> u32" where "f32_mag a = a AND 0x7FFFFFFF"
definition f32_neg :: "u32 \<Rightarrow> u32" where "f32_neg a = a XOR 0x80000000"

definition f32_isnan :: "u32 \<Rightarrow> bool" where "f32_isnan a \<longleftrightarrow> f32_exp a = 0xFF \<and> f32_frac a \<noteq> 0"
definition f32_issnan :: "u32 \<Rightarrow> bool" where "f32_issnan a \<longleftrightarrow> f32_isnan a \<and> a AND 0x00400000 = 0"
definition f32_isinf :: "u32 \<Rightarrow> bool" where "f32_isinf a \<longleftrightarrow> f32_exp a = 0xFF \<and> f32_frac a = 0"
definition f32_isfinite :: "u32 \<Rightarrow> bool" where "f32_isfinite a \<longleftrightarrow> f32_exp a \<noteq> 0xFF"
definition f32_isnormal :: "u32 \<Rightarrow> bool" where
  "f32_isnormal a \<longleftrightarrow> f32_exp a \<noteq> 0xFF \<and> f32_exp a \<noteq> 0"
definition f32_issubnormal :: "u32 \<Rightarrow> bool" where
  "f32_issubnormal a \<longleftrightarrow> f32_exp a = 0 \<and> f32_frac a \<noteq> 0"

text \<open>Comparisons: false when an operand is not a number, the two zeros equal.\<close>

definition f32_key :: "u32 \<Rightarrow> int" where
  "f32_key a = (if f32_sign a then - uint (f32_mag a) else uint (f32_mag a))"

definition f32_eq :: "u32 \<Rightarrow> u32 \<Rightarrow> bool" where
  "f32_eq a b \<longleftrightarrow> \<not> f32_isnan a \<and> \<not> f32_isnan b \<and> f32_key a = f32_key b"
definition f32_lt :: "u32 \<Rightarrow> u32 \<Rightarrow> bool" where
  "f32_lt a b \<longleftrightarrow> \<not> f32_isnan a \<and> \<not> f32_isnan b \<and> f32_key a < f32_key b"
definition f32_le :: "u32 \<Rightarrow> u32 \<Rightarrow> bool" where
  "f32_le a b \<longleftrightarrow> \<not> f32_isnan a \<and> \<not> f32_isnan b \<and> f32_key a \<le> f32_key b"

definition f32_quiet_NaN :: u32 where "f32_quiet_NaN = 0x7FC00000"

definition f32_nearbyint :: "host_rm \<Rightarrow> u32 \<Rightarrow> int" where
  "f32_nearbyint md a =
     (let e = uint (f32_exp a);
          m = (if e = 0 then uint (f32_frac a) else uint (f32_frac a) + 2 ^ 23);
          m = (if f32_sign a then - m else m)
      in round_scaled md m ((if e = 0 then 1 else e) - 150))"

text \<open>\<open>FCLASS\<close>: one bit of ten by the class of the operand.\<close>

definition f32_class :: "u32 \<Rightarrow> u64" where
  "f32_class a =
     (if f32_sign a \<and> f32_isinf a then 1
      else if f32_sign a \<and> f32_isnormal a then 2
      else if f32_sign a \<and> f32_issubnormal a then 4
      else if f32_sign a \<and> f32_eq a 0 then 8
      else if \<not> f32_sign a \<and> f32_eq a 0 then 16
      else if \<not> f32_sign a \<and> f32_issubnormal a then 32
      else if \<not> f32_sign a \<and> f32_isnormal a then 64
      else if \<not> f32_sign a \<and> f32_isinf a then 128
      else if f32_isnan a \<and> a AND 0x00400000 = 0 then 256
      else if f32_isnan a then 512
      else 0)"

definition f32_min_max :: "bool \<Rightarrow> HostFloat \<Rightarrow> u32 \<Rightarrow> u32 \<Rightarrow> u32 \<times> FeExcept" where
  "f32_min_max is_min H a b =
     (if f32_isnan a \<and> \<not> f32_isnan b then (b, no_except)
      else if \<not> f32_isnan a \<and> f32_isnan b then (a, no_except)
      else let cmp = invalid_if (f32_sign a \<noteq> f32_sign b \<and> (f32_issnan a \<or> f32_issnan b))
           in if f32_sign a \<noteq> f32_sign b \<and> f32_eq a b then (if is_min then 0x80000000 else 0, cmp)
              else case (if is_min then f32_fmin H a b else f32_fmax H a b) of
                (r, x) \<Rightarrow> (r, either_except cmp x))"

subsection \<open>Double precision bit patterns\<close>

definition f64_sign :: "u64 \<Rightarrow> bool" where "f64_sign a = bit a 63"
definition f64_exp :: "u64 \<Rightarrow> u64" where "f64_exp a = drop_bit 52 a AND 0x7FF"
definition f64_frac :: "u64 \<Rightarrow> u64" where "f64_frac a = a AND 0xFFFFFFFFFFFFF"
definition f64_mag :: "u64 \<Rightarrow> u64" where "f64_mag a = a AND 0x7FFFFFFFFFFFFFFF"
definition f64_neg :: "u64 \<Rightarrow> u64" where "f64_neg a = a XOR 0x8000000000000000"

definition f64_isnan :: "u64 \<Rightarrow> bool" where "f64_isnan a \<longleftrightarrow> f64_exp a = 0x7FF \<and> f64_frac a \<noteq> 0"
definition f64_issnan :: "u64 \<Rightarrow> bool" where "f64_issnan a \<longleftrightarrow> f64_isnan a \<and> a AND 0x0008000000000000 = 0"
definition f64_isinf :: "u64 \<Rightarrow> bool" where "f64_isinf a \<longleftrightarrow> f64_exp a = 0x7FF \<and> f64_frac a = 0"
definition f64_isfinite :: "u64 \<Rightarrow> bool" where "f64_isfinite a \<longleftrightarrow> f64_exp a \<noteq> 0x7FF"
definition f64_isnormal :: "u64 \<Rightarrow> bool" where
  "f64_isnormal a \<longleftrightarrow> f64_exp a \<noteq> 0x7FF \<and> f64_exp a \<noteq> 0"
definition f64_issubnormal :: "u64 \<Rightarrow> bool" where
  "f64_issubnormal a \<longleftrightarrow> f64_exp a = 0 \<and> f64_frac a \<noteq> 0"

text \<open>Comparisons: false when an operand is not a number, the two zeros equal.\<close>

definition f64_key :: "u64 \<Rightarrow> int" where
  "f64_key a = (if f64_sign a then - uint (f64_mag a) else uint (f64_mag a))"

definition f64_eq :: "u64 \<Rightarrow> u64 \<Rightarrow> bool" where
  "f64_eq a b \<longleftrightarrow> \<not> f64_isnan a \<and> \<not> f64_isnan b \<and> f64_key a = f64_key b"
definition f64_lt :: "u64 \<Rightarrow> u64 \<Rightarrow> bool" where
  "f64_lt a b \<longleftrightarrow> \<not> f64_isnan a \<and> \<not> f64_isnan b \<and> f64_key a < f64_key b"
definition f64_le :: "u64 \<Rightarrow> u64 \<Rightarrow> bool" where
  "f64_le a b \<longleftrightarrow> \<not> f64_isnan a \<and> \<not> f64_isnan b \<and> f64_key a \<le> f64_key b"

definition f64_quiet_NaN :: u64 where "f64_quiet_NaN = 0x7FF8000000000000"

definition f64_nearbyint :: "host_rm \<Rightarrow> u64 \<Rightarrow> int" where
  "f64_nearbyint md a =
     (let e = uint (f64_exp a);
          m = (if e = 0 then uint (f64_frac a) else uint (f64_frac a) + 2 ^ 52);
          m = (if f64_sign a then - m else m)
      in round_scaled md m ((if e = 0 then 1 else e) - 1075))"

text \<open>\<open>FCLASS\<close>: one bit of ten by the class of the operand.\<close>

definition f64_class :: "u64 \<Rightarrow> u64" where
  "f64_class a =
     (if f64_sign a \<and> f64_isinf a then 1
      else if f64_sign a \<and> f64_isnormal a then 2
      else if f64_sign a \<and> f64_issubnormal a then 4
      else if f64_sign a \<and> f64_eq a 0 then 8
      else if \<not> f64_sign a \<and> f64_eq a 0 then 16
      else if \<not> f64_sign a \<and> f64_issubnormal a then 32
      else if \<not> f64_sign a \<and> f64_isnormal a then 64
      else if \<not> f64_sign a \<and> f64_isinf a then 128
      else if f64_isnan a \<and> a AND 0x0008000000000000 = 0 then 256
      else if f64_isnan a then 512
      else 0)"

definition f64_min_max :: "bool \<Rightarrow> HostFloat \<Rightarrow> u64 \<Rightarrow> u64 \<Rightarrow> u64 \<times> FeExcept" where
  "f64_min_max is_min H a b =
     (if f64_isnan a \<and> \<not> f64_isnan b then (b, no_except)
      else if \<not> f64_isnan a \<and> f64_isnan b then (a, no_except)
      else let cmp = invalid_if (f64_sign a \<noteq> f64_sign b \<and> (f64_issnan a \<or> f64_issnan b))
           in if f64_sign a \<noteq> f64_sign b \<and> f64_eq a b then (if is_min then 0x8000000000000000 else 0, cmp)
              else case (if is_min then f64_fmin H a b else f64_fmax H a b) of
                (r, x) \<Rightarrow> (r, either_except cmp x))"

subsection \<open>How an operation ends\<close>

text \<open>
  The paths out of the two functions. \<open>Falls\<close> leaves the \<open>switch\<close>: the exceptions raised
  are added to \<open>fcsr\<close>, the rounding mode is restored and the bits of \<open>result\<close> are
  returned. \<open>Restores\<close> returns its own value after restoring the rounding mode, and
  \<open>Leaks\<close> returns without restoring it.
\<close>

datatype fp_path =
    Falls u64 FeExcept u8
  | Restores u64 u8
  | Leaks u64 u8

definition fp_finish :: "host_rm \<Rightarrow> host_rm \<Rightarrow> fp_path \<Rightarrow> (u64 \<times> u8) \<times> host_rm" where
  "fp_finish original_rm current_rm p = (case p of
       Falls res raised fcsr \<Rightarrow> ((res, add_raised raised fcsr), original_rm)
     | Restores res fcsr \<Rightarrow> ((res, fcsr), original_rm)
     | Leaks res fcsr \<Rightarrow> ((res, fcsr), current_rm))"

text \<open>\<open>FEQ\<close>, \<open>FLT\<close> and \<open>FLE\<close> return early when the comparison holds.\<close>

definition fp_compare :: "bool \<Rightarrow> fp_path" where
  "fp_compare holds = (if holds then Leaks 1 0 else Falls 0 no_except 0)"

subsection \<open>Single precision operations\<close>

definition fallf32 :: "u32 \<times> FeExcept \<Rightarrow> fp_path" where
  "fallf32 r = Falls (ucast (fst r)) (snd r) 0"

text \<open>Division and square root test their operand themselves.\<close>

definition f32_fdiv :: "HostFloat \<Rightarrow> host_rm \<Rightarrow> u32 \<Rightarrow> u32 \<Rightarrow> fp_path" where
  "f32_fdiv H md a b =
     (let cmp = invalid_if (f32_issnan b)
      in if f32_eq b 0 then Falls (ucast f32_quiet_NaN) cmp FCSR_DIV_BY_ZERO
         else case f32_div H md a b of (r, x) \<Rightarrow> fallf32 (r, either_except cmp x))"

definition f32_fsqrt :: "HostFloat \<Rightarrow> host_rm \<Rightarrow> u32 \<Rightarrow> fp_path" where
  "f32_fsqrt H md a =
     (let cmp = invalid_if (f32_isnan a)
      in if f32_lt a 0 then Falls (ucast f32_quiet_NaN) cmp FCSR_INVALID_OP
         else case f32_sqrt H md a of (r, x) \<Rightarrow> fallf32 (r, either_except cmp x))"

text \<open>Conversions to integers saturate with the limits compared in floating point.\<close>

definition f32_to_w :: "host_rm \<Rightarrow> u32 \<Rightarrow> fp_path result" where
  "f32_to_w md a =
     (if \<not> f32_isfinite a \<or> f32_lt 0x4F000000 a \<or> f32_lt a 0xCF000000
      then Inr (Restores (if f32_lt 0 a then scast INT32_MAX else scast INT32_MIN) FCSR_INVALID_OP)
      else bindr (cast_signed 32 (f32_nearbyint md a)) (\<lambda>n. Inr (Restores n 0)))"

definition f32_to_wu :: "host_rm \<Rightarrow> u32 \<Rightarrow> fp_path result" where
  "f32_to_wu md a =
     (if \<not> f32_isfinite a \<or> f32_lt 0x4F800000 a \<or> f32_lt a 0
      then Inr (Restores (if f32_lt a 0 then 0 else -1) FCSR_INVALID_OP)
      else bindr (cast_unsigned 32 (f32_nearbyint md a)) (\<lambda>n. Inr (Restores (scast (ucast n :: u32)) 0)))"

definition f32_to_l :: "host_rm \<Rightarrow> u32 \<Rightarrow> fp_path result" where
  "f32_to_l md a =
     (if \<not> f32_isfinite a \<or> f32_lt 0x5F000000 a \<or> f32_lt a 0xDF000000
      then Inr (Restores (if f32_lt a 0 then INT64_MIN else INT64_MAX) FCSR_INVALID_OP)
      else bindr (cast_signed 64 (f32_nearbyint md a)) (\<lambda>n. Inr (Restores n 0)))"

definition f32_to_lu :: "host_rm \<Rightarrow> u32 \<Rightarrow> fp_path result" where
  "f32_to_lu md a =
     (if \<not> f32_isfinite a \<or> f32_lt 0x5F800000 a \<or> f32_lt a 0
      then Inr (Restores (if f32_lt a 0 then 0 else -1) FCSR_INVALID_OP)
      else bindr (cast_unsigned 64 (f32_nearbyint md a)) (\<lambda>n. Inr (Restores n 0)))"

definition fp_single :: "HostFloat \<Rightarrow> host_rm \<Rightarrow> SingleOp \<Rightarrow> u64 \<Rightarrow> u64 \<Rightarrow> u64 \<Rightarrow> fp_path result" where
  "fp_single H md op ina inb inc =
     (let a = ucast ina :: u32; b = ucast inb :: u32; c = ucast inc :: u32 in case op of
        kFmadd_s \<Rightarrow> Inr (fallf32 (f32_fma H md a b c))
      | kFmsub_s \<Rightarrow> Inr (fallf32 (f32_fma H md a b (f32_neg c)))
      | kFnmadd_s \<Rightarrow> Inr (fallf32 (f32_fma H md (f32_neg a) b (f32_neg c)))
      | kFnmsub_s \<Rightarrow> Inr (fallf32 (f32_fma H md (f32_neg a) b c))
      | FADD_S \<Rightarrow> Inr (fallf32 (f32_add H md a b))
      | FSUB_S \<Rightarrow> Inr (fallf32 (f32_sub H md a b))
      | FMUL_S \<Rightarrow> Inr (fallf32 (f32_mul H md a b))
      | FDIV_S \<Rightarrow> Inr (f32_fdiv H md a b)
      | FSQRT_S \<Rightarrow> Inr (f32_fsqrt H md a)
      | FCVT_W_S \<Rightarrow> f32_to_w md a
      | FCVT_WU_S \<Rightarrow> f32_to_wu md a
      | FCVT_L_S \<Rightarrow> f32_to_l md a
      | FCVT_LU_S \<Rightarrow> f32_to_lu md a
      | FCVT_S_W \<Rightarrow> Inr (fallf32 (f32_of_int H md (sint a)))
      | FCVT_S_WU \<Rightarrow> Inr (fallf32 (f32_of_int H md (uint a)))
      | FCVT_S_L \<Rightarrow> Inr (fallf32 (f32_of_int H md (sint ina)))
      | FCVT_S_LU \<Rightarrow> Inr (fallf32 (f32_of_int H md (uint ina)))
      | FSGNJ_S \<Rightarrow> Inr (fallf32 ((a AND 0x7FFFFFFF) OR (b AND 0x80000000), no_except))
      | FSGNJN_S \<Rightarrow> Inr (fallf32 ((a AND 0x7FFFFFFF) OR (NOT b AND 0x80000000), no_except))
      | FSGNJX_S \<Rightarrow> Inr (fallf32 ((a AND 0x7FFFFFFF) OR ((a XOR b) AND 0x80000000), no_except))
      | FMIN_S \<Rightarrow> Inr (fallf32 (f32_min_max True H a b))
      | FMAX_S \<Rightarrow> Inr (fallf32 (f32_min_max False H a b))
      | FEQ_S \<Rightarrow> Inr (fp_compare (f32_eq a b))
      | FLT_S \<Rightarrow> Inr (fp_compare (f32_lt a b))
      | FLE_S \<Rightarrow> Inr (fp_compare (f32_le a b))
      | FCLASS_S \<Rightarrow> Inr (Restores (f32_class a) 0)
      | FMV_X_W \<Rightarrow> Inr (Leaks (scast a) 0)
      | FMV_W_X \<Rightarrow> Inr (fallf32 (a, no_except)))"

definition fpexecute :: "HostFloat \<Rightarrow> host_rm \<Rightarrow> AluOp \<Rightarrow> u64 \<Rightarrow> u64 \<Rightarrow> u64 \<Rightarrow> u8 \<Rightarrow>
    ((u64 \<times> u8) \<times> host_rm) result" where
  "fpexecute H original_rm op ina inb inc rm =
     (let md = set_round rm original_rm in
      bindr (case op of
          IntOp i \<Rightarrow> (if i = kAdd
            then (if add_overflow ina inb then Inl Undefined else Inr (Leaks (ina + inb) 0))
            else Inr (Falls 0 no_except 0))
        | SingleOp s \<Rightarrow> fp_single H md s ina inb inc
        | DoubleOp _ \<Rightarrow> Inr (Falls 0 no_except 0))
        (\<lambda>p. Inr (fp_finish original_rm md p)))"

subsection \<open>Double precision operations\<close>

definition fallf64 :: "u64 \<times> FeExcept \<Rightarrow> fp_path" where
  "fallf64 r = Falls (fst r) (snd r) 0"

text \<open>Division and square root test their operand themselves.\<close>

definition f64_fdiv :: "HostFloat \<Rightarrow> host_rm \<Rightarrow> u64 \<Rightarrow> u64 \<Rightarrow> fp_path" where
  "f64_fdiv H md a b =
     (let cmp = invalid_if (f64_issnan b)
      in if f64_eq b 0 then Falls f64_quiet_NaN cmp FCSR_DIV_BY_ZERO
         else case f64_div H md a b of (r, x) \<Rightarrow> fallf64 (r, either_except cmp x))"

definition f64_fsqrt :: "HostFloat \<Rightarrow> host_rm \<Rightarrow> u64 \<Rightarrow> fp_path" where
  "f64_fsqrt H md a =
     (let cmp = invalid_if (f64_isnan a)
      in if f64_lt a 0 then Falls f64_quiet_NaN cmp FCSR_INVALID_OP
         else case f64_sqrt H md a of (r, x) \<Rightarrow> fallf64 (r, either_except cmp x))"

text \<open>Conversions to integers saturate with the limits compared in floating point.\<close>

definition f64_to_w :: "host_rm \<Rightarrow> u64 \<Rightarrow> fp_path result" where
  "f64_to_w md a =
     (if \<not> f64_isfinite a \<or> f64_lt 0x41DFFFFFFFC00000 a \<or> f64_lt a 0xC1E0000000000000
      then Inr (Restores (if f64_lt a 0 then scast INT32_MIN else scast INT32_MAX) FCSR_INVALID_OP)
      else bindr (cast_signed 32 (f64_nearbyint md a)) (\<lambda>n. Inr (Restores n 0)))"

definition f64_to_wu :: "host_rm \<Rightarrow> u64 \<Rightarrow> fp_path result" where
  "f64_to_wu md a =
     (if \<not> f64_isfinite a \<or> f64_lt 0x41EFFFFFFFE00000 a \<or> f64_lt a 0
      then Inr (Restores (if f64_lt a 0 then 0 else -1) FCSR_INVALID_OP)
      else bindr (cast_unsigned 32 (f64_nearbyint md a)) (\<lambda>n. Inr (Restores (scast (ucast n :: u32)) 0)))"

definition f64_to_l :: "host_rm \<Rightarrow> u64 \<Rightarrow> fp_path result" where
  "f64_to_l md a =
     (if \<not> f64_isfinite a \<or> f64_lt 0x43E0000000000000 a \<or> f64_lt a 0xC3E0000000000000
      then Inr (Restores (if f64_lt a 0 then INT64_MIN else INT64_MAX) FCSR_INVALID_OP)
      else bindr (cast_signed 64 (f64_nearbyint md a)) (\<lambda>n. Inr (Restores n 0)))"

definition f64_to_lu :: "host_rm \<Rightarrow> u64 \<Rightarrow> fp_path result" where
  "f64_to_lu md a =
     (if \<not> f64_isfinite a \<or> f64_lt 0x43F0000000000000 a \<or> f64_lt a 0
      then Inr (Restores (if f64_lt a 0 then 0 else -1) FCSR_INVALID_OP)
      else bindr (cast_unsigned 64 (f64_nearbyint md a)) (\<lambda>n. Inr (Restores n 0)))"

definition fp_double :: "HostFloat \<Rightarrow> host_rm \<Rightarrow> DoubleOp \<Rightarrow> u64 \<Rightarrow> u64 \<Rightarrow> u64 \<Rightarrow> fp_path result" where
  "fp_double H md op a b c = (case op of
        FMADD_D \<Rightarrow> Inr (fallf64 (f64_fma H md a b c))
      | FMSUB_D \<Rightarrow> Inr (fallf64 (f64_fma H md a b (f64_neg c)))
      | FNMADD_D \<Rightarrow> Inr (fallf64 (f64_fma H md (f64_neg a) b (f64_neg c)))
      | FNMSUB_D \<Rightarrow> Inr (fallf64 (f64_fma H md (f64_neg a) b c))
      | FADD_D \<Rightarrow> Inr (fallf64 (f64_add H md a b))
      | FSUB_D \<Rightarrow> Inr (fallf64 (f64_sub H md a b))
      | FMUL_D \<Rightarrow> Inr (fallf64 (f64_mul H md a b))
      | FDIV_D \<Rightarrow> Inr (f64_fdiv H md a b)
      | FSQRT_D \<Rightarrow> Inr (f64_fsqrt H md a)
      | FCVT_W_D \<Rightarrow> f64_to_w md a
      | FCVT_WU_D \<Rightarrow> f64_to_wu md a
      | FCVT_L_D \<Rightarrow> f64_to_l md a
      | FCVT_LU_D \<Rightarrow> f64_to_lu md a
      | FCVT_D_W \<Rightarrow> Inr (fallf64 (f64_of_int H md (sint (ucast a :: u32))))
      | FCVT_D_WU \<Rightarrow> Inr (fallf64 (f64_of_int H md (uint (ucast a :: u32))))
      | FCVT_D_L \<Rightarrow> Inr (fallf64 (f64_of_int H md (sint a)))
      | FSGNJ_D \<Rightarrow> Inr (fallf64 ((a AND 0x7FFFFFFFFFFFFFFF) OR (b AND 0x8000000000000000), no_except))
      | FSGNJN_D \<Rightarrow> Inr (fallf64 ((a AND 0x7FFFFFFFFFFFFFFF) OR (NOT b AND 0x8000000000000000), no_except))
      | FSGNJX_D \<Rightarrow> Inr (fallf64 ((a AND 0x7FFFFFFFFFFFFFFF) OR ((a XOR b) AND 0x8000000000000000), no_except))
      | FMIN_D \<Rightarrow> Inr (fallf64 (f64_min_max True H a b))
      | FMAX_D \<Rightarrow> Inr (fallf64 (f64_min_max False H a b))
      | FEQ_D \<Rightarrow> Inr (fp_compare (f64_eq a b))
      | FLT_D \<Rightarrow> Inr (fp_compare (f64_lt a b))
      | FLE_D \<Rightarrow> Inr (fp_compare (f64_le a b))
      | FCLASS_D \<Rightarrow> Inr (Restores (f64_class a) 0)
      | FCVT_D_S \<Rightarrow> (case f32_of_int H md (uint a) of (f, x) \<Rightarrow>
          case f64_of_f32 H f of (r, y) \<Rightarrow> Inr (fallf64 (r, either_except x y)))
      | FCVT_S_D \<Rightarrow> (case f64_of_int H md (uint a) of (d, x) \<Rightarrow>
          case f32_of_f64 H md d of (f, y) \<Rightarrow>
          case f64_of_f32 H f of (r, z) \<Rightarrow> Inr (fallf64 (r, either_except x (either_except y z))))
      | FMV_D_X \<Rightarrow> Inr (Leaks a 0)
      | FMV_X_D \<Rightarrow> Inr (fallf64 (a, no_except))
      | FCVT_D_LU \<Rightarrow> Inr (Falls 0 no_except 0))"

text \<open>
  The one single-precision case label among the double-precision ones is
  \<open>FCVT_S_LU\<close>; every other operation that is not listed leaves \<open>result\<close> zero. The status
  returned has type \<open>bool\<close>.
\<close>

definition dfpexecute :: "HostFloat \<Rightarrow> host_rm \<Rightarrow> AluOp \<Rightarrow> u64 \<Rightarrow> u64 \<Rightarrow> u64 \<Rightarrow> u8 \<Rightarrow>
    ((u64 \<times> bool) \<times> host_rm) result" where
  "dfpexecute H original_rm op ina inb inc rm =
     (let md = set_round rm original_rm in
      bindr (case op of
          IntOp i \<Rightarrow> (if i = kAdd
            then (if add_overflow ina inb then Inl Undefined else Inr (Leaks (ina + inb) 0))
            else Inr (Falls 0 no_except 0))
        | SingleOp s \<Rightarrow> Inr (if s = FCVT_S_LU then fallf64 (f64_of_int H md (uint ina))
                              else Falls 0 no_except 0)
        | DoubleOp d \<Rightarrow> fp_double H md d ina inb inc)
        (\<lambda>p. case fp_finish original_rm md p of ((res, fcsr), m) \<Rightarrow> Inr ((res, fcsr \<noteq> 0), m)))"

end
