(* ===== verification/ControlUnit.thy ===== *)
theory ControlUnit
  imports Instructions AluFp
begin

text \<open>
  The control unit: class \<open>ControlUnit\<close> (include/vm/control_unit_base.h,
  src/vm/control_unit_base.cpp) and \<open>RVSSControlUnit\<close>
  (src/vm/rvss/rvss_control_unit.cpp). \<open>GetAluSignal\<close> is one \<open>switch\<close> over the opcode
  whose cases switch over the function fields; here each larger case is a function of its
  own, and a field value without a case is \<open>kNone\<close>.
\<close>

record ControlUnit =
  reg_write :: bool
  branch :: bool
  alu_src :: bool
  mem_read :: bool
  mem_write :: bool
  mem_to_reg :: bool
  pc_src :: bool
  ldbm_start :: bool
  bigmul_start :: bool
  alu_op :: bool

definition new_ControlUnit :: ControlUnit where
  "new_ControlUnit = \<lparr>reg_write = False, branch = False, alu_src = False, mem_read = False,
     mem_write = False, mem_to_reg = False, pc_src = False, ldbm_start = False,
     bigmul_start = False, alu_op = False\<rparr>"

definition ControlUnit_Reset :: "ControlUnit \<Rightarrow> ControlUnit" where
  "ControlUnit_Reset c = c\<lparr>alu_src := False, mem_to_reg := False, reg_write := False,
     mem_read := False, mem_write := False, branch := False, alu_op := False,
     ldbm_start := False, bigmul_start := False\<rparr>"

definition SetControlSignals :: "ControlUnit \<Rightarrow> u32 \<Rightarrow> ControlUnit" where
  "SetControlSignals c w =
     (let op = opcode_of w;
          c = c\<lparr>alu_src := False, mem_to_reg := False, reg_write := False, mem_read := False,
                mem_write := False, branch := False, alu_op := False,
                ldbm_start := False, bigmul_start := False\<rparr>
      in if op = 0x33 then c\<lparr>reg_write := True, alu_op := True\<rparr>
         else if op = 0x2A then c\<lparr>mem_read := True, reg_write := False, ldbm_start := True\<rparr>
         else if op = 0x3F then c\<lparr>bigmul_start := True\<rparr>
         else if op = 0x03 then c\<lparr>alu_src := True, mem_to_reg := True, reg_write := True, mem_read := True\<rparr>
         else if op = 0x23 then c\<lparr>alu_src := True, alu_op := True, mem_write := True\<rparr>
         else if op = 0x63 then c\<lparr>alu_op := True, branch := True\<rparr>
         else if op = 0x13 then c\<lparr>alu_src := True, reg_write := True, alu_op := True\<rparr>
         else if op = 0x37 then c\<lparr>alu_src := True, reg_write := True, alu_op := True\<rparr>
         else if op = 0x17 then c\<lparr>alu_src := True, reg_write := True, alu_op := True\<rparr>
         else if op = 0x6F then c\<lparr>reg_write := True, branch := True\<rparr>
         else if op = 0x67 then c\<lparr>alu_src := True, reg_write := True, branch := True\<rparr>
         else if op = 0x01 then c\<lparr>reg_write := True, alu_op := True\<rparr>
         else if op = 0x07 then c\<lparr>alu_src := True, mem_to_reg := True, reg_write := True, mem_read := True\<rparr>
         else if op = 0x27 then c\<lparr>alu_src := True, alu_op := True, mem_write := True\<rparr>
         else if op = 0x53 then c\<lparr>reg_write := True, alu_op := True\<rparr>
         else c)"

subsection \<open>The ALU operation of an instruction\<close>

definition signal_R :: "u8 \<Rightarrow> u8 \<Rightarrow> IntOp" where
  "signal_R f3 f7 =
     (if f3 = 0 then (if f7 = 0 then kAdd else if f7 = 0x20 then kSub else if f7 = 1 then kMul else kNone)
      else if f3 = 1 then (if f7 = 0 then kSll else if f7 = 1 then kMulh else kNone)
      else if f3 = 2 then (if f7 = 0 then kSlt else if f7 = 1 then kMulhsu else kNone)
      else if f3 = 3 then (if f7 = 0 then kSltu else if f7 = 1 then kMulhu else kNone)
      else if f3 = 4 then (if f7 = 0 then kXor else if f7 = 1 then kDiv else kNone)
      else if f3 = 5 then (if f7 = 0 then kSrl else if f7 = 0x20 then kSra else if f7 = 1 then kDivu else kNone)
      else if f3 = 6 then (if f7 = 0 then kOr else if f7 = 1 then kRem else kNone)
      else if f3 = 7 then (if f7 = 0 then kAnd else if f7 = 1 then kRemu else kNone)
      else kNone)"

definition signal_I :: "u8 \<Rightarrow> u8 \<Rightarrow> IntOp" where
  "signal_I f3 f7 =
     (if f3 = 0 then kAdd
      else if f3 = 1 then kSll
      else if f3 = 2 then kSlt
      else if f3 = 3 then kSltu
      else if f3 = 4 then kXor
      else if f3 = 5 then (if f7 = 0 then kSrl else if f7 = 0x20 then kSra else kNone)
      else if f3 = 6 then kOr
      else if f3 = 7 then kAnd
      else kNone)"

definition signal_B :: "u8 \<Rightarrow> IntOp" where
  "signal_B f3 =
     (if f3 = 0 \<or> f3 = 1 then kSub
      else if f3 = 4 \<or> f3 = 5 then kSlt
      else if f3 = 6 \<or> f3 = 7 then kSltu
      else kNone)"

definition signal_IW :: "u8 \<Rightarrow> u8 \<Rightarrow> IntOp" where
  "signal_IW f3 f7 =
     (if f3 = 0 then kAddw
      else if f3 = 1 then kSllw
      else if f3 = 5 then (if f7 = 0 then kSrlw else if f7 = 0x20 then kSraw else kNone)
      else kNone)"

definition signal_W :: "u8 \<Rightarrow> u8 \<Rightarrow> IntOp" where
  "signal_W f3 f7 =
     (if f3 = 0 then (if f7 = 0 then kAddw else if f7 = 0x20 then kSubw else if f7 = 1 then kMulw else kNone)
      else if f3 = 1 then kSllw
      else if f3 = 4 then (if f7 = 1 then kDivw else kNone)
      else if f3 = 5 then (if f7 = 0 then kSrlw else if f7 = 0x20 then kSraw else if f7 = 1 then kDivuw else kNone)
      else if f3 = 6 then (if f7 = 1 then kRemw else kNone)
      else if f3 = 7 then (if f7 = 1 then kRemuw else kNone)
      else kNone)"

text \<open>Opcode 0x53, in the order of the code's cases.\<close>

definition signal_fp_arith :: "u8 \<Rightarrow> AluOp option" where
  "signal_fp_arith f7 =
     (if f7 = 0x00 then Some (SingleOp FADD_S)
      else if f7 = 0x01 then Some (DoubleOp FADD_D)
      else if f7 = 0x04 then Some (SingleOp FSUB_S)
      else if f7 = 0x05 then Some (DoubleOp FSUB_D)
      else if f7 = 0x08 then Some (SingleOp FMUL_S)
      else if f7 = 0x09 then Some (DoubleOp FMUL_D)
      else if f7 = 0x0C then Some (SingleOp FDIV_S)
      else if f7 = 0x0D then Some (DoubleOp FDIV_D)
      else if f7 = 0x2C then Some (SingleOp FSQRT_S)
      else if f7 = 0x2D then Some (DoubleOp FSQRT_D)
      else None)"

definition pick4 :: "u8 \<Rightarrow> AluOp \<Rightarrow> AluOp \<Rightarrow> AluOp \<Rightarrow> AluOp \<Rightarrow> AluOp" where
  "pick4 f a b c d = (if f = 0 then a else if f = 1 then b else if f = 2 then c else if f = 3 then d
     else IntOp kNone)"

definition signal_fp_convert :: "u8 \<Rightarrow> u8 \<Rightarrow> AluOp option" where
  "signal_fp_convert f7 f5 =
     (if f7 = 0x60 then Some (pick4 f5 (SingleOp FCVT_W_S) (SingleOp FCVT_WU_S) (SingleOp FCVT_L_S) (SingleOp FCVT_LU_S))
      else if f7 = 0x61 then Some (pick4 f5 (DoubleOp FCVT_W_D) (DoubleOp FCVT_WU_D) (DoubleOp FCVT_L_D) (DoubleOp FCVT_LU_D))
      else if f7 = 0x68 then Some (pick4 f5 (SingleOp FCVT_S_W) (SingleOp FCVT_S_WU) (SingleOp FCVT_S_L) (SingleOp FCVT_S_LU))
      else if f7 = 0x69 then Some (pick4 f5 (DoubleOp FCVT_D_W) (DoubleOp FCVT_D_WU) (DoubleOp FCVT_D_L) (DoubleOp FCVT_D_LU))
      else None)"

definition signal_fp_funct3 :: "u8 \<Rightarrow> u8 \<Rightarrow> AluOp option" where
  "signal_fp_funct3 f7 f3 =
     (let none = IntOp kNone in
      if f7 = 0x10 then Some (pick4 f3 (SingleOp FSGNJ_S) (SingleOp FSGNJN_S) (SingleOp FSGNJX_S) none)
      else if f7 = 0x11 then Some (pick4 f3 (DoubleOp FSGNJ_D) (DoubleOp FSGNJN_D) (DoubleOp FSGNJX_D) none)
      else if f7 = 0x14 then Some (pick4 f3 (SingleOp FMIN_S) (SingleOp FMAX_S) none none)
      else if f7 = 0x15 then Some (pick4 f3 (DoubleOp FMIN_D) (DoubleOp FMAX_D) none none)
      else if f7 = 0x50 then Some (pick4 f3 (SingleOp FLE_S) (SingleOp FLT_S) (SingleOp FEQ_S) none)
      else if f7 = 0x51 then Some (pick4 f3 (DoubleOp FLE_D) (DoubleOp FLT_D) (DoubleOp FEQ_D) none)
      else if f7 = 0x78 then Some (SingleOp FMV_W_X)
      else if f7 = 0x79 then Some (DoubleOp FMV_D_X)
      else if f7 = 0x70 then Some (pick4 f3 (SingleOp FMV_X_W) (SingleOp FCLASS_S) none none)
      else if f7 = 0x71 then Some (pick4 f3 (DoubleOp FMV_X_D) (DoubleOp FCLASS_D) none none)
      else None)"

definition signal_fp_fused :: "u8 \<Rightarrow> u8 \<Rightarrow> AluOp option" where
  "signal_fp_fused f7 f2 =
     (let none = IntOp kNone in
      if f7 = 0x43 then Some (pick4 f2 (SingleOp kFmadd_s) (DoubleOp FMADD_D) none none)
      else if f7 = 0x47 then Some (pick4 f2 (SingleOp kFmsub_s) (DoubleOp FMSUB_D) none none)
      else if f7 = 0x4B then Some (pick4 f2 (SingleOp kFnmadd_s) (DoubleOp FNMADD_D) none none)
      else if f7 = 0x4F then Some (pick4 f2 (SingleOp kFnmsub_s) (DoubleOp FNMSUB_D) none none)
      else None)"

definition signal_fp :: "u8 \<Rightarrow> u8 \<Rightarrow> u8 \<Rightarrow> u8 \<Rightarrow> AluOp" where
  "signal_fp f7 f3 f5 f2 =
     (case signal_fp_arith f7 of Some op \<Rightarrow> op | None \<Rightarrow>
      case signal_fp_convert f7 f5 of Some op \<Rightarrow> op | None \<Rightarrow>
      case signal_fp_funct3 f7 f3 of Some op \<Rightarrow> op | None \<Rightarrow>
      case signal_fp_fused f7 f2 of Some op \<Rightarrow> op | None \<Rightarrow> IntOp kNone)"

definition GetAluSignal :: "u32 \<Rightarrow> bool \<Rightarrow> AluOp" where
  "GetAluSignal w ALUOp =
     (let op = opcode_of w; f3 = funct3_of w; f7 = funct7_of w; f5 = rs2_of w;
          f2 = ucast (drop_bit 25 w AND 3) :: u8
      in if op = 0x33 then IntOp (signal_R f3 f7)
         else if op = 0x13 then IntOp (signal_I f3 f7)
         else if op = 0x63 then IntOp (signal_B f3)
         else if op = 0x03 \<or> op = 0x23 \<or> op = 0x67 \<or> op = 0x6F \<or> op = 0x37 \<or> op = 0x17 then IntOp kAdd
         else if op = 0x00 then IntOp kNone
         else if op = 0x73 then IntOp kNone
         else if op = 0x1B then IntOp (signal_IW f3 f7)
         else if op = 0x3B then IntOp (signal_W f3 f7)
         else if op = 0x43 then SingleOp kFmadd_s
         else if op = 0x53 then signal_fp f7 f3 f5 f2
         else if op = 0x07 then (if f3 = 2 \<or> f3 = 3 then IntOp kAdd else IntOp kNone)
         else if op = 0x27 then (if f3 = 2 \<or> f3 = 3 then IntOp kAdd else IntOp kNone)
         else IntOp kNone)"

end
