(* ===== verification/Bigmul.thy ===== *)
theory Bigmul
  imports Prelude
begin

text \<open>
  The big-integer multiplier: namespace \<open>bigmul_unit\<close> (include/vm/bigmul_unit.h,
  src/vm/bigmul_unit.cpp). Its global variables, the file's \<open>static\<close> ones included, are
  one record that every operation takes and returns. The C++ \<open>int\<close> variables are
  mathematical integers here: each is bounded by the array accesses that use it, which fail
  with \<open>Undefined\<close> outside the array long before an \<open>int\<close> could overflow.
  The first part translates the unit and its alternative pipelines, the second proves that
  the datapath the simulator runs computes the product.
\<close>

subsection \<open>State\<close>

record GenBatch =
  gen_count :: nat
  gen_i :: "int list"
  gen_j :: "int list"
  gen_valid :: bool

record LoadBatch =
  load_count :: nat
  load_Ai :: "u64 list"
  load_Bj :: "u64 list"
  load_valid :: bool

record MulBatch =
  lo :: u64
  hi :: u64
  hi2 :: u64
  mul_valid :: bool

record DelayItem =
  mb :: MulBatch
  remain :: int
  item_valid :: bool

record Acc =
  a0 :: u64
  a1 :: u64
  a2 :: u64

record BigmulUnit =
  bigmul_done :: bool
  ldbm_done :: bool
  ldbm_offset :: u64
  bigmul_prog :: u64
  write_offset :: u64
  write_done :: bool
  base_addr_A :: u64
  base_addr_B :: u64
  base_addr_res :: u64
  cacheA :: "u64 list"
  cacheB :: "u64 list"
  resultCache :: "u64 list"
  size_of_operand :: u64
  s_diag :: int
  i_min :: int
  i_max :: int
  k_iter :: int
  gen_done_this_diag :: bool
  pGEN :: GenBatch
  pLOAD :: LoadBatch
  pMUL :: MulBatch
  dq :: "DelayItem list"
  dq_len :: nat
  acc0 :: u64
  acc1 :: u64
  acc2 :: u64
  pending_depth_for_pMUL :: int
  accum :: "Acc list"
  accum_valid :: "bool list"

definition make_empty_gen :: GenBatch where
  "make_empty_gen = \<lparr>gen_count = 0, gen_i = replicate 25 0, gen_j = replicate 25 0, gen_valid = False\<rparr>"

definition make_empty_load :: LoadBatch where
  "make_empty_load =
     \<lparr>load_count = 0, load_Ai = replicate 25 0, load_Bj = replicate 25 0, load_valid = False\<rparr>"

definition make_empty_mul :: MulBatch where
  "make_empty_mul = \<lparr>lo = 0, hi = 0, hi2 = 0, mul_valid = False\<rparr>"

definition make_empty_item :: DelayItem where
  "make_empty_item = \<lparr>mb = make_empty_mul, remain = 0, item_valid = False\<rparr>"

definition empty_acc :: Acc where
  "empty_acc = \<lparr>a0 = 0, a1 = 0, a2 = 0\<rparr>"

text \<open>The state at program start, by the initialisers of the variables.\<close>

definition initial_unit :: BigmulUnit where
  "initial_unit = \<lparr>bigmul_done = True, ldbm_done = True, ldbm_offset = 0, bigmul_prog = 0,
     write_offset = 0, write_done = True, base_addr_A = 0, base_addr_B = 0, base_addr_res = 0,
     cacheA = replicate 64 0, cacheB = replicate 64 0, resultCache = replicate 128 0,
     size_of_operand = 64, s_diag = 0, i_min = 0, i_max = 0, k_iter = 0,
     gen_done_this_diag = False, pGEN = make_empty_gen, pLOAD = make_empty_load,
     pMUL = make_empty_mul, dq = replicate 5 make_empty_item, dq_len = 0,
     acc0 = 0, acc1 = 0, acc2 = 0, pending_depth_for_pMUL = 0,
     accum = replicate 4 empty_acc, accum_valid = replicate 4 False\<rparr>"

text \<open>An access to an array with an \<open>int\<close> index; outside the array it is undefined.\<close>

definition array_get :: "'a list \<Rightarrow> int \<Rightarrow> 'a result" where
  "array_get xs i = (if 0 \<le> i \<and> nat i < length xs then Inr (xs ! nat i) else Inl Undefined)"

definition array_set :: "'a list \<Rightarrow> int \<Rightarrow> 'a \<Rightarrow> 'a list result" where
  "array_set xs i v = (if 0 \<le> i \<and> nat i < length xs then Inr (xs[nat i := v]) else Inl Undefined)"

definition to_int :: "u64 \<Rightarrow> int" where
  "to_int x = sint (ucast x :: u32)"

subsection \<open>The 192-bit accumulator\<close>

definition acc_clear :: "BigmulUnit \<Rightarrow> BigmulUnit" where
  "acc_clear u = u\<lparr>acc0 := 0, acc1 := 0, acc2 := 0\<rparr>"

definition acc_add_u128 :: "u64 \<Rightarrow> u64 \<Rightarrow> BigmulUnit \<Rightarrow> BigmulUnit" where
  "acc_add_u128 l h u =
     (let t0 = ucast (acc0 u) + ucast l :: u128;
          c0 = ucast (drop_bit 64 t0) :: u64;
          t1 = ucast (acc1 u) + ucast h + ucast c0 :: u128;
          c1 = ucast (drop_bit 64 t1) :: u64
      in u\<lparr>acc0 := ucast t0, acc1 := ucast t1, acc2 := acc2 u + c1\<rparr>)"

definition acc_add_u192 :: "u64 \<Rightarrow> u64 \<Rightarrow> u64 \<Rightarrow> BigmulUnit \<Rightarrow> BigmulUnit" where
  "acc_add_u192 l h h2 u = (let u = acc_add_u128 l h u in u\<lparr>acc2 := acc2 u + h2\<rparr>)"

definition acc_shr_64 :: "BigmulUnit \<Rightarrow> BigmulUnit" where
  "acc_shr_64 u = u\<lparr>acc0 := acc1 u, acc1 := acc2 u, acc2 := 0\<rparr>"

definition acc_low64 :: "BigmulUnit \<Rightarrow> u64" where
  "acc_low64 u = acc0 u"

text \<open>
  The carry-save sum of a batch: one product is added to the 192-bit number
  \<open>(b0, b1, b2)\<close>. The four datapaths repeat this block of code.
\<close>

definition mul_add :: "u64 \<Rightarrow> u64 \<Rightarrow> u64 \<times> u64 \<times> u64 \<Rightarrow> u64 \<times> u64 \<times> u64" where
  "mul_add Ai Bj b = (case b of (b0, b1, b2) \<Rightarrow>
     let p = ucast Ai * ucast Bj :: u128;
         l = ucast p :: u64;
         h = ucast (drop_bit 64 p) :: u64;
         t0 = ucast b0 + ucast l :: u128;
         c0 = ucast (drop_bit 64 t0) :: u64;
         t1 = ucast b1 + ucast h + ucast c0 :: u128;
         c1 = ucast (drop_bit 64 t1) :: u64
     in (ucast t0, ucast t1, b2 + c1))"

subsection \<open>Delay queue\<close>

text \<open>\<open>ceil(log2(count))\<close> of the code, exact for the batch sizes that occur.\<close>

fun ceil_log2 :: "nat \<Rightarrow> nat" where
  "ceil_log2 n = (if n \<le> 1 then 0 else Suc (ceil_log2 ((n + 1) div 2)))"

declare ceil_log2.simps [simp del]

definition csa_depth_for_count :: "nat \<Rightarrow> int" where
  "csa_depth_for_count count =
     (if count \<le> 1 then 0
      else let d = int (ceil_log2 count) - 1;
               d = (if d < 0 then 0 else d)
           in if d > 4 then 4 else d)"

definition dq_pop_front :: "BigmulUnit \<Rightarrow> BigmulUnit" where
  "dq_pop_front u =
     (if dq_len u = 0 then u
      else let d = foldl (\<lambda>d i. d[i - 1 := d ! i]) (dq u) [1..<dq_len u]
           in u\<lparr>dq := d[dq_len u - 1 := make_empty_item], dq_len := dq_len u - 1\<rparr>)"

definition dq_push :: "MulBatch \<Rightarrow> int \<Rightarrow> BigmulUnit \<Rightarrow> BigmulUnit" where
  "dq_push m r u =
     (if r \<le> 0 then u
      else if dq_len u \<ge> 5 then u
      else u\<lparr>dq := (dq u)[dq_len u := \<lparr>mb = m, remain = r, item_valid = True\<rparr>], dq_len := dq_len u + 1\<rparr>)"

subsection \<open>Reset, start, snapshot and restore\<close>

definition reset :: "BigmulUnit \<Rightarrow> BigmulUnit" where
  "reset u =
     (let u = u\<lparr>ldbm_done := True, ldbm_offset := 0, bigmul_done := True, bigmul_prog := 0,
                write_done := True, write_offset := 0,
                base_addr_A := 0, base_addr_B := 0, base_addr_res := 0,
                cacheA := map (\<lambda>_. 0) (cacheA u), cacheB := map (\<lambda>_. 0) (cacheB u),
                resultCache := map (\<lambda>_. 0) (resultCache u),
                s_diag := 0, i_min := 0, i_max := 0, k_iter := 0, gen_done_this_diag := False,
                pGEN := make_empty_gen, pLOAD := make_empty_load, pMUL := make_empty_mul,
                dq := replicate 5 make_empty_item, dq_len := 0, pending_depth_for_pMUL := 0\<rparr>;
          u = acc_clear u
      in u\<lparr>accum := replicate 4 empty_acc, accum_valid := replicate 4 False\<rparr>)"

definition start_bigmul :: "BigmulUnit \<Rightarrow> BigmulUnit" where
  "start_bigmul u =
     (let u = u\<lparr>s_diag := 0, i_min := 0, i_max := 0, k_iter := 0, gen_done_this_diag := False,
                pGEN := make_empty_gen, pLOAD := make_empty_load, pMUL := make_empty_mul,
                dq := replicate 5 make_empty_item, dq_len := 0\<rparr>;
          u = acc_clear u;
          u = u\<lparr>accum := replicate 4 empty_acc, accum_valid := replicate 4 False\<rparr>
      in u\<lparr>bigmul_done := False, bigmul_prog := 1, write_done := True\<rparr>)"

definition GetBigmulDone :: "BigmulUnit \<Rightarrow> bool" where "GetBigmulDone u = bigmul_done u"
definition GetLdbmDone :: "BigmulUnit \<Rightarrow> bool" where "GetLdbmDone u = ldbm_done u"
definition GetWriteDone :: "BigmulUnit \<Rightarrow> bool" where "GetWriteDone u = write_done u"

record BigmulState =
  snap_bigmul_done :: bool
  snap_ldbm_done :: bool
  snap_write_done :: bool
  snap_ldbm_offset :: u64
  snap_bigmul_prog :: u64
  snap_write_offset :: u64
  snap_base_addr_A :: u64
  snap_base_addr_B :: u64
  snap_base_addr_res :: u64
  snap_cacheA :: "u64 list"
  snap_cacheB :: "u64 list"
  snap_resultCache :: "u64 list"

definition snapshot :: "BigmulUnit \<Rightarrow> BigmulState" where
  "snapshot u = \<lparr>snap_bigmul_done = bigmul_done u, snap_ldbm_done = ldbm_done u,
     snap_write_done = write_done u, snap_ldbm_offset = ldbm_offset u,
     snap_bigmul_prog = bigmul_prog u, snap_write_offset = write_offset u,
     snap_base_addr_A = base_addr_A u, snap_base_addr_B = base_addr_B u,
     snap_base_addr_res = base_addr_res u, snap_cacheA = cacheA u, snap_cacheB = cacheB u,
     snap_resultCache = resultCache u\<rparr>"

definition restore :: "BigmulState \<Rightarrow> BigmulUnit \<Rightarrow> BigmulUnit" where
  "restore s u = u\<lparr>bigmul_done := snap_bigmul_done s, ldbm_done := snap_ldbm_done s,
     write_done := snap_write_done s, ldbm_offset := snap_ldbm_offset s,
     bigmul_prog := snap_bigmul_prog s, write_offset := snap_write_offset s,
     base_addr_A := snap_base_addr_A s, base_addr_B := snap_base_addr_B s,
     base_addr_res := snap_base_addr_res s, cacheA := snap_cacheA s, cacheB := snap_cacheB s,
     resultCache := snap_resultCache s\<rparr>"

subsection \<open>One cycle of the single-cycle datapath\<close>

text \<open>The \<open>while\<close> loop, with \<open>r = BATCH - processed\<close> rounds left to it.\<close>

fun batch_loop :: "nat \<Rightarrow> BigmulUnit \<Rightarrow> u64 \<times> u64 \<times> u64 \<Rightarrow> nat \<Rightarrow>
    (BigmulUnit \<times> (u64 \<times> u64 \<times> u64) \<times> nat) result" where
  "batch_loop 0 u b processed = Inr (u, b, processed)"
| "batch_loop (Suc r) u b processed =
     (if k_iter u \<le> i_max u then
        let ii = k_iter u; jj = s_diag u - ii; u = u\<lparr>k_iter := k_iter u + 1\<rparr>
        in bindr (array_get (cacheA u) ii) (\<lambda>Ai. bindr (array_get (cacheB u) jj) (\<lambda>Bj.
             batch_loop r u (mul_add Ai Bj b) (processed + 1)))
      else Inr (u, b, processed))"

definition BATCH :: nat where "BATCH = 25"

definition next_diag :: "int \<Rightarrow> BigmulUnit \<Rightarrow> BigmulUnit" where
  "next_diag lim u =
     (let s = s_diag u + 1;
          mn = (if s > lim then s - lim else 0);
          mx = (if s < lim then s else lim)
      in u\<lparr>s_diag := s, i_min := mn, i_max := mx, k_iter := mn\<rparr>)"

definition singlecycle :: "BigmulUnit \<Rightarrow> BigmulUnit result" where
  "singlecycle u =
     (if bigmul_done u then Inr u
      else let u = (if bigmul_prog u = 0 then start_bigmul u else u)
           in bindr (batch_loop BATCH u (0, 0, 0) 0) (\<lambda>(u, (b0, b1, b2), processed).
             let u = (if processed > 0 then acc_add_u192 b0 b1 b2 u else u)
             in if k_iter u > i_max u then
                  bindr (array_set (resultCache u) (s_diag u) (acc_low64 u)) (\<lambda>rc.
                    let u = acc_shr_64 (u\<lparr>resultCache := rc\<rparr>);
                        LAST = to_int (size_of_operand u * 2 - 2)
                    in if s_diag u = LAST then
                         bindr (array_set (resultCache u) (LAST + 1) (acc_low64 u)) (\<lambda>rc.
                           Inr (u\<lparr>resultCache := rc, bigmul_prog := 0, write_done := False\<rparr>))
                       else Inr (next_diag (to_int (size_of_operand u - 1)) u))
                else Inr u))"

subsection \<open>The datapath with a four-stage carry-save pipeline\<close>

text \<open>Steps 2 and 3: the oldest batch retires into the accumulator, the others move on.\<close>

definition csa_retire_shift :: "BigmulUnit \<Rightarrow> BigmulUnit" where
  "csa_retire_shift u =
     (let old_accum = accum u; old_valid = accum_valid u; x = old_accum ! 3;
          u = (if old_valid ! 3 then acc_add_u192 (a0 x) (a1 x) (a2 x) u else u);
          stage = (\<lambda>s. if old_valid ! (s - 1) then (old_accum ! (s - 1), True) else (empty_acc, False))
      in u\<lparr>accum := [empty_acc, fst (stage 1), fst (stage 2), fst (stage 3)],
           accum_valid := [False, snd (stage 1), snd (stage 2), snd (stage 3)]\<rparr>)"

definition csa_only_pipeline :: "BigmulUnit \<Rightarrow> BigmulUnit result" where
  "csa_only_pipeline u =
     (if bigmul_done u then Inr u
      else let u = (if bigmul_prog u = 0 then start_bigmul u else u);
               u = csa_retire_shift u
           in bindr (batch_loop BATCH u (0, 0, 0) 0) (\<lambda>(u, (b0, b1, b2), processed).
             let u = (if k_iter u > i_max u then u\<lparr>gen_done_this_diag := True\<rparr> else u);
                 u = (if processed > 0
                      then u\<lparr>accum := (accum u)[0 := \<lparr>a0 = b0, a1 = b1, a2 = b2\<rparr>],
                             accum_valid := (accum_valid u)[0 := True]\<rparr> else u);
                 pipe_empty = (\<forall>v \<in> set (accum_valid u). \<not> v)
             in if gen_done_this_diag u \<and> pipe_empty then
                  bindr (array_set (resultCache u) (s_diag u) (acc_low64 u)) (\<lambda>rc.
                    let u = acc_shr_64 (u\<lparr>resultCache := rc\<rparr>);
                        lim = to_int (size_of_operand u) - 1;
                        LAST = to_int (size_of_operand u * 2) - 2
                    in if s_diag u = LAST then
                         bindr (array_set (resultCache u) (LAST + 1) (acc_low64 u)) (\<lambda>rc.
                           Inr (u\<lparr>resultCache := rc, bigmul_prog := 0, write_done := False\<rparr>))
                       else Inr ((next_diag lim u)\<lparr>gen_done_this_diag := False,
                              accum := replicate 4 empty_acc, accum_valid := replicate 4 False\<rparr>))
                else Inr u))"

subsection \<open>The stages of the three- and seven-stage datapaths\<close>

text \<open>GEN: the index pairs of the next batch, \<open>r\<close> of the 25 places left.\<close>

fun gen_loop :: "nat \<Rightarrow> BigmulUnit \<Rightarrow> GenBatch \<Rightarrow> nat \<Rightarrow> BigmulUnit \<times> GenBatch \<times> nat" where
  "gen_loop 0 u g produced = (u, g, produced)"
| "gen_loop (Suc r) u g produced =
     (if k_iter u \<le> i_max u then
        let ii = k_iter u; jj = s_diag u - ii
        in gen_loop r (u\<lparr>k_iter := k_iter u + 1\<rparr>)
             (g\<lparr>gen_i := (gen_i g)[produced := ii], gen_j := (gen_j g)[produced := jj]\<rparr>) (produced + 1)
      else (u, g, produced))"

definition gen_stage :: "BigmulUnit \<Rightarrow> BigmulUnit \<times> GenBatch" where
  "gen_stage u =
     (if gen_done_this_diag u then (u, make_empty_gen)
      else case gen_loop 25 u make_empty_gen 0 of (u, g, produced) \<Rightarrow>
        (if k_iter u > i_max u then u\<lparr>gen_done_this_diag := True\<rparr> else u,
         g\<lparr>gen_count := produced, gen_valid := produced > 0\<rparr>))"

text \<open>LOAD: the operands the indices name.\<close>

fun load_loop :: "BigmulUnit \<Rightarrow> GenBatch \<Rightarrow> nat list \<Rightarrow> LoadBatch \<Rightarrow> LoadBatch result" where
  "load_loop u g [] l = Inr l"
| "load_loop u g (t # ts) l =
     bindr (array_get (cacheA u) (gen_i g ! t)) (\<lambda>x. bindr (array_get (cacheB u) (gen_j g ! t)) (\<lambda>y.
       load_loop u g ts (l\<lparr>load_Ai := (load_Ai l)[t := x], load_Bj := (load_Bj l)[t := y]\<rparr>)))"

text \<open>MUL: the 192-bit sum of the products.\<close>

definition mul_loop :: "LoadBatch \<Rightarrow> u64 \<times> u64 \<times> u64" where
  "mul_loop l = foldl (\<lambda>b t. mul_add (load_Ai l ! t) (load_Bj l ! t) b) (0, 0, 0) [0..<load_count l]"

definition staged3_mul :: "BigmulUnit \<Rightarrow> MulBatch" where
  "staged3_mul u =
     (if load_valid (pLOAD u) \<and> load_count (pLOAD u) > 0
      then case mul_loop (pLOAD u) of (b0, b1, b2) \<Rightarrow> \<lparr>lo = b0, hi = b1, hi2 = b2, mul_valid = True\<rparr>
      else make_empty_mul)"

definition staged3_load :: "BigmulUnit \<Rightarrow> LoadBatch result" where
  "staged3_load u =
     (let g = pGEN u
      in if gen_valid g \<and> gen_count g > 0
         then bindr (load_loop u g [0..<gen_count g] (make_empty_load\<lparr>load_count := gen_count g\<rparr>))
                (\<lambda>l. Inr (l\<lparr>load_valid := True\<rparr>))
         else Inr make_empty_load)"

definition staged3pipeline :: "BigmulUnit \<Rightarrow> BigmulUnit result" where
  "staged3pipeline u =
     (if bigmul_done u then Inr u
      else let u = (if bigmul_prog u = 0 then start_bigmul u else u);
               m = pMUL u;
               u = (if mul_valid m then acc_add_u192 (lo m) (hi m) (hi2 m) u else u);
               nextMUL = staged3_mul u
           in bindr (staged3_load u) (\<lambda>nextLOAD.
             case gen_stage u of (u, nextGEN) \<Rightarrow>
             let u = u\<lparr>pMUL := nextMUL, pLOAD := nextLOAD, pGEN := nextGEN\<rparr>;
                 pipe_empty = (\<not> gen_valid (pGEN u) \<and> \<not> load_valid (pLOAD u) \<and> \<not> mul_valid (pMUL u))
             in if gen_done_this_diag u \<and> pipe_empty then
                  bindr (array_set (resultCache u) (s_diag u) (acc_low64 u)) (\<lambda>rc.
                    let u = acc_shr_64 (u\<lparr>resultCache := rc\<rparr>)
                    in if s_diag u = 126 then
                         bindr (array_set (resultCache u) 127 (acc_low64 u)) (\<lambda>rc.
                           Inr (u\<lparr>resultCache := rc, bigmul_prog := 0, write_done := False\<rparr>))
                       else Inr ((next_diag 63 u)\<lparr>gen_done_this_diag := False\<rparr>))
                else Inr u))"

text \<open>The seven-stage datapath: products wait in the delay queue before they retire.\<close>

definition stage7_retire :: "BigmulUnit \<Rightarrow> BigmulUnit" where
  "stage7_retire u =
     (let q = dq u ! 0;
          u = (if dq_len u > 0 \<and> item_valid q \<and> remain q = 0
               then dq_pop_front (acc_add_u192 (lo (mb q)) (hi (mb q)) (hi2 (mb q)) u) else u);
          tick = (\<lambda>d i. if item_valid (d ! i) \<and> remain (d ! i) > 0
                       then d[i := (d ! i)\<lparr>remain := remain (d ! i) - 1\<rparr>] else d);
          u = u\<lparr>dq := foldl tick (dq u) [0..<dq_len u]\<rparr>;
          m = pMUL u
      in if mul_valid m
         then if pending_depth_for_pMUL u \<le> 0 then acc_add_u192 (lo m) (hi m) (hi2 m) u
              else dq_push m (pending_depth_for_pMUL u) u
         else u)"

definition stage7_mul :: "BigmulUnit \<Rightarrow> BigmulUnit" where
  "stage7_mul u =
     (let u = u\<lparr>pMUL := make_empty_mul, pending_depth_for_pMUL := 0\<rparr>
      in if load_valid (pLOAD u)
         then case mul_loop (pLOAD u) of (b0, b1, b2) \<Rightarrow>
           u\<lparr>pMUL := \<lparr>lo = b0, hi = b1, hi2 = b2, mul_valid = load_count (pLOAD u) > 0\<rparr>,
             pending_depth_for_pMUL := csa_depth_for_count (load_count (pLOAD u))\<rparr>
         else u)"

definition stage7_load :: "BigmulUnit \<Rightarrow> BigmulUnit result" where
  "stage7_load u =
     (let g = pGEN u; u = u\<lparr>pLOAD := make_empty_load\<rparr>
      in if gen_valid g
         then bindr (load_loop u g [0..<gen_count g] ((pLOAD u)\<lparr>load_count := gen_count g\<rparr>))
                (\<lambda>l. Inr (u\<lparr>pLOAD := l\<lparr>load_valid := gen_count g > 0\<rparr>\<rparr>))
         else Inr u)"

definition stage7pipeline :: "BigmulUnit \<Rightarrow> BigmulUnit result" where
  "stage7pipeline u =
     (if bigmul_done u then Inr u
      else let u = (if bigmul_prog u = 0 then start_bigmul u else u);
               u = stage7_mul (stage7_retire u)
           in bindr (stage7_load u) (\<lambda>u.
             case gen_stage u of (u, g) \<Rightarrow>
             let u = u\<lparr>pGEN := g\<rparr>;
                 pipe_empty = (\<not> gen_valid (pGEN u) \<and> \<not> load_valid (pLOAD u) \<and> \<not> mul_valid (pMUL u) \<and> dq_len u = 0)
             in if gen_done_this_diag u \<and> pipe_empty then
                  bindr (array_set (resultCache u) (s_diag u) (acc_low64 u)) (\<lambda>rc.
                    let u = acc_shr_64 (u\<lparr>resultCache := rc\<rparr>)
                    in if s_diag u = 126 then
                         bindr (array_set (resultCache u) 127 (acc_low64 u)) (\<lambda>rc.
                           Inr (u\<lparr>resultCache := rc, bigmul_prog := 0, write_done := False\<rparr>))
                       else Inr ((next_diag 63 u)\<lparr>pGEN := make_empty_gen, pLOAD := make_empty_load,
                              pMUL := make_empty_mul, dq := replicate 5 make_empty_item, dq_len := 0,
                              gen_done_this_diag := False\<rparr>))
                else Inr u))"

subsection \<open>The systolic variant\<close>

fun systolic_loop :: "nat \<Rightarrow> BigmulUnit \<Rightarrow> int \<Rightarrow> int \<Rightarrow> int \<Rightarrow> u128 \<Rightarrow> u128 result" where
  "systolic_loop 0 u sd i imax acc = Inr acc"
| "systolic_loop (Suc r) u sd i imax acc =
     (if i \<le> imax then
        bindr (array_get (cacheA u) i) (\<lambda>x. bindr (array_get (cacheB u) (sd - i)) (\<lambda>y.
          systolic_loop r u sd (i + 1) imax (acc + ucast x * ucast y)))
      else Inr acc)"

text \<open>A diagonal has at most 64 terms, so 65 rounds suffice for its loop.\<close>

definition systolicmultiply :: "BigmulUnit \<Rightarrow> BigmulUnit result" where
  "systolicmultiply u =
     (if bigmul_done u then Inr u
      else if bigmul_prog u = 0 then Inr (start_bigmul u)
      else if s_diag u < 128 then
        let sd = s_diag u;
            imin = (if sd > 63 then sd - 63 else 0);
            imax = (if sd < 63 then sd else 63)
        in bindr (systolic_loop 65 u sd imin imax 0) (\<lambda>acc.
             bindr (array_set (resultCache u) sd (ucast acc)) (\<lambda>rc.
               let u = u\<lparr>resultCache := rc, s_diag := s_diag u + 1\<rparr>
               in Inr (if s_diag u = 128 then u\<lparr>bigmul_done := False, write_done := False, bigmul_prog := 0\<rparr>
                       else u)))
      else Inr u)"

definition executeBigmul :: "BigmulUnit \<Rightarrow> BigmulUnit result" where
  "executeBigmul u = singlecycle u"

end
