(* ===== verification/RvssVm.thy ===== *)
theory RvssVm
  imports VmBase ControlUnit Bigmul
begin

text \<open>
  The single-stage virtual machine: class \<open>RVSSVM\<close> (include/vm/rvss/rvss_vm.h,
  src/vm/rvss/rvss_vm.cpp). The record extends that of \<open>VmBase\<close> by the class's own fields,
  the bigmul unit's variables and the host's rounding mode. A handler takes the machine and
  returns it changed, or the reason it does not return. The \<open>int64_t\<close> variables are bit
  patterns. \<open>H\<close> is the host's floating-point unit.
\<close>

subsection \<open>State\<close>

record RegisterChange =
  reg_index :: nat
  reg_type :: nat
  old_value :: u64
  new_value :: u64

record MemoryChange =
  address :: u64
  old_bytes_vec :: "u8 list"
  new_bytes_vec :: "u8 list"

record StepDelta =
  old_pc :: u64
  new_pc :: u64
  register_changes :: "RegisterChange list"
  memory_changes :: "MemoryChange list"
  bigmul_state :: BigmulState
  custom_instr_executed :: u8

definition reg_change :: "u8 \<Rightarrow> nat \<Rightarrow> u64 \<Rightarrow> u64 \<Rightarrow> RegisterChange" where
  "reg_change i ty old new =
     \<lparr>reg_index = unat i, reg_type = ty, old_value = old, new_value = new\<rparr>"

definition mem_change :: "u64 \<Rightarrow> u8 list \<Rightarrow> u8 list \<Rightarrow> MemoryChange" where
  "mem_change a old new = \<lparr>address = a, old_bytes_vec = old, new_bytes_vec = new\<rparr>"

definition new_BigmulState :: BigmulState where
  "new_BigmulState = \<lparr>snap_bigmul_done = False, snap_ldbm_done = False, snap_write_done = False,
     snap_ldbm_offset = 0, snap_bigmul_prog = 0, snap_write_offset = 0, snap_base_addr_A = 0,
     snap_base_addr_B = 0, snap_base_addr_res = 0, snap_cacheA = replicate 64 0,
     snap_cacheB = replicate 64 0, snap_resultCache = replicate 128 0\<rparr>"

definition new_StepDelta :: StepDelta where
  "new_StepDelta = \<lparr>old_pc = 0, new_pc = 0, register_changes = [], memory_changes = [],
     bigmul_state = new_BigmulState, custom_instr_executed = 0\<rparr>"

record RVSSVM = VmBase +
  control_unit :: ControlUnit
  stop_requested :: bool
  undo_stack :: "StepDelta list"
  redo_stack :: "StepDelta list"
  current_delta :: StepDelta
  execution_result :: u64
  memory_result :: u64
  return_address :: u64
  branch_flag :: bool
  next_pc :: u64
  csr_target_address :: u16
  csr_old_value :: u64
  csr_write_val :: u64
  csr_uimm :: u8
  bigmul :: BigmulUnit
  host_round :: host_rm

definition push_reg_change :: "RegisterChange \<Rightarrow> RVSSVM \<Rightarrow> RVSSVM" where
  "push_reg_change c v = v\<lparr>current_delta := (current_delta v)
     \<lparr>register_changes := register_changes (current_delta v) @ [c]\<rparr>\<rparr>"

definition push_mem_change :: "MemoryChange \<Rightarrow> RVSSVM \<Rightarrow> RVSSVM" where
  "push_mem_change c v = v\<lparr>current_delta := (current_delta v)
     \<lparr>memory_changes := memory_changes (current_delta v) @ [c]\<rparr>\<rparr>"

definition read_gpr :: "nat \<Rightarrow> RVSSVM \<Rightarrow> u64 result" where
  "read_gpr i v = ReadGpr (registers v) i"

definition write_gpr :: "nat \<Rightarrow> u64 \<Rightarrow> RVSSVM \<Rightarrow> RVSSVM result" where
  "write_gpr i x v = bindr (WriteGpr (registers v) i x) (\<lambda>r. Inr (v\<lparr>registers := r\<rparr>))"

definition write_fpr :: "nat \<Rightarrow> u64 \<Rightarrow> RVSSVM \<Rightarrow> RVSSVM result" where
  "write_fpr i x v = bindr (WriteFpr (registers v) i x) (\<lambda>r. Inr (v\<lparr>registers := r\<rparr>))"

definition write_csr :: "nat \<Rightarrow> u64 \<Rightarrow> RVSSVM \<Rightarrow> RVSSVM result" where
  "write_csr i x v = bindr (WriteCsr (registers v) i x) (\<lambda>r. Inr (v\<lparr>registers := r\<rparr>))"

text \<open>The loops that read or write consecutive bytes.\<close>

fun read_bytes :: "Memory \<Rightarrow> u64 \<Rightarrow> nat \<Rightarrow> u8 list result" where
  "read_bytes m a 0 = Inr []"
| "read_bytes m a (Suc n) =
     bindr (ReadByte m a) (\<lambda>b. bindr (read_bytes m (a + 1) n) (\<lambda>bs. Inr (b # bs)))"

fun write_bytes :: "u64 \<Rightarrow> u8 list \<Rightarrow> RVSSVM \<Rightarrow> RVSSVM result" where
  "write_bytes a [] v = Inr v"
| "write_bytes a (b # bs) v = bindr (mc_write_byte a b v) (\<lambda>v. write_bytes (a + 1) bs v)"

subsection \<open>Fetch and decode\<close>

definition Fetch :: "RVSSVM \<Rightarrow> RVSSVM result" where
  "Fetch v = bindr (ReadWord (memory v) (program_counter v)) (\<lambda>w.
     Inr (UpdateProgramCounter 4 (v\<lparr>current_instruction := w\<rparr>)))"

text \<open>The register fields of the custom instructions are taken with a mask of seven bits.\<close>

definition rs1_wide :: "u32 \<Rightarrow> nat" where "rs1_wide w = unat (ucast (drop_bit 15 w AND 0x7F) :: u8)"
definition rs2_wide :: "u32 \<Rightarrow> nat" where "rs2_wide w = unat (ucast (drop_bit 20 w AND 0x7F) :: u8)"

definition start_ldbm :: "RVSSVM \<Rightarrow> RVSSVM result" where
  "start_ldbm v = (let w = current_instruction v in
     bindr (read_gpr (rs1_wide w) v) (\<lambda>x. bindr (read_gpr (rs2_wide w) v) (\<lambda>y.
       Inr (v\<lparr>bigmul := (bigmul v)\<lparr>base_addr_A := x, base_addr_B := y, ldbm_offset := 0,
              ldbm_done := False\<rparr>\<rparr>))))"

definition start_bigmul_instr :: "RVSSVM \<Rightarrow> RVSSVM result" where
  "start_bigmul_instr v = (let w = current_instruction v in
     bindr (read_gpr (rs2_wide w) v) (\<lambda>n.
       let u = bigmul v; u = (if n \<noteq> 0 \<and> n < 512 then u\<lparr>size_of_operand := n\<rparr> else u)
       in bindr (read_gpr (rs1_wide w) v) (\<lambda>x.
         Inr (v\<lparr>bigmul := u\<lparr>base_addr_res := x, bigmul_prog := 0, bigmul_done := False,
                write_offset := 0, write_done := True\<rparr>\<rparr>))))"

definition Decode :: "RVSSVM \<Rightarrow> RVSSVM result" where
  "Decode v =
     (let w = current_instruction v; op = uint (opcode_of w);
          v = v\<lparr>control_unit := SetControlSignals (control_unit v) w\<rparr>
      in if op = opcode (get_instr_encoding ''kldbm'') \<and> ldbm_start (control_unit v) \<and>
            GetLdbmDone (bigmul v) then start_ldbm v
         else if op = opcode (get_instr_encoding ''kbigmul'') \<and> bigmul_start (control_unit v) \<and>
            GetBigmulDone (bigmul v) then start_bigmul_instr v
         else Inr v)"

subsection \<open>System calls\<close>

definition print_wrapped :: "bool \<Rightarrow> Output list \<Rightarrow> RVSSVM \<Rightarrow> RVSSVM" where
  "print_wrapped start_mark out v =
     (if \<not> vm_as_backend v then print ([OutText ''[Syscall output: ''] @ out @ [OutText '']'']) v
      else if start_mark then print ([OutText ''VM_STDOUT_START''] @ out @ [OutText ''VM_STDOUT_END'']) v
      else print out v)"

definition syscall_exit :: "RVSSVM \<Rightarrow> RVSSVM result" where
  "syscall_exit v = Inl ExitProgram"

definition syscall_read :: "RVSSVM \<Rightarrow> RVSSVM result" where
  "syscall_read v =
     bindr (read_gpr 10 v) (\<lambda>fd. bindr (read_gpr 11 v) (\<lambda>buf. bindr (read_gpr 12 v) (\<lambda>len.
       if fd = 0 then
         (case input_queue v of
            [] \<Rightarrow> Inl Blocked
          | input # rest \<Rightarrow>
              let v = (print [OutText ''VM_STDIN_START'', OutText ''VM_STDIN_END''] v)
                        \<lparr>output_status := ''VM_STDIN_END'', input_queue := rest\<rparr>;
                  n = unat len
              in bindr (read_bytes (memory v) buf n) (\<lambda>old.
                 bindr (write_bytes buf (map (\<lambda>c. word_of_nat (of_char c)) (take n input)) v) (\<lambda>v.
                 bindr (if length input < n then mc_write_byte (buf + of_nat (length input)) 0 v else Inr v) (\<lambda>v.
                 bindr (read_bytes (memory v) buf n) (\<lambda>new.
                   let v = push_mem_change (mem_change buf old new) v
                   in bindr (read_gpr 10 v) (\<lambda>old_reg.
                     let new_reg = min len (of_nat (length input))
                     in bindr (write_gpr 10 new_reg v) (\<lambda>v.
                       Inr (if old_reg \<noteq> new_reg then push_reg_change (reg_change 10 0 old_reg new_reg) v
                            else v))))))))
       else Inr (print [ErrText ''Unsupported file descriptor: '', ErrInt (uint fd)] v))))"

definition syscall_write :: "RVSSVM \<Rightarrow> RVSSVM result" where
  "syscall_write v =
     bindr (read_gpr 10 v) (\<lambda>fd. bindr (read_gpr 11 v) (\<lambda>buf. bindr (read_gpr 12 v) (\<lambda>len.
       if fd = 1 then
         bindr (read_bytes (memory v) buf (unat len)) (\<lambda>bs.
           let v = (print ([OutText ''VM_STDOUT_START''] @ map OutChar bs @ [OutText ''VM_STDOUT_END'']) v)
                     \<lparr>output_status := ''VM_STDOUT_END''\<rparr>
           in bindr (read_gpr 10 v) (\<lambda>old_reg.
             let new_reg = min len (of_nat (length bs))
             in bindr (write_gpr 10 new_reg v) (\<lambda>v.
               Inr (if old_reg \<noteq> new_reg then push_reg_change (reg_change 10 0 old_reg new_reg) v else v))))
       else Inr (print [ErrText ''Unsupported file descriptor: '', ErrInt (uint fd)] v))))"

definition HandleSyscall :: "RVSSVM \<Rightarrow> RVSSVM result" where
  "HandleSyscall v =
     bindr (read_gpr 17 v) (\<lambda>n. bindr (read_gpr 10 v) (\<lambda>a0.
       if n = 1 then Inr (print_wrapped True [OutInt (sint a0)] v)
       else if n = 2 then Inr (print_wrapped True [OutFloat (ucast a0)] v)
       else if n = 3 then Inr (print_wrapped True [OutDouble a0] v)
       else if n = 4 then
         bindr (string_at (memory v) a0) (\<lambda>cs. Inr (print_wrapped False (map OutChar cs) v))
       else if n = 10 then syscall_exit v
       else if n = 63 then syscall_read v
       else if n = 64 then syscall_write v
       else Inr (print [ErrText ''Unknown syscall number: '', ErrInt (uint n)] v)))"

subsection \<open>Execute\<close>

definition run_alu :: "u64 \<Rightarrow> u64 \<Rightarrow> RVSSVM \<Rightarrow> RVSSVM result" where
  "run_alu reg1 reg2 v =
     (let op = GetAluSignal (current_instruction v) (alu_op (control_unit v))
      in bindr (execute op reg1 reg2) (\<lambda>(res, overflow). Inr (v\<lparr>execution_result := res\<rparr>)))"

definition taken_by :: "u8 \<Rightarrow> u64 \<Rightarrow> bool \<Rightarrow> bool" where
  "taken_by f3 res old =
     (if f3 = 0 then res = 0
      else if f3 = 1 then res \<noteq> 0
      else if f3 = 4 then res = 1
      else if f3 = 5 then res = 0
      else if f3 = 6 then res = 1
      else if f3 = 7 then res = 0
      else old)"

text \<open>The part of \<open>Execute\<close> under \<open>GetBranch()\<close>, with the immediate widened.\<close>

definition execute_branch :: "u64 \<Rightarrow> RVSSVM \<Rightarrow> RVSSVM" where
  "execute_branch imm v =
     (let w = current_instruction v; op = uint (opcode_of w) in
      if op = opcode (get_instr_encoding ''kjalr'') \<or> op = opcode (get_instr_encoding ''kjal'') then
        (let v = v\<lparr>next_pc := program_counter v\<rparr>;
             v = UpdateProgramCounter (- 4) v;
             v = v\<lparr>return_address := program_counter v + 4\<rparr>
         in if op = opcode (get_instr_encoding ''kjalr'')
            then UpdateProgramCounter (- program_counter v + execution_result v) v
            else UpdateProgramCounter imm v)
      else if op = opcode (get_instr_encoding ''kbeq'') \<or> op = opcode (get_instr_encoding ''kbne'') \<or>
              op = opcode (get_instr_encoding ''kblt'') \<or> op = opcode (get_instr_encoding ''kbge'') \<or>
              op = opcode (get_instr_encoding ''kbltu'') \<or> op = opcode (get_instr_encoding ''kbgeu'') then
        v\<lparr>branch_flag := taken_by (funct3_of w) (execution_result v) (branch_flag v)\<rparr>
      else v)"

definition ExecuteInteger :: "RVSSVM \<Rightarrow> RVSSVM result" where
  "ExecuteInteger v =
     (let w = current_instruction v; op = uint (opcode_of w); imm32 = ImmGenerator w;
          imm = scast imm32 :: u64
      in bindr (read_gpr (unat (rs1_of w)) v) (\<lambda>reg1.
         bindr (read_gpr (unat (rs2_of w)) v) (\<lambda>reg2.
         bindr (run_alu reg1 (if alu_src (control_unit v) then imm else reg2) v) (\<lambda>v.
           let v = (if branch (control_unit v) then execute_branch imm v else v);
               v = (if branch_flag v \<and> op = 0x63
                    then UpdateProgramCounter imm (UpdateProgramCounter (- 4) v) else v)
           in Inr (if op = opcode (get_instr_encoding ''kauipc'')
                   then v\<lparr>execution_result := program_counter v - 4 + scast (push_bit 12 imm32)\<rparr>
                   else v)))))"

definition rounding_field :: "u8 \<Rightarrow> RVSSVM \<Rightarrow> u8 result" where
  "rounding_field f3 v =
     (if f3 = 7 then bindr (ReadCsr (registers v) 2) (\<lambda>x. Inr (ucast x)) else Inr f3)"

definition fp_operands :: "u8 \<Rightarrow> u8 \<Rightarrow> RVSSVM \<Rightarrow> (u64 \<times> u64 \<times> u64) result" where
  "fp_operands from_int1 from_int2 v =
     (let w = current_instruction v; op = opcode_of w; f7 = funct7_of w in
      bindr (ReadFpr (registers v) (unat (rs1_of w))) (\<lambda>x.
      bindr (ReadFpr (registers v) (unat (rs2_of w))) (\<lambda>y.
      bindr (ReadFpr (registers v) (unat (rs3_of w))) (\<lambda>z.
      bindr (if f7 = from_int1 \<or> f7 = from_int2 \<or> op = 0x07 \<or> op = 0x27
             then read_gpr (unat (rs1_of w)) v else Inr x) (\<lambda>x.
        Inr (x, if alu_src (control_unit v) then scast (ImmGenerator w) else y, z))))))"

definition ExecuteFloat :: "HostFloat \<Rightarrow> RVSSVM \<Rightarrow> RVSSVM result" where
  "ExecuteFloat H v =
     (let w = current_instruction v; op = GetAluSignal w (alu_op (control_unit v)) in
      bindr (rounding_field (funct3_of w) v) (\<lambda>rm.
      bindr (fp_operands 0x68 0x78 v) (\<lambda>(x, y, z).
      bindr (fpexecute H (host_round v) op x y z rm) (\<lambda>((res, fcsr_status), md).
        write_csr 3 (ucast fcsr_status) (v\<lparr>execution_result := res, host_round := md\<rparr>)))))"

definition ExecuteDouble :: "HostFloat \<Rightarrow> RVSSVM \<Rightarrow> RVSSVM result" where
  "ExecuteDouble H v =
     (let w = current_instruction v; op = GetAluSignal w (alu_op (control_unit v)) in
      bindr (fp_operands 0x69 0x79 v) (\<lambda>(x, y, z).
      bindr (dfpexecute H (host_round v) op x y z (funct3_of w)) (\<lambda>((res, fcsr_status), md).
        Inr (v\<lparr>execution_result := res, host_round := md\<rparr>))))"

definition ExecuteCsr :: "RVSSVM \<Rightarrow> RVSSVM result" where
  "ExecuteCsr v =
     (let w = current_instruction v; rs1 = rs1_of w; csr = ucast (drop_bit 20 w AND 0xFFF) :: u16 in
      bindr (ReadCsr (registers v) (unat csr)) (\<lambda>csr_val.
      bindr (read_gpr (unat rs1) v) (\<lambda>x.
        Inr (v\<lparr>csr_target_address := csr, csr_old_value := csr_val, csr_write_val := x,
               csr_uimm := rs1\<rparr>))))"

definition Execute :: "HostFloat \<Rightarrow> RVSSVM \<Rightarrow> RVSSVM result" where
  "Execute H v =
     (let w = current_instruction v; op = opcode_of w; f3 = funct3_of w in
      if uint op = opcode (get_instr_encoding ''kecall'') \<and> uint f3 = funct3 (get_instr_encoding ''kecall'')
      then HandleSyscall v
      else if isFInstruction w then ExecuteFloat H v
      else if isDInstruction w then ExecuteDouble H v
      else if op = 0x73 then ExecuteCsr v
      else ExecuteInteger v)"

subsection \<open>Memory access of the bigmul unit\<close>

text \<open>One cycle of LDBM: eight doublewords of one operand, \<open>r\<close> of them left to load.\<close>

fun ldbm_load :: "bool \<Rightarrow> nat \<Rightarrow> u64 \<Rightarrow> RVSSVM \<Rightarrow> RVSSVM result" where
  "ldbm_load is_A 0 off v = Inr v"
| "ldbm_load is_A (Suc r) off v =
     bindr (if off < 64 then
              bindr (ReadDoubleWord (memory v)
                       ((if is_A then base_addr_A (bigmul v) else base_addr_B (bigmul v)) + off * 8)) (\<lambda>x.
                Inr (if is_A
                     then v\<lparr>bigmul := (bigmul v)\<lparr>cacheA := (cacheA (bigmul v))[unat off := x]\<rparr>\<rparr>
                     else v\<lparr>bigmul := (bigmul v)\<lparr>cacheB := (cacheB (bigmul v))[unat off := x]\<rparr>\<rparr>))
            else Inr v)
       (\<lambda>v. ldbm_load is_A r (off + 1) v)"

definition ldbm_cycle :: "RVSSVM \<Rightarrow> RVSSVM result" where
  "ldbm_cycle v =
     (let off = ldbm_offset (bigmul v) in
      bindr (if off < 64 then ldbm_load True 8 off v
             else if off < 128 then ldbm_load False 8 (off - 64) v
             else Inr v) (\<lambda>v.
        let u = bigmul v; u = u\<lparr>ldbm_offset := ldbm_offset u + 8\<rparr>;
            u = (if ldbm_offset u \<ge> 128 then u\<lparr>ldbm_done := True\<rparr> else u)
        in Inr (v\<lparr>bigmul := u\<rparr>)))"

text \<open>
  One cycle of writing the result: up to eight doublewords. The bytes before and after are
  collected, but the function returns before they would be recorded.
\<close>

fun result_write :: "nat \<Rightarrow> u64 \<Rightarrow> u64 \<Rightarrow> RVSSVM \<Rightarrow> RVSSVM result" where
  "result_write 0 index sz v = Inr v"
| "result_write (Suc r) index sz v =
     (if index < sz then
        bindr (array_get (resultCache (bigmul v)) (uint index)) (\<lambda>word.
          let addr = base_addr_res (bigmul v) + index * 8 in
          bindr (read_bytes (memory v) addr 8) (\<lambda>old.
          bindr (mc_write_double addr word v) (\<lambda>v.
          bindr (read_bytes (memory v) addr 8) (\<lambda>new.
            result_write r (index + 1) sz v))))
      else Inr v)"

fun print_results :: "nat \<Rightarrow> nat \<Rightarrow> RVSSVM \<Rightarrow> RVSSVM result" where
  "print_results 0 i v = Inr v"
| "print_results (Suc r) i v =
     bindr (array_get (resultCache (bigmul v)) (int i)) (\<lambda>x.
       print_results r (i + 1)
         (print [OutText ''RES['', OutInt (int i), OutText ''] = 0x'', OutHex x] v))"

definition bigmul_write_cycle :: "RVSSVM \<Rightarrow> RVSSVM result" where
  "bigmul_write_cycle v =
     (let sz = size_of_operand (bigmul v) * 2 in
      bindr (if write_offset (bigmul v) < sz then
               bindr (result_write 8 (write_offset (bigmul v)) sz v) (\<lambda>v.
                 Inr (v\<lparr>bigmul := (bigmul v)\<lparr>write_offset := write_offset (bigmul v) + 8\<rparr>\<rparr>))
             else Inr v) (\<lambda>v.
        if write_offset (bigmul v) \<ge> sz then
          print_results (unat sz) 0 (v\<lparr>bigmul := (bigmul v)\<lparr>write_done := True, bigmul_done := True\<rparr>\<rparr>)
        else Inr v))"

subsection \<open>Memory access of loads and stores\<close>

definition store_recorded :: "nat \<Rightarrow> u64 \<Rightarrow> (RVSSVM \<Rightarrow> RVSSVM result) \<Rightarrow> RVSSVM \<Rightarrow> RVSSVM result" where
  "store_recorded n addr store v =
     bindr (read_bytes (memory v) addr n) (\<lambda>old.
     bindr (store v) (\<lambda>v.
     bindr (read_bytes (memory v) addr n) (\<lambda>new.
       Inr (if old \<noteq> new then push_mem_change (mem_change addr old new) v else v))))"

definition load_result :: "u8 \<Rightarrow> RVSSVM \<Rightarrow> RVSSVM result" where
  "load_result f3 v =
     (let m = memory v; a = execution_result v; set = (\<lambda>x. Inr (v\<lparr>memory_result := x\<rparr>)) in
      if f3 = 0 then bindr (ReadByte m a) (\<lambda>x. set (scast x))
      else if f3 = 1 then bindr (ReadHalfWord m a) (\<lambda>x. set (scast x))
      else if f3 = 2 then bindr (ReadWord m a) (\<lambda>x. set (scast x))
      else if f3 = 3 then bindr (ReadDoubleWord m a) (\<lambda>x. set x)
      else if f3 = 4 then bindr (ReadByte m a) (\<lambda>x. set (ucast x))
      else if f3 = 5 then bindr (ReadHalfWord m a) (\<lambda>x. set (ucast x))
      else if f3 = 6 then bindr (ReadWord m a) (\<lambda>x. set (ucast x))
      else Inr v)"

definition store_value :: "u8 \<Rightarrow> u64 \<Rightarrow> RVSSVM \<Rightarrow> RVSSVM result" where
  "store_value f3 x v =
     (let a = execution_result v in
      if f3 = 0 then store_recorded 1 a (mc_write_byte a (ucast x)) v
      else if f3 = 1 then store_recorded 2 a (mc_write_half a (ucast x)) v
      else if f3 = 2 then store_recorded 4 a (mc_write_word a (ucast x)) v
      else if f3 = 3 then store_recorded 8 a (mc_write_double a x) v
      else Inr v)"

definition WriteMemoryFloat :: "RVSSVM \<Rightarrow> RVSSVM result" where
  "WriteMemoryFloat v =
     (let rs2 = unat (rs2_of (current_instruction v)) in
      bindr (if mem_read (control_unit v)
             then bindr (ReadWord (memory v) (execution_result v)) (\<lambda>x. Inr (v\<lparr>memory_result := ucast x\<rparr>))
             else Inr v) (\<lambda>v.
        if mem_write (control_unit v) then
          bindr (ReadFpr (registers v) rs2) (\<lambda>x.
            store_recorded 4 (execution_result v) (mc_write_word (execution_result v) (ucast x)) v)
        else Inr v))"

definition WriteMemoryDouble :: "RVSSVM \<Rightarrow> RVSSVM result" where
  "WriteMemoryDouble v =
     (let rs2 = unat (rs2_of (current_instruction v)) in
      bindr (if mem_read (control_unit v)
             then bindr (ReadDoubleWord (memory v) (execution_result v)) (\<lambda>x. Inr (v\<lparr>memory_result := x\<rparr>))
             else Inr v) (\<lambda>v.
        if mem_write (control_unit v) then
          bindr (ReadFpr (registers v) rs2) (\<lambda>x.
            store_recorded 8 (execution_result v) (mc_write_double (execution_result v) x) v)
        else Inr v))"

definition WriteMemory :: "RVSSVM \<Rightarrow> RVSSVM result" where
  "WriteMemory v =
     (if ldbm_start (control_unit v) \<and> \<not> GetLdbmDone (bigmul v) then ldbm_cycle v
      else let w = current_instruction v; f3 = funct3_of w in
        if opcode_of w = 0x73 \<and> f3 = 0 then Inr v
        else if isFInstruction w then WriteMemoryFloat v
        else if isDInstruction w then WriteMemoryDouble v
        else bindr (if mem_read (control_unit v) then load_result f3 v else Inr v) (\<lambda>v.
          if bigmul_start (control_unit v) \<and> \<not> GetBigmulDone (bigmul v) \<and> \<not> GetWriteDone (bigmul v)
          then bigmul_write_cycle v
          else if mem_write (control_unit v) then
            bindr (read_gpr (unat (rs2_of w)) v) (\<lambda>x. store_value f3 x v)
          else Inr v))"

subsection \<open>Write back\<close>

definition reg_write_value :: "RVSSVM \<Rightarrow> u64 option" where
  "reg_write_value v =
     (let w = current_instruction v; op = uint (opcode_of w) in
      if \<not> reg_write (control_unit v) then None
      else if op = opcode (get_instr_encoding ''kRtype'') \<or> op = opcode (get_instr_encoding ''kItype'') \<or>
              op = opcode (get_instr_encoding ''kauipc'') then Some (execution_result v)
      else if op = opcode (get_instr_encoding ''kLoadType'') then Some (memory_result v)
      else if op = opcode (get_instr_encoding ''kjalr'') \<or> op = opcode (get_instr_encoding ''kjal'')
        then Some (next_pc v)
      else if op = opcode (get_instr_encoding ''klui'') then Some (scast (push_bit 12 (ImmGenerator w)))
      else None)"

definition WriteBackInteger :: "RVSSVM \<Rightarrow> RVSSVM result" where
  "WriteBackInteger v =
     (let rd = rd_of (current_instruction v) in
      bindr (read_gpr (unat rd) v) (\<lambda>old_reg.
      bindr (case reg_write_value v of Some x \<Rightarrow> write_gpr (unat rd) x v | None \<Rightarrow> Inr v) (\<lambda>v.
      bindr (read_gpr (unat rd) v) (\<lambda>new_reg.
        Inr (if old_reg \<noteq> new_reg then push_reg_change (reg_change rd 0 old_reg new_reg) v else v)))))"

definition write_gpr_recorded :: "u8 \<Rightarrow> u64 \<Rightarrow> RVSSVM \<Rightarrow> RVSSVM result" where
  "write_gpr_recorded rd x v =
     bindr (read_gpr (unat rd) v) (\<lambda>old_reg. bindr (write_gpr (unat rd) x v) (\<lambda>v.
       Inr (if old_reg \<noteq> x then push_reg_change (reg_change rd 0 old_reg x) v else v)))"

definition write_fpr_recorded :: "u8 \<Rightarrow> u64 \<Rightarrow> RVSSVM \<Rightarrow> RVSSVM result" where
  "write_fpr_recorded rd x v =
     bindr (ReadFpr (registers v) (unat rd)) (\<lambda>old_reg. bindr (write_fpr (unat rd) x v) (\<lambda>v.
       Inr (if old_reg \<noteq> x then push_reg_change (reg_change rd 2 old_reg x) v else v)))"

definition WriteBackFloat :: "RVSSVM \<Rightarrow> RVSSVM result" where
  "WriteBackFloat v =
     (let w = current_instruction v; rd = rd_of w; f7 = uint (funct7_of w) in
      if \<not> reg_write (control_unit v) then Inr v
      else if f7 = funct7 (get_instr_encoding ''kfle_s'') \<or> f7 = funct7 (get_instr_encoding ''kfcvt_w_s'') \<or>
              f7 = funct7 (get_instr_encoding ''kfmv_x_w'') then write_gpr_recorded rd (execution_result v) v
      else if uint (opcode_of w) = opcode (get_instr_encoding ''kflw'')
        then write_fpr_recorded rd (memory_result v) v
      else write_fpr_recorded rd (execution_result v) v)"

definition WriteBackDouble :: "RVSSVM \<Rightarrow> RVSSVM result" where
  "WriteBackDouble v =
     (let w = current_instruction v; rd = rd_of w; f7 = funct7_of w in
      if \<not> reg_write (control_unit v) then Inr v
      else if f7 = 0x51 \<or> f7 = 0x61 \<or> f7 = 0x71 then write_gpr_recorded rd (execution_result v) v
      else if opcode_of w = 0x07 then write_fpr_recorded rd (memory_result v) v
      else write_fpr_recorded rd (execution_result v) v)"

definition csr_new_value :: "u8 \<Rightarrow> RVSSVM \<Rightarrow> u64 option option" where
  "csr_new_value f3 v =
     (let old = csr_old_value v; x = csr_write_val v; u = ucast (csr_uimm v) :: u64; f = uint f3 in
      if f = funct3 (get_instr_encoding ''kcsrrw'') then Some (Some x)
      else if f = funct3 (get_instr_encoding ''kcsrrs'') then Some (if x \<noteq> 0 then Some (old OR x) else None)
      else if f = funct3 (get_instr_encoding ''kcsrrc'') then Some (if x \<noteq> 0 then Some (old AND NOT x) else None)
      else if f = funct3 (get_instr_encoding ''kcsrrwi'') then Some (Some u)
      else if f = funct3 (get_instr_encoding ''kcsrrsi'') then Some (if u \<noteq> 0 then Some (old OR u) else None)
      else if f = funct3 (get_instr_encoding ''kcsrrci'') then Some (if u \<noteq> 0 then Some (old AND NOT u) else None)
      else None)"

definition WriteBackCsr :: "RVSSVM \<Rightarrow> RVSSVM result" where
  "WriteBackCsr v =
     (let w = current_instruction v in
      case csr_new_value (funct3_of w) v of
        None \<Rightarrow> Inr v
      | Some x \<Rightarrow> bindr (write_gpr (unat (rd_of w)) (csr_old_value v) v) (\<lambda>v.
          case x of None \<Rightarrow> Inr v | Some x \<Rightarrow> write_csr (unat (csr_target_address v)) x v))"

definition WriteBack :: "RVSSVM \<Rightarrow> RVSSVM result" where
  "WriteBack v =
     (let w = current_instruction v; op = opcode_of w; f3 = funct3_of w in
      if uint op = opcode (get_instr_encoding ''kecall'') \<and> uint f3 = funct3 (get_instr_encoding ''kecall'')
      then Inr v
      else if isFInstruction w then WriteBackFloat v
      else if isDInstruction w then WriteBackDouble v
      else if op = 0x73 then WriteBackCsr v
      else WriteBackInteger v)"

subsection \<open>Running\<close>

definition bigmul_stalled :: "RVSSVM \<Rightarrow> bool" where
  "bigmul_stalled v \<longleftrightarrow> bigmul_start (control_unit v) \<and> \<not> GetBigmulDone (bigmul v)"

definition ldbm_stalled :: "RVSSVM \<Rightarrow> bool" where
  "ldbm_stalled v \<longleftrightarrow> ldbm_start (control_unit v) \<and> \<not> GetLdbmDone (bigmul v)"

definition count_cycle :: "RVSSVM \<Rightarrow> RVSSVM" where
  "count_cycle v = v\<lparr>cycle_s := cycle_s v + 1\<rparr>"

definition bigmul_stall_cycle :: "RVSSVM \<Rightarrow> RVSSVM result" where
  "bigmul_stall_cycle v =
     (if \<not> GetWriteDone (bigmul v) then WriteMemory v
      else bindr (executeBigmul (bigmul v)) (\<lambda>u. Inr (v\<lparr>bigmul := u\<rparr>)))"

text \<open>One instruction through the five stages, and the counters.\<close>

definition instruction :: "HostFloat \<Rightarrow> RVSSVM \<Rightarrow> RVSSVM result" where
  "instruction H v =
     bindr (Fetch v) (\<lambda>v. bindr (Decode v) (\<lambda>v. bindr (Execute H v) (\<lambda>v.
     bindr (WriteMemory v) (\<lambda>v. bindr (WriteBack v) (\<lambda>v.
       Inr (count_cycle (v\<lparr>instructions_retired := instructions_retired v + 1\<rparr>)))))))"

text \<open>
  The loop of \<open>Run\<close>. \<open>requested i\<close> says whether a stop request of another thread has
  arrived when the loop tests for it in round \<open>i\<close>; \<open>n\<close> counts the instructions executed.
\<close>

fun run_loop :: "HostFloat \<Rightarrow> (nat \<Rightarrow> bool) \<Rightarrow> nat \<Rightarrow> nat \<Rightarrow> u64 \<Rightarrow> RVSSVM \<Rightarrow> RVSSVM result" where
  "run_loop H requested i 0 n v = Inl OutOfFuel"
| "run_loop H requested i (Suc fuel) n v =
     (let v = (if requested i then v\<lparr>stop_requested := True\<rparr> else v) in
      if stop_requested v \<or> \<not> program_counter v < program_size v then Inr v
      else if n > instruction_execution_limit (vm_config v) then Inr v
      else if ldbm_stalled v then
        bindr (WriteMemory v) (\<lambda>v. run_loop H requested (i + 1) fuel n (count_cycle v))
      else if bigmul_stalled v then
        bindr (bigmul_stall_cycle v) (\<lambda>v. run_loop H requested (i + 1) fuel n (count_cycle v))
      else
        bindr (instruction H v) (\<lambda>v. run_loop H requested (i + 1) fuel (n + 1)
          (print [OutText ''Program Counter: '', OutInt (uint (program_counter v))] v)))"

definition program_end :: "RVSSVM \<Rightarrow> RVSSVM" where
  "program_end v =
     (if program_counter v \<ge> program_size v
      then (print [OutText ''VM_PROGRAM_END''] v)\<lparr>output_status := ''VM_PROGRAM_END''\<rparr> else v)"

definition Run :: "HostFloat \<Rightarrow> (nat \<Rightarrow> bool) \<Rightarrow> nat \<Rightarrow> RVSSVM \<Rightarrow> RVSSVM result" where
  "Run H requested fuel v =
     bindr (run_loop H requested 0 fuel 0 (v\<lparr>stop_requested := False\<rparr>)) (\<lambda>v. Inr (program_end v))"

subsection \<open>Stepping\<close>

definition preview :: "RVSSVM \<Rightarrow> RVSSVM result" where
  "preview v =
     bindr (ReadWord (memory v) (program_counter v)) (\<lambda>w.
       let op = uint (ucast (w AND 0x7F) :: u8);
           kind = (if op = opcode (get_instr_encoding ''kldbm'') then 1
                   else if op = opcode (get_instr_encoding ''kbigmul'') then 2 else 0) :: u8
       in Inr (v\<lparr>current_delta := (current_delta v)\<lparr>custom_instr_executed := kind,
                 bigmul_state := snapshot (bigmul v), old_pc := program_counter v\<rparr>\<rparr>))"

text \<open>The stall loops of a step; \<open>loud\<close> is whether the stalls are printed.\<close>

fun ldbm_stall_loop :: "bool \<Rightarrow> nat \<Rightarrow> RVSSVM \<Rightarrow> RVSSVM result" where
  "ldbm_stall_loop loud 0 v = (if ldbm_stalled v then Inl OutOfFuel else Inr v)"
| "ldbm_stall_loop loud (Suc fuel) v =
     (if ldbm_stalled v then
        let v = (if loud then print [OutText ''[LDBM Stall] offset='', OutInt (uint (ldbm_offset (bigmul v)))] v else v)
        in bindr (WriteMemory v) (\<lambda>v. ldbm_stall_loop loud fuel (count_cycle v))
      else Inr v)"

fun bigmul_stall_loop :: "bool \<Rightarrow> nat \<Rightarrow> RVSSVM \<Rightarrow> RVSSVM result" where
  "bigmul_stall_loop loud 0 v = (if bigmul_stalled v then Inl OutOfFuel else Inr v)"
| "bigmul_stall_loop loud (Suc fuel) v =
     (if bigmul_stalled v then
        let v = (if loud \<and> \<not> GetWriteDone (bigmul v)
                 then print [OutText ''[BIGMUL Write Stall] write_offset='',
                             OutInt (uint (write_offset (bigmul v)))] v else v)
        in bindr (bigmul_stall_cycle v) (\<lambda>v. bigmul_stall_loop loud fuel (count_cycle v))
      else Inr v)"

definition record_step :: "RVSSVM \<Rightarrow> RVSSVM" where
  "record_step v =
     (let d = (current_delta v)\<lparr>new_pc := program_counter v\<rparr>;
          v = v\<lparr>undo_stack := d # undo_stack v, redo_stack := [], current_delta := new_StepDelta\<rparr>
      in if program_counter v < program_size v
         then (print [OutText ''VM_STEP_COMPLETED''] v)\<lparr>output_status := ''VM_STEP_COMPLETED''\<rparr>
         else (print [OutText ''VM_LAST_INSTRUCTION_STEPPED''] v)\<lparr>output_status := ''VM_LAST_INSTRUCTION_STEPPED''\<rparr>)"

definition Step :: "HostFloat \<Rightarrow> nat \<Rightarrow> RVSSVM \<Rightarrow> RVSSVM result" where
  "Step H fuel v =
     bindr (preview v) (\<lambda>v.
       if program_counter v < program_size v then
         bindr (instruction H v) (\<lambda>v.
           let v = print [OutText ''Program Counter: '', OutHex (program_counter v)] v
           in bindr (ldbm_stall_loop True fuel v) (\<lambda>v.
              bindr (bigmul_stall_loop True fuel v) (\<lambda>v. Inr (record_step v))))
       else Inr (program_end v))"

fun debug_loop :: "HostFloat \<Rightarrow> (nat \<Rightarrow> bool) \<Rightarrow> nat \<Rightarrow> nat \<Rightarrow> nat \<Rightarrow> u64 \<Rightarrow> RVSSVM \<Rightarrow> RVSSVM result" where
  "debug_loop H requested stall_fuel i 0 n v = Inl OutOfFuel"
| "debug_loop H requested stall_fuel i (Suc fuel) n v =
     (let v = (if requested i then v\<lparr>stop_requested := True\<rparr> else v) in
      if stop_requested v \<or> \<not> program_counter v < program_size v then Inr v
      else if n > instruction_execution_limit (vm_config v) then Inr v
      else bindr (preview v) (\<lambda>v.
        if program_counter v \<notin> set (breakpoints v) then
          bindr (instruction H v) (\<lambda>v.
            let v = print [OutText ''Program Counter: '', OutInt (uint (program_counter v))] v
            in bindr (ldbm_stall_loop False stall_fuel v) (\<lambda>v.
               bindr (bigmul_stall_loop False stall_fuel v) (\<lambda>v.
                 debug_loop H requested stall_fuel (i + 1) fuel (n + 1) (record_step v))))
        else Inr ((print [OutText ''VM_BREAKPOINT_HIT '', OutInt (uint (program_counter v))] v)
                    \<lparr>current_delta := new_StepDelta, output_status := ''VM_BREAKPOINT_HIT''\<rparr>)))"

definition DebugRun :: "HostFloat \<Rightarrow> (nat \<Rightarrow> bool) \<Rightarrow> nat \<Rightarrow> nat \<Rightarrow> RVSSVM \<Rightarrow> RVSSVM result" where
  "DebugRun H requested stall_fuel fuel v =
     bindr (debug_loop H requested stall_fuel 0 fuel 0 (v\<lparr>stop_requested := False\<rparr>))
       (\<lambda>v. Inr (program_end v))"

subsection \<open>Undo, redo, reset\<close>

fun apply_reg_changes :: "(RegisterChange \<Rightarrow> u64) \<Rightarrow> RegisterChange list \<Rightarrow> RVSSVM \<Rightarrow> RVSSVM result" where
  "apply_reg_changes val [] v = Inr v"
| "apply_reg_changes val (c # cs) v =
     bindr (if reg_type c = 0 then write_gpr (reg_index c) (val c) v
            else if reg_type c = 1 then write_csr (reg_index c) (val c) v
            else if reg_type c = 2 then write_fpr (reg_index c) (val c) v
            else Inr (print [ErrText ''Invalid register type: '', ErrInt (int (reg_type c))] v))
       (apply_reg_changes val cs)"

fun apply_mem_changes :: "(MemoryChange \<Rightarrow> u8 list) \<Rightarrow> MemoryChange list \<Rightarrow> RVSSVM \<Rightarrow> RVSSVM result" where
  "apply_mem_changes val [] v = Inr v"
| "apply_mem_changes val (c # cs) v =
     bindr (write_bytes (address c) (val c) v) (apply_mem_changes val cs)"

definition restore_custom :: "StepDelta \<Rightarrow> RVSSVM \<Rightarrow> RVSSVM" where
  "restore_custom d v =
     (if custom_instr_executed d = 1 \<or> custom_instr_executed d = 2
      then v\<lparr>bigmul := restore (bigmul_state d) (bigmul v)\<rparr> else v)"

definition Undo :: "RVSSVM \<Rightarrow> RVSSVM result" where
  "Undo v = (case undo_stack v of
       [] \<Rightarrow> Inr ((print [OutText ''VM_NO_MORE_UNDO''] v)\<lparr>output_status := ''VM_NO_MORE_UNDO''\<rparr>)
     | d # ds \<Rightarrow>
         let v = restore_custom d (v\<lparr>undo_stack := ds\<rparr>) in
         bindr (apply_reg_changes old_value (register_changes d) v) (\<lambda>v.
         bindr (apply_mem_changes old_bytes_vec (memory_changes d) v) (\<lambda>v.
           let v = v\<lparr>program_counter := old_pc d, instructions_retired := instructions_retired v - 1,
                     cycle_s := cycle_s v - 1\<rparr>;
               v = print [OutText ''Program Counter: '', OutInt (uint (program_counter v))] v;
               v = v\<lparr>redo_stack := d # redo_stack v, output_status := ''VM_UNDO_COMPLETED''\<rparr>
           in Inr (print [OutText ''VM_UNDO_COMPLETED''] v))))"

definition Redo :: "RVSSVM \<Rightarrow> RVSSVM result" where
  "Redo v = (case redo_stack v of
       [] \<Rightarrow> Inr (print [OutText ''VM_NO_MORE_REDO''] v)
     | d # ds \<Rightarrow>
         let v = restore_custom d (v\<lparr>redo_stack := ds\<rparr>) in
         bindr (apply_reg_changes new_value (register_changes d) v) (\<lambda>v.
         bindr (apply_mem_changes new_bytes_vec (memory_changes d) v) (\<lambda>v.
           let v = v\<lparr>program_counter := new_pc d, instructions_retired := instructions_retired v + 1,
                     cycle_s := cycle_s v + 1\<rparr>;
               v = (print [OutText ''Program Counter: '', OutInt (uint (program_counter v))] v)
                     \<lparr>output_status := ''VM_REDO_COMPLETED''\<rparr>;
               v = print [OutText ''VM_REDO_COMPLETED''] v
           in Inr (v\<lparr>undo_stack := d # undo_stack v\<rparr>))))"

definition Reset :: "RVSSVM \<Rightarrow> RVSSVM" where
  "Reset v = v\<lparr>program_counter := 0, instructions_retired := 0, cycle_s := 0,
     registers := Registers_Reset (registers v), memory := Memory_Reset (memory v),
     control_unit := ControlUnit_Reset (control_unit v), bigmul := reset (bigmul v),
     branch_flag := False, next_pc := 0, execution_result := 0, memory_result := 0,
     return_address := 0, csr_target_address := 0, csr_old_value := 0, csr_write_val := 0,
     csr_uimm := 0,
     current_delta := (current_delta v)\<lparr>register_changes := [], memory_changes := [], old_pc := 0, new_pc := 0\<rparr>,
     undo_stack := [], redo_stack := []\<rparr>"

definition RequestStop :: "RVSSVM \<Rightarrow> RVSSVM" where "RequestStop v = v\<lparr>stop_requested := True\<rparr>"
definition ClearStop :: "RVSSVM \<Rightarrow> RVSSVM" where "ClearStop v = v\<lparr>stop_requested := False\<rparr>"

definition PushInput :: "string \<Rightarrow> RVSSVM \<Rightarrow> RVSSVM" where
  "PushInput s v = v\<lparr>input_queue := input_queue v @ [s]\<rparr>"

definition new_RVSSVM :: "VmConfig \<Rightarrow> bool \<Rightarrow> RVSSVM" where
  "new_RVSSVM c backend = VmBase.extend (new_VmBase c backend)
     \<lparr>control_unit = new_ControlUnit, stop_requested = False, undo_stack = [], redo_stack = [],
      current_delta = new_StepDelta, execution_result = 0, memory_result = 0, return_address = 0,
      branch_flag = False, next_pc = 0, csr_target_address = 0, csr_old_value = 0,
      csr_write_val = 0, csr_uimm = 0, bigmul = initial_unit, host_round = FE_TONEAREST\<rparr>"

end
