(* ===== verification/RvssUndo.thy ===== *)
theory RvssUndo
  imports RvssVm
begin

text \<open>
  Undo and redo of the single-stage machine (src/vm/rvss/rvss_vm.cpp): what a step records in its
  \<open>StepDelta\<close>, that the record describes the whole change of registers and memory, and that
  \<open>Undo\<close> and \<open>Redo\<close> apply it backwards and forwards.
\<close>

subsection \<open>Bytes read and written\<close>

context byte_store
begin

lemma write_loop_frame:
  assumes "write_loop wr m a i k (val :: 'a::len word) = Inr m'" and "inv m" and "i + k \<le> 2 ^ 64"
  shows "inv m' \<and> limit m' = limit m \<and> (\<forall>x. \<not> (i \<le> unat (x - a) \<and> unat (x - a) < i + k) \<longrightarrow> abs m' x = abs m x)"
  using assms
proof (induction k arbitrary: i m)
  case 0
  then show ?case by simp
next
  case (Suc k)
  from Suc.prems(1) obtain m1 where
    m1: "wr m (a + of_nat i) (ucast (drop_bit (8 * i) val)) = Inr m1" "write_loop wr m1 a (Suc i) k val = Inr m'"
    by auto
  then have "a + of_nat i < limit m" using wr_out [OF Suc.prems(2)] by fastforce
  from wr_in [OF Suc.prems(2) this, of "ucast (drop_bit (8 * i) val)"] m1(1) have
    s: "inv m1" "limit m1 = limit m" "abs m1 = (abs m)(a + of_nat i := ucast (drop_bit (8 * i) val))" by auto
  have i: "unat (of_nat i :: u64) = i" using Suc.prems(3) by (simp add: unat_of_nat)
  have f: "abs m' x = abs m x" if "\<not> (i \<le> unat (x - a) \<and> unat (x - a) < i + Suc k)" for x
  proof -
    have "x \<noteq> a + of_nat i" using that i by auto
    moreover have "\<not> (Suc i \<le> unat (x - a) \<and> unat (x - a) < Suc i + k)" using that by auto
    ultimately show ?thesis using Suc.IH [OF m1(2) s(1)] s(3) Suc.prems(3) by simp
  qed
  from Suc.IH [OF m1(2) s(1)] s f Suc.prems(3) show ?case by auto
qed

end

lemma reads_succeed_below: "ReadByte m a = Inr b \<Longrightarrow> a < mem_size m"
  by (auto simp: ReadByte_def not_le split: if_splits)

lemma ReadByte_bytes: "wf_memory bs m \<Longrightarrow> ReadByte m a = Inr b \<longleftrightarrow> a < mem_size m \<and> b = bytes m a"
  by (auto simp: ReadByte_def Read_bytes not_le)

lemma WriteByte_bytes:
  assumes "wf_memory bs m"
  shows "WriteByte bs m a x = Inr m' \<Longrightarrow> a < mem_size m \<and> wf_memory bs m' \<and> mem_size m' = mem_size m \<and> bytes m' = (bytes m)(a := x)"
    and "a < mem_size m \<Longrightarrow> \<exists>m'. WriteByte bs m a x = Inr m'"
  using Write_bytes [OF assms, of a x] by (auto simp: WriteByte_def not_le split: if_splits)

lemma read_bytes_nth:
  assumes "wf_memory bs m"
  shows "read_bytes m a n = Inr xs \<longleftrightarrow> length xs = n \<and>
    (\<forall>j < n. a + of_nat j < mem_size m \<and> xs ! j = bytes m (a + of_nat j))"
proof (induction n arbitrary: a xs)
  case 0
  then show ?case by auto
next
  case (Suc n)
  show ?case
  proof (cases xs)
    case Nil
    then show ?thesis by (auto simp: bindr_Inr_iff)
  next
    case (Cons y ys)
    have "read_bytes m a (Suc n) = Inr xs \<longleftrightarrow> a < mem_size m \<and> y = bytes m a \<and> read_bytes m (a + 1) n = Inr ys"
      using Cons by (auto simp: bindr_Inr_iff ReadByte_bytes [OF assms])
    also have "\<dots> \<longleftrightarrow> length xs = Suc n \<and> (\<forall>j < Suc n. a + of_nat j < mem_size m \<and> xs ! j = bytes m (a + of_nat j))"
      unfolding Suc.IH using Cons by (auto simp: All_less_Suc2 ac_simps)
    finally show ?thesis .
  qed
qed

lemma write_bytes_nth:
  assumes "wf_memory (memory_block_size (vm_config v)) (memory v)" and "length xs \<le> 2 ^ 64"
    and "\<forall>j < length xs. a + of_nat j < mem_size (memory v)"
  shows "\<exists>m'. write_bytes a xs v = Inr (v\<lparr>memory := m'\<rparr>) \<and>
    wf_memory (memory_block_size (vm_config v)) m' \<and> mem_size m' = mem_size (memory v) \<and>
    (\<forall>y. bytes m' y = (if unat (y - a) < length xs then xs ! unat (y - a) else bytes (memory v) y))"
  using assms
proof (induction xs arbitrary: a v)
  case Nil
  then show ?case by (intro exI [of _ "memory v"]) simp
next
  case (Cons x xs)
  let ?bs = "memory_block_size (vm_config v)"
  have "a < mem_size (memory v)" using Cons.prems(3) by (auto dest: spec [of _ 0])
  with WriteByte_bytes [OF Cons.prems(1)] obtain m1 where
    w: "WriteByte ?bs (memory v) a x = Inr m1" and
    m1: "wf_memory ?bs m1" "mem_size m1 = mem_size (memory v)" "bytes m1 = (bytes (memory v))(a := x)" by blast
  let ?v = "v\<lparr>memory := m1\<rparr>"
  have "\<forall>j < length xs. a + 1 + of_nat j < mem_size (memory ?v)"
    using Cons.prems(3) m1(2) by (auto simp: All_less_Suc2 ac_simps)
  with Cons.IH [of ?v "a + 1"] m1(1) Cons.prems(2) obtain m' where
    m': "write_bytes (a + 1) xs ?v = Inr (v\<lparr>memory := m'\<rparr>)" "wf_memory ?bs m'" "mem_size m' = mem_size (memory v)"
      "\<And>y. bytes m' y = (if unat (y - (a + 1)) < length xs then xs ! unat (y - (a + 1)) else bytes m1 y)"
    using m1(2) by auto
  have "bytes m' y = (if unat (y - a) < length (x # xs) then (x # xs) ! unat (y - a) else bytes (memory v) y)" for y
  proof (cases "y = a")
    case True
    have "unat (- 1 :: u64) = 2 ^ 64 - 1" by (simp add: unsigned_minus_1_eq_mask mask_eq_exp_minus_1)
    with Cons.prems(2) have "\<not> unat (- 1 :: u64) < length xs" by simp
    with True show ?thesis by (simp add: m'(4) m1(3))
  next
    case False
    then have "y - a \<noteq> 0" by simp
    then have "unat (y - a) = Suc (unat (y - a - 1))"
      by (metis Suc_pred' diff_add_cancel unat_gt_0 unat_minus_one)
    with False show ?thesis by (simp add: m'(4) m1(3) diff_diff_add)
  qed
  with m' w show ?case by (intro exI [of _ m']) (simp add: mc_write_byte_def)
qed

subsection \<open>What a step records\<close>

text \<open>The change of a register file that a list of recorded register changes describes, and the
  change of a memory's bytes that a list of recorded memory changes describes.\<close>

inductive reg_recorded :: "RegisterFile \<Rightarrow> RegisterChange list \<Rightarrow> RegisterFile \<Rightarrow> bool" where
  none: "reg_recorded r [] r"
| general: "\<lbrakk>i < NUM_GPR; i \<noteq> 0\<rbrakk> \<Longrightarrow> reg_recorded r
    [\<lparr>reg_index = i, reg_type = 0, old_value = gpr r i, new_value = x\<rparr>] (r\<lparr>gpr := (gpr r)(i := x)\<rparr>)"
| zero: "reg_recorded r [\<lparr>reg_index = 0, reg_type = 0, old_value = y, new_value = x\<rparr>] r"
| floating: "i < NUM_FPR \<Longrightarrow> reg_recorded r
    [\<lparr>reg_index = i, reg_type = 2, old_value = fpr r i, new_value = x\<rparr>] (r\<lparr>fpr := (fpr r)(i := x)\<rparr>)"

definition holds_at :: "Memory \<Rightarrow> u64 \<Rightarrow> u8 list \<Rightarrow> bool" where
  "holds_at m a xs \<longleftrightarrow> (\<forall>j < length xs. a + of_nat j < mem_size m \<and> xs ! j = bytes m (a + of_nat j))"

definition overwritten :: "(u64 \<Rightarrow> u8) \<Rightarrow> u64 \<Rightarrow> u8 list \<Rightarrow> u64 \<Rightarrow> u8" where
  "overwritten f a xs y = (if unat (y - a) < length xs then xs ! unat (y - a) else f y)"

inductive mem_recorded :: "u64 \<Rightarrow> Memory \<Rightarrow> MemoryChange list \<Rightarrow> Memory \<Rightarrow> bool" for bs where
  none: "\<lbrakk>wf_memory bs m; wf_memory bs m'; mem_size m' = mem_size m; bytes m' = bytes m\<rbrakk> \<Longrightarrow>
    mem_recorded bs m [] m'"
| change: "\<lbrakk>wf_memory bs m; wf_memory bs m'; mem_size m' = mem_size m; length new = length old;
    length old \<le> 2 ^ 64; holds_at m a old; bytes m' = overwritten (bytes m) a new\<rbrakk> \<Longrightarrow>
    mem_recorded bs m [mem_change a old new] m'"

lemma apply_reg_old:
  "reg_recorded r cs (registers v) \<Longrightarrow> apply_reg_changes old_value cs v = Inr (v\<lparr>registers := r\<rparr>)"
  by (erule reg_recorded.cases) (auto simp: write_gpr_def WriteGpr_def write_fpr_def WriteFpr_def NUM_GPR_def)

lemma apply_reg_new:
  "reg_recorded (registers v) cs r \<Longrightarrow> apply_reg_changes new_value cs v = Inr (v\<lparr>registers := r\<rparr>)"
  by (erule reg_recorded.cases) (auto simp: write_gpr_def WriteGpr_def write_fpr_def WriteFpr_def NUM_GPR_def)

lemma holds_at_overwritten:
  assumes "bytes m' = overwritten (bytes m) a xs" and "length xs \<le> 2 ^ 64" and "mem_size m' = mem_size m"
    and "\<forall>j < length xs. a + of_nat j < mem_size m"
  shows "holds_at m' a xs"
  using assms by (auto simp: holds_at_def overwritten_def unat_of_nat)

text \<open>Writing recorded bytes over a memory.\<close>

lemma write_over:
  assumes "wf_memory (memory_block_size (vm_config v)) (memory v)" and "length xs \<le> 2 ^ 64"
    and "\<forall>j < length xs. a + of_nat j < mem_size (memory v)"
  shows "\<exists>m'. write_bytes a xs v = Inr (v\<lparr>memory := m'\<rparr>) \<and>
    wf_memory (memory_block_size (vm_config v)) m' \<and> mem_size m' = mem_size (memory v) \<and>
    bytes m' = overwritten (bytes (memory v)) a xs"
  using write_bytes_nth [OF assms] by (auto simp: overwritten_def fun_eq_iff)

lemma overwritten_back:
  assumes "holds_at m a old" and "length new = length old"
  shows "overwritten (overwritten (bytes m) a new) a old = bytes m"
  using assms by (fastforce simp: overwritten_def holds_at_def fun_eq_iff)

lemma overwritten_same: "holds_at m a xs \<Longrightarrow> overwritten (bytes m) a xs = bytes m"
  by (fastforce simp: overwritten_def holds_at_def fun_eq_iff)

lemma apply_mem_old:
  assumes "mem_recorded (memory_block_size (vm_config v)) m cs (memory v)"
  shows "\<exists>m'. apply_mem_changes old_bytes_vec cs v = Inr (v\<lparr>memory := m'\<rparr>) \<and>
    wf_memory (memory_block_size (vm_config v)) m' \<and> mem_size m' = mem_size m \<and> bytes m' = bytes m"
  using assms
proof (cases rule: mem_recorded.cases)
  case none
  then show ?thesis by (intro exI [of _ "memory v"]) simp
next
  case (change new old a)
  then have "\<forall>j < length old. a + of_nat j < mem_size (memory v)" by (simp add: holds_at_def)
  with write_over [of v old a] change show ?thesis
    by (auto simp: mem_change_def overwritten_back)
qed

lemma apply_mem_new:
  assumes "mem_recorded (memory_block_size (vm_config v)) m cs m'"
    and "wf_memory (memory_block_size (vm_config v)) (memory v)"
    and "mem_size (memory v) = mem_size m" and "bytes (memory v) = bytes m"
  shows "\<exists>m2. apply_mem_changes new_bytes_vec cs v = Inr (v\<lparr>memory := m2\<rparr>) \<and>
    wf_memory (memory_block_size (vm_config v)) m2 \<and> mem_size m2 = mem_size m \<and> bytes m2 = bytes m'"
  using assms(1)
proof (cases rule: mem_recorded.cases)
  case none
  with assms show ?thesis by (intro exI [of _ "memory v"]) simp
next
  case (change new old a)
  then have "\<forall>j < length new. a + of_nat j < mem_size (memory v)"
    using assms(3) by (simp add: holds_at_def)
  with write_over [of v new a] change assms show ?thesis by (auto simp: mem_change_def)
qed

subsection \<open>Stores are recorded\<close>

definition store_frame :: "u64 \<Rightarrow> Memory \<Rightarrow> u64 \<Rightarrow> nat \<Rightarrow> Memory \<Rightarrow> bool" where
  "store_frame bs m a n m' \<longleftrightarrow> wf_memory bs m' \<and> mem_size m' = mem_size m \<and>
     (\<forall>y. unat (y - a) < n \<or> bytes m' y = bytes m y)"

lemma generic_frame:
  "\<lbrakk>WriteGeneric n bs m a (w :: 'a::len word) = Inr m'; wf_memory bs m; n \<le> 2 ^ 64\<rbrakk> \<Longrightarrow> store_frame bs m a n m'"
  using mem.write_loop_frame [of bs m a 0 n w m'] by (auto simp: store_frame_def WriteGeneric_def)

lemma store_frames:
  assumes "wf_memory bs m"
  shows "WriteByte bs m a x = Inr m' \<Longrightarrow> store_frame bs m a 1 m'"
    and "WriteHalfWord bs m a y = Inr m' \<Longrightarrow> store_frame bs m a 2 m'"
    and "WriteWord bs m a z = Inr m' \<Longrightarrow> store_frame bs m a 4 m'"
    and "WriteDoubleWord bs m a w = Inr m' \<Longrightarrow> store_frame bs m a 8 m'"
  using WriteByte_bytes(1) [OF assms, of a x m']
  by (auto simp: WriteHalfWord_def WriteWord_def WriteDoubleWord_def store_frame_def [of _ _ _ "Suc 0"]
      split: if_splits intro: generic_frame [OF _ assms])

text \<open>What the stages keep: all of the machine but its memory, its registers and the record.\<close>

definition kept :: "RVSSVM \<Rightarrow> VmConfig \<times> u32 \<times> ControlUnit \<times> StepDelta list \<times> StepDelta list \<times> u32 \<times> u32 \<times> BigmulUnit" where
  "kept v = (vm_config v, current_instruction v, control_unit v, undo_stack v, redo_stack v,
     instructions_retired v, cycle_s v, bigmul v)"

text \<open>A stage that changes no register and records the memory it changes.\<close>

definition memory_stage :: "RVSSVM \<Rightarrow> RVSSVM \<Rightarrow> bool" where
  "memory_stage v v' \<longleftrightarrow> kept v' = kept v \<and> registers v' = registers v \<and>
     (\<exists>cs. mem_recorded (memory_block_size (vm_config v)) (memory v) cs (memory v') \<and>
        current_delta v' = (current_delta v)\<lparr>memory_changes := memory_changes (current_delta v) @ cs\<rparr>)"

lemma memory_stage_same:
  assumes "wf_memory (memory_block_size (vm_config v)) (memory v)"
    and "kept v' = kept v" "registers v' = registers v" "memory v' = memory v" "current_delta v' = current_delta v"
  shows "memory_stage v v'"
  using assms by (auto simp: memory_stage_def intro!: exI [of _ "[]"] mem_recorded.none)

lemma store_recorded_stage:
  assumes "wf_memory (memory_block_size (vm_config v)) (memory v)" and "n \<le> 2 ^ 64"
    and store: "\<And>v1. store v = Inr v1 \<Longrightarrow> \<exists>m'. v1 = v\<lparr>memory := m'\<rparr> \<and>
      store_frame (memory_block_size (vm_config v)) (memory v) a n m'"
    and "store_recorded n a store v = Inr v'"
  shows "memory_stage v v'"
proof -
  let ?bs = "memory_block_size (vm_config v)"
  from assms(4) obtain old v1 new where old: "read_bytes (memory v) a n = Inr old" and v1: "store v = Inr v1"
    and new: "read_bytes (memory v1) a n = Inr new"
    and v': "v' = (if old \<noteq> new then push_mem_change (mem_change a old new) v1 else v1)"
    by (auto simp: store_recorded_def bindr_Inr_iff)
  from store [OF v1] obtain m' where m: "v1 = v\<lparr>memory := m'\<rparr>" and f: "store_frame ?bs (memory v) a n m'" by blast
  have wf: "wf_memory ?bs m'" "mem_size m' = mem_size (memory v)" using f by (auto simp: store_frame_def)
  have o: "length old = n" "holds_at (memory v) a old"
    using old read_bytes_nth [OF assms(1)] by (auto simp: holds_at_def)
  have nw: "length new = n" "holds_at m' a new"
    using new read_bytes_nth [OF wf(1)] by (auto simp: holds_at_def m)
  have b: "bytes m' y = overwritten (bytes (memory v)) a new y" for y
  proof (cases "unat (y - a) < n")
    case True
    have "new ! unat (y - a) = bytes m' (a + of_nat (unat (y - a)))" using nw True by (simp add: holds_at_def)
    then show ?thesis using True nw(1) by (simp add: overwritten_def)
  next
    case False
    then show ?thesis using f nw(1) by (auto simp: store_frame_def overwritten_def)
  qed
  show ?thesis
  proof (cases "old = new")
    case True
    with b o(2) have "bytes m' = bytes (memory v)" by (simp add: fun_eq_iff overwritten_same)
    with True wf assms(1) m v' show ?thesis
      by (auto simp: memory_stage_def kept_def intro!: exI [of _ "[]"] mem_recorded.none)
  next
    case False
    have "mem_recorded ?bs (memory v) [mem_change a old new] m'"
      by (rule mem_recorded.change) (use wf assms(1,2) o nw b in \<open>auto simp: fun_eq_iff\<close>)
    with False m v' show ?thesis by (auto simp: memory_stage_def kept_def push_mem_change_def)
  qed
qed

lemma mc_write_frames:
  assumes "wf_memory (memory_block_size (vm_config v)) (memory v)"
  shows "mc_write_byte a x v = Inr v1 \<Longrightarrow> \<exists>m'. v1 = v\<lparr>memory := m'\<rparr> \<and>
      store_frame (memory_block_size (vm_config v)) (memory v) a 1 m'"
    and "mc_write_half a y v = Inr v1 \<Longrightarrow> \<exists>m'. v1 = v\<lparr>memory := m'\<rparr> \<and>
      store_frame (memory_block_size (vm_config v)) (memory v) a 2 m'"
    and "mc_write_word a z v = Inr v1 \<Longrightarrow> \<exists>m'. v1 = v\<lparr>memory := m'\<rparr> \<and>
      store_frame (memory_block_size (vm_config v)) (memory v) a 4 m'"
    and "mc_write_double a w v = Inr v1 \<Longrightarrow> \<exists>m'. v1 = v\<lparr>memory := m'\<rparr> \<and>
      store_frame (memory_block_size (vm_config v)) (memory v) a 8 m'"
  using store_frames [OF assms]
  by (auto simp: mc_write_byte_def mc_write_half_def mc_write_word_def mc_write_double_def bindr_Inr_iff)

lemma store_value_stage:
  assumes "wf_memory (memory_block_size (vm_config v)) (memory v)" and "store_value f3 x v = Inr v'"
  shows "memory_stage v v'"
proof -
  note s = store_recorded_stage [OF assms(1)]
  note w = mc_write_frames [OF assms(1)]
  consider "f3 = 0" | "f3 = 1" | "f3 = 2" | "f3 = 3" | "f3 \<notin> {0, 1, 2, 3}" by blast
  then show ?thesis
  proof cases
    case 1
    from assms(2) have "store_recorded 1 (execution_result v) (mc_write_byte (execution_result v) (ucast x)) v = Inr v'"
      unfolding store_value_def Let_def 1 by (simp only: simp_thms if_True)
    then show ?thesis by (rule s [rotated -1]) (simp, erule w(1))
  next
    case 2
    from assms(2) have "store_recorded 2 (execution_result v) (mc_write_half (execution_result v) (ucast x)) v = Inr v'"
      unfolding store_value_def Let_def 2 by simp
    then show ?thesis by (rule s [rotated -1]) (simp, erule w(2))
  next
    case 3
    from assms(2) have "store_recorded 4 (execution_result v) (mc_write_word (execution_result v) (ucast x)) v = Inr v'"
      unfolding store_value_def Let_def 3 by simp
    then show ?thesis by (rule s [rotated -1]) (simp, erule w(3))
  next
    case 4
    from assms(2) have "store_recorded 8 (execution_result v) (mc_write_double (execution_result v) x) v = Inr v'"
      unfolding store_value_def Let_def 4 by simp
    then show ?thesis by (rule s [rotated -1]) (simp, erule w(4))
  next
    case 5
    with assms(2) have "v' = v" by (simp add: store_value_def)
    then show ?thesis by (intro memory_stage_same [OF assms(1)]) simp_all
  qed
qed

text \<open>The instructions whose effects a step records: all but system instructions, the custom ones and
  the single-precision ones, which set the floating-point status.\<close>

definition recordable :: "u32 \<Rightarrow> bool" where
  "recordable w \<longleftrightarrow> opcode_of w \<notin> {0x73, 0x2A, 0x3F} \<and> \<not> isFInstruction w"

lemma memory_stage_result [simp]: "memory_stage (v\<lparr>memory_result := x\<rparr>) v' = memory_stage v v'"
  by (simp add: memory_stage_def kept_def)

lemma load_result_eq: "load_result f3 v = Inr v' \<Longrightarrow> \<exists>x. v' = v\<lparr>memory_result := x\<rparr>"
  by (auto simp: load_result_def Let_def split: if_splits intro: exI [of _ "memory_result v"])

lemma WriteMemoryDouble_stage:
  assumes "wf_memory (memory_block_size (vm_config v)) (memory v)" and "WriteMemoryDouble v = Inr v'"
  shows "memory_stage v v'"
proof -
  from assms(2) obtain u where
    u: "(if mem_read (control_unit v) then bindr (ReadDoubleWord (memory v) (execution_result v))
          (\<lambda>x. Inr (v\<lparr>memory_result := x\<rparr>)) else Inr v) = Inr u" and
    v': "(if mem_write (control_unit u) then bindr (ReadFpr (registers u) (unat (rs2_of (current_instruction v)))) (\<lambda>x.
            store_recorded 8 (execution_result u) (mc_write_double (execution_result u) x) u)
        else Inr u) = Inr v'"
    unfolding WriteMemoryDouble_def Let_def by blast
  from u have "u = v\<lparr>memory_result := memory_result u\<rparr>"
    by (cases "mem_read (control_unit v)") (auto simp: bindr_Inr_iff)
  then obtain x where x: "u = v\<lparr>memory_result := x\<rparr>" by blast
  from v' have "v' = v\<lparr>memory_result := x\<rparr> \<or>
      (\<exists>y a. store_recorded 8 a (mc_write_double a y) (v\<lparr>memory_result := x\<rparr>) = Inr v')"
    unfolding x by (cases "mem_write (control_unit v)") (auto simp: bindr_Inr_iff)
  moreover have "memory_stage v v'"
    if "store_recorded 8 a (mc_write_double a y) (v\<lparr>memory_result := x\<rparr>) = Inr v'" for a y
  proof -
    have "memory_stage (v\<lparr>memory_result := x\<rparr>) v'"
      using that by (rule store_recorded_stage [rotated -1]) (use assms(1) mc_write_frames(4) [of "v\<lparr>memory_result := x\<rparr>"] in auto)
    then show ?thesis by simp
  qed
  moreover have "memory_stage v (v\<lparr>memory_result := x\<rparr>)"
    by (rule memory_stage_same [OF assms(1)]) (simp_all add: kept_def)
  ultimately show ?thesis by blast
qed

lemma WriteMemory_stage:
  assumes "wf_memory (memory_block_size (vm_config v)) (memory v)" and "recordable (current_instruction v)"
    and "\<not> ldbm_start (control_unit v)" and "\<not> bigmul_start (control_unit v)" and "WriteMemory v = Inr v'"
  shows "memory_stage v v'"
proof (cases "isDInstruction (current_instruction v)")
  case True
  with assms have "WriteMemoryDouble v = Inr v'" by (simp add: WriteMemory_def recordable_def)
  with assms(1) show ?thesis by (rule WriteMemoryDouble_stage)
next
  case False
  let ?w = "current_instruction v"
  from False assms have "bindr (if mem_read (control_unit v) then load_result (funct3_of ?w) v else Inr v) (\<lambda>v.
      if bigmul_start (control_unit v) \<and> \<not> GetBigmulDone (bigmul v) \<and> \<not> GetWriteDone (bigmul v)
          then bigmul_write_cycle v
          else if mem_write (control_unit v) then
        bindr (read_gpr (unat (rs2_of ?w)) v) (\<lambda>x. store_value (funct3_of ?w) x v)
      else Inr v) = Inr v'"
    by (simp add: WriteMemory_def recordable_def Let_def)
  then obtain u where u: "(if mem_read (control_unit v) then load_result (funct3_of ?w) v else Inr v) = Inr u"
    and v': "(if bigmul_start (control_unit u) \<and> \<not> GetBigmulDone (bigmul u) \<and> \<not> GetWriteDone (bigmul u)
          then bigmul_write_cycle u
          else if mem_write (control_unit u) then
        bindr (read_gpr (unat (rs2_of ?w)) u) (\<lambda>x. store_value (funct3_of ?w) x u)
      else Inr u) = Inr v'" by blast
  from u have "u = v\<lparr>memory_result := memory_result u\<rparr>"
    by (cases "mem_read (control_unit v)") (auto dest: load_result_eq)
  then obtain x where x: "u = v\<lparr>memory_result := x\<rparr>" by blast
  with assms(1) have wf: "wf_memory (memory_block_size (vm_config u)) (memory u)" by simp
  from v' x assms(4) have "v' = u \<or> (\<exists>y. store_value (funct3_of ?w) y u = Inr v')"
    by (cases "mem_write (control_unit v)") (auto simp: bindr_Inr_iff)
  then have "memory_stage u v'" using store_value_stage [OF wf] memory_stage_same [OF wf] by auto
  with x show ?thesis by simp
qed

subsection \<open>Register writes are recorded\<close>

definition register_stage :: "RVSSVM \<Rightarrow> RVSSVM \<Rightarrow> bool" where
  "register_stage v v' \<longleftrightarrow> kept v' = kept v \<and> memory v' = memory v \<and>
     (\<exists>cs. reg_recorded (registers v) cs (registers v') \<and>
        current_delta v' = (current_delta v)\<lparr>register_changes := register_changes (current_delta v) @ cs\<rparr>)"

lemma register_stage_refl: "register_stage v v"
  by (auto simp: register_stage_def intro!: exI [of _ "[]"] reg_recorded.none)

lemma register_stage_gpr:
  assumes "read_gpr i v = Inr old" and "write_gpr i x v = Inr v1"
    and "read_gpr i v1 = Inr new" and "v' = (if old \<noteq> new then push_reg_change (reg_change rd 0 old new) v1 else v1)"
    and "i = unat rd"
  shows "register_stage v v'"
proof (cases "i = 0 \<or> x = old")
  case True
  with assms show ?thesis
    by (auto simp: read_gpr_def ReadGpr_def write_gpr_def WriteGpr_def register_stage_def kept_def
        intro!: exI [of _ "[]"] reg_recorded.none split: if_splits)
next
  case False
  with assms reg_recorded.general [of i "registers v" x] show ?thesis
    by (auto simp: read_gpr_def ReadGpr_def write_gpr_def WriteGpr_def register_stage_def kept_def
        push_reg_change_def reg_change_def split: if_splits)
qed

lemma write_gpr_read: "write_gpr i x v = Inr v1 \<Longrightarrow> i \<noteq> 0 \<Longrightarrow> read_gpr i v1 = Inr x"
  by (auto simp: write_gpr_def WriteGpr_def read_gpr_def ReadGpr_def split: if_splits)

lemma write_fpr_recorded_stage: "write_fpr_recorded rd x v = Inr v' \<Longrightarrow> register_stage v v'"
proof -
  assume "write_fpr_recorded rd x v = Inr v'"
  then have rd: "unat rd < NUM_FPR" and v': "v' = (let v1 = v\<lparr>registers := (registers v)\<lparr>fpr := (fpr (registers v))(unat rd := x)\<rparr>\<rparr>
      in if fpr (registers v) (unat rd) \<noteq> x then push_reg_change (reg_change rd 2 (fpr (registers v) (unat rd)) x) v1 else v1)"
    by (auto simp: write_fpr_recorded_def ReadFpr_def write_fpr_def WriteFpr_def Let_def split: if_splits)
  show ?thesis
  proof (cases "fpr (registers v) (unat rd) = x")
    case True
    then have "v' = v" by (auto simp: v' Let_def)
    then show ?thesis by (simp add: register_stage_refl)
  next
    case False
    with v' reg_recorded.floating [OF rd, of "registers v" x] show ?thesis
      by (auto simp: register_stage_def kept_def push_reg_change_def reg_change_def Let_def)
  qed
qed

lemma WriteBackInteger_stage:
  assumes "WriteBackInteger v = Inr v'"
  shows "register_stage v v'"
proof (cases "reg_write_value v")
  case None
  with assms show ?thesis by (auto simp: WriteBackInteger_def Let_def bindr_Inr_iff register_stage_refl)
next
  case (Some x)
  let ?i = "unat (rd_of (current_instruction v))"
  from assms Some obtain old v1 new where
    "read_gpr ?i v = Inr old" "write_gpr ?i x v = Inr v1" "read_gpr ?i v1 = Inr new"
    "v' = (if old \<noteq> new then push_reg_change (reg_change (rd_of (current_instruction v)) 0 old new) v1 else v1)"
    by (simp add: WriteBackInteger_def Let_def bindr_Inr_iff) metis
  then show ?thesis by (rule register_stage_gpr) simp
qed

lemma write_gpr_recorded_stage:
  assumes "write_gpr_recorded rd x v = Inr v'"
  shows "register_stage v v'"
proof -
  from assms obtain old v1 where r: "read_gpr (unat rd) v = Inr old" and w: "write_gpr (unat rd) x v = Inr v1"
    and v': "v' = (if old \<noteq> x then push_reg_change (reg_change rd 0 old x) v1 else v1)"
    by (simp add: write_gpr_recorded_def bindr_Inr_iff) metis
  show ?thesis
  proof (cases "unat rd = 0")
    case True
    with w have "v1 = v" by (auto simp: write_gpr_def WriteGpr_def split: if_splits)
    with v' True show ?thesis
      using register_stage_refl [of v] reg_recorded.zero [of "registers v" old x]
      by (auto simp: register_stage_def kept_def push_reg_change_def reg_change_def)
  next
    case False
    show ?thesis using register_stage_gpr [OF r w write_gpr_read [OF w False] v' refl] .
  qed
qed

lemma WriteBackDouble_stage:
  assumes "WriteBackDouble v = Inr v'"
  shows "register_stage v v'"
proof -
  let ?rd = "rd_of (current_instruction v)"
  from assms consider "v' = v" | "write_gpr_recorded ?rd (execution_result v) v = Inr v'"
    | "write_fpr_recorded ?rd (memory_result v) v = Inr v'" | "write_fpr_recorded ?rd (execution_result v) v = Inr v'"
    unfolding WriteBackDouble_def Let_def by (metis Inr_inject)
  then show ?thesis
    using register_stage_refl write_gpr_recorded_stage write_fpr_recorded_stage by cases blast+
qed

lemma WriteBack_stage:
  assumes "recordable (current_instruction v)" and "WriteBack v = Inr v'"
  shows "register_stage v v'"
proof -
  from assms consider "v' = v" | "WriteBackDouble v = Inr v'" | "WriteBackInteger v = Inr v'"
    unfolding WriteBack_def recordable_def Let_def by (metis Inr_inject insertI1)
  then show ?thesis
    using register_stage_refl WriteBackDouble_stage WriteBackInteger_stage by cases blast+
qed

subsection \<open>Undo after a step\<close>

text \<open>A stage that touches neither memory nor registers nor the record.\<close>

definition quiet :: "RVSSVM \<Rightarrow> RVSSVM \<Rightarrow> bool" where
  "quiet v v' \<longleftrightarrow> kept v' = kept v \<and> registers v' = registers v \<and> memory v' = memory v \<and>
     current_delta v' = current_delta v"

lemma quiet_refl: "quiet v v"
  by (simp add: quiet_def)

lemma execute_branch_quiet: "quiet v (execute_branch imm v)"
  by (simp add: quiet_def kept_def execute_branch_def UpdateProgramCounter_def Let_def)

lemma run_alu_quiet: "run_alu x y v = Inr v' \<Longrightarrow> quiet v v'"
  by (auto simp: run_alu_def Let_def bindr_Inr_iff quiet_def kept_def split: prod.splits)

lemma quiet_trans: "quiet v u \<Longrightarrow> quiet u w \<Longrightarrow> quiet v w"
  by (simp add: quiet_def)

definition after_alu :: "u64 \<Rightarrow> RVSSVM \<Rightarrow> RVSSVM" where
  "after_alu imm u =
     (let w = current_instruction u; op = uint (opcode_of w);
          u = (if branch (control_unit u) then execute_branch imm u else u);
          u = (if branch_flag u \<and> op = 0x63 then UpdateProgramCounter imm (UpdateProgramCounter (- 4) u) else u)
      in if op = opcode (get_instr_encoding ''kauipc'')
         then u\<lparr>execution_result := program_counter u - 4 + scast (push_bit 12 (ImmGenerator w))\<rparr> else u)"

lemma after_alu_quiet: "quiet u (after_alu imm u)"
  using execute_branch_quiet [of u imm]
  by (simp add: after_alu_def Let_def quiet_def kept_def UpdateProgramCounter_def)

lemma ExecuteInteger_eq:
  "ExecuteInteger v = (let w = current_instruction v; imm = scast (ImmGenerator w) in
     bindr (read_gpr (unat (rs1_of w)) v) (\<lambda>x. bindr (read_gpr (unat (rs2_of w)) v) (\<lambda>y.
       bindr (run_alu x (if alu_src (control_unit v) then imm else y) v) (\<lambda>v. Inr (after_alu imm v)))))"
proof -
  have "current_instruction u = current_instruction v" if "run_alu x y v = Inr u" for x y u
    using run_alu_quiet [OF that] by (simp add: quiet_def kept_def)
  then show ?thesis
    unfolding ExecuteInteger_def Let_def after_alu_def by (intro bindr_cong refl) simp
qed

lemma ExecuteInteger_quiet: "ExecuteInteger v = Inr v' \<Longrightarrow> quiet v v'"
  using quiet_trans [OF run_alu_quiet after_alu_quiet] by (auto simp: ExecuteInteger_eq Let_def)

lemma ExecuteDouble_quiet: "ExecuteDouble H v = Inr v' \<Longrightarrow> quiet v v'"
  by (auto simp: ExecuteDouble_def Let_def bindr_Inr_iff quiet_def kept_def split: prod.splits)

lemma Execute_quiet:
  assumes "recordable (current_instruction v)" and "Execute H v = Inr v'"
  shows "quiet v v'"
proof -
  have "uint (opcode_of (current_instruction v)) \<noteq> opcode (get_instr_encoding ''kecall'')"
    using assms(1) by (simp add: recordable_def word_uint_eq_iff)
  with assms have "ExecuteDouble H v = Inr v' \<or> ExecuteInteger v = Inr v'"
    by (simp add: Execute_def recordable_def Let_def split: if_splits)
  then show ?thesis using ExecuteDouble_quiet ExecuteInteger_quiet by blast
qed

lemma SetControlSignals_no_custom:
  assumes "recordable w"
  shows "\<not> ldbm_start (SetControlSignals c w)" and "\<not> bigmul_start (SetControlSignals c w)"
  using assms by (auto simp: recordable_def SetControlSignals_def Let_def)

lemma Decode_recordable:
  assumes "recordable (current_instruction v)"
  shows "Decode v = Inr (v\<lparr>control_unit := SetControlSignals (control_unit v) (current_instruction v)\<rparr>)"
  using SetControlSignals_no_custom [OF assms] by (simp add: Decode_def Let_def)

lemma instruction_recorded:
  assumes wf: "wf_memory (memory_block_size (vm_config v)) (memory v)"
    and w: "ReadWord (memory v) (program_counter v) = Inr w" "recordable w"
    and i: "instruction H v = Inr v'"
  shows "\<exists>rc mc. reg_recorded (registers v) rc (registers v') \<and>
    mem_recorded (memory_block_size (vm_config v)) (memory v) mc (memory v') \<and>
    current_delta v' = (current_delta v)\<lparr>register_changes := register_changes (current_delta v) @ rc,
      memory_changes := memory_changes (current_delta v) @ mc\<rparr>"
    and "vm_config v' = vm_config v \<and> undo_stack v' = undo_stack v \<and> redo_stack v' = redo_stack v \<and>
      bigmul v' = bigmul v \<and> instructions_retired v' = instructions_retired v + 1 \<and>
      cycle_s v' = cycle_s v + 1 \<and> \<not> ldbm_start (control_unit v') \<and> \<not> bigmul_start (control_unit v')"
proof -
  let ?bs = "memory_block_size (vm_config v)"
  define v1 where "v1 = UpdateProgramCounter 4 (v\<lparr>current_instruction := w\<rparr>)"
  define v2 where "v2 = v1\<lparr>control_unit := SetControlSignals (control_unit v1) w\<rparr>"
  have d: "Fetch v = Inr v1" "Decode v1 = Inr v2" "current_instruction v2 = w"
    using w Decode_recordable [of v1] by (simp_all add: Fetch_def v1_def v2_def UpdateProgramCounter_def)
  from i d obtain v3 v4 v5 where e: "Execute H v2 = Inr v3" "WriteMemory v3 = Inr v4" "WriteBack v4 = Inr v5"
    and v': "v' = count_cycle (v5\<lparr>instructions_retired := instructions_retired v5 + 1\<rparr>)"
    by (auto simp: instruction_def bindr_Inr_iff)
  have q: "quiet v2 v3" using Execute_quiet [of v2] w(2) d(3) e(1) by simp
  have cu: "\<not> ldbm_start (control_unit v2)" "\<not> bigmul_start (control_unit v2)"
    using SetControlSignals_no_custom [OF w(2)] by (simp_all add: v2_def)
  have same: "kept v3 = kept v2" "registers v3 = registers v" "memory v3 = memory v" "current_delta v3 = current_delta v"
    "vm_config v3 = vm_config v" "current_instruction v3 = w" "control_unit v3 = control_unit v2"
    using q d(3) by (simp_all add: quiet_def v2_def v1_def kept_def UpdateProgramCounter_def)
  have m: "memory_stage v3 v4" by (rule WriteMemory_stage) (use wf w(2) e(2) cu same in simp_all)
  then have k4: "kept v4 = kept v2" using same by (simp add: memory_stage_def)
  then have "current_instruction v4 = w" using d(3) by (simp add: kept_def)
  with w(2) e(3) have r: "register_stage v4 v5" by (simp add: WriteBack_stage)
  obtain mc rc where "mem_recorded ?bs (memory v) mc (memory v5)" "reg_recorded (registers v) rc (registers v5)"
    "current_delta v5 = (current_delta v)\<lparr>register_changes := register_changes (current_delta v) @ rc,
      memory_changes := memory_changes (current_delta v) @ mc\<rparr>"
    using m r same by (auto simp: memory_stage_def register_stage_def)
  then show "\<exists>rc mc. reg_recorded (registers v) rc (registers v') \<and>
    mem_recorded ?bs (memory v) mc (memory v') \<and>
    current_delta v' = (current_delta v)\<lparr>register_changes := register_changes (current_delta v) @ rc,
      memory_changes := memory_changes (current_delta v) @ mc\<rparr>"
    by (intro exI [of _ rc] exI [of _ mc]) (simp add: v' count_cycle_def)
  have "kept v5 = kept v2" using k4 r by (simp add: register_stage_def)
  with cu show "vm_config v' = vm_config v \<and> undo_stack v' = undo_stack v \<and> redo_stack v' = redo_stack v \<and>
      bigmul v' = bigmul v \<and> instructions_retired v' = instructions_retired v + 1 \<and>
      cycle_s v' = cycle_s v + 1 \<and> \<not> ldbm_start (control_unit v') \<and> \<not> bigmul_start (control_unit v')"
    by (simp add: kept_def v' count_cycle_def v2_def v1_def UpdateProgramCounter_def)
qed

text \<open>Two machines that agree on what undo and redo restore.\<close>

definition same_contents :: "RVSSVM \<Rightarrow> RVSSVM \<Rightarrow> bool" where
  "same_contents v u \<longleftrightarrow> registers u = registers v \<and> mem_size (memory u) = mem_size (memory v) \<and>
     bytes (memory u) = bytes (memory v) \<and> program_counter u = program_counter v \<and>
     instructions_retired u = instructions_retired v \<and> cycle_s u = cycle_s v"

lemma Step_recorded:
  assumes "Step H fuel v = Inr v'" and "program_counter v < program_size v"
    and wf: "wf_memory (memory_block_size (vm_config v)) (memory v)"
    and w: "ReadWord (memory v) (program_counter v) = Inr w" "recordable w"
    and "register_changes (current_delta v) = []" and "memory_changes (current_delta v) = []"
  shows "\<exists>d. undo_stack v' = d # undo_stack v \<and> redo_stack v' = [] \<and> old_pc d = program_counter v \<and>
    new_pc d = program_counter v' \<and> custom_instr_executed d = 0 \<and>
    reg_recorded (registers v) (register_changes d) (registers v') \<and>
    mem_recorded (memory_block_size (vm_config v)) (memory v) (memory_changes d) (memory v') \<and>
    vm_config v' = vm_config v \<and> instructions_retired v' = instructions_retired v + 1 \<and>
    cycle_s v' = cycle_s v + 1"
proof -
  define v0 where "v0 = v\<lparr>current_delta := (current_delta v)\<lparr>custom_instr_executed := 0,
    bigmul_state := snapshot (bigmul v), old_pc := program_counter v\<rparr>\<rparr>"
  have "uint (ucast (w AND 0x7F) :: u8) \<notin> {42, 63}"
    using w(2) by (auto simp: recordable_def opcode_of_def word_uint_eq_iff)
  then have p: "preview v = Inr v0" using w(1) by (auto simp: preview_def v0_def Let_def)
  from assms(1,2) p obtain u where i: "instruction H v0 = Inr u" and
    s: "bindr (ldbm_stall_loop True fuel (print [OutText ''Program Counter: '', OutHex (program_counter u)] u))
      (\<lambda>v. bindr (bigmul_stall_loop True fuel v) (\<lambda>v. Inr (record_step v))) = Inr v'"
    by (auto simp: Step_def v0_def Let_def)
  have r: "ReadWord (memory v0) (program_counter v0) = Inr w"
    "wf_memory (memory_block_size (vm_config v0)) (memory v0)" using w wf by (simp_all add: v0_def)
  note rec = instruction_recorded [OF r(2,1) w(2) i]
  then have "\<not> ldbm_stalled (print out u)" "\<not> bigmul_stalled (print out u)" for out
    by (simp_all add: ldbm_stalled_def bigmul_stalled_def print_def)
  then have "v' = record_step (print [OutText ''Program Counter: '', OutHex (program_counter u)] u)"
    using s by (cases fuel) simp_all
  with rec assms(6,7) show ?thesis
    by (auto simp: record_step_def print_def v0_def Let_def)
qed

lemma Undo_recorded:
  assumes "undo_stack v' = d # ds" and "custom_instr_executed d = 0"
    and "reg_recorded r (register_changes d) (registers v')"
    and "mem_recorded (memory_block_size (vm_config v')) m (memory_changes d) (memory v')"
  shows "\<exists>u. Undo v' = Inr u \<and> registers u = r \<and> mem_size (memory u) = mem_size m \<and> bytes (memory u) = bytes m \<and>
    wf_memory (memory_block_size (vm_config v')) (memory u) \<and> program_counter u = old_pc d \<and>
    instructions_retired u = instructions_retired v' - 1 \<and> cycle_s u = cycle_s v' - 1 \<and>
    undo_stack u = ds \<and> redo_stack u = d # redo_stack v' \<and> vm_config u = vm_config v'"
proof -
  let ?v = "v'\<lparr>undo_stack := ds\<rparr>"
  have "apply_reg_changes old_value (register_changes d) ?v = Inr (?v\<lparr>registers := r\<rparr>)"
    using apply_reg_old [of r "register_changes d" ?v] assms(3) by simp
  moreover obtain m' where "apply_mem_changes old_bytes_vec (memory_changes d) (?v\<lparr>registers := r\<rparr>) =
      Inr (?v\<lparr>registers := r, memory := m'\<rparr>)" "wf_memory (memory_block_size (vm_config v')) m'"
      "mem_size m' = mem_size m" "bytes m' = bytes m"
    using apply_mem_old [of "?v\<lparr>registers := r\<rparr>" m "memory_changes d"] assms(4) by auto
  ultimately show ?thesis using assms(1,2) by (simp add: Undo_def restore_custom_def Let_def print_def)
qed

lemma Redo_recorded:
  assumes "redo_stack v = d # ds" and "custom_instr_executed d = 0"
    and "reg_recorded (registers v) (register_changes d) r"
    and "mem_recorded (memory_block_size (vm_config v)) m (memory_changes d) m'"
    and "wf_memory (memory_block_size (vm_config v)) (memory v)" "mem_size (memory v) = mem_size m"
      "bytes (memory v) = bytes m"
  shows "\<exists>u. Redo v = Inr u \<and> registers u = r \<and> mem_size (memory u) = mem_size m' \<and> bytes (memory u) = bytes m' \<and>
    program_counter u = new_pc d \<and> instructions_retired u = instructions_retired v + 1 \<and>
    cycle_s u = cycle_s v + 1 \<and> undo_stack u = d # undo_stack v \<and> redo_stack u = ds"
proof -
  let ?v = "v\<lparr>redo_stack := ds\<rparr>"
  have sz: "mem_size m' = mem_size m" using assms(4) by cases simp_all
  have "apply_reg_changes new_value (register_changes d) ?v = Inr (?v\<lparr>registers := r\<rparr>)"
    using apply_reg_new [of ?v "register_changes d" r] assms(3) by simp
  moreover obtain m2 where "apply_mem_changes new_bytes_vec (memory_changes d) (?v\<lparr>registers := r\<rparr>) =
      Inr (?v\<lparr>registers := r, memory := m2\<rparr>)" "mem_size m2 = mem_size m" "bytes m2 = bytes m'"
    using apply_mem_new [of "?v\<lparr>registers := r\<rparr>" m "memory_changes d" m'] assms(4-7) by auto
  ultimately show ?thesis using assms(1,2) sz by (simp add: Redo_def restore_custom_def Let_def print_def)
qed

text \<open>
  C2. Undo inverts a step: after a step of an integer or double-precision instruction from a
  machine with an empty record, \<open>Undo\<close> succeeds and restores every register, every byte of the
  memory, the program counter and the counters, and \<open>Redo\<close> after it brings back what the
  step had produced.
\<close>

theorem Step_Undo_Redo:
  assumes "Step H fuel v = Inr v'" and "program_counter v < program_size v"
    and "wf_memory (memory_block_size (vm_config v)) (memory v)"
    and "ReadWord (memory v) (program_counter v) = Inr w" and "recordable w"
    and "register_changes (current_delta v) = []" and "memory_changes (current_delta v) = []"
  shows "\<exists>u. Undo v' = Inr u \<and> same_contents v u \<and> undo_stack u = undo_stack v \<and>
    (\<exists>r. Redo u = Inr r \<and> same_contents v' r \<and> undo_stack r = undo_stack v' \<and> redo_stack r = [])"
proof -
  obtain d where d: "undo_stack v' = d # undo_stack v" "redo_stack v' = []" "old_pc d = program_counter v"
    "new_pc d = program_counter v'" "custom_instr_executed d = 0"
    "reg_recorded (registers v) (register_changes d) (registers v')"
    "mem_recorded (memory_block_size (vm_config v)) (memory v) (memory_changes d) (memory v')"
    "vm_config v' = vm_config v" "instructions_retired v' = instructions_retired v + 1"
    "cycle_s v' = cycle_s v + 1"
    using Step_recorded [OF assms] by blast
  obtain u where u: "Undo v' = Inr u" "registers u = registers v" "mem_size (memory u) = mem_size (memory v)"
    "bytes (memory u) = bytes (memory v)" "wf_memory (memory_block_size (vm_config v)) (memory u)"
    "program_counter u = old_pc d" "instructions_retired u = instructions_retired v' - 1"
    "cycle_s u = cycle_s v' - 1" "undo_stack u = undo_stack v" "redo_stack u = [d]" "vm_config u = vm_config v"
    using Undo_recorded [OF d(1,5,6), of "memory v"] d by auto
  from Redo_recorded [OF u(10) d(5), of "registers v'" "memory v" "memory v'"] d u show ?thesis
    by (auto simp: same_contents_def)
qed

text \<open>A machine of 64 bytes whose program is one instruction; \<open>0x00500093\<close> is \<open>addi x1, x0, 5\<close>.\<close>

definition one_instruction :: "u32 \<Rightarrow> RVSSVM" where
  "one_instruction w = (new_RVSSVM default_config False)\<lparr>program_size := 4,
     memory := \<lparr>blocks = [0 \<mapsto> [ucast w, ucast (drop_bit 8 w), ucast (drop_bit 16 w), ucast (drop_bit 24 w)] @
       replicate 12 0], block_size = 16, mem_size = 64\<rparr>,
     vm_config := default_config\<lparr>memory_block_size := 16\<rparr>\<rparr>"

lemma one_instruction_simps [simp]:
  "registers (one_instruction w) = new_RegisterFile" "program_counter (one_instruction w) = 0"
  "program_size (one_instruction w) = 4" "current_delta (one_instruction w) = new_StepDelta"
  "branch_flag (one_instruction w) = False" "control_unit (one_instruction w) = new_ControlUnit"
  by (simp_all add: one_instruction_def new_RVSSVM_def new_VmBase_def VmBase.extend_def)

lemma ReadGeneric_4:
  "ReadGeneric 4 m a = bindr (Read m a) (\<lambda>b0. bindr (Read m (a + 1)) (\<lambda>b1. bindr (Read m (a + 2)) (\<lambda>b2.
     bindr (Read m (a + 3)) (\<lambda>b3. Inr (ucast b0 OR push_bit 8 (ucast b1) OR push_bit 16 (ucast b2) OR
       push_bit 24 (ucast b3))))))"
proof -
  have four: "(4 :: nat) = Suc (Suc (Suc (Suc 0)))" by simp
  show ?thesis unfolding ReadGeneric_def four by (simp add: ac_simps)
qed

lemma one_word: "ReadWord (memory (one_instruction w)) 0 = Inr w"
proof -
  have "ReadWord (memory (one_instruction w)) 0 =
      Inr (ucast (ucast w :: u8) OR push_bit 8 (ucast (ucast (drop_bit 8 w) :: u8)) OR
        push_bit 16 (ucast (ucast (drop_bit 16 w) :: u8)) OR push_bit 24 (ucast (ucast (drop_bit 24 w) :: u8)))"
    by (simp add: one_instruction_def ReadWord_def ReadGeneric_4 Read_def GetBlockIndex_def GetBlockOffset_def
       word_le_nat_alt)
  also have "\<dots> = Inr w"
  proof (rule arg_cong [of _ _ Inr], rule bit_word_eqI)
    fix n assume "n < LENGTH(32)"
    then show "bit (ucast (ucast w :: u8) OR push_bit 8 (ucast (ucast (drop_bit 8 w) :: u8)) OR
        push_bit 16 (ucast (ucast (drop_bit 16 w) :: u8)) OR push_bit 24 (ucast (ucast (drop_bit 24 w) :: u8)) :: u32) n
      = bit w n" by (cases "n < 8"; cases "n < 16"; cases "n < 24") (auto simp: bit_simps)
  qed
  finally show ?thesis .
qed

lemma one_wf: "wf_memory (memory_block_size (vm_config (one_instruction w))) (memory (one_instruction w))"
  by (auto simp: one_instruction_def wf_memory_def)

text \<open>The definitions that evaluate one integer instruction.\<close>

lemmas vm_eval = Step_def preview_def Let_def instruction_def Fetch_def UpdateProgramCounter_def
  Decode_def SetControlSignals_def opcode_of_def Execute_def isFInstruction_def isDInstruction_def
  ExecuteInteger_eq read_gpr_def ReadGpr_def new_RegisterFile_def rs1_of_def rs2_of_def NUM_GPR_def
  run_alu_def GetAluSignal_def funct3_of_def funct7_of_def rd_of_def signal_I_def execute_def
  int_execute_def signed_initialiser_def add_overflow_iff ImmGenerator_def sign_extend_def after_alu_def WriteMemory_def WriteBack_def
  WriteBackInteger_def reg_write_value_def write_gpr_def WriteGpr_def print_def count_cycle_def
  bigmul_stalled_def ldbm_stalled_def push_reg_change_def

lemma step_addi:
  "\<exists>v'. Step H 0 (one_instruction 0x00500093) = Inr v' \<and> gpr (registers v') 1 = 5"
  by (simp add: vm_eval one_word record_step_def)

theorem Step_Undo_Redo_witness:
  "\<forall>H. \<exists>v' u. Step H 0 (one_instruction 0x00500093) = Inr v' \<and> gpr (registers v') 1 = 5 \<and>
     Undo v' = Inr u \<and> same_contents (one_instruction 0x00500093) u"
proof
  fix H
  let ?v = "one_instruction 0x00500093"
  obtain v' where v': "Step H 0 ?v = Inr v'" "gpr (registers v') 1 = 5" using step_addi by blast
  have "recordable 0x00500093" by (simp add: recordable_def opcode_of_def isFInstruction_def)
  then show "\<exists>v' u. Step H 0 ?v = Inr v' \<and> gpr (registers v') 1 = 5 \<and> Undo v' = Inr u \<and> same_contents ?v u"
    using Step_Undo_Redo [OF v'(1) _ one_wf, of "0x00500093"] v' by (auto simp: one_word new_StepDelta_def)
qed

end
