(* ===== verification/BigmulArith.thy ===== *)
theory BigmulArith
  imports Bigmul
begin

text \<open>
  Arithmetic of the multiplier: the 192-bit accumulator as a natural number, the long
  multiplication of numbers to base \<open>2 ^ 64\<close> by diagonals with carries, and the bounds that
  show the accumulator never overflows.
\<close>

definition val3 :: "u64 \<times> u64 \<times> u64 \<Rightarrow> nat" where
  "val3 b = (case b of (b0, b1, b2) \<Rightarrow> unat b0 + 2 ^ 64 * unat b1 + 2 ^ 128 * unat b2)"

lemma unat_ucast_u128_u64: "unat (ucast (t :: u128) :: u64) = unat t mod 2 ^ 64"
  by (simp add: unsigned_ucast_eq take_bit_eq_mod)

lemma unat_ucast_u64_u128: "unat (ucast (t :: u64) :: u128) = unat t"
  using unat_u64_less [of t] by (simp add: unsigned_ucast_eq take_bit_nat_eq_self)

lemma unat_drop_bit_64: "unat (drop_bit 64 (t :: u128)) = unat t div 2 ^ 64"
  by (simp add: unat_drop_bit_eq drop_bit_eq_div [where 'a = nat])

lemma unat_carry: "unat (ucast (drop_bit 64 (t :: u128)) :: u64) = unat t div 2 ^ 64"
proof -
  have "unat t < 2 ^ 128" using unsigned_less [of t] by simp
  then have "unat t div 2 ^ 64 < 2 ^ 64" by (simp add: less_mult_imp_div_less)
  then show ?thesis by (simp only: unat_ucast_u128_u64 unat_drop_bit_64 mod_less)
qed

lemma unat_add_u128:
  fixes x y :: u64
  shows "unat (ucast x + ucast y :: u128) = unat x + unat y"
  using unat_u64_less [of x] unat_u64_less [of y]
  by (simp add: unat_word_ariths unat_ucast_u64_u128)

lemma unat_add3_u128:
  fixes x y z :: u64
  shows "unat (ucast x + ucast y + ucast z :: u128) = unat x + unat y + unat z"
  using unat_u64_less [of x] unat_u64_less [of y] unat_u64_less [of z]
  by (simp add: unat_word_ariths unat_ucast_u64_u128)

lemma unat_mult_u128:
  fixes x y :: u64
  shows "unat (ucast x * ucast y :: u128) = unat x * unat y"
proof -
  have "unat x * unat y < 2 ^ 64 * 2 ^ 64"
    using unat_u64_less [of x] unat_u64_less [of y] by (intro mult_strict_mono) simp_all
  then show ?thesis by (simp add: unat_word_ariths unat_ucast_u64_u128)
qed

lemma carry_chain:
  fixes a b W :: nat
  shows "a + W * b = a mod W + W * ((b + a div W) mod W) + W * W * ((b + a div W) div W)"
proof -
  have "a + W * b = a mod W + W * (b + a div W)" by (simp add: algebra_simps)
  also have "W * (b + a div W) = W * ((b + a div W) mod W + W * ((b + a div W) div W))" by simp
  finally show ?thesis by (simp only: algebra_simps)
qed

lemma three_digits_mod:
  fixes a b c W :: nat
  assumes "a < W" and "b < W"
  shows "(a + W * b + W * W * c) mod (W * W * W) = a + W * b + W * W * (c mod W)"
proof -
  have "Suc b \<le> W" using assms by simp
  then have "W * Suc b \<le> W * W" by (rule mult_le_mono2)
  with assms have l: "a + W * b < W * W" by simp
  have "a + W * b + W * W * c = a + W * b + W * W * (c div W * W + c mod W)" by simp
  also have "\<dots> = (c div W) * (W * W * W) + (a + W * b + W * W * (c mod W))"
    by (simp only: algebra_simps)
  finally have e: "a + W * b + W * W * c = (c div W) * (W * W * W) + (a + W * b + W * W * (c mod W))" .
  have "Suc (c mod W) \<le> W" using assms by (simp add: Suc_le_eq)
  then have "W * W * Suc (c mod W) \<le> W * W * W" by (rule mult_le_mono2)
  with l have "a + W * b + W * W * (c mod W) < W * W * W" by simp
  then show ?thesis unfolding e by (simp only: mod_mult_self3 mod_less)
qed

lemma add_with_carries:
  fixes b0 b1 b2 l h :: u64
  defines "t0 \<equiv> ucast b0 + ucast l :: u128"
  defines "t1 \<equiv> ucast b1 + ucast h + ucast (ucast (drop_bit 64 t0) :: u64) :: u128"
  shows "val3 (ucast t0, ucast t1, b2 + ucast (drop_bit 64 t1)) =
    (val3 (b0, b1, b2) + unat l + 2 ^ 64 * unat h) mod 2 ^ 192"
proof -
  let ?W = "2 ^ 64 :: nat"
  have t0: "unat t0 = unat b0 + unat l" by (simp add: t0_def unat_add_u128)
  have t1: "unat t1 = unat b1 + unat h + unat t0 div ?W"
    unfolding t1_def unat_add3_u128 unat_carry ..
  have "val3 (b0, b1, b2) + unat l + ?W * unat h = unat t0 + ?W * (unat b1 + unat h) + ?W * ?W * unat b2"
    by (simp add: val3_def t0 algebra_simps)
  also have "unat t0 + ?W * (unat b1 + unat h) =
      unat t0 mod ?W + ?W * (unat t1 mod ?W) + ?W * ?W * (unat t1 div ?W)"
    unfolding t1 by (rule carry_chain)
  finally have s: "val3 (b0, b1, b2) + unat l + ?W * unat h =
      unat t0 mod ?W + ?W * (unat t1 mod ?W) + ?W * ?W * (unat b2 + unat t1 div ?W)"
    by (simp only: algebra_simps)
  have "(val3 (b0, b1, b2) + unat l + ?W * unat h) mod (?W * ?W * ?W) =
      unat t0 mod ?W + ?W * (unat t1 mod ?W) + ?W * ?W * ((unat b2 + unat t1 div ?W) mod ?W)"
    unfolding s by (rule three_digits_mod) simp_all
  then show ?thesis
    by (simp add: val3_def unat_word_ariths unat_carry) (simp add: unat_ucast_u128_u64)
qed

lemma val3_mul_add:
  "val3 (mul_add x y b) = (val3 b + unat x * unat y) mod 2 ^ 192"
proof -
  obtain b0 b1 b2 where b: "b = (b0, b1, b2)" by (cases b)
  let ?p = "ucast x * ucast y :: u128"
  have "unat (ucast ?p :: u64) + 2 ^ 64 * unat (ucast (drop_bit 64 ?p) :: u64) = unat x * unat y"
    unfolding unat_carry unfolding unat_ucast_u128_u64 unat_mult_u128 by (rule mod_mult_div_eq)
  then show ?thesis
    using add_with_carries [of b0 "ucast ?p" b1 "ucast (drop_bit 64 ?p)" b2]
    by (simp only: mul_add_def b Let_def prod.case add.assoc)
qed

definition acc_val :: "BigmulUnit \<Rightarrow> nat" where
  "acc_val u = val3 (acc0 u, acc1 u, acc2 u)"

lemma acc_val_add_u192:
  "acc_val (acc_add_u192 l h h2 u) = (acc_val u + val3 (l, h, h2)) mod 2 ^ 192"
proof -
  define t0 :: u128 where "t0 = ucast (acc0 u) + ucast l"
  define t1 :: u128 where "t1 = ucast (acc1 u) + ucast h + ucast (ucast (drop_bit 64 t0) :: u64)"
  have e: "acc_val (acc_add_u192 l h h2 u) = val3 (ucast t0, ucast t1, (acc2 u + h2) + ucast (drop_bit 64 t1))"
    by (simp add: acc_val_def acc_add_u192_def acc_add_u128_def Let_def t0_def t1_def ac_simps)
  have "unat (acc2 u) + unat h2 = unat (acc2 u + h2) + 2 ^ 64 * ((unat (acc2 u) + unat h2) div 2 ^ 64)"
    by (simp add: unat_word_ariths)
  then have q: "val3 (acc0 u, acc1 u, acc2 u + h2) + 2 ^ 192 * ((unat (acc2 u) + unat h2) div 2 ^ 64) =
      acc_val u + 2 ^ 128 * unat h2"
    by (simp add: val3_def acc_val_def)
  have "(val3 (acc0 u, acc1 u, acc2 u + h2) + x) mod 2 ^ 192 =
      (acc_val u + 2 ^ 128 * unat h2 + x) mod 2 ^ 192" for x
    unfolding q [symmetric] add.assoc add.commute [of "2 ^ 192 * _" x]
    unfolding add.assoc [symmetric] by (rule mod_mult_self2 [symmetric])
  moreover have "acc_val (acc_add_u192 l h h2 u) =
      (val3 (acc0 u, acc1 u, acc2 u + h2) + (unat l + 2 ^ 64 * unat h)) mod 2 ^ 192"
    unfolding e t0_def t1_def add_with_carries by (simp add: add.assoc)
  ultimately have "acc_val (acc_add_u192 l h h2 u) =
      (acc_val u + 2 ^ 128 * unat h2 + (unat l + 2 ^ 64 * unat h)) mod 2 ^ 192" by (simp only:)
  then show ?thesis by (simp add: val3_def [of "(l, h, h2)"] ac_simps)
qed

text \<open>The number whose digits to base 2^64 are the list, least significant first.\<close>

definition big :: "u64 list \<Rightarrow> nat \<Rightarrow> nat" where
  "big xs n = (\<Sum>i<n. unat (xs ! i) * 2 ^ (64 * i))"

definition term_sum :: "u64 list \<Rightarrow> u64 list \<Rightarrow> nat \<Rightarrow> nat \<Rightarrow> nat \<Rightarrow> nat" where
  "term_sum A B s l h = (\<Sum>i\<in>{l..<h}. unat (A ! i) * unat (B ! (s - i)))"

definition diag_lo :: "nat \<Rightarrow> nat \<Rightarrow> nat" where "diag_lo n s = s - (n - 1)"
definition diag_hi :: "nat \<Rightarrow> nat \<Rightarrow> nat" where "diag_hi n s = Suc (min s (n - 1))"

definition diag_sum :: "u64 list \<Rightarrow> u64 list \<Rightarrow> nat \<Rightarrow> nat \<Rightarrow> nat" where
  "diag_sum A B n s = term_sum A B s (diag_lo n s) (diag_hi n s)"

fun carry :: "u64 list \<Rightarrow> u64 list \<Rightarrow> nat \<Rightarrow> nat \<Rightarrow> nat" where
  "carry A B n 0 = 0"
| "carry A B n (Suc s) = (carry A B n s + diag_sum A B n s) div 2 ^ 64"

lemma convolution:
  fixes f g :: "nat \<Rightarrow> nat"
  assumes "0 < n"
  shows "(\<Sum>s<2 * n - 1. \<Sum>i\<in>{diag_lo n s..<diag_hi n s}. f i * g (s - i)) = (\<Sum>i<n. f i) * (\<Sum>j<n. g j)"
proof -
  let ?S = "SIGMA s:{..<2 * n - 1}. {diag_lo n s..<diag_hi n s}"
  have "(\<Sum>s<2 * n - 1. \<Sum>i\<in>{diag_lo n s..<diag_hi n s}. f i * g (s - i)) = (\<Sum>(s, i)\<in>?S. f i * g (s - i))"
    by (rule sum.Sigma) simp_all
  also have "\<dots> = (\<Sum>(i, j)\<in>{..<n} \<times> {..<n}. f i * g j)"
    using assms
    by (intro sum.reindex_bij_witness [where i = "\<lambda>(i, j). (i + j, i)" and j = "\<lambda>(s, i). (i, s - i)"])
      (auto simp: diag_lo_def diag_hi_def min_def split: if_splits)
  also have "\<dots> = (\<Sum>i<n. f i) * (\<Sum>j<n. g j)"
    by (simp add: sum_product sum.cartesian_product)
  finally show ?thesis .
qed

lemma power64_split: "i \<le> s \<Longrightarrow> (2 ^ (64 * s) :: nat) = 2 ^ (64 * i) * 2 ^ (64 * (s - i))"
  by (simp only: power_add [symmetric] distrib_left [symmetric] le_add_diff_inverse)

lemma big_product:
  assumes "0 < n"
  shows "(\<Sum>s<2 * n - 1. diag_sum A B n s * 2 ^ (64 * s)) = big A n * big B n"
proof -
  have e: "unat (A ! i) * unat (B ! (s - i)) * 2 ^ (64 * s) =
      (unat (A ! i) * 2 ^ (64 * i)) * (unat (B ! (s - i)) * 2 ^ (64 * (s - i)))"
    if "i < diag_hi n s" for i s
    using that power64_split [of i s] by (simp only: diag_hi_def less_Suc_eq_le min.bounded_iff ac_simps)
  have "(\<Sum>s<2 * n - 1. diag_sum A B n s * 2 ^ (64 * s)) =
      (\<Sum>s<2 * n - 1. \<Sum>i\<in>{diag_lo n s..<diag_hi n s}.
         (unat (A ! i) * 2 ^ (64 * i)) * (unat (B ! (s - i)) * 2 ^ (64 * (s - i))))"
    unfolding diag_sum_def term_sum_def sum_distrib_right by (intro sum.cong refl e) simp
  also have "\<dots> = big A n * big B n"
    unfolding big_def by (rule convolution [OF assms])
  finally show ?thesis .
qed

lemma power64_Suc: "(2 ^ (64 * Suc s) :: nat) = 2 ^ 64 * 2 ^ (64 * s)"
  by (simp only: mult_Suc_right power_add)

lemma carry_digits:
  "(\<Sum>t < s. (carry A B n t + diag_sum A B n t) mod 2 ^ 64 * 2 ^ (64 * t)) + carry A B n s * 2 ^ (64 * s) =
    (\<Sum>t < s. diag_sum A B n t * 2 ^ (64 * t))"
proof (induction s)
  case 0
  then show ?case by simp
next
  case (Suc s)
  let ?x = "carry A B n s + diag_sum A B n s" and ?W = "2 ^ 64 :: nat"
  have "?x = ?x mod ?W + ?W * (?x div ?W)" by (simp only: mod_mult_div_eq)
  then have "?x * 2 ^ (64 * s) = (?x mod ?W + ?W * (?x div ?W)) * 2 ^ (64 * s)" by (simp only:)
  also have "\<dots> = ?x mod ?W * 2 ^ (64 * s) + carry A B n (Suc s) * 2 ^ (64 * Suc s)"
    unfolding power64_Suc carry.simps by (simp only: algebra_simps)
  finally have "?x * 2 ^ (64 * s) = ?x mod ?W * 2 ^ (64 * s) + carry A B n (Suc s) * 2 ^ (64 * Suc s)" .
  with Suc.IH show ?case by (simp only: sum.lessThan_Suc distrib_right)
qed

lemma term_le: "unat (x :: u64) * unat (y :: u64) \<le> (2 ^ 64 - 1) * (2 ^ 64 - 1)"
proof (rule mult_le_mono)
  show "unat x \<le> 2 ^ 64 - 1" using unat_u64_less [of x] by linarith
  show "unat y \<le> 2 ^ 64 - 1" using unat_u64_less [of y] by linarith
qed

lemma term_sum_le: "term_sum A B s l h \<le> (h - l) * ((2 ^ 64 - 1) * (2 ^ 64 - 1))"
proof -
  have "term_sum A B s l h \<le> (\<Sum>i\<in>{l..<h}. (2 ^ 64 - 1) * (2 ^ 64 - 1))"
    unfolding term_sum_def by (intro sum_mono term_le)
  then show ?thesis by (simp only: sum_constant card_atLeastLessThan of_nat_id)
qed

lemma term_sum_mono: "h \<le> h' \<Longrightarrow> term_sum A B s l h \<le> term_sum A B s l h'"
  unfolding term_sum_def by (rule sum_mono2) auto

lemma term_sum_split: "l \<le> m \<Longrightarrow> m \<le> h \<Longrightarrow> term_sum A B s l h = term_sum A B s l m + term_sum A B s m h"
  unfolding term_sum_def by (simp add: sum.atLeastLessThan_concat)

lemma diag_sum_le: "n \<le> 64 \<or> s \<le> 64 \<Longrightarrow> diag_sum A B n s \<le> 2 ^ 135"
proof -
  assume "n \<le> 64 \<or> s \<le> 64"
  then have w: "diag_hi n s - diag_lo n s \<le> 65" by (auto simp: diag_hi_def diag_lo_def)
  have "diag_sum A B n s \<le> (diag_hi n s - diag_lo n s) * ((2 ^ 64 - 1) * (2 ^ 64 - 1))"
    unfolding diag_sum_def by (rule term_sum_le)
  also have "\<dots> \<le> 65 * ((2 ^ 64 - 1) * (2 ^ 64 - 1))" using w by (rule mult_le_mono1)
  also have "\<dots> \<le> 2 ^ 135" by simp
  finally show ?thesis .
qed

lemma carry_le: "n \<le> 64 \<or> s \<le> 65 \<Longrightarrow> carry A B n s \<le> 2 ^ 72"
proof (induction s)
  case 0
  then show ?case by simp
next
  case (Suc s)
  then have "carry A B n s + diag_sum A B n s \<le> 2 ^ 72 + 2 ^ 135"
    by (intro add_mono diag_sum_le) auto
  then have "(carry A B n s + diag_sum A B n s) div 2 ^ 64 \<le> (2 ^ 72 + 2 ^ 135) div 2 ^ 64"
    by (rule div_le_mono)
  then show ?case by simp
qed

lemma big_less: "big A n < 2 ^ (64 * n)"
proof (induction n)
  case 0
  then show ?case by (simp add: big_def)
next
  case (Suc n)
  have "big A (Suc n) = big A n + unat (A ! n) * 2 ^ (64 * n)" by (simp add: big_def)
  also have "\<dots> < 2 ^ (64 * n) + unat (A ! n) * 2 ^ (64 * n)" using Suc by simp
  also have "\<dots> = Suc (unat (A ! n)) * 2 ^ (64 * n)" by simp
  also have "\<dots> \<le> 2 ^ 64 * 2 ^ (64 * n)"
    using unat_u64_less [of "A ! n"] by (intro mult_le_mono1) simp
  finally show ?case by (simp add: power_add)
qed

text \<open>The last carry is one digit.\<close>

lemma last_carry_less:
  assumes "0 < n"
  shows "carry A B n (2 * n - 1) < 2 ^ 64"
proof -
  have "carry A B n (2 * n - 1) * 2 ^ (64 * (2 * n - 1)) \<le> big A n * big B n"
    using carry_digits [of A B n "2 * n - 1"] by (simp only: big_product [OF assms])
  also have "\<dots> < 2 ^ (64 * n) * 2 ^ (64 * n)"
    by (intro mult_strict_mono big_less) simp_all
  also have "\<dots> = 2 ^ 64 * 2 ^ (64 * (2 * n - 1))"
    using assms by (simp only: power_add [symmetric]) (cases n, simp_all)
  finally show ?thesis by (simp only: mult_less_cancel2)
qed

end
