(* ===== verification/BigmulCorrect.thy ===== *)
theory BigmulCorrect
  imports BigmulArith
begin

text \<open>
  Correctness of the multiplier. The locale \<open>multiplier\<close> is the contract of a datapath: a
  cycle of a running multiplication either brings it one cycle closer to its end or ends
  it with the product in the result cache. The invariant of a running multiplication
  says which digits are out and what the accumulator holds; the datapath the simulator runs
  is shown to meet the contract.
\<close>

fun run_cycles :: "(BigmulUnit \<Rightarrow> BigmulUnit result) \<Rightarrow> nat \<Rightarrow> BigmulUnit \<Rightarrow> BigmulUnit result" where
  "run_cycles cycle 0 u = Inr u"
| "run_cycles cycle (Suc k) u = bindr (cycle u) (run_cycles cycle k)"

definition wf_unit :: "BigmulUnit \<Rightarrow> bool" where
  "wf_unit u \<longleftrightarrow> length (cacheA u) = 64 \<and> length (cacheB u) = 64 \<and> length (resultCache u) = 128"

definition words :: "BigmulUnit \<Rightarrow> nat" where
  "words u = unat (size_of_operand u)"

lemma words_cong: "size_of_operand u = size_of_operand v \<Longrightarrow> words u = words v"
  by (simp add: words_def)

definition ready :: "BigmulUnit \<Rightarrow> bool" where
  "ready u \<longleftrightarrow> wf_unit u \<and> 0 < words u \<and> words u \<le> 64 \<and> \<not> bigmul_done u \<and> bigmul_prog u = 0"

definition same_job :: "BigmulUnit \<Rightarrow> BigmulUnit \<Rightarrow> bool" where
  "same_job u u' \<longleftrightarrow> cacheA u' = cacheA u \<and> cacheB u' = cacheB u \<and>
     size_of_operand u' = size_of_operand u \<and> base_addr_A u' = base_addr_A u \<and>
     base_addr_B u' = base_addr_B u \<and> base_addr_res u' = base_addr_res u \<and>
     ldbm_done u' = ldbm_done u \<and> ldbm_offset u' = ldbm_offset u \<and>
     write_offset u' = write_offset u \<and> bigmul_done u' = bigmul_done u"

definition product_ready :: "BigmulUnit \<Rightarrow> bool" where
  "product_ready u \<longleftrightarrow> wf_unit u \<and> bigmul_prog u = 0 \<and> \<not> write_done u \<and>
     big (resultCache u) (2 * words u) = big (cacheA u) (words u) * big (cacheB u) (words u)"

lemma same_job_refl [simp]: "same_job u u"
  by (simp add: same_job_def)

lemma same_job_trans: "same_job u v \<Longrightarrow> same_job v w \<Longrightarrow> same_job u w"
  by (simp add: same_job_def)

locale multiplier =
  fixes cycle :: "BigmulUnit \<Rightarrow> BigmulUnit result"
    and running :: "BigmulUnit \<Rightarrow> bool"
    and remaining :: "BigmulUnit \<Rightarrow> nat"
  assumes first_cycle: "ready u \<Longrightarrow> cycle u = cycle (start_bigmul u)"
    and started: "ready u \<Longrightarrow> running (start_bigmul u)"
    and remaining_pos: "running u \<Longrightarrow> 0 < remaining u"
    and progress: "running u \<Longrightarrow> \<exists>u'. cycle u = Inr u' \<and> same_job u u' \<and>
      (if remaining u = 1 then product_ready u' else running u' \<and> Suc (remaining u') = remaining u)"
begin

lemma running_completes:
  "running u \<Longrightarrow> \<exists>u'. run_cycles cycle (remaining u) u = Inr u' \<and> same_job u u' \<and> product_ready u'"
proof (induction "remaining u" arbitrary: u)
  case 0
  then show ?case using remaining_pos [of u] by simp
next
  case (Suc k)
  from progress [OF Suc.prems] obtain v where
    v: "cycle u = Inr v" "same_job u v"
      "if remaining u = 1 then product_ready v else running v \<and> Suc (remaining v) = remaining u" by blast
  show ?case
  proof (cases "k = 0")
    case True
    with v Suc(2) [symmetric] show ?thesis by simp
  next
    case False
    with v(3) Suc(2) have "running v" "k = remaining v" by (auto split: if_splits)
    from Suc(1) [OF this(2,1)] v Suc(2) [symmetric] \<open>k = remaining v\<close> show ?thesis
      by (auto intro: same_job_trans)
  qed
qed

lemma multiplies:
  assumes "ready u"
  shows "\<exists>u'. run_cycles cycle (remaining (start_bigmul u)) u = Inr u' \<and> same_job u u' \<and> product_ready u'"
proof -
  have "same_job u (start_bigmul u)"
    using assms by (simp add: same_job_def start_bigmul_def acc_clear_def Let_def ready_def)
  moreover have "run_cycles cycle k u = run_cycles cycle k (start_bigmul u)" if "0 < k" for k
    using that first_cycle [OF assms] by (cases k) simp_all
  ultimately show ?thesis
    using running_completes [OF started [OF assms]] remaining_pos [OF started [OF assms]]
    by (auto intro: same_job_trans)
qed

lemma unique_outcome:
  assumes "ready u" and "run_cycles cycle (remaining (start_bigmul u)) u = Inr u'"
  shows "product_ready u'"
  using multiplies [OF assms(1)] assms(2) by auto

end

subsection \<open>The invariant of a running multiplication\<close>

definition in_diagonal :: "BigmulUnit \<Rightarrow> nat \<Rightarrow> bool" where
  "in_diagonal u s \<longleftrightarrow> wf_unit u \<and> \<not> bigmul_done u \<and> bigmul_prog u \<noteq> 0 \<and>
     0 < words u \<and> words u < 512 \<and> (words u \<le> 64 \<or> s \<le> 64) \<and> s \<le> 2 * words u - 2 \<and>
     s_diag u = int s \<and> i_max u = int (diag_hi (words u) s) - 1 \<and>
     (\<forall>t < s. unat (resultCache u ! t) = (carry (cacheA u) (cacheB u) (words u) t +
        diag_sum (cacheA u) (cacheB u) (words u) t) mod 2 ^ 64)"

text \<open>What the accumulator holds when the terms of the diagonal before \<open>k\<close> are in.\<close>

definition sum_upto :: "BigmulUnit \<Rightarrow> nat \<Rightarrow> nat \<Rightarrow> nat" where
  "sum_upto u s k = carry (cacheA u) (cacheB u) (words u) s +
     term_sum (cacheA u) (cacheB u) s (diag_lo (words u) s) k"

definition computing :: "BigmulUnit \<Rightarrow> nat \<Rightarrow> nat \<Rightarrow> bool" where
  "computing u s k \<longleftrightarrow> in_diagonal u s \<and> k_iter u = int k \<and> diag_lo (words u) s \<le> k \<and>
     k < diag_hi (words u) s \<and> acc_val u = sum_upto u s k"

lemma val3_less: "val3 b < 2 ^ 192"
proof -
  obtain b0 b1 b2 where b: "b = (b0, b1, b2)" by (cases b)
  have "unat b0 \<le> 2 ^ 64 - 1" "unat b1 \<le> 2 ^ 64 - 1" "unat b2 \<le> 2 ^ 64 - 1"
    using unat_u64_less [of b0] unat_u64_less [of b1] unat_u64_less [of b2] by linarith+
  then show ?thesis by (simp add: val3_def b)
qed

lemma term_sum_empty [simp]: "term_sum A B s k k = 0"
  by (simp add: term_sum_def)

lemma term_sum_first: "k < h \<Longrightarrow> term_sum A B s k h = unat (A ! k) * unat (B ! (s - k)) + term_sum A B s (Suc k) h"
  unfolding term_sum_def by (rule sum.atLeast_Suc_lessThan)

lemma batch_loop_terms:
  assumes "k_iter u = int k" and "i_max u = int h - 1" and "s_diag u = int s"
    and "h \<le> Suc s" and "h \<le> length (cacheA u)" and "k < h \<Longrightarrow> s - k < length (cacheB u)"
  shows "\<exists>b'. batch_loop r u b p = Inr (u\<lparr>k_iter := int (k + min r (h - k))\<rparr>, b', p + min r (h - k)) \<and>
    val3 b' = (val3 b + term_sum (cacheA u) (cacheB u) s k (k + min r (h - k))) mod 2 ^ 192"
  using assms
proof (induction r arbitrary: u b p k)
  case 0
  then show ?case using val3_less [of b] by (intro exI [of _ b]) simp
next
  case (Suc r)
  show ?case
  proof (cases "k < h")
    case False
    with Suc.prems show ?thesis using val3_less [of b] by (intro exI [of _ b]) simp
  next
    case True
    let ?u = "u\<lparr>k_iter := int (Suc k)\<rparr>" and ?b = "mul_add (cacheA u ! k) (cacheB u ! (s - k)) b"
    have m: "Suc k + min r (h - Suc k) = k + min (Suc r) (h - k)" using True by simp
    have j: "int s - int k = int (s - k)" using True Suc.prems(4) by simp
    have "\<exists>b'. batch_loop r ?u ?b (p + 1) =
        Inr (?u\<lparr>k_iter := int (Suc k + min r (h - Suc k))\<rparr>, b', p + 1 + min r (h - Suc k)) \<and>
      val3 b' = (val3 ?b + term_sum (cacheA ?u) (cacheB ?u) s (Suc k) (Suc k + min r (h - Suc k))) mod 2 ^ 192"
      using Suc.prems True by (intro Suc.IH) simp_all
    then obtain b' where
      l: "batch_loop r ?u ?b (p + 1) =
        Inr (u\<lparr>k_iter := int (k + min (Suc r) (h - k))\<rparr>, b', p + min (Suc r) (h - k))" and
      v: "val3 b' = (val3 ?b + term_sum (cacheA u) (cacheB u) s (Suc k) (k + min (Suc r) (h - k))) mod 2 ^ 192"
      unfolding m using True by auto
    have "batch_loop (Suc r) u b p = batch_loop r ?u ?b (p + 1)"
    proof -
      have "array_get (cacheA u) (int k) = Inr (cacheA u ! k)"
        "array_get (cacheB u) (int (s - k)) = Inr (cacheB u ! (s - k))"
        using Suc.prems(5,6) True by (simp_all add: array_get_def)
      moreover have "int k \<le> int h - 1" using True by simp
      ultimately show ?thesis
        unfolding batch_loop.simps Suc.prems(1-3) Let_def j by (simp add: add.commute [of "int k" 1])
    qed
    moreover have "val3 b' = (val3 b + term_sum (cacheA u) (cacheB u) s k (k + min (Suc r) (h - k))) mod 2 ^ 192"
    proof -
      have "k < k + min (Suc r) (h - k)" using True by simp
      from term_sum_first [OF this, of "cacheA u" "cacheB u" s] show ?thesis
        unfolding v val3_mul_add by (simp only: mod_add_left_eq add.assoc)
    qed
    ultimately show ?thesis using l by auto
  qed
qed

lemma signed_take_bit_nat: "m < 2 ^ 31 \<Longrightarrow> signed_take_bit 31 (int m) = int m"
  by (rule signed_take_bit_int_eq_self) simp_all

lemma to_int_unat:
  assumes "unat x < 2 ^ 31"
  shows "to_int x = int (unat x)"
proof -
  have "unat (ucast x :: u32) = take_bit 32 (unat x)" by (simp add: unsigned_ucast_eq)
  also have "\<dots> = unat x" using assms by (intro take_bit_nat_eq_self) simp
  finally have u: "uint (ucast x :: u32) = int (unat x)" by (simp only: uint_nat)
  show ?thesis
    unfolding to_int_def sint_uint u using signed_take_bit_nat [OF assms] by simp
qed

lemma size_ints:
  assumes "0 < unat (x :: u64)" and "unat x < 512"
  shows "to_int (x * 2 - 2) = int (2 * unat x - 2)" and "to_int (x - 1) = int (unat x - 1)"
proof -
  have x: "unat (x * 2) = unat x * 2" using assms by (simp add: unat_word_ariths)
  then have "unat (x * 2 - 2) = unat x * 2 - 2" using assms by (simp add: unat_sub word_le_nat_alt)
  with assms show "to_int (x * 2 - 2) = int (2 * unat x - 2)" by (simp add: to_int_unat)
  have "unat (x - 1) = unat x - 1" using assms by (simp add: unat_sub word_le_nat_alt)
  with assms show "to_int (x - 1) = int (unat x - 1)" by (simp add: to_int_unat)
qed


lemma diag_bounds:
  assumes "0 < n" and "s \<le> 2 * n - 2"
  shows "diag_lo n s < diag_hi n s" and "diag_hi n s \<le> Suc s" and "diag_hi n s \<le> n"
    and "diag_lo n s \<le> k \<Longrightarrow> k < diag_hi n s \<Longrightarrow> s - k < n" and "diag_hi n s - diag_lo n s \<le> n"
  using assms by (auto simp: diag_lo_def diag_hi_def)

lemma sum_upto_less:
  assumes "in_diagonal u s" and "k \<le> diag_hi (words u) s"
  shows "sum_upto u s k < 2 ^ 192"
proof -
  have "sum_upto u s k \<le> carry (cacheA u) (cacheB u) (words u) s + diag_sum (cacheA u) (cacheB u) (words u) s"
    using assms(2) by (simp add: sum_upto_def diag_sum_def term_sum_mono)
  also have "\<dots> \<le> 2 ^ 72 + 2 ^ 135"
    using assms(1) by (intro add_mono carry_le diag_sum_le) (auto simp: in_diagonal_def)
  finally show ?thesis by simp
qed

lemma acc_frame [simp]:
  "acc_val (u\<lparr>resultCache := rc\<rparr>) = acc_val u" "acc_val (u\<lparr>k_iter := k\<rparr>) = acc_val u"
  by (simp_all add: acc_val_def)

lemma acc_low64_digit: "unat (acc_low64 u) = acc_val u mod 2 ^ 64"
proof -
  have "acc_val u = unat (acc0 u) + 2 ^ 64 * (unat (acc1 u) + 2 ^ 64 * unat (acc2 u))"
    by (simp add: acc_val_def val3_def)
  then have "acc_val u mod 2 ^ 64 = unat (acc0 u) mod 2 ^ 64" by (simp only: mod_mult_self2)
  then show ?thesis using unat_u64_less [of "acc0 u"] by (simp add: acc_low64_def)
qed

lemma acc_shr_64_digit: "acc_val (acc_shr_64 u) = acc_val u div 2 ^ 64"
proof -
  have e: "acc_val u = unat (acc0 u) + (unat (acc1 u) + 2 ^ 64 * unat (acc2 u)) * 2 ^ 64"
    by (simp add: acc_val_def val3_def)
  have "acc_val u div 2 ^ 64 = unat (acc1 u) + 2 ^ 64 * unat (acc2 u)"
    unfolding e using unat_u64_less [of "acc0 u"] by (subst div_mult_self1) simp_all
  then show ?thesis by (simp add: acc_val_def val3_def acc_shr_64_def)
qed

lemma big_Suc: "big xs (Suc n) = big xs n + unat (xs ! n) * 2 ^ (64 * n)"
  by (simp add: big_def)

text \<open>The end of a diagonal, shared by the datapaths: emit the digit, shift, advance.\<close>

definition finish_diagonal :: "int \<Rightarrow> int \<Rightarrow> BigmulUnit \<Rightarrow> BigmulUnit result" where
  "finish_diagonal final lim u =
     bindr (array_set (resultCache u) (s_diag u) (acc_low64 u)) (\<lambda>rc.
       let u = acc_shr_64 (u\<lparr>resultCache := rc\<rparr>)
       in if s_diag u = final then
            bindr (array_set (resultCache u) (final + 1) (acc_low64 u)) (\<lambda>rc.
              Inr (u\<lparr>resultCache := rc, bigmul_prog := 0, write_done := False\<rparr>))
          else Inr (next_diag lim u))"

definition digit_out :: "BigmulUnit \<Rightarrow> nat \<Rightarrow> BigmulUnit" where
  "digit_out u s = acc_shr_64 (u\<lparr>resultCache := (resultCache u)[s := acc_low64 u]\<rparr>)"

lemma digit_out_simps [simp]:
  "cacheA (digit_out u s) = cacheA u" "cacheB (digit_out u s) = cacheB u"
  "size_of_operand (digit_out u s) = size_of_operand u" "words (digit_out u s) = words u" "s_diag (digit_out u s) = s_diag u"
  "i_max (digit_out u s) = i_max u" "bigmul_prog (digit_out u s) = bigmul_prog u"
  "bigmul_done (digit_out u s) = bigmul_done u"
  "resultCache (digit_out u s) = (resultCache u)[s := acc_low64 u]"
  "acc_val (digit_out u s) = acc_val u div 2 ^ 64"
  "same_job u (digit_out u s)"
  by (simp_all add: digit_out_def acc_shr_64_digit) (simp_all add: acc_shr_64_def same_job_def words_def)

lemma digit_out_digits:
  assumes "in_diagonal u s" and "acc_val u = sum_upto u s (diag_hi (words u) s)" and "t < Suc s"
  shows "unat (resultCache (digit_out u s) ! t) = (carry (cacheA u) (cacheB u) (words u) t +
        diag_sum (cacheA u) (cacheB u) (words u) t) mod 2 ^ 64"
proof (cases "t = s")
  case True
  have "s < length (resultCache u)" using assms(1) by (auto simp: in_diagonal_def wf_unit_def)
  with True show ?thesis
    using assms(2) by (simp add: acc_low64_digit sum_upto_def diag_sum_def)
next
  case False
  with assms show ?thesis by (simp add: in_diagonal_def)
qed

lemma digit_out_carry:
  assumes "acc_val u = sum_upto u s (diag_hi (words u) s)"
  shows "acc_val (digit_out u s) = carry (cacheA u) (cacheB u) (words u) (Suc s)"
  using assms by (simp add: sum_upto_def diag_sum_def)

lemma finish_diagonal_next:
  assumes "in_diagonal u s" and "words u \<le> 64 \<or> s < 64" and "s < 2 * words u - 2"
    and "acc_val u = sum_upto u s (diag_hi (words u) s)"
  shows "finish_diagonal (int (2 * words u - 2)) (int (words u - 1)) u =
      Inr (next_diag (int (words u - 1)) (digit_out u s))"
    and "computing (next_diag (int (words u - 1)) (digit_out u s)) (Suc s) (diag_lo (words u) (Suc s))"
proof -
  have s: "array_set (resultCache u) (int s) w = Inr ((resultCache u)[s := w])" for w
    using assms(1,3) by (auto simp: array_set_def in_diagonal_def wf_unit_def)
  have d: "s_diag u = int s" using assms(1) by (simp add: in_diagonal_def)
  show "finish_diagonal (int (2 * words u - 2)) (int (words u - 1)) u =
      Inr (next_diag (int (words u - 1)) (digit_out u s))"
    using assms(3) by (simp add: finish_diagonal_def d s Let_def digit_out_def acc_shr_64_def del: of_nat_diff)
  let ?v = "next_diag (int (words u - 1)) (digit_out u s)"
  have n: "0 < words u" using assms(1) by (simp add: in_diagonal_def)
  have f: "k_iter ?v = int (diag_lo (words u) (Suc s))" "s_diag ?v = int (Suc s)"
      "i_max ?v = int (diag_hi (words u) (Suc s)) - 1"
    using n by (auto simp: next_diag_def Let_def d diag_lo_def diag_hi_def min_def)
  have g: "cacheA ?v = cacheA u" "cacheB ?v = cacheB u" "words ?v = words u"
      "resultCache ?v = resultCache (digit_out u s)" "acc_val ?v = acc_val (digit_out u s)"
      "bigmul_prog ?v = bigmul_prog u" "bigmul_done ?v = bigmul_done u"
    by (simp_all add: next_diag_def Let_def acc_val_def words_def)
  have "in_diagonal ?v (Suc s)"
    using assms digit_out_digits [OF assms(1,4)] unfolding in_diagonal_def wf_unit_def f g
    by auto
  then show "computing ?v (Suc s) (diag_lo (words u) (Suc s))"
    using diag_bounds(1) [OF n, of "Suc s"] assms(3) digit_out_carry [OF assms(4)]
    unfolding computing_def f g sum_upto_def by simp
qed

lemma finish_diagonal_last:
  assumes "in_diagonal u s" and "words u \<le> 64" and "s = 2 * words u - 2"
    and "acc_val u = sum_upto u s (diag_hi (words u) s)"
  shows "\<exists>u'. finish_diagonal (int (2 * words u - 2)) (int (words u - 1)) u = Inr u' \<and>
    same_job u u' \<and> product_ready u'"
proof -
  let ?v = "digit_out u s"
  let ?w = "?v\<lparr>resultCache := (resultCache ?v)[Suc s := acc_low64 ?v], bigmul_prog := 0, write_done := False\<rparr>"
  have n: "0 < words u" and d: "s_diag u = int s" and l: "length (resultCache u) = 128"
    and wf: "wf_unit u"
    using assms(1) by (simp_all add: in_diagonal_def wf_unit_def)
  have ss: "Suc s = 2 * words u - 1" using assms(3) n by simp
  have s: "array_set xs (int s) w = Inr (xs[s := w])" "array_set xs (int s + 1) w = Inr (xs[Suc s := w])"
    if "length xs = 128" for xs :: "u64 list" and w
    using that assms(2,3) by (auto simp: array_set_def nat_add_distrib)
  have r: "finish_diagonal (int (2 * words u - 2)) (int (words u - 1)) u = Inr ?w"
    unfolding finish_diagonal_def d assms(3) [symmetric] s(1) [OF l] bindr_simps Let_def
    unfolding digit_out_def [symmetric] using s(2) [of "resultCache ?v"] l by (simp add: d)
  have c: "acc_val ?v = carry (cacheA u) (cacheB u) (words u) (2 * words u - 1)"
    using digit_out_carry [OF assms(4)] by (simp only: ss)
  then have low: "unat (acc_low64 ?v) = carry (cacheA u) (cacheB u) (words u) (2 * words u - 1)"
    using last_carry_less [OF n] by (simp add: acc_low64_digit del: digit_out_simps)
  have dg: "unat (resultCache ?w ! t) = (carry (cacheA u) (cacheB u) (words u) t +
        diag_sum (cacheA u) (cacheB u) (words u) t) mod 2 ^ 64" if "t < 2 * words u - 1" for t
    using that digit_out_digits [OF assms(1,4), of t] ss by simp
  have e: "Suc (2 * words u - 1) = 2 * words u" using n by simp
  have "big (resultCache ?w) (2 * words u) = big (resultCache ?w) (2 * words u - 1) +
      unat (resultCache ?w ! (2 * words u - 1)) * 2 ^ (64 * (2 * words u - 1))"
    using big_Suc [of "resultCache ?w" "2 * words u - 1"] unfolding e .
  also have "unat (resultCache ?w ! (2 * words u - 1)) = carry (cacheA u) (cacheB u) (words u) (2 * words u - 1)"
    using low l assms(2) ss by simp
  also have "big (resultCache ?w) (2 * words u - 1) =
      (\<Sum>t < 2 * words u - 1. (carry (cacheA u) (cacheB u) (words u) t +
        diag_sum (cacheA u) (cacheB u) (words u) t) mod 2 ^ 64 * 2 ^ (64 * t))"
    unfolding big_def using dg by (intro sum.cong) simp_all
  also have "\<dots> + carry (cacheA u) (cacheB u) (words u) (2 * words u - 1) * 2 ^ (64 * (2 * words u - 1)) =
      big (cacheA u) (words u) * big (cacheB u) (words u)"
    unfolding carry_digits by (rule big_product [OF n])
  finally have "big (resultCache ?w) (2 * words u) = big (cacheA u) (words u) * big (cacheB u) (words u)" .
  moreover have "words ?w = words u" by (rule words_cong) simp
  ultimately have "product_ready ?w"
    using wf unfolding product_ready_def by (simp add: wf_unit_def)
  moreover have "same_job u ?w" using digit_out_simps(11) [of u s] by (simp add: same_job_def)
  ultimately show ?thesis using r by blast
qed

subsection \<open>The single-cycle datapath\<close>

lemma singlecycle_unfold:
  assumes "\<not> bigmul_done u" and "bigmul_prog u \<noteq> 0" and "0 < words u" and "words u < 512"
    and "batch_loop BATCH u (0, 0, 0) 0 = Inr (u\<lparr>k_iter := k\<rparr>, (b0, b1, b2), p)" and "0 < p"
  shows "singlecycle u = (let v = acc_add_u192 b0 b1 b2 (u\<lparr>k_iter := k\<rparr>)
    in if k > i_max v then finish_diagonal (int (2 * words u - 2)) (int (words u - 1)) v else Inr v)"
proof -
  have z: "to_int (size_of_operand u * 2 - 2) = int (2 * words u - 2)"
    "to_int (size_of_operand u - 1) = int (words u - 1)"
    using size_ints assms(3,4) by (simp_all add: words_def)
  have f: "k_iter (acc_add_u192 b0 b1 b2 v) = k_iter v" 
    "size_of_operand (acc_shr_64 (acc_add_u192 b0 b1 b2 v\<lparr>resultCache := rc\<rparr>)) = size_of_operand v" for v rc
    by (simp_all add: acc_add_u192_def acc_add_u128_def Let_def acc_shr_64_def)
  show ?thesis
    unfolding singlecycle_def finish_diagonal_def using assms(1,2,6)
    by (simp add: assms(5) Let_def f z cong: if_cong)
qed

lemma singlecycle_batch:
  assumes "computing u s k" and "words u \<le> 64 \<or> s < 64"
  defines "m \<equiv> min BATCH (diag_hi (words u) s - k)"
  shows "\<exists>v. same_job u v \<and> in_diagonal v s \<and> k_iter v = int (k + m) \<and> acc_val v = sum_upto v s (k + m) \<and>
    singlecycle u = (if k + m < diag_hi (words u) s then Inr v
      else finish_diagonal (int (2 * words u - 2)) (int (words u - 1)) v)"
proof -
  have d: "in_diagonal u s" and k: "k_iter u = int k" "diag_lo (words u) s \<le> k" "k < diag_hi (words u) s"
    and a: "acc_val u = sum_upto u s k"
    using assms(1) by (simp_all add: computing_def)
  then have n: "0 < words u" "words u < 512" "s \<le> 2 * words u - 2" and
    st: "\<not> bigmul_done u" "bigmul_prog u \<noteq> 0" "s_diag u = int s" "i_max u = int (diag_hi (words u) s) - 1"
    "length (cacheA u) = 64" "length (cacheB u) = 64"
    by (simp_all add: in_diagonal_def wf_unit_def)
  note b = diag_bounds [OF n(1,3)]
  have "\<exists>b'. batch_loop BATCH u (0, 0, 0) 0 = Inr (u\<lparr>k_iter := int (k + m)\<rparr>, b', 0 + m) \<and>
    val3 b' = (val3 (0, 0, 0) + term_sum (cacheA u) (cacheB u) s k (k + m)) mod 2 ^ 192"
    unfolding m_def
    by (rule batch_loop_terms) (use k st b(2,3) b(4) [OF k(2,3)] assms(2) in auto)
  then obtain b0 b1 b2 where
    l: "batch_loop BATCH u (0, 0, 0) 0 = Inr (u\<lparr>k_iter := int (k + m)\<rparr>, (b0, b1, b2), m)" and
    v: "val3 (b0, b1, b2) = term_sum (cacheA u) (cacheB u) s k (k + m) mod 2 ^ 192"
    by (auto simp: val3_def)
  let ?v = "acc_add_u192 b0 b1 b2 (u\<lparr>k_iter := int (k + m)\<rparr>)"
  have m: "0 < m" "k + m \<le> diag_hi (words u) s" using k(3) by (auto simp: m_def BATCH_def)
  have f: "same_job u ?v" "k_iter ?v = int (k + m)" "words ?v = words u"
    by (simp_all add: acc_add_u192_def acc_add_u128_def Let_def same_job_def words_def)
  have dv: "in_diagonal ?v s"
    using d unfolding in_diagonal_def f(3)
    by (simp add: acc_add_u192_def acc_add_u128_def Let_def wf_unit_def)
  have su: "sum_upto ?v s (k + m) = sum_upto u s (k + m)"
    unfolding sum_upto_def f(3) using f(1) by (simp add: same_job_def)
  have "acc_val ?v = (sum_upto u s k + term_sum (cacheA u) (cacheB u) s k (k + m)) mod 2 ^ 192"
    by (simp only: acc_val_add_u192 v a acc_frame mod_add_right_eq)
  also have "sum_upto u s k + term_sum (cacheA u) (cacheB u) s k (k + m) = sum_upto u s (k + m)"
    using term_sum_split [of "diag_lo (words u) s" k "k + m"] k(2) by (simp add: sum_upto_def)
  finally have "acc_val ?v = sum_upto u s (k + m)"
    using sum_upto_less [OF d m(2)] by simp
  then have av: "acc_val ?v = sum_upto ?v s (k + m)" by (simp only: su)
  have "singlecycle u = (if k + m < diag_hi (words u) s then Inr ?v
      else finish_diagonal (int (2 * words u - 2)) (int (words u - 1)) ?v)"
    using singlecycle_unfold [OF st(1,2) n(1,2) l m(1)] dv f(3)
    by (auto simp: Let_def in_diagonal_def)
  with f dv av show ?thesis by blast
qed

definition batches :: "nat \<Rightarrow> nat" where
  "batches t = (t + BATCH - 1) div BATCH"

definition diag_batches :: "nat \<Rightarrow> nat \<Rightarrow> nat" where
  "diag_batches n s = batches (diag_hi n s - diag_lo n s)"

definition cycles_left :: "nat \<Rightarrow> nat \<Rightarrow> nat \<Rightarrow> nat" where
  "cycles_left n s k = batches (diag_hi n s - k) + (\<Sum>t = Suc s..<2 * n - 1. diag_batches n t)"

lemma singlecycle_step:
  assumes "computing u s k" and "words u \<le> 64 \<or> s < 64"
  shows "\<exists>u'. singlecycle u = Inr u' \<and> same_job u u' \<and>
    (if k + BATCH < diag_hi (words u) s then computing u' s (k + BATCH)
     else if s < 2 * words u - 2 then computing u' (Suc s) (diag_lo (words u) (Suc s))
     else product_ready u')"
proof -
  let ?m = "min BATCH (diag_hi (words u) s - k)"
  from singlecycle_batch [OF assms] obtain v where
    v: "same_job u v" "in_diagonal v s" "k_iter v = int (k + ?m)" "acc_val v = sum_upto v s (k + ?m)" and
    c: "singlecycle u = (if k + ?m < diag_hi (words u) s then Inr v
      else finish_diagonal (int (2 * words u - 2)) (int (words u - 1)) v)" by blast
  have k: "diag_lo (words u) s \<le> k" "k < diag_hi (words u) s" and n: "s \<le> 2 * words u - 2"
    using assms(1) by (simp_all add: computing_def in_diagonal_def)
  have w: "words v = words u" using v(1) by (simp add: words_def same_job_def)
  show ?thesis
  proof (cases "k + BATCH < diag_hi (words u) s")
    case True
    then have m: "?m = BATCH" by simp
    have "computing v s (k + BATCH)"
      using v(2-4) True k unfolding computing_def w m by simp
    with c True m v(1) show ?thesis by simp
  next
    case False
    then have m: "k + ?m = diag_hi (words u) s" using k by simp
    with v(4) have a: "acc_val v = sum_upto v s (diag_hi (words v) s)" by (simp only: w)
    have c: "singlecycle u = finish_diagonal (int (2 * words v - 2)) (int (words v - 1)) v"
      using c m by (simp add: w)
    show ?thesis
    proof (cases "s < 2 * words u - 2")
      case True
      have "same_job v (next_diag (int (words v - 1)) (digit_out v s))"
        by (simp add: same_job_def next_diag_def Let_def digit_out_def acc_shr_64_def)
      with c finish_diagonal_next [OF v(2) _ _ a] True assms(2) False v(1) show ?thesis
        by (auto simp: w intro: same_job_trans)
    next
      case last: False
      then have s: "s = 2 * words v - 2" using n w by simp
      with assms(2) have "words v \<le> 64" by (auto simp: w)
      from finish_diagonal_last [OF v(2) this s a] c last False v(1) show ?thesis
        by (auto intro: same_job_trans)
    qed
  qed
qed

definition single_running :: "BigmulUnit \<Rightarrow> bool" where
  "single_running u \<longleftrightarrow> words u \<le> 64 \<and> computing u (nat (s_diag u)) (nat (k_iter u))"

definition single_remaining :: "BigmulUnit \<Rightarrow> nat" where
  "single_remaining u = cycles_left (words u) (nat (s_diag u)) (nat (k_iter u))"

lemma computing_at: "computing u s k \<Longrightarrow> nat (s_diag u) = s \<and> nat (k_iter u) = k"
  by (simp add: computing_def in_diagonal_def)

lemma batches_pos: "0 < t \<Longrightarrow> 0 < batches t"
  by (simp add: batches_def BATCH_def div_greater_zero_iff)

lemma batches_step: "BATCH < t \<Longrightarrow> batches t = Suc (batches (t - BATCH))"
proof -
  assume "BATCH < t"
  then have "t + BATCH - 1 = (t - BATCH + BATCH - 1) + BATCH" by simp
  then show ?thesis by (simp add: batches_def BATCH_def)
qed

lemma batches_one: "0 < t \<Longrightarrow> t \<le> BATCH \<Longrightarrow> batches t = 1"
  by (simp add: batches_def BATCH_def)

lemma cycles_left_step:
  assumes "k < diag_hi n s" and "s \<le> 2 * n - 2" and "0 < n"
  shows "k + BATCH < diag_hi n s \<Longrightarrow> cycles_left n s k = Suc (cycles_left n s (k + BATCH))"
    and "diag_hi n s \<le> k + BATCH \<Longrightarrow> s < 2 * n - 2 \<Longrightarrow>
      cycles_left n s k = Suc (cycles_left n (Suc s) (diag_lo n (Suc s)))"
    and "diag_hi n s \<le> k + BATCH \<Longrightarrow> s = 2 * n - 2 \<Longrightarrow> cycles_left n s k = 1"
    and "0 < cycles_left n s k"
proof -
  show "k + BATCH < diag_hi n s \<Longrightarrow> cycles_left n s k = Suc (cycles_left n s (k + BATCH))"
    using batches_step [of "diag_hi n s - k"] by (simp add: cycles_left_def)
  show "diag_hi n s \<le> k + BATCH \<Longrightarrow> s < 2 * n - 2 \<Longrightarrow>
      cycles_left n s k = Suc (cycles_left n (Suc s) (diag_lo n (Suc s)))"
    using assms batches_one [of "diag_hi n s - k"]
    by (simp add: cycles_left_def sum.atLeast_Suc_lessThan [of "Suc s"] diag_batches_def)
  show "diag_hi n s \<le> k + BATCH \<Longrightarrow> s = 2 * n - 2 \<Longrightarrow> cycles_left n s k = 1"
    using assms batches_one [of "diag_hi n s - k"] by (simp add: cycles_left_def)
  show "0 < cycles_left n s k"
    using assms(1) batches_pos [of "diag_hi n s - k"] by (simp add: cycles_left_def)
qed

lemma start_bigmul_computing:
  assumes "wf_unit u" and "0 < words u" and "words u < 512"
  shows "computing (start_bigmul u) 0 0"
proof -
  have w: "words (start_bigmul u) = words u"
    by (rule words_cong) (simp add: start_bigmul_def acc_clear_def Let_def)
  show ?thesis
    using assms unfolding computing_def in_diagonal_def w sum_upto_def
    by (simp add: start_bigmul_def acc_clear_def Let_def wf_unit_def acc_val_def val3_def diag_lo_def diag_hi_def)
qed

lemma singlecycle_start:
  "\<not> bigmul_done u \<Longrightarrow> bigmul_prog u = 0 \<Longrightarrow> singlecycle u = singlecycle (start_bigmul u)"
  by (simp add: singlecycle_def start_bigmul_def acc_clear_def Let_def)

interpretation single: multiplier singlecycle single_running single_remaining
proof
  fix u
  assume r: "ready u"
  then show "singlecycle u = singlecycle (start_bigmul u)"
    by (simp add: ready_def singlecycle_start)
  have c: "computing (start_bigmul u) 0 0"
    using r by (intro start_bigmul_computing) (simp_all add: ready_def)
  have "words (start_bigmul u) = words u"
    by (rule words_cong) (simp add: start_bigmul_def acc_clear_def Let_def)
  with r c computing_at [OF c] show "single_running (start_bigmul u)"
    by (simp add: single_running_def ready_def)
next
  fix u
  assume "single_running u"
  then obtain s k where c: "computing u s k" and n: "words u \<le> 64"
    by (auto simp: single_running_def)
  have rem: "single_remaining u = cycles_left (words u) s k"
    using computing_at [OF c] by (simp add: single_remaining_def)
  have b: "k < diag_hi (words u) s" "s \<le> 2 * words u - 2" "0 < words u"
    using c by (simp_all add: computing_def in_diagonal_def)
  note left = cycles_left_step [OF b]
  from left(4) show "0 < single_remaining u" by (simp add: rem)
  from singlecycle_step [OF c] n obtain u' where u': "singlecycle u = Inr u'" "same_job u u'"
      "if k + BATCH < diag_hi (words u) s then computing u' s (k + BATCH)
       else if s < 2 * words u - 2 then computing u' (Suc s) (diag_lo (words u) (Suc s))
       else product_ready u'" by blast
  have w: "words u' = words u" using u'(2) by (intro words_cong) (simp add: same_job_def)
  have run: "single_running u'" "single_remaining u' = cycles_left (words u) t j" if "computing u' t j" for t j
    using that computing_at [OF that] n by (simp_all add: single_running_def single_remaining_def w)
  have pos: "0 < cycles_left (words u) t j" if "computing u' t j" for t j
    using that cycles_left_step(4) [of j "words u" t] by (simp add: computing_def in_diagonal_def w)
  show "\<exists>u'. singlecycle u = Inr u' \<and> same_job u u' \<and>
      (if single_remaining u = 1 then product_ready u'
       else single_running u' \<and> Suc (single_remaining u') = single_remaining u)"
    using u' left b(2) run by (intro exI [of _ u']) (auto simp: rem not_less split: if_splits dest: pos)
qed

subsection \<open>Properties\<close>

definition total_cycles :: "nat \<Rightarrow> nat" where
  "total_cycles n = (\<Sum>s<2 * n - 1. diag_batches n s)"

lemma cycles_left_start:
  assumes "0 < words u"
  shows "single_remaining (start_bigmul u) = total_cycles (words u)"
proof -
  have w: "words (start_bigmul u) = words u"
    by (rule words_cong) (simp add: start_bigmul_def acc_clear_def Let_def)
  have f: "s_diag (start_bigmul u) = 0" "k_iter (start_bigmul u) = 0"
    by (simp_all add: start_bigmul_def acc_clear_def Let_def)
  have "{..<2 * words u - 1} = {0..<2 * words u - 1}" by (rule lessThan_atLeast0)
  then show ?thesis
    using assms unfolding single_remaining_def w f total_cycles_def
    by (simp add: cycles_left_def sum.atLeast_Suc_lessThan diag_batches_def diag_lo_def)
qed

text \<open>
  C7. The multiplier multiplies: on operands of 1 to 64 doublewords, running the datapath the
  simulator uses for exactly the stated number of cycles leaves the operands, the job and
  the load state as they were and ends the compute phase with the product of the two numbers
  in the result cache, every digit of it.
\<close>

theorem singlecycle_multiplies:
  assumes "wf_unit u" and "1 \<le> words u" and "words u \<le> 64" and "\<not> bigmul_done u" and "bigmul_prog u = 0"
  shows "\<exists>u'. run_cycles singlecycle (total_cycles (words u)) u = Inr u' \<and> same_job u u' \<and>
    bigmul_prog u' = 0 \<and> \<not> write_done u' \<and>
    big (resultCache u') (2 * words u) = big (cacheA u) (words u) * big (cacheB u) (words u)"
proof -
  have r: "ready u" using assms by (simp add: ready_def)
  have n: "0 < words u" using assms(2) by simp
  from single.multiplies [OF r] obtain u' where
    u': "run_cycles singlecycle (total_cycles (words u)) u = Inr u'" "same_job u u'" "product_ready u'"
    unfolding cycles_left_start [OF n] by blast
  moreover have "words u' = words u" using u'(2) by (intro words_cong) (simp add: same_job_def)
  ultimately show ?thesis by (auto simp: product_ready_def same_job_def)
qed

lemma total_cycles_64: "total_cycles 64 = 231"
  by code_simp

lemma total_cycles_2: "total_cycles 2 = 3"
  by code_simp

definition example_unit :: BigmulUnit where
  "example_unit = initial_unit\<lparr>bigmul_done := False, size_of_operand := 2,
     cacheA := (cacheA initial_unit)[0 := 0xFFFFFFFFFFFFFFFF, 1 := 5],
     cacheB := (cacheB initial_unit)[0 := 0xFFFFFFFFFFFFFFFF, 1 := 7]\<rparr>"

lemma example_unit_ready:
  "wf_unit example_unit" "words example_unit = 2" "\<not> bigmul_done example_unit" "bigmul_prog example_unit = 0"
  by (simp_all add: example_unit_def initial_unit_def wf_unit_def words_def)

theorem singlecycle_multiplies_witness:
  "\<exists>u'. run_cycles singlecycle (total_cycles (words example_unit)) example_unit = Inr u' \<and>
    same_job example_unit u' \<and> bigmul_prog u' = 0 \<and> \<not> write_done u' \<and>
    big (resultCache u') (2 * words example_unit) =
      big (cacheA example_unit) (words example_unit) * big (cacheB example_unit) (words example_unit)"
  by (rule singlecycle_multiplies) (simp_all add: example_unit_ready)

subsection \<open>Operands longer than the caches\<close>

lemma singlecycle_undefined:
  assumes "computing u 64 0" and "64 < words u"
  shows "singlecycle u = Inl Undefined"
proof -
  have st: "k_iter u = 0" "s_diag u = 64" "i_max u = 64" "length (cacheA u) = 64" "length (cacheB u) = 64"
    "\<not> bigmul_done u" "bigmul_prog u \<noteq> 0"
    using assms by (auto simp: computing_def in_diagonal_def wf_unit_def diag_hi_def)
  then have "batch_loop (Suc r) u b p = Inl Undefined" for r b p by (simp add: array_get_def)
  from this [of 24] have "batch_loop BATCH u (0, 0, 0) 0 = Inl Undefined" by (simp add: BATCH_def)
  with st show ?thesis by (simp add: singlecycle_def)
qed

lemma computing_ends_undefined:
  assumes "computing u s k" and "64 < words u" and "s \<le> 64" and "s = 64 \<longrightarrow> k = 0"
  shows "\<exists>j. run_cycles singlecycle j u = Inl Undefined"
  using assms
proof (induction "100 * (64 - s) + (diag_hi (words u) s - k)" arbitrary: u s k rule: less_induct)
  case less
  have n: "s \<le> 2 * words u - 2" "0 < words u" and k: "k < diag_hi (words u) s" "diag_lo (words u) s \<le> k"
    using less.prems(1) by (auto simp: computing_def in_diagonal_def)
  show ?case
  proof (cases "s = 64")
    case True
    with less.prems singlecycle_undefined [of u] have "run_cycles singlecycle 1 u = Inl Undefined" by simp
    then show ?thesis by blast
  next
    case False
    with less.prems(2,3) singlecycle_step [OF less.prems(1)] obtain u' where
      u': "singlecycle u = Inr u'" "same_job u u'"
        "if k + BATCH < diag_hi (words u) s then computing u' s (k + BATCH)
         else computing u' (Suc s) (diag_lo (words u) (Suc s))" by auto
    have w: "words u' = words u" using u'(2) by (intro words_cong) (simp add: same_job_def)
    have h: "diag_hi (words u) (Suc s) - diag_lo (words u) (Suc s) \<le> 66"
      using False less.prems(3) by (auto simp: diag_hi_def diag_lo_def)
    have "\<exists>j. run_cycles singlecycle j u' = Inl Undefined"
    proof (cases "k + BATCH < diag_hi (words u) s")
      case True
      with u'(3) have c: "computing u' s (k + BATCH)" by simp
      show ?thesis
        by (rule less.hyps [OF _ c]) (use True False less.prems w in \<open>auto simp: BATCH_def\<close>)
    next
      case l: False
      with u'(3) have c: "computing u' (Suc s) (diag_lo (words u) (Suc s))" by simp
      have "100 * (64 - Suc s) + (diag_hi (words u) (Suc s) - diag_lo (words u) (Suc s)) <
          100 * (64 - s) + (diag_hi (words u) s - k)"
        using False less.prems(3) h by linarith
      then show ?thesis
        by (intro less.hyps [OF _ c]) (use False less.prems w in \<open>auto simp: diag_lo_def\<close>)
    qed
    then obtain j where "run_cycles singlecycle j u' = Inl Undefined" by blast
    with u'(1) have "run_cycles singlecycle (Suc j) u = Inl Undefined" by simp
    then show ?thesis by blast
  qed
qed

text \<open>
  C25. An operand size the simulator accepts but the caches cannot hold, 65 to 511 doublewords, always
  ends in an access outside the operand caches: the computation never produces a result.
\<close>

theorem singlecycle_oversize_undefined:
  assumes "wf_unit u" and "64 < words u" and "words u < 512" and "\<not> bigmul_done u" and "bigmul_prog u = 0"
  shows "\<exists>j. run_cycles singlecycle j u = Inl Undefined"
proof -
  have "words (start_bigmul u) = words u"
    by (rule words_cong) (simp add: start_bigmul_def acc_clear_def Let_def)
  then have "\<exists>j. run_cycles singlecycle j (start_bigmul u) = Inl Undefined"
    using assms by (intro computing_ends_undefined [OF start_bigmul_computing]) simp_all
  then obtain j where j: "run_cycles singlecycle j (start_bigmul u) = Inl Undefined" by blast
  then have "run_cycles singlecycle j u = Inl Undefined"
    using singlecycle_start [OF assms(4,5)] by (cases j) simp_all
  then show ?thesis by blast
qed

subsection \<open>Reset, snapshot\<close>

text \<open>
  C27. A reset brings the unit to its initial state except for the operand size, which keeps the value
  the last instruction set.
\<close>

theorem reset_initial:
  assumes "wf_unit u"
  shows "reset u = initial_unit\<lparr>size_of_operand := size_of_operand u\<rparr>"
  using assms by (simp add: reset_def initial_unit_def acc_clear_def Let_def wf_unit_def map_replicate_const)

lemma restore_ready:
  assumes "ready u" and "size_of_operand v = size_of_operand u"
  shows "ready (restore (snapshot u) v)"
  using assms by (simp add: ready_def wf_unit_def restore_def snapshot_def words_def)

text \<open>
  C26. A snapshot taken when a multiplication is about to start holds all it needs: restored into a unit
  in any state with the same operand size, the multiplication runs to the same product and the
  same result address.
\<close>

theorem restore_restarts:
  assumes "wf_unit u" and "1 \<le> words u" and "words u \<le> 64" and "\<not> bigmul_done u" and "bigmul_prog u = 0"
    and "size_of_operand v = size_of_operand u"
  shows "\<exists>u'. run_cycles singlecycle (total_cycles (words u)) (restore (snapshot u) v) = Inr u' \<and>
    base_addr_res u' = base_addr_res u \<and> \<not> write_done u' \<and>
    big (resultCache u') (2 * words u) = big (cacheA u) (words u) * big (cacheB u) (words u)"
proof -
  have r: "ready (restore (snapshot u) v)" using assms by (intro restore_ready) (simp_all add: ready_def)
  have w: "words (restore (snapshot u) v) = words u"
    using assms(6) by (simp add: words_def restore_def snapshot_def)
  have f: "cacheA (restore (snapshot u) v) = cacheA u" "cacheB (restore (snapshot u) v) = cacheB u"
    "base_addr_res (restore (snapshot u) v) = base_addr_res u"
    by (simp_all add: restore_def snapshot_def)
  from cycles_left_start [of "restore (snapshot u) v"] assms(2)
  have c: "single_remaining (start_bigmul (restore (snapshot u) v)) = total_cycles (words u)" by (simp add: w)
  from single.multiplies [OF r] obtain u' where
    u': "run_cycles singlecycle (total_cycles (words u)) (restore (snapshot u) v) = Inr u'"
      "same_job (restore (snapshot u) v) u'" "product_ready u'"
    unfolding c by blast
  have "words u' = words u"
    using u'(2) words_cong [of u' "restore (snapshot u) v"] by (simp add: same_job_def w)
  with u' f show ?thesis by (intro exI [of _ u']) (auto simp: product_ready_def same_job_def)
qed


theorem singlecycle_oversize_undefined_witness:
  "\<exists>j. run_cycles singlecycle j (example_unit\<lparr>size_of_operand := 65\<rparr>) = Inl Undefined"
  by (rule singlecycle_oversize_undefined) (simp_all add: example_unit_def initial_unit_def wf_unit_def words_def)

theorem reset_initial_witness:
  "reset example_unit = initial_unit\<lparr>size_of_operand := size_of_operand example_unit\<rparr>"
  by (rule reset_initial) (rule example_unit_ready)

theorem restore_restarts_witness:
  "\<exists>u'. run_cycles singlecycle (total_cycles (words example_unit)) (restore (snapshot example_unit) example_unit) = Inr u' \<and>
    base_addr_res u' = base_addr_res example_unit \<and> \<not> write_done u' \<and>
    big (resultCache u') (2 * words example_unit) =
      big (cacheA example_unit) (words example_unit) * big (cacheB example_unit) (words example_unit)"
  by (rule restore_restarts) (simp_all add: example_unit_ready)

subsection \<open>The systolic variant\<close>

lemma systolic_loop_sum:
  assumes "length (cacheA u) = 64" and "length (cacheB u) = 64" and "h \<le> 64" and "h \<le> Suc s"
    and "i < h \<Longrightarrow> s - i < 64" and "h - i < r"
  shows "\<exists>w. systolic_loop r u (int s) (int i) (int h - 1) acc = Inr w \<and>
    unat w = (unat acc + term_sum (cacheA u) (cacheB u) s i h) mod 2 ^ 128"
  using assms
proof (induction r arbitrary: i acc)
  case 0
  then show ?case by simp
next
  case (Suc r)
  show ?case
  proof (cases "i < h")
    case False
    then have "term_sum (cacheA u) (cacheB u) s i h = 0" by (simp add: term_sum_def)
    with False show ?thesis using unsigned_less [of acc, where ?'a = nat] by simp
  next
    case True
    let ?acc = "acc + ucast (cacheA u ! i) * ucast (cacheB u ! (s - i))"
    have g: "array_get (cacheA u) (int i) = Inr (cacheA u ! i)"
      "array_get (cacheB u) (int s - int i) = Inr (cacheB u ! (s - i))"
      using Suc.prems True by (auto simp: array_get_def nat_diff_distrib)
    have "\<exists>w. systolic_loop r u (int s) (int (Suc i)) (int h - 1) ?acc = Inr w \<and>
      unat w = (unat ?acc + term_sum (cacheA u) (cacheB u) s (Suc i) h) mod 2 ^ 128"
      using Suc.prems True by (intro Suc.IH) auto
    then obtain w where w: "systolic_loop r u (int s) (int (Suc i)) (int h - 1) ?acc = Inr w"
      "unat w = (unat ?acc + term_sum (cacheA u) (cacheB u) s (Suc i) h) mod 2 ^ 128" by blast
    have "unat ?acc = (unat acc + unat (cacheA u ! i) * unat (cacheB u ! (s - i))) mod 2 ^ 128"
      unfolding unat_word_ariths(1) unat_mult_u128 by simp
    then have "unat w = (unat acc + term_sum (cacheA u) (cacheB u) s i h) mod 2 ^ 128"
      unfolding w(2) term_sum_first [OF True] by (simp only: mod_add_left_eq add.assoc)
    moreover have "systolic_loop (Suc r) u (int s) (int i) (int h - 1) acc = Inr w"
      using w(1) True g by (simp add: add.commute [of "int i" 1])
    ultimately show ?thesis by blast
  qed
qed

lemma systolic_cycle:
  assumes "wf_unit u" and "\<not> bigmul_done u" and "bigmul_prog u \<noteq> 0" and "s_diag u = int s" and "s < 127"
  obtains x where "systolicmultiply u = Inr (u\<lparr>resultCache := (resultCache u)[s := x], s_diag := int (Suc s)\<rparr>)"
    and "unat x = diag_sum (cacheA u) (cacheB u) 64 s mod 2 ^ 64"
proof -
  have l: "length (cacheA u) = 64" "length (cacheB u) = 64" "length (resultCache u) = 128"
    using assms(1) by (simp_all add: wf_unit_def)
  have b: "(if int s > 63 then int s - 63 else 0) = int (diag_lo 64 s)"
    "(if int s < 63 then int s else 63) = int (diag_hi 64 s) - 1"
    using assms(5) by (auto simp: diag_lo_def diag_hi_def min_def)
  have "\<exists>w. systolic_loop 65 u (int s) (int (diag_lo 64 s)) (int (diag_hi 64 s) - 1) 0 = Inr w \<and>
    unat w = (unat (0 :: u128) + term_sum (cacheA u) (cacheB u) s (diag_lo 64 s) (diag_hi 64 s)) mod 2 ^ 128"
    using assms(5) l by (intro systolic_loop_sum) (auto simp: diag_lo_def diag_hi_def)
  then obtain w where
    w: "systolic_loop 65 u (int s) (int (diag_lo 64 s)) (int (diag_hi 64 s) - 1) 0 = Inr w"
      "unat w = diag_sum (cacheA u) (cacheB u) 64 s mod 2 ^ 128"
    by (auto simp: diag_sum_def)
  have "unat (ucast w :: u64) = diag_sum (cacheA u) (cacheB u) 64 s mod 2 ^ 64"
    unfolding unat_ucast_u128_u64 w(2) by (rule mod_mod_cancel) (simp add: le_imp_power_dvd)
  moreover have "systolicmultiply u = Inr (u\<lparr>resultCache := (resultCache u)[s := ucast w], s_diag := int (Suc s)\<rparr>)"
    using assms(2,3,5) l(3) unfolding systolicmultiply_def Let_def assms(4) b w(1)
    by (simp add: array_set_def add.commute [of "int s" 1])
  ultimately show ?thesis by (rule that [rotated])
qed

text \<open>Every word a run has passed is a diagonal sum; the other words are as they were.\<close>

lemma systolic_run:
  assumes "wf_unit u" and "\<not> bigmul_done u" and "bigmul_prog u \<noteq> 0" and "s_diag u = int s" and "s + j \<le> 127"
  shows "\<exists>u'. run_cycles systolicmultiply j u = Inr u' \<and> same_job u u' \<and> wf_unit u' \<and>
    (\<forall>t < s. resultCache u' ! t = resultCache u ! t) \<and>
    (\<forall>t. s \<le> t \<and> t < s + j \<longrightarrow> unat (resultCache u' ! t) = diag_sum (cacheA u) (cacheB u) 64 t mod 2 ^ 64)"
  using assms
proof (induction j arbitrary: u s)
  case 0
  then show ?case by (simp add: same_job_def)
next
  case (Suc j)
  obtain x where x: "systolicmultiply u = Inr (u\<lparr>resultCache := (resultCache u)[s := x], s_diag := int (Suc s)\<rparr>)"
    "unat x = diag_sum (cacheA u) (cacheB u) 64 s mod 2 ^ 64"
    using systolic_cycle [OF Suc.prems(1-4)] Suc.prems(5) by auto
  let ?u = "u\<lparr>resultCache := (resultCache u)[s := x], s_diag := int (Suc s)\<rparr>"
  have "\<exists>u'. run_cycles systolicmultiply j ?u = Inr u' \<and> same_job ?u u' \<and> wf_unit u' \<and>
    (\<forall>t < Suc s. resultCache u' ! t = resultCache ?u ! t) \<and>
    (\<forall>t. Suc s \<le> t \<and> t < Suc s + j \<longrightarrow> unat (resultCache u' ! t) = diag_sum (cacheA ?u) (cacheB ?u) 64 t mod 2 ^ 64)"
    using Suc.prems by (intro Suc.IH) (simp_all add: wf_unit_def)
  then obtain u' where u': "run_cycles systolicmultiply j ?u = Inr u'" "same_job ?u u'" "wf_unit u'"
    "\<forall>t < Suc s. resultCache u' ! t = resultCache ?u ! t"
    "\<forall>t. Suc s \<le> t \<and> t < Suc s + j \<longrightarrow> unat (resultCache u' ! t) = diag_sum (cacheA u) (cacheB u) 64 t mod 2 ^ 64"
    by auto
  have "s < length (resultCache u)" using Suc.prems(1,5) by (simp add: wf_unit_def)
  then have "unat (resultCache u' ! s) = diag_sum (cacheA u) (cacheB u) 64 s mod 2 ^ 64"
    using u'(4) x(2) by simp
  with u'(5) have "\<forall>t. s \<le> t \<and> t < s + Suc j \<longrightarrow> unat (resultCache u' ! t) = diag_sum (cacheA u) (cacheB u) 64 t mod 2 ^ 64"
    by (metis add_Suc_right add_Suc le_neq_implies_less Suc_leI)
  moreover have "\<forall>t < s. resultCache u' ! t = resultCache u ! t" using u'(4) by simp
  moreover have "same_job u u'" using u'(2) by (simp add: same_job_def)
  ultimately show ?case using u'(1,3) x(1) by auto
qed

text \<open>
  The systolic variant drops the carries: after its start and any number of diagonals below 128, each
  word passed is the sum of its own diagonal modulo \<open>2 ^ 64\<close>, with nothing carried over from the
  diagonals below. Two operands of one doubleword each therefore give only the lower half of
  their product, with a zero word above it: the result differs from the product whenever that
  does not fit 64 bits.
\<close>

lemma systolic_drops_carries:
  assumes "wf_unit u" and "\<not> bigmul_done u" and "bigmul_prog u = 0" and "2 \<le> j" and "j \<le> 127"
  shows "\<exists>u'. run_cycles systolicmultiply (Suc j) u = Inr u' \<and> same_job u u' \<and>
    (\<forall>t < j. unat (resultCache u' ! t) = diag_sum (cacheA u) (cacheB u) 64 t mod 2 ^ 64) \<and>
    (cacheA u ! 1 = 0 \<and> cacheB u ! 1 = 0 \<longrightarrow>
      big (resultCache u') 2 = big (cacheA u) 1 * big (cacheB u) 1 mod 2 ^ 64)"
proof -
  let ?s = "start_bigmul u"
  have start: "systolicmultiply u = Inr ?s" using assms(2,3) by (simp add: systolicmultiply_def)
  have s: "wf_unit ?s" "\<not> bigmul_done ?s" "bigmul_prog ?s \<noteq> 0" "s_diag ?s = int 0" "same_job u ?s"
    using assms(1,2) by (simp_all add: start_bigmul_def acc_clear_def Let_def wf_unit_def same_job_def)
  obtain u' where u': "run_cycles systolicmultiply j ?s = Inr u'" "same_job ?s u'"
    "\<forall>t. 0 \<le> t \<and> t < 0 + j \<longrightarrow> unat (resultCache u' ! t) = diag_sum (cacheA ?s) (cacheB ?s) 64 t mod 2 ^ 64"
    using systolic_run [OF s(1-4), of j] assms(5) by auto
  have c: "cacheA ?s = cacheA u" "cacheB ?s = cacheB u" using s(5) by (simp_all add: same_job_def)
  have d: "unat (resultCache u' ! t) = diag_sum (cacheA u) (cacheB u) 64 t mod 2 ^ 64" if "t < j" for t
    using u'(3) that c by simp
  have "big (resultCache u') 2 = big (cacheA u) 1 * big (cacheB u) 1 mod 2 ^ 64"
    if "cacheA u ! 1 = 0" "cacheB u ! 1 = 0"
  proof -
    have "diag_sum (cacheA u) (cacheB u) 64 0 = unat (cacheA u ! 0) * unat (cacheB u ! 0)"
      "diag_sum (cacheA u) (cacheB u) 64 1 = 0"
      using that by (simp_all add: diag_sum_def term_sum_def diag_lo_def diag_hi_def atLeastLessThan_upt)
    then show ?thesis using d [of 0] d [of 1] assms(4) by (simp add: big_def numeral_2_eq_2)
  qed
  then show ?thesis using start u'(1) same_job_trans [OF s(5) u'(2)] d by auto
qed

text \<open>Two doublewords whose bits are all set: one comes out, not \<open>(2 ^ 64 - 1)\<close> squared.\<close>

definition carry_unit :: BigmulUnit where
  "carry_unit = initial_unit\<lparr>bigmul_done := False, size_of_operand := 1,
     cacheA := (cacheA initial_unit)[0 := 0xFFFFFFFFFFFFFFFF],
     cacheB := (cacheB initial_unit)[0 := 0xFFFFFFFFFFFFFFFF]\<rparr>"

lemma systolic_carry_unit:
  "\<exists>u'. run_cycles systolicmultiply 3 carry_unit = Inr u' \<and> big (resultCache u') 2 = 1 \<and>
    big (cacheA carry_unit) 1 * big (cacheB carry_unit) 1 = (2 ^ 64 - 1) ^ 2"
proof -
  have c: "wf_unit carry_unit" "\<not> bigmul_done carry_unit" "bigmul_prog carry_unit = 0"
    "cacheA carry_unit ! 1 = 0" "cacheB carry_unit ! 1 = 0"
    "big (cacheA carry_unit) 1 = 0xFFFFFFFFFFFFFFFF" "big (cacheB carry_unit) 1 = 0xFFFFFFFFFFFFFFFF"
    by (simp_all add: carry_unit_def initial_unit_def wf_unit_def big_def)
  obtain u' where "run_cycles systolicmultiply (Suc 2) carry_unit = Inr u'"
    "big (resultCache u') 2 = big (cacheA carry_unit) 1 * big (cacheB carry_unit) 1 mod 2 ^ 64"
    using systolic_drops_carries [OF c(1-3), of 2] c(4,5) by auto
  moreover have "Suc 2 = 3" by simp
  ultimately show ?thesis unfolding c(6,7) by (intro exI [of _ u']) simp
qed

end
