(* ===== verification/RvssBigmul.thy ===== *)
theory RvssBigmul
  imports RvssUndo BigmulCorrect
begin

text \<open>
  The custom instructions LDBM and BIGMUL on the single-stage machine (src/vm/rvss/rvss_vm.cpp
  with src/vm/bigmul_unit.cpp): what a step of each does to the caches, the memory and the
  counters, all stall cycles included, and the program of the two that multiplies operands in
  memory.
\<close>

subsection \<open>LDBM\<close>

text \<open>The operand of \<open>n\<close> doublewords at an address, and the cache while its first \<open>k\<close> are loaded.\<close>

definition operand :: "Memory \<Rightarrow> u64 \<Rightarrow> nat \<Rightarrow> u64 list" where
  "operand m a n = map (\<lambda>i. case ReadDoubleWord m (a + of_nat i * 8) of Inr x \<Rightarrow> x | Inl _ \<Rightarrow> 0) [0..<n]"

definition blend :: "nat \<Rightarrow> 'a list \<Rightarrow> 'a list \<Rightarrow> 'a list" where
  "blend k xs ys = take k xs @ drop k ys"

lemma length_operand [simp]: "length (operand m a n) = n"
  by (simp add: operand_def)

lemma blend_simps [simp]:
  "blend 0 xs ys = ys" "length xs = length ys \<Longrightarrow> length (blend k xs ys) = length ys"
  "length xs = n \<Longrightarrow> length ys = n \<Longrightarrow> blend n xs ys = xs"
  by (auto simp: blend_def)

lemma blend_update:
  assumes "k < length xs" and "length xs = length ys"
  shows "(blend k xs ys)[k := xs ! k] = blend (Suc k) xs ys"
  using assms by (simp add: blend_def list_update_append take_Suc_conv_app_nth Cons_nth_drop_Suc [symmetric])

text \<open>All of an operand can be read.\<close>

definition readable_words :: "Memory \<Rightarrow> u64 \<Rightarrow> nat \<Rightarrow> bool" where
  "readable_words m a n \<longleftrightarrow> (\<forall>i < n. \<exists>x. ReadDoubleWord m (a + of_nat i * 8) = Inr x)"

lemma read_operand:
  "readable_words m a n \<Longrightarrow> i < n \<Longrightarrow> ReadDoubleWord m (a + of_nat i * 8) = Inr (operand m a n ! i)"
  by (fastforce simp: readable_words_def operand_def)

lemma ldbm_load_A:
  assumes "readable_words (memory v) (base_addr_A (bigmul v)) 64" and "length c = 64"
    and "cacheA (bigmul v) = blend k (operand (memory v) (base_addr_A (bigmul v)) 64) c" and "k + r \<le> 64"
  shows "ldbm_load True r (of_nat k) v = Inr (v\<lparr>bigmul := (bigmul v)
    \<lparr>cacheA := blend (k + r) (operand (memory v) (base_addr_A (bigmul v)) 64) c\<rparr>\<rparr>)"
  using assms
proof (induction r arbitrary: k v)
  case 0
  then show ?case by simp
next
  case (Suc r)
  let ?ops = "operand (memory v) (base_addr_A (bigmul v)) 64"
  let ?v = "v\<lparr>bigmul := (bigmul v)\<lparr>cacheA := blend (Suc k) ?ops c\<rparr>\<rparr>"
  have k: "unat (of_nat k :: u64) = k" "(of_nat k :: u64) < 64"
    using Suc.prems(4) by (simp_all add: unat_of_nat word_less_nat_alt)
  have "ldbm_load True (Suc r) (of_nat k) v = ldbm_load True r (of_nat k + 1) ?v"
    using Suc.prems k by (simp add: read_operand blend_update)
  also have "\<dots> = ldbm_load True r (of_nat (Suc k)) ?v" by (simp add: add.commute)
  also have "\<dots> = Inr (?v\<lparr>bigmul := (bigmul ?v)\<lparr>cacheA := blend (Suc k + r) ?ops c\<rparr>\<rparr>)"
    using Suc.IH [of ?v "Suc k"] Suc.prems by simp
  finally show ?case by simp
qed

lemma ldbm_load_B:
  assumes "readable_words (memory v) (base_addr_B (bigmul v)) 64" and "length c = 64"
    and "cacheB (bigmul v) = blend k (operand (memory v) (base_addr_B (bigmul v)) 64) c" and "k + r \<le> 64"
  shows "ldbm_load False r (of_nat k) v = Inr (v\<lparr>bigmul := (bigmul v)
    \<lparr>cacheB := blend (k + r) (operand (memory v) (base_addr_B (bigmul v)) 64) c\<rparr>\<rparr>)"
  using assms
proof (induction r arbitrary: k v)
  case 0
  then show ?case by simp
next
  case (Suc r)
  let ?ops = "operand (memory v) (base_addr_B (bigmul v)) 64"
  let ?v = "v\<lparr>bigmul := (bigmul v)\<lparr>cacheB := blend (Suc k) ?ops c\<rparr>\<rparr>"
  have k: "unat (of_nat k :: u64) = k" "(of_nat k :: u64) < 64"
    using Suc.prems(4) by (simp_all add: unat_of_nat word_less_nat_alt)
  have "ldbm_load False (Suc r) (of_nat k) v = ldbm_load False r (of_nat k + 1) ?v"
    using Suc.prems k by (simp add: read_operand blend_update)
  also have "\<dots> = ldbm_load False r (of_nat (Suc k)) ?v" by (simp add: add.commute)
  also have "\<dots> = Inr (?v\<lparr>bigmul := (bigmul ?v)\<lparr>cacheB := blend (Suc k + r) ?ops c\<rparr>\<rparr>)"
    using Suc.IH [of ?v "Suc k"] Suc.prems by simp
  finally show ?case by simp
qed

text \<open>The unit after \<open>k\<close> of the sixteen cycles of a load.\<close>

definition loading :: "Memory \<Rightarrow> nat \<Rightarrow> BigmulUnit \<Rightarrow> BigmulUnit" where
  "loading m k u = u\<lparr>cacheA := blend (min (8 * k) 64) (operand m (base_addr_A u) 64) (cacheA u),
     cacheB := blend (8 * k - 64) (operand m (base_addr_B u) 64) (cacheB u),
     ldbm_offset := of_nat (8 * k), ldbm_done := (16 \<le> k)\<rparr>"

lemma ldbm_cycle_loading:
  assumes "readable_words (memory v) (base_addr_A u) 64" and "readable_words (memory v) (base_addr_B u) 64"
    and "wf_unit u" and "k < 16"
  shows "ldbm_cycle (v\<lparr>bigmul := loading (memory v) k u\<rparr>) = Inr (v\<lparr>bigmul := loading (memory v) (Suc k) u\<rparr>)"
proof -
  let ?v = "v\<lparr>bigmul := loading (memory v) k u\<rparr>"
  define off where "off = (of_nat (8 * k) :: u64)"
  have l: "ldbm_offset (loading (memory v) k u) = off" by (simp add: loading_def off_def)
  have nxt: "off + 8 = of_nat (8 * Suc k)" by (simp add: off_def)
  have u: "unat off = 8 * k" "unat (off + 8) = 8 * Suc k"
    using assms(4) unfolding nxt by (simp_all add: off_def unat_of_nat unat_word_ariths)
  have lt: "off < 128" "off < 64 \<longleftrightarrow> k < 8" "128 \<le> off + 8 \<longleftrightarrow> 16 \<le> Suc k"
    using u assms(4) by (auto simp: word_less_nat_alt word_le_nat_alt)
  show ?thesis
  proof (cases "k < 8")
    case True
    have "ldbm_load True 8 off ?v = Inr (?v\<lparr>bigmul := (bigmul ?v)
        \<lparr>cacheA := blend (8 * k + 8) (operand (memory v) (base_addr_A u) 64) (cacheA u)\<rparr>\<rparr>)"
      using ldbm_load_A [of ?v "cacheA u" "8 * k" 8] assms True by (simp add: loading_def wf_unit_def off_def)
    with True lt nxt show ?thesis
      by (simp add: ldbm_cycle_def l) (simp add: loading_def Let_def add.commute)
  next
    case False
    then have "off - 64 = of_nat (8 * k - 64)" by (simp add: off_def of_nat_diff)
    then have "ldbm_load False 8 (off - 64) ?v = Inr (?v\<lparr>bigmul := (bigmul ?v)
        \<lparr>cacheB := blend (8 * k - 64 + 8) (operand (memory v) (base_addr_B u) 64) (cacheB u)\<rparr>\<rparr>)"
      using ldbm_load_B [of ?v "cacheB u" "8 * k - 64" 8] assms False by (simp add: loading_def wf_unit_def)
    moreover have "8 * k - 64 + 8 = 8 * Suc k - 64" "min (8 * k) 64 = 64" "min (8 * Suc k) 64 = 64"
      using False by simp_all
    ultimately show ?thesis using False lt nxt
      by (simp add: ldbm_cycle_def l del: mult_Suc_right) (simp add: loading_def Let_def add.commute del: mult_Suc_right)
  qed
qed

subsection \<open>The stages of a custom instruction\<close>

lemma field5: "unat (ucast (x AND 0x1F :: u32) :: u8) < 32"
proof -
  have "ucast (x AND 0x1F) = (ucast x AND 0x1F :: u8)" by (rule bit_word_eqI) (auto simp: bit_simps)
  moreover have "(ucast x AND 0x1F :: u8) \<le> 0x1F" by (rule word_and_le1)
  ultimately show ?thesis by (simp add: word_le_nat_alt)
qed

lemma register_fields: "unat (rs1_of w) < NUM_GPR" "unat (rs2_of w) < NUM_GPR" "unat (rd_of w) < NUM_GPR"
  using field5 by (simp_all add: rs1_of_def rs2_of_def rd_of_def NUM_GPR_def)

definition reg_val :: "RVSSVM \<Rightarrow> nat \<Rightarrow> u64" where
  "reg_val v i = (if i = 0 then 0 else gpr (registers v) i)"

lemma read_gpr_val: "i < NUM_GPR \<Longrightarrow> read_gpr i v = Inr (reg_val v i)"
  by (auto simp: read_gpr_def ReadGpr_def reg_val_def)

definition custom :: "u32 \<Rightarrow> bool" where
  "custom w \<longleftrightarrow> opcode_of w = 0x2A \<or> opcode_of w = 0x3F"

lemma custom_not_fp: "custom w \<Longrightarrow> \<not> isFInstruction w \<and> \<not> isDInstruction w"
  by (auto simp: custom_def isFInstruction_def isDInstruction_def Let_def)

lemma custom_signals:
  assumes "custom w"
  shows "\<not> branch (SetControlSignals c w)" and "\<not> reg_write (SetControlSignals c w)"
    and "\<not> mem_write (SetControlSignals c w)"
    and "ldbm_start (SetControlSignals c w) \<longleftrightarrow> opcode_of w = 0x2A"
    and "bigmul_start (SetControlSignals c w) \<longleftrightarrow> opcode_of w = 0x3F"
    and "mem_read (SetControlSignals c w) \<longleftrightarrow> opcode_of w = 0x2A"
  using assms by (auto simp: custom_def SetControlSignals_def Let_def)

lemma Execute_custom:
  assumes "custom (current_instruction v)" and "control_unit v = SetControlSignals c (current_instruction v)"
  shows "Execute H v = Inr (v\<lparr>execution_result := 0\<rparr>)"
proof -
  let ?w = "current_instruction v"
  have op: "opcode_of ?w = 0x2A \<or> opcode_of ?w = 0x3F" using assms(1) by (simp add: custom_def)
  then have "GetAluSignal ?w b = IntOp kNone" for b by (auto simp: GetAluSignal_def Let_def)
  then have alu: "run_alu x y v = Inr (v\<lparr>execution_result := 0\<rparr>)" for x y
    by (simp add: run_alu_def execute_def int_execute_def Let_def)
  have "after_alu imm (v\<lparr>execution_result := 0\<rparr>) = v\<lparr>execution_result := 0\<rparr>" for imm
  proof -
    have "\<not> branch (control_unit v)" using custom_signals(1) [OF assms(1)] assms(2) by simp
    moreover have "uint (opcode_of ?w) = 42 \<or> uint (opcode_of ?w) = 63" using op by auto
    ultimately show ?thesis unfolding after_alu_def Let_def by (elim disjE) simp_all
  qed
  moreover have "Execute H v = ExecuteInteger v"
    using op custom_not_fp [OF assms(1)] by (auto simp: Execute_def Let_def)
  ultimately show ?thesis
    by (simp add: ExecuteInteger_eq Let_def read_gpr_val register_fields alu)
qed

lemma WriteBack_custom:
  assumes "custom (current_instruction v)" and "\<not> reg_write (control_unit v)"
  shows "WriteBack v = Inr v"
proof -
  have op: "opcode_of (current_instruction v) = 0x2A \<or> opcode_of (current_instruction v) = 0x3F"
    using assms(1) by (simp add: custom_def)
  then have "WriteBack v = WriteBackInteger v"
    using custom_not_fp [OF assms(1)] by (auto simp: WriteBack_def Let_def)
  then show ?thesis using assms(2)
    by (simp add: WriteBackInteger_def reg_write_value_def Let_def read_gpr_val register_fields)
qed

subsection \<open>A step of LDBM\<close>

lemma bigmul_last:
  "v\<lparr>bigmul := u, cout := c\<rparr> = v\<lparr>cout := c, bigmul := u\<rparr>"
  "v\<lparr>bigmul := u, memory := m\<rparr> = v\<lparr>memory := m, bigmul := u\<rparr>"
  "v\<lparr>bigmul := u, cycle_s := n\<rparr> = v\<lparr>cycle_s := n, bigmul := u\<rparr>"
  "v\<lparr>bigmul := u, instructions_retired := n\<rparr> = v\<lparr>instructions_retired := n, bigmul := u\<rparr>"
  "v\<lparr>bigmul := u, execution_result := x\<rparr> = v\<lparr>execution_result := x, bigmul := u\<rparr>"
  by simp_all

lemma ldbm_stall_loop_loads:
  assumes "readable_words (memory v) (base_addr_A u) 64" and "readable_words (memory v) (base_addr_B u) 64"
    and "wf_unit u" and "ldbm_start (control_unit v)" and "k \<le> 16" and "16 - k \<le> fuel"
  shows "\<exists>c. ldbm_stall_loop loud fuel (v\<lparr>bigmul := loading (memory v) k u\<rparr>) =
    Inr (v\<lparr>bigmul := loading (memory v) 16 u, cycle_s := cycle_s v + of_nat (16 - k), cout := c\<rparr>)"
  using assms
proof (induction fuel arbitrary: v k)
  case 0
  then have "k = 16" by simp
  then show ?case by (intro exI [of _ "cout v"]) (simp add: ldbm_stalled_def GetLdbmDone_def loading_def)
next
  case (Suc fuel)
  show ?case
  proof (cases "k = 16")
    case True
    then show ?thesis by (intro exI [of _ "cout v"]) (simp add: ldbm_stalled_def GetLdbmDone_def loading_def)
  next
    case False
    let ?out = "if loud then [OutText ''[LDBM Stall] offset='', OutInt (uint (ldbm_offset (loading (memory v) k u)))] else []"
    let ?v = "v\<lparr>cout := cout v @ ?out\<rparr>"
    let ?w = "?v\<lparr>cycle_s := cycle_s v + 1\<rparr>"
    have k: "k < 16" using False Suc.prems(5) by simp
    have busy: "\<not> ldbm_done (loading (memory v) k u)" using k by (simp add: loading_def)
    have "WriteMemory (?v\<lparr>bigmul := loading (memory v) k u\<rparr>) = Inr (?v\<lparr>bigmul := loading (memory v) (Suc k) u\<rparr>)"
      using ldbm_cycle_loading [of ?v u k] Suc.prems(1-4) k busy
      by (simp add: WriteMemory_def GetLdbmDone_def)
    then have "ldbm_stall_loop loud (Suc fuel) (v\<lparr>bigmul := loading (memory v) k u\<rparr>) =
        ldbm_stall_loop loud fuel (?w\<lparr>bigmul := loading (memory ?w) (Suc k) u\<rparr>)"
      using Suc.prems(4) busy
      by (cases loud) (simp_all add: ldbm_stalled_def GetLdbmDone_def print_def count_cycle_def bigmul_last)
    moreover have "of_nat (16 - k) = (1 :: u32) + of_nat (16 - Suc k)" using k by (simp add: of_nat_diff)
    ultimately show ?thesis using Suc.IH [of ?w "Suc k"] Suc.prems(1-4,6) k by (auto simp: add.assoc)
  qed
qed

text \<open>What a step of a custom instruction leaves as it is.\<close>

definition same_program :: "RVSSVM \<Rightarrow> RVSSVM \<Rightarrow> bool" where
  "same_program v v' \<longleftrightarrow> vm_config v' = vm_config v \<and> program_size v' = program_size v \<and>
     registers v' = registers v \<and> program_counter v' = program_counter v + 4 \<and>
     instructions_retired v' = instructions_retired v + 1"

text \<open>A machine about to step a custom instruction \<open>w\<close>.\<close>

definition custom_next :: "RVSSVM \<Rightarrow> u32 \<Rightarrow> bool" where
  "custom_next v w \<longleftrightarrow> program_counter v < program_size v \<and>
     ReadWord (memory v) (program_counter v) = Inr w \<and> custom w \<and> rs1_wide w < NUM_GPR \<and> rs2_wide w < NUM_GPR \<and>
     wf_unit (bigmul v) \<and> bigmul_done (bigmul v) \<and> ldbm_done (bigmul v)"

text \<open>The machine after the preview, the fetch and the control signals of the decoding.\<close>

definition signalled :: "RVSSVM \<Rightarrow> u32 \<Rightarrow> u8 \<Rightarrow> RVSSVM" where
  "signalled v w kind = v\<lparr>current_delta := (current_delta v)\<lparr>custom_instr_executed := kind,
       bigmul_state := snapshot (bigmul v), old_pc := program_counter v\<rparr>,
     current_instruction := w, program_counter := program_counter v + 4,
     control_unit := SetControlSignals (control_unit v) w\<rparr>"

lemma Step_custom:
  assumes "custom_next v w" and "opcode_of w = (if load then 0x2A else 0x3F)"
    and "(if load then start_ldbm else start_bigmul_instr) (signalled v w (if load then 1 else 2)) = Inr u"
    and "control_unit u = SetControlSignals (control_unit v) w" and "current_instruction u = w"
  shows "Step H fuel v = bindr (WriteMemory (u\<lparr>execution_result := 0\<rparr>)) (\<lambda>v. bindr (WriteBack v) (\<lambda>v.
    let v = count_cycle (v\<lparr>instructions_retired := instructions_retired v + 1\<rparr>);
        v = print [OutText ''Program Counter: '', OutHex (program_counter v)] v
    in bindr (ldbm_stall_loop True fuel v) (\<lambda>v.
       bindr (bigmul_stall_loop True fuel v) (\<lambda>v. Inr (record_step v)))))"
proof -
  have op: "uint (ucast (w AND 0x7F) :: u8) = (if load then 42 else 63)"
    using assms(2) by (auto simp: opcode_of_def split: if_splits)
  let ?v0 = "v\<lparr>current_delta := (current_delta v)\<lparr>custom_instr_executed := (if load then 1 else 2),
       bigmul_state := snapshot (bigmul v), old_pc := program_counter v\<rparr>\<rparr>"
  have p: "preview v = Inr ?v0"
    using assms(1) op by (cases load) (simp_all add: preview_def custom_next_def Let_def)
  let ?v1 = "?v0\<lparr>current_instruction := w, program_counter := program_counter v + 4\<rparr>"
  have f: "Fetch ?v0 = Inr ?v1"
    using assms(1) by (simp add: Fetch_def custom_next_def UpdateProgramCounter_def)
  have d: "Decode ?v1 = Inr u"
    using assms(1,2,3) custom_signals [of w "control_unit v"] op
    by (cases load) (simp_all add: Decode_def Let_def custom_next_def custom_def GetLdbmDone_def GetBigmulDone_def
        signalled_def opcode_of_def)
  have e: "Execute H u = Inr (u\<lparr>execution_result := 0\<rparr>)"
    by (rule Execute_custom) (use assms in \<open>simp_all add: custom_next_def\<close>)
  have "program_counter v < program_size v" using assms(1) by (simp add: custom_next_def)
  with p f d e show ?thesis
    by (simp add: Step_def instruction_def bindr_assoc Let_def)
qed

lemma start_ldbm_eq:
  assumes "rs1_wide (current_instruction v) < NUM_GPR" and "rs2_wide (current_instruction v) < NUM_GPR"
  shows "start_ldbm v = Inr (v\<lparr>bigmul := (bigmul v)\<lparr>base_addr_A := reg_val v (rs1_wide (current_instruction v)),
    base_addr_B := reg_val v (rs2_wide (current_instruction v)), ldbm_offset := 0, ldbm_done := False\<rparr>\<rparr>)"
  using assms by (simp add: start_ldbm_def read_gpr_val Let_def)

text \<open>The state a step of LDBM reaches.\<close>

definition loaded :: "RVSSVM \<Rightarrow> u64 \<Rightarrow> u64 \<Rightarrow> RVSSVM \<Rightarrow> bool" where
  "loaded v a b v' \<longleftrightarrow> same_program v v' \<and> memory v' = memory v \<and>
     cacheA (bigmul v') = operand (memory v) a 64 \<and> cacheB (bigmul v') = operand (memory v) b 64 \<and>
     wf_unit (bigmul v') \<and> bigmul_done (bigmul v') = bigmul_done (bigmul v) \<and> ldbm_done (bigmul v') \<and>
     size_of_operand (bigmul v') = size_of_operand (bigmul v) \<and> cycle_s v' = cycle_s v + 16"

lemma LDBM_Step:
  assumes "custom_next v w" and "opcode_of w = 0x2A" and "15 \<le> fuel"
    and "readable_words (memory v) (reg_val v (rs1_wide w)) 64"
    and "readable_words (memory v) (reg_val v (rs2_wide w)) 64"
  shows "\<exists>v'. Step H fuel v = Inr v' \<and> loaded v (reg_val v (rs1_wide w)) (reg_val v (rs2_wide w)) v'"
proof -
  let ?a = "reg_val v (rs1_wide w)" and ?b = "reg_val v (rs2_wide w)"
  let ?s = "signalled v w 1"
  let ?u = "(bigmul v)\<lparr>base_addr_A := ?a, base_addr_B := ?b, ldbm_offset := 0, ldbm_done := False\<rparr>"
  have s: "memory ?s = memory v" "bigmul ?s = bigmul v" "current_instruction ?s = w" "registers ?s = registers v"
    by (simp_all add: signalled_def)
  have cw: "custom w" "rs1_wide w < NUM_GPR" "rs2_wide w < NUM_GPR" "wf_unit (bigmul v)"
    using assms(1) by (simp_all add: custom_next_def)
  have st: "start_ldbm ?s = Inr (?s\<lparr>bigmul := ?u\<rparr>)"
    using start_ldbm_eq [of ?s] cw s by (simp add: reg_val_def)
  have wf: "wf_unit ?u" using cw(4) by (simp add: wf_unit_def)
  let ?e = "?s\<lparr>bigmul := ?u, execution_result := 0\<rparr>"
  have ctl: "control_unit ?s = SetControlSignals (control_unit v) w" by (simp add: signalled_def)
  have ls: "ldbm_start (control_unit ?s)" "\<not> bigmul_start (control_unit ?s)" "\<not> reg_write (control_unit ?s)"
    unfolding ctl using custom_signals [OF cw(1)] assms(2) by simp_all
  let ?x = "?s\<lparr>execution_result := 0\<rparr>"
  have r: "readable_words (memory ?x) (base_addr_A ?u) 64" "readable_words (memory ?x) (base_addr_B ?u) 64"
    using assms(4,5) s by simp_all
  have "loading (memory v) 0 ?u = ?u" by (simp add: loading_def)
  then have "?e = ?x\<lparr>bigmul := loading (memory ?x) 0 ?u\<rparr>" using s by simp
  moreover have "WriteMemory (?x\<lparr>bigmul := loading (memory ?x) 0 ?u\<rparr>) = Inr (?x\<lparr>bigmul := loading (memory ?x) 1 ?u\<rparr>)"
    using ldbm_cycle_loading [OF r wf, of 0] ls by (simp add: WriteMemory_def GetLdbmDone_def loading_def)
  ultimately have wm: "WriteMemory ?e = Inr (?x\<lparr>bigmul := loading (memory ?x) 1 ?u\<rparr>)" by simp
  let ?z = "?x\<lparr>instructions_retired := instructions_retired v + 1, cycle_s := cycle_s v + 1,
      cout := cout v @ [OutText ''Program Counter: '', OutHex (program_counter v + 4)]\<rparr>"
  have wb: "WriteBack (?x\<lparr>bigmul := loading (memory ?x) 1 ?u\<rparr>) = Inr (?x\<lparr>bigmul := loading (memory ?x) 1 ?u\<rparr>)"
    by (rule WriteBack_custom) (use cw(1) s ls in simp_all)
  obtain c where loop: "ldbm_stall_loop True fuel (?z\<lparr>bigmul := loading (memory ?z) 1 ?u\<rparr>) =
      Inr (?z\<lparr>bigmul := loading (memory ?z) 16 ?u, cycle_s := cycle_s ?z + of_nat (16 - 1), cout := c\<rparr>)"
    using ldbm_stall_loop_loads [of ?z ?u 1 fuel True] r wf ls assms(3) by auto
  let ?f = "?z\<lparr>bigmul := loading (memory ?z) 16 ?u, cycle_s := cycle_s ?z + 15, cout := c\<rparr>"
  have "bigmul_stall_loop True fuel ?f = Inr ?f"
    using ls by (cases fuel) (simp_all add: bigmul_stalled_def)
  then have end_loop: "bindr (ldbm_stall_loop True fuel (?z\<lparr>bigmul := loading (memory ?z) 1 ?u\<rparr>))
      (\<lambda>v. bindr (bigmul_stall_loop True fuel v) (\<lambda>v. Inr (record_step v))) = Inr (record_step ?f)"
    unfolding loop by simp
  have "Step H fuel v = bindr (WriteMemory ?e) (\<lambda>v. bindr (WriteBack v) (\<lambda>v.
    let v = count_cycle (v\<lparr>instructions_retired := instructions_retired v + 1\<rparr>);
        v = print [OutText ''Program Counter: '', OutHex (program_counter v)] v
    in bindr (ldbm_stall_loop True fuel v) (\<lambda>v.
       bindr (bigmul_stall_loop True fuel v) (\<lambda>v. Inr (record_step v)))))"
    using Step_custom [OF assms(1), of True "?s\<lparr>bigmul := ?u\<rparr>" H fuel] st assms(2) ctl s by simp
  also have "\<dots> = bindr (ldbm_stall_loop True fuel (?z\<lparr>bigmul := loading (memory ?z) 1 ?u\<rparr>))
      (\<lambda>v. bindr (bigmul_stall_loop True fuel v) (\<lambda>v. Inr (record_step v)))"
    unfolding wm bindr_simps wb Let_def
    by (simp add: count_cycle_def print_def bigmul_last signalled_def)
  also note end_loop
  finally have "Step H fuel v = Inr (record_step ?f)" .
  moreover have "loaded v ?a ?b (record_step ?f)"
    using wf cw(4) by (simp add: loaded_def same_program_def record_step_def Let_def print_def loading_def wf_unit_def signalled_def)
  ultimately show ?thesis by blast
qed

subsection \<open>Doublewords in memory\<close>

lemma read_loop_cong:
  "(\<And>j. i \<le> j \<Longrightarrow> j < i + k \<Longrightarrow> rd (a + of_nat j) = rd' (a + of_nat j)) \<Longrightarrow>
     read_loop rd a i k val = read_loop rd' a i k val"
proof (induction k arbitrary: i val)
  case (Suc k)
  have "rd (a + of_nat i) = rd' (a + of_nat i)" by (rule Suc.prems) simp_all
  with Suc show ?case by (auto intro!: bindr_cong)
qed simp

lemma ReadDoubleWord_bytes_cong:
  assumes "wf_memory bs m" and "wf_memory bs m'" and "mem_size m' = mem_size m"
    and "\<And>j. j < 8 \<Longrightarrow> bytes m' (a + of_nat j) = bytes m (a + of_nat j)"
  shows "ReadDoubleWord m' a = ReadDoubleWord m a"
proof -
  have rd: "Read m x = (if x < mem_size m then Inr (bytes m x) else Inl OutOfRange)" if "wf_memory bs m" for m x
    using mem.rd_in [OF that] mem.rd_out [OF that] by simp
  have "read_loop (Read m') a 0 8 0 = (read_loop (Read m) a 0 8 0 :: u64 result)"
    by (rule read_loop_cong) (simp add: rd [OF assms(1)] rd [OF assms(2)] assms(3,4))
  then show ?thesis using assms(3) by (simp add: ReadDoubleWord_def ReadGeneric_def)
qed

text \<open>The first \<open>j\<close> doublewords of a list stand at an address, and nothing else has changed.\<close>

definition written :: "u64 \<Rightarrow> Memory \<Rightarrow> u64 \<Rightarrow> u64 list \<Rightarrow> nat \<Rightarrow> Memory \<Rightarrow> bool" where
  "written bs m0 a xs j m \<longleftrightarrow> wf_memory bs m \<and> mem_size m = mem_size m0 \<and>
     (\<forall>i < j. ReadDoubleWord m (a + of_nat i * 8) = Inr (xs ! i)) \<and>
     (\<forall>y. \<not> unat (y - a) < 8 * j \<longrightarrow> bytes m y = bytes m0 y)"

lemma word_addr:
  assumes "unat (a :: u64) + 8 * n \<le> unat (s :: u64)" and "i < n"
  shows "unat (of_nat i * 8 :: u64) = 8 * i" and "unat (a + of_nat i * 8) = unat a + 8 * i"
proof -
  have "8 * i < 2 ^ 64" "unat a + 8 * i < 2 ^ 64" using assms unat_u64_less [of s] by linarith+
  then show "unat (of_nat i * 8 :: u64) = 8 * i" "unat (a + of_nat i * 8) = unat a + 8 * i"
    by (simp_all add: unat_word_ariths unat_of_nat mod_mult_left_eq mod_add_right_eq mult.commute)
qed

lemma written_step:
  assumes "written bs m0 a xs j m" and "unat a + 8 * n \<le> unat (mem_size m0)" and "j < n"
  shows "\<exists>m'. WriteDoubleWord bs m (a + of_nat j * 8) (xs ! j) = Inr m' \<and> written bs m0 a xs (Suc j) m'"
proof -
  let ?b = "a + of_nat j * 8"
  have u: "unat (of_nat j * 8 :: u64) = 8 * j" "unat ?b = unat a + 8 * j"
    using word_addr [OF assms(2,3)] by simp_all
  have w: "wf_memory bs m" "mem_size m = mem_size m0" using assms(1) by (simp_all add: written_def)
  have "8 \<le> unat (mem_size m)" "unat ?b + 8 \<le> unat (mem_size m)" using assms(2,3) u w(2) by simp_all
  from double_write_read [OF w(1) this, of "xs ! j"] obtain m' where
    m': "WriteDoubleWord bs m ?b (xs ! j) = Inr m'" "wf_memory bs m'" "mem_size m' = mem_size m"
      "ReadDoubleWord m' ?b = Inr (xs ! j)" "\<And>x. \<not> unat (x - ?b) < 8 \<Longrightarrow> bytes m' x = bytes m x" by blast
  have far: "\<not> unat (y - ?b) < 8" if "unat (y - a) < 8 * j \<or> 8 * Suc j \<le> unat (y - a)" for y
  proof -
    have e: "y - ?b = (y - a) - of_nat j * 8" by simp
    have "8 * n < 2 ^ 64" using assms(2) unat_u64_less [of "mem_size m0"] by linarith
    then show ?thesis using that assms(3) unfolding e unat_sub_if' u(1) by auto
  qed
  have "ReadDoubleWord m' (a + of_nat i * 8) = ReadDoubleWord m (a + of_nat i * 8)" if "i < j" for i
  proof (rule ReadDoubleWord_bytes_cong [OF w(1) m'(2,3)])
    fix t :: nat assume t: "t < 8"
    have "8 * n < 2 ^ 64" using assms(2) unat_u64_less [of "mem_size m0"] by linarith
    then have "unat (of_nat i * 8 + of_nat t :: u64) = 8 * i + t"
      using that t assms(3) by (simp add: unat_word_ariths unat_of_nat mod_simps mult.commute)
    then have "unat (a + of_nat i * 8 + of_nat t - a) < 8 * j" using that t by (simp add: add.assoc)
    then show "bytes m' (a + of_nat i * 8 + of_nat t) = bytes m (a + of_nat i * 8 + of_nat t)"
      by (intro m'(5) far) simp
  qed
  then have "written bs m0 a xs (Suc j) m'"
    using assms(1) m' far w(2) by (auto simp: written_def less_Suc_eq)
  with m'(1) show ?thesis by blast
qed

lemma read_bytes_succeed:
  assumes "wf_memory bs m" and "unat a + n \<le> unat (mem_size m)"
  shows "\<exists>xs. read_bytes m a n = Inr xs"
proof -
  have "a + of_nat j < mem_size m" if "j < n" for j
  proof -
    have "unat a + j < 2 ^ 64" using that assms(2) unat_u64_less [of "mem_size m"] by linarith
    then have "unat (a + of_nat j) = unat a + j" by (simp add: unat_word_ariths unat_of_nat mod_simps)
    with that assms(2) show ?thesis by (simp add: word_less_nat_alt)
  qed
  then have "read_bytes m a n = Inr (map (\<lambda>j. bytes m (a + of_nat j)) [0..<n])"
    by (subst read_bytes_nth [OF assms(1)]) simp
  then show ?thesis by blast
qed

subsection \<open>Writing the result\<close>

text \<open>The result fits: its \<open>n\<close> doublewords at the result address lie in the memory.\<close>

definition fits :: "Memory \<Rightarrow> u64 \<Rightarrow> nat \<Rightarrow> bool" where
  "fits m a n \<longleftrightarrow> unat a + 8 * n \<le> unat (mem_size m)"

lemma fits_less: "fits m a n \<Longrightarrow> n < 2 ^ 61"
  using unat_u64_less [of "mem_size m"] by (simp add: fits_def)

lemma result_write_written:
  assumes "written (memory_block_size (vm_config v)) m0 a xs j (memory v)"
    and "resultCache (bigmul v) = xs" and "base_addr_res (bigmul v) = a" and "fits m0 a n"
    and "n \<le> length xs" and "j \<le> n"
  shows "\<exists>m. result_write r (of_nat j) (of_nat n) v = Inr (v\<lparr>memory := m\<rparr>) \<and>
    written (memory_block_size (vm_config v)) m0 a xs (min (j + r) n) m"
  using assms
proof (induction r arbitrary: j v)
  case 0
  then show ?case by (intro exI [of _ "memory v"]) simp
next
  case (Suc r)
  let ?bs = "memory_block_size (vm_config v)"
  have n: "n < 2 ^ 61" using Suc.prems(4) by (rule fits_less)
  have u: "unat (of_nat j :: u64) = j" "unat (of_nat n :: u64) = n" using n Suc.prems(6) by (simp_all add: unat_of_nat)
  show ?case
  proof (cases "j < n")
    case False
    then have "\<not> (of_nat j :: u64) < of_nat n" by (simp add: word_less_nat_alt u)
    with False Suc.prems(1,6) show ?thesis by (intro exI [of _ "memory v"]) simp
  next
    case True
    let ?b = "a + of_nat j * 8"
    have less: "(of_nat j :: u64) < of_nat n" using True by (simp add: word_less_nat_alt u)
    from written_step [OF Suc.prems(1) Suc.prems(4) [unfolded fits_def] True] obtain m1 where
      m1: "WriteDoubleWord ?bs (memory v) ?b (xs ! j) = Inr m1" "written ?bs m0 a xs (Suc j) m1" by blast
    have ok: "unat ?b + 8 \<le> unat (mem_size m0)"
      using word_addr(2) [OF Suc.prems(4) [unfolded fits_def] True] Suc.prems(4) True by (simp add: fits_def)
    have old: "\<exists>ys. read_bytes (memory v) ?b 8 = Inr ys"
      using read_bytes_succeed [of ?bs "memory v" ?b 8] Suc.prems(1) ok by (simp add: written_def)
    have nw: "\<exists>ys. read_bytes m1 ?b 8 = Inr ys"
      using read_bytes_succeed [of ?bs m1 ?b 8] m1(2) ok by (simp add: written_def)
    have get: "array_get (resultCache (bigmul v)) (uint (of_nat j :: u64)) = Inr (xs ! j)"
      using True Suc.prems(2,5) u(1) by (simp add: array_get_def uint_nat)
    let ?v = "v\<lparr>memory := m1\<rparr>"
    have idx: "(of_nat j :: u64) + 1 = of_nat (Suc j)" by (simp add: add.commute)
    have "result_write (Suc r) (of_nat j) (of_nat n) v = result_write r (of_nat j + 1) (of_nat n) ?v"
      using less get old nw m1(1) Suc.prems(3) by (auto simp: mc_write_double_def)
    moreover have "\<exists>m. result_write r (of_nat (Suc j)) (of_nat n) ?v = Inr (?v\<lparr>memory := m\<rparr>) \<and>
        written ?bs m0 a xs (min (Suc j + r) n) m"
      using Suc.IH [of ?v "Suc j"] m1(2) Suc.prems(2-5) True by simp
    ultimately show ?thesis unfolding idx by simp
  qed
qed

lemma print_results_ok: "i + r \<le> length (resultCache (bigmul v)) \<Longrightarrow>
    \<exists>c. print_results r i v = Inr (v\<lparr>cout := c\<rparr>)"
proof (induction r arbitrary: i v)
  case 0
  then show ?case by (intro exI [of _ "cout v"]) simp
next
  case (Suc r)
  let ?v = "print [OutText ''RES['', OutInt (int i), OutText ''] = 0x'', OutHex (resultCache (bigmul v) ! i)] v"
  have "\<exists>c. print_results r (i + 1) ?v = Inr (?v\<lparr>cout := c\<rparr>)"
    using Suc.IH [of "i + 1" ?v] Suc.prems by (simp add: print_def)
  with Suc.prems show ?case by (simp add: array_get_def print_def)
qed

text \<open>The unit when \<open>j\<close> doublewords have been passed to the memory.\<close>

definition writing :: "nat \<Rightarrow> nat \<Rightarrow> BigmulUnit \<Rightarrow> BigmulUnit" where
  "writing n j u = u\<lparr>write_offset := of_nat j, write_done := (n \<le> j), bigmul_done := (n \<le> j)\<rparr>"

lemma bigmul_write_cycle_writes:
  assumes "written (memory_block_size (vm_config v)) m0 a xs (8 * k) (memory v)"
    and "resultCache u = xs" and "base_addr_res u = a" and "fits m0 a n" and "n \<le> length xs"
    and "8 * k < n" and "of_nat n = size_of_operand u * 2"
  shows "\<exists>m c. bigmul_write_cycle (v\<lparr>bigmul := writing n (8 * k) u\<rparr>) =
      Inr (v\<lparr>bigmul := writing n (8 * Suc k) u, memory := m, cout := c\<rparr>) \<and>
    written (memory_block_size (vm_config v)) m0 a xs (min (8 * Suc k) n) m"
proof -
  let ?v = "v\<lparr>bigmul := writing n (8 * k) u\<rparr>"
  have n: "n < 2 ^ 61" using assms(4) by (rule fits_less)
  define off where "off = (of_nat (8 * k) :: u64)"
  have nxt: "off + 8 = of_nat (8 * Suc k)" by (simp add: off_def)
  have u: "unat off = 8 * k" "unat (of_nat n :: u64) = n" "unat (off + 8) = 8 * Suc k"
    using n assms(6) unfolding nxt by (simp_all add: off_def unat_of_nat unat_word_ariths)
  have lt: "off < of_nat n" "of_nat n \<le> off + 8 \<longleftrightarrow> n \<le> 8 * Suc k"
    using assms(6) u by (auto simp: word_less_nat_alt word_le_nat_alt)
  have f: "write_offset (writing n (8 * k) u) = off" "size_of_operand (writing n (8 * k) u) * 2 = of_nat n"
    "resultCache (writing n (8 * k) u) = xs" "base_addr_res (writing n (8 * k) u) = a"
    using assms(2,3,7) by (simp_all add: writing_def off_def)
  from result_write_written [of ?v m0 a xs "8 * k" n 8] assms f obtain m where
    m: "result_write 8 off (of_nat n) ?v = Inr (?v\<lparr>memory := m\<rparr>)"
      "written (memory_block_size (vm_config v)) m0 a xs (min (8 * Suc k) n) m"
    by (auto simp: off_def add.commute)
  let ?w = "?v\<lparr>memory := m, bigmul := (writing n (8 * k) u)\<lparr>write_offset := off + 8\<rparr>\<rparr>"
  show ?thesis
  proof (cases "n \<le> 8 * Suc k")
    case False
    have "bigmul_write_cycle ?v = Inr ?w"
      using lt f m(1) False by (simp add: bigmul_write_cycle_def Let_def)
    moreover have "?w = v\<lparr>bigmul := writing n (8 * Suc k) u, memory := m, cout := cout v\<rparr>"
      using nxt False assms(6) by (simp add: writing_def)
    ultimately show ?thesis using m(2) by metis
  next
    case True
    let ?x = "?w\<lparr>bigmul := (writing n (8 * k) u)\<lparr>write_offset := off + 8, write_done := True, bigmul_done := True\<rparr>\<rparr>"
    have "bigmul_write_cycle ?v = print_results (unat (of_nat n :: u64)) 0 ?x"
      using lt f m(1) True by (simp add: bigmul_write_cycle_def Let_def)
    moreover obtain c where "print_results (unat (of_nat n :: u64)) 0 ?x = Inr (?x\<lparr>cout := c\<rparr>)"
      using print_results_ok [of 0 n ?x] assms(5) f(3) u(2) by auto
    moreover have "?x\<lparr>cout := c\<rparr> = v\<lparr>bigmul := writing n (8 * Suc k) u, memory := m, cout := c\<rparr>"
      using nxt True by (simp add: writing_def)
    ultimately show ?thesis using m(2) by metis
  qed
qed

subsection \<open>A step of BIGMUL\<close>

lemma batch_loop_frame:
  "batch_loop r u b p = Inr (u', b', p') \<Longrightarrow> write_done u' = write_done u \<and> bigmul_prog u' = bigmul_prog u"
proof (induction r arbitrary: u b p)
  case (Suc r)
  show ?case
  proof (cases "k_iter u \<le> i_max u")
    case True
    with Suc.prems obtain x y where
      "batch_loop r (u\<lparr>k_iter := k_iter u + 1\<rparr>) (mul_add x y b) (p + 1) = Inr (u', b', p')"
      by (auto simp: Let_def bindr_Inr_iff)
    from Suc.IH [OF this] show ?thesis by simp
  qed (use Suc.prems in simp)
qed simp

lemma singlecycle_write_done:
  assumes "singlecycle u = Inr u'" and "bigmul_prog u \<noteq> 0" and "bigmul_prog u' \<noteq> 0"
  shows "write_done u' = write_done u"
proof (cases "bigmul_done u")
  case True
  with assms(1) show ?thesis by (simp add: singlecycle_def)
next
  case False
  with assms(1,2) obtain v b0 b1 b2 p where b: "batch_loop BATCH u (0, 0, 0) 0 = Inr (v, (b0, b1, b2), p)"
    by (auto simp: singlecycle_def Let_def bindr_Inr_iff)
  define w where "w = (if p > 0 then acc_add_u192 b0 b1 b2 v else v)"
  have w: "write_done w = write_done u"
    using batch_loop_frame [OF b] by (simp add: w_def acc_add_u192_def acc_add_u128_def Let_def)
  show ?thesis
  proof (cases "k_iter w > i_max w")
    case True
    with False assms(1,2) b obtain rc where "(let x = acc_shr_64 (w\<lparr>resultCache := rc\<rparr>);
          LAST = to_int (size_of_operand x * 2 - 2)
        in if s_diag x = LAST then
             bindr (array_set (resultCache x) (LAST + 1) (acc_low64 x)) (\<lambda>rc.
               Inr (x\<lparr>resultCache := rc, bigmul_prog := 0, write_done := False\<rparr>))
           else Inr (next_diag (to_int (size_of_operand x - 1)) x)) = Inr u'"
      by (simp add: singlecycle_def w_def [symmetric] Let_def del: split_paired_Ex) blast
    with assms(3) w show ?thesis
      by (auto simp: Let_def next_diag_def acc_shr_64_def split: if_splits)
  next
    case False
    with \<open>\<not> bigmul_done u\<close> assms(1,2) b w show ?thesis by (simp add: singlecycle_def w_def [symmetric])
  qed
qed

text \<open>A machine whose current instruction is a decoded BIGMUL.\<close>

definition multiplying :: "RVSSVM \<Rightarrow> bool" where
  "multiplying v \<longleftrightarrow> opcode_of (current_instruction v) = 0x3F \<and> \<not> ldbm_start (control_unit v) \<and>
     bigmul_start (control_unit v) \<and> \<not> mem_read (control_unit v) \<and> \<not> mem_write (control_unit v)"

lemma compute_phase:
  assumes "single_running u" and "write_done u" and "single_remaining u \<le> fuel" and "bigmul_start (control_unit v)"
  shows "\<exists>u'. bigmul_stall_loop loud fuel (v\<lparr>bigmul := u\<rparr>) =
      bigmul_stall_loop loud (fuel - single_remaining u)
        (v\<lparr>cycle_s := cycle_s v + of_nat (single_remaining u), bigmul := u'\<rparr>) \<and>
    same_job u u' \<and> product_ready u'"
  using assms
proof (induction fuel arbitrary: u v)
  case 0
  then show ?case using single.remaining_pos [of u] by simp
next
  case (Suc fuel)
  have c: "\<not> bigmul_done u" "bigmul_prog u \<noteq> 0"
    using Suc.prems(1) by (auto simp: single_running_def computing_def in_diagonal_def)
  from single.progress [OF Suc.prems(1)] obtain u1 where u1: "singlecycle u = Inr u1" "same_job u u1"
    "if single_remaining u = 1 then product_ready u1 else single_running u1 \<and> Suc (single_remaining u1) = single_remaining u"
    by blast
  let ?v = "v\<lparr>cycle_s := cycle_s v + 1\<rparr>"
  have step: "bigmul_stall_loop loud (Suc fuel) (v\<lparr>bigmul := u\<rparr>) = bigmul_stall_loop loud fuel (?v\<lparr>bigmul := u1\<rparr>)"
    using c Suc.prems(2,4) u1(1)
    by (simp add: bigmul_stalled_def GetBigmulDone_def GetWriteDone_def bigmul_stall_cycle_def executeBigmul_def
        count_cycle_def bigmul_last)
  show ?case
  proof (cases "single_remaining u = 1")
    case True
    with step u1 show ?thesis by auto
  next
    case False
    with u1 have r: "single_running u1" "Suc (single_remaining u1) = single_remaining u" by simp_all
    then have "bigmul_prog u1 \<noteq> 0" by (auto simp: single_running_def computing_def in_diagonal_def)
    then have "write_done u1" using singlecycle_write_done [OF u1(1) c(2)] Suc.prems(2) by simp
    with Suc.IH [of u1 ?v] r Suc.prems(3,4) obtain u' where
      "bigmul_stall_loop loud fuel (?v\<lparr>bigmul := u1\<rparr>) = bigmul_stall_loop loud (fuel - single_remaining u1)
        (v\<lparr>cycle_s := cycle_s v + 1 + of_nat (single_remaining u1), bigmul := u'\<rparr>)"
      "same_job u1 u'" "product_ready u'" by auto
    moreover have "fuel - single_remaining u1 = Suc fuel - single_remaining u"
      "(1 :: u32) + of_nat (single_remaining u1) = of_nat (single_remaining u)"
      by (simp_all flip: r(2))
    ultimately show ?thesis using step same_job_trans [OF u1(2)] by (auto simp: add.assoc)
  qed
qed

lemma WriteMemory_writing:
  assumes "multiplying v" and "\<not> bigmul_done (bigmul v)" and "\<not> write_done (bigmul v)"
  shows "WriteMemory v = bigmul_write_cycle v"
  using assms custom_not_fp [of "current_instruction v"]
  by (simp add: WriteMemory_def multiplying_def custom_def GetBigmulDone_def GetWriteDone_def Let_def)

lemma write_phase:
  assumes "written (memory_block_size (vm_config v)) m0 a xs (min (8 * k) n) (memory v)"
    and "resultCache u = xs" and "base_addr_res u = a" and "fits m0 a n" and "n \<le> length xs"
    and "of_nat n = size_of_operand u * 2" and "multiplying v"
    and "k \<le> (n + 7) div 8" and "(n + 7) div 8 - k \<le> fuel"
  shows "\<exists>m c. bigmul_stall_loop loud fuel (v\<lparr>bigmul := writing n (8 * k) u\<rparr>) =
      Inr (v\<lparr>memory := m, cout := c, cycle_s := cycle_s v + of_nat ((n + 7) div 8 - k),
             bigmul := writing n (8 * ((n + 7) div 8)) u\<rparr>) \<and>
    written (memory_block_size (vm_config v)) m0 a xs n m"
  using assms
proof (induction fuel arbitrary: k v)
  case 0
  then have k: "k = (n + 7) div 8" by simp
  then have "n \<le> 8 * k" by simp
  then have "min (8 * k) n = n" "bigmul_done (writing n (8 * k) u)" by (simp_all add: writing_def)
  with 0 k show ?case
    by (intro exI [of _ "memory v"] exI [of _ "cout v"]) (simp add: bigmul_stalled_def GetBigmulDone_def)
next
  case (Suc fuel)
  show ?case
  proof (cases "8 * k < n")
    case False
    then have k: "k = (n + 7) div 8" and d: "bigmul_done (writing n (8 * k) u)"
      using Suc.prems(8) by (auto simp: writing_def)
    from False have "min (8 * k) n = n" by simp
    with Suc.prems k d show ?thesis
      by (intro exI [of _ "memory v"] exI [of _ "cout v"]) (simp add: bigmul_stalled_def GetBigmulDone_def)
  next
    case True
    let ?bs = "memory_block_size (vm_config v)" and ?u = "writing n (8 * k) u"
    let ?out = "if loud then [OutText ''[BIGMUL Write Stall] write_offset='', OutInt (uint (write_offset ?u))] else []"
    let ?p = "v\<lparr>cout := cout v @ ?out\<rparr>"
    have busy: "\<not> bigmul_done ?u" "\<not> write_done ?u" using True by (simp_all add: writing_def)
    have "written (memory_block_size (vm_config ?p)) m0 a xs (8 * k) (memory ?p)"
      using Suc.prems(1) True by (simp add: min_def)
    from bigmul_write_cycle_writes [OF this Suc.prems(2-5) True Suc.prems(6)] obtain m c where
      w: "bigmul_write_cycle (?p\<lparr>bigmul := ?u\<rparr>) = Inr (?p\<lparr>bigmul := writing n (8 * Suc k) u, memory := m, cout := c\<rparr>)"
      "written ?bs m0 a xs (min (8 * Suc k) n) m" by auto
    have mu: "multiplying (?p\<lparr>bigmul := ?u\<rparr>)" using Suc.prems(7) by (simp add: multiplying_def)
    let ?w = "v\<lparr>memory := m, cout := c, cycle_s := cycle_s v + 1\<rparr>"
    have "bigmul_stall_cycle (?p\<lparr>bigmul := ?u\<rparr>) = Inr (?p\<lparr>memory := m, cout := c, bigmul := writing n (8 * Suc k) u\<rparr>)"
      using WriteMemory_writing [OF mu] busy w(1) by (simp add: bigmul_stall_cycle_def GetWriteDone_def bigmul_last)
    moreover have "bigmul_stalled (v\<lparr>bigmul := ?u\<rparr>)"
      using busy Suc.prems(7) by (simp add: bigmul_stalled_def GetBigmulDone_def multiplying_def)
    ultimately have step: "bigmul_stall_loop loud (Suc fuel) (v\<lparr>bigmul := ?u\<rparr>) =
        bigmul_stall_loop loud fuel (?w\<lparr>bigmul := writing n (8 * Suc k) u\<rparr>)"
      using busy by (cases loud) (simp_all add: GetWriteDone_def print_def count_cycle_def bigmul_last)
    have k: "Suc k \<le> (n + 7) div 8" using True by simp
    have mw: "multiplying ?w" using Suc.prems(7) by (simp add: multiplying_def)
    have "(n + 7) div 8 - Suc k \<le> fuel" using Suc.prems(9) by simp
    from Suc.IH [of ?w "Suc k", OF _ Suc.prems(2-6) mw k this] w(2) obtain m' c' where
      "bigmul_stall_loop loud fuel (?w\<lparr>bigmul := writing n (8 * Suc k) u\<rparr>) =
        Inr (v\<lparr>memory := m', cout := c', cycle_s := cycle_s v + 1 + of_nat ((n + 7) div 8 - Suc k),
             bigmul := writing n (8 * ((n + 7) div 8)) u\<rparr>)" "written ?bs m0 a xs n m'" by auto
    moreover have "(1 :: u32) + of_nat ((n + 7) div 8 - Suc k) = of_nat ((n + 7) div 8 - k)"
      using k by (simp add: of_nat_diff)
    ultimately show ?thesis unfolding step by (auto simp: add.assoc)
  qed
qed

definition job :: "u64 \<Rightarrow> u64 \<Rightarrow> BigmulUnit \<Rightarrow> BigmulUnit" where
  "job n a u = u\<lparr>size_of_operand := n, base_addr_res := a, bigmul_prog := 0, bigmul_done := False,
     write_offset := 0, write_done := True\<rparr>"

lemma start_bigmul_instr_eq:
  assumes "rs1_wide (current_instruction v) < NUM_GPR" and "rs2_wide (current_instruction v) < NUM_GPR"
    and "reg_val v (rs2_wide (current_instruction v)) = n" and "1 \<le> unat n" and "unat n \<le> 64"
  shows "start_bigmul_instr v =
    Inr (v\<lparr>bigmul := job n (reg_val v (rs1_wide (current_instruction v))) (bigmul v)\<rparr>)"
proof -
  have "n \<noteq> 0" "n < 512" using assms(4,5) by (auto simp: word_less_nat_alt)
  with assms(1-3) show ?thesis by (simp add: start_bigmul_instr_def read_gpr_val Let_def job_def)
qed

text \<open>All the stall cycles of a multiplication: the products, then the result in memory.\<close>

lemma multiply_stalls:
  assumes "wf_unit u" and "1 \<le> unat n" and "unat n \<le> 64" and "multiplying v"
    and "wf_memory (memory_block_size (vm_config v)) (memory v)" and "fits (memory v) a (2 * unat n)"
    and "total_cycles (unat n) + (2 * unat n + 7) div 8 \<le> fuel"
  shows "\<exists>m c u' xs. bigmul_stall_loop loud fuel (v\<lparr>bigmul := job n a u\<rparr>) =
      Inr (v\<lparr>memory := m, cout := c,
             cycle_s := cycle_s v + of_nat (total_cycles (unat n) + (2 * unat n + 7) div 8), bigmul := u'\<rparr>) \<and>
    written (memory_block_size (vm_config v)) (memory v) a xs (2 * unat n) m \<and>
    big xs (2 * unat n) = big (cacheA u) (unat n) * big (cacheB u) (unat n) \<and> length xs = 128 \<and>
    wf_unit u' \<and> cacheA u' = cacheA u \<and> cacheB u' = cacheB u \<and> bigmul_done u' \<and> ldbm_done u' = ldbm_done u \<and>
    size_of_operand u' = n"
proof -
  let ?j = "job n a u" and ?N = "2 * unat n" and ?T = "total_cycles (unat n)"
  have w: "words ?j = unat n" by (simp add: words_def job_def)
  have r: "ready ?j" using assms(1-3) w by (simp add: ready_def job_def wf_unit_def)
  have sj: "same_job ?j (start_bigmul ?j)" "write_done (start_bigmul ?j)"
    by (simp_all add: same_job_def start_bigmul_def acc_clear_def Let_def job_def)
  have T: "single_remaining (start_bigmul ?j) = ?T" using cycles_left_start [of ?j] assms(2) w by simp
  have "bigmul_stall_loop loud fuel (v\<lparr>bigmul := ?j\<rparr>) = bigmul_stall_loop loud fuel (v\<lparr>bigmul := start_bigmul ?j\<rparr>)"
  proof (cases fuel)
    case 0
    then show ?thesis using single.remaining_pos [OF single.started [OF r]] T assms(7) by simp
  next
    case (Suc f)
    have "\<not> bigmul_done ?j" "\<not> bigmul_done (start_bigmul ?j)" "write_done ?j"
      using sj(1) by (simp_all add: same_job_def job_def)
    with single.first_cycle [OF r] sj(2) assms(4) show ?thesis
      by (cases "singlecycle (start_bigmul ?j)")
        (simp_all add: Suc bigmul_stalled_def GetBigmulDone_def GetWriteDone_def bigmul_stall_cycle_def
          executeBigmul_def multiplying_def count_cycle_def bigmul_last)
  qed
  moreover obtain u1 where u1: "bigmul_stall_loop loud fuel (v\<lparr>bigmul := start_bigmul ?j\<rparr>) =
      bigmul_stall_loop loud (fuel - ?T) (v\<lparr>cycle_s := cycle_s v + of_nat ?T, bigmul := u1\<rparr>)"
      "same_job (start_bigmul ?j) u1" "product_ready u1"
    using compute_phase [OF single.started [OF r] sj(2), of fuel v loud] T assms(4,7) by (auto simp: multiplying_def)
  moreover have same: "same_job ?j u1" using same_job_trans [OF sj(1) u1(2)] .
  then have f: "cacheA u1 = cacheA u" "cacheB u1 = cacheB u" "size_of_operand u1 = n" "base_addr_res u1 = a"
    "write_offset u1 = 0" "\<not> bigmul_done u1" "ldbm_done u1 = ldbm_done u"
    by (simp_all add: same_job_def job_def)
  have pr: "wf_unit u1" "\<not> write_done u1" "big (resultCache u1) ?N = big (cacheA u) (unat n) * big (cacheB u) (unat n)"
    using u1(3) f by (simp_all add: product_ready_def words_def)
  have "writing ?N (8 * 0) u1 = u1" using f pr assms(2) by (simp add: writing_def)
  moreover have "written (memory_block_size (vm_config v)) (memory v) a (resultCache u1) 0 (memory v)"
    using assms(5) by (simp add: written_def)
  moreover have "of_nat ?N = size_of_operand u1 * 2" using f(3) by (simp add: mult.commute)
  moreover have "?N \<le> length (resultCache u1)" using pr(1) assms(3) by (simp add: wf_unit_def)
  moreover have "(?N + 7) div 8 \<le> fuel - ?T" using assms(7) by linarith
  moreover have "multiplying (v\<lparr>cycle_s := cycle_s v + of_nat ?T\<rparr>)" using assms(4) by (simp add: multiplying_def)
  ultimately obtain m c where
    "bigmul_stall_loop loud fuel (v\<lparr>bigmul := ?j\<rparr>) =
      Inr (v\<lparr>memory := m, cout := c, cycle_s := cycle_s v + of_nat ?T + of_nat ((?N + 7) div 8),
             bigmul := writing ?N (8 * ((?N + 7) div 8)) u1\<rparr>)"
    "written (memory_block_size (vm_config v)) (memory v) a (resultCache u1) ?N m"
    using write_phase [of "v\<lparr>cycle_s := cycle_s v + of_nat ?T\<rparr>" "memory v" a "resultCache u1" 0 ?N u1 "fuel - ?T" loud]
      f(4) assms(6) by auto
  moreover have "?N \<le> 8 * ((?N + 7) div 8)" by simp
  ultimately show ?thesis using pr f
    by (intro exI [of _ m] exI [of _ c] exI [of _ "writing ?N (8 * ((?N + 7) div 8)) u1"] exI [of _ "resultCache u1"])
      (simp add: writing_def wf_unit_def add.assoc)
qed

text \<open>The product of the cached operands stands in memory, and nothing else has changed there.\<close>

definition product_stored :: "RVSSVM \<Rightarrow> u64 \<Rightarrow> nat \<Rightarrow> RVSSVM \<Rightarrow> bool" where
  "product_stored v a n v' \<longleftrightarrow> same_program v v' \<and>
     big (operand (memory v') a (2 * n)) (2 * n) = big (cacheA (bigmul v)) n * big (cacheB (bigmul v)) n \<and>
     mem_size (memory v') = mem_size (memory v) \<and> wf_memory (memory_block_size (vm_config v)) (memory v') \<and>
     (\<forall>y. unat (y - a) < 16 * n \<or> bytes (memory v') y = bytes (memory v) y) \<and>
     wf_unit (bigmul v') \<and> bigmul_done (bigmul v') \<and> ldbm_done (bigmul v') \<and>
     unat (size_of_operand (bigmul v')) = n \<and> cycle_s v' = cycle_s v + 1 + of_nat (total_cycles n + (2 * n + 7) div 8)"

lemma written_big:
  assumes "written bs m0 a xs n m" and "n \<le> length xs"
  shows "big (operand m a n) n = big xs n"
  using assms by (simp add: big_def operand_def written_def)

lemma BIGMUL_step:
  assumes "custom_next v w" and "opcode_of w = 0x3F"
    and "wf_memory (memory_block_size (vm_config v)) (memory v)"
    and n: "n = unat (reg_val v (rs2_wide w))" "1 \<le> n" "n \<le> 64"
    and "fits (memory v) (reg_val v (rs1_wide w)) (2 * n)"
    and "total_cycles n + (2 * n + 7) div 8 \<le> fuel"
  shows "\<exists>v' d. Step H fuel v = Inr v' \<and> product_stored v (reg_val v (rs1_wide w)) n v' \<and>
    undo_stack v' = d # undo_stack v \<and> memory_changes d = memory_changes (current_delta v) \<and>
    register_changes d = register_changes (current_delta v) \<and> bigmul_state d = snapshot (bigmul v) \<and>
    custom_instr_executed d = 2"
proof -
  let ?a = "reg_val v (rs1_wide w)" and ?n = "reg_val v (rs2_wide w)" and ?s = "signalled v w 2"
  let ?C = "total_cycles n + (2 * n + 7) div 8"
  have s: "memory ?s = memory v" "bigmul ?s = bigmul v" "current_instruction ?s = w" "registers ?s = registers v"
    by (simp_all add: signalled_def)
  have cw: "custom w" "rs1_wide w < NUM_GPR" "rs2_wide w < NUM_GPR" "wf_unit (bigmul v)" "ldbm_done (bigmul v)"
    using assms(1) by (simp_all add: custom_next_def)
  have ctl: "control_unit ?s = SetControlSignals (control_unit v) w" by (simp add: signalled_def)
  have ls: "\<not> ldbm_start (control_unit ?s)" "bigmul_start (control_unit ?s)" "\<not> reg_write (control_unit ?s)"
    "\<not> mem_read (control_unit ?s)" "\<not> mem_write (control_unit ?s)"
    unfolding ctl using custom_signals [OF cw(1)] assms(2) by simp_all
  let ?j = "job ?n ?a (bigmul v)"
  have st: "start_bigmul_instr ?s = Inr (?s\<lparr>bigmul := ?j\<rparr>)"
    using start_bigmul_instr_eq [of ?s ?n] cw s n by (simp add: reg_val_def)
  let ?e = "?s\<lparr>bigmul := ?j, execution_result := 0\<rparr>"
  have wm: "WriteMemory ?e = Inr ?e"
    using ls s assms(2) custom_not_fp [OF cw(1)]
    by (simp add: WriteMemory_def GetWriteDone_def job_def Let_def)
  have wb: "WriteBack ?e = Inr ?e" by (rule WriteBack_custom) (use cw(1) s ls in simp_all)
  let ?z = "?s\<lparr>execution_result := 0, instructions_retired := instructions_retired v + 1,
      cycle_s := cycle_s v + 1,
      cout := cout v @ [OutText ''Program Counter: '', OutHex (program_counter v + 4)]\<rparr>"
  have mz: "multiplying ?z" using ls s assms(2) by (simp add: multiplying_def)
  have "wf_memory (memory_block_size (vm_config ?z)) (memory ?z)" "fits (memory ?z) ?a (2 * unat ?n)"
    using assms(3,7) s n(1) by (simp_all add: signalled_def)
  from multiply_stalls [OF cw(4) _ _ mz this, of fuel True] n assms(8) obtain m c u' xs where
    loop: "bigmul_stall_loop True fuel (?z\<lparr>bigmul := ?j\<rparr>) =
      Inr (?z\<lparr>memory := m, cout := c, cycle_s := cycle_s v + 1 + of_nat ?C, bigmul := u'\<rparr>)"
    and m: "written (memory_block_size (vm_config v)) (memory v) ?a xs (2 * n) m"
      "big xs (2 * n) = big (cacheA (bigmul v)) n * big (cacheB (bigmul v)) n" "length xs = 128"
      "wf_unit u'" "bigmul_done u'" "ldbm_done u'" "unat (size_of_operand u') = n"
    using s cw(5) by (auto simp: signalled_def)
  let ?f = "?z\<lparr>memory := m, cout := c, cycle_s := cycle_s v + 1 + of_nat ?C, bigmul := u'\<rparr>"
  have "ldbm_stall_loop True fuel (?z\<lparr>bigmul := ?j\<rparr>) = Inr (?z\<lparr>bigmul := ?j\<rparr>)"
    using ls by (cases fuel) (simp_all add: ldbm_stalled_def)
  then have end_loop: "bindr (ldbm_stall_loop True fuel (?z\<lparr>bigmul := ?j\<rparr>))
      (\<lambda>v. bindr (bigmul_stall_loop True fuel v) (\<lambda>v. Inr (record_step v))) = Inr (record_step ?f)"
    using loop by simp
  have "Step H fuel v = bindr (WriteMemory ?e) (\<lambda>v. bindr (WriteBack v) (\<lambda>v.
    let v = count_cycle (v\<lparr>instructions_retired := instructions_retired v + 1\<rparr>);
        v = print [OutText ''Program Counter: '', OutHex (program_counter v)] v
    in bindr (ldbm_stall_loop True fuel v) (\<lambda>v.
       bindr (bigmul_stall_loop True fuel v) (\<lambda>v. Inr (record_step v)))))"
    using Step_custom [OF assms(1), of False "?s\<lparr>bigmul := ?j\<rparr>" H fuel] st assms(2) ctl s by simp
  also have "\<dots> = bindr (ldbm_stall_loop True fuel (?z\<lparr>bigmul := ?j\<rparr>))
      (\<lambda>v. bindr (bigmul_stall_loop True fuel v) (\<lambda>v. Inr (record_step v)))"
    unfolding wm bindr_simps wb Let_def
    by (simp add: count_cycle_def print_def bigmul_last signalled_def)
  also note end_loop
  finally have "Step H fuel v = Inr (record_step ?f)" .
  moreover have "product_stored v ?a n (record_step ?f)"
    using m n(3) written_big [OF m(1)]
    by (auto simp: product_stored_def same_program_def record_step_def Let_def print_def signalled_def written_def)
  moreover have "\<exists>d. undo_stack (record_step ?f) = d # undo_stack v \<and>
      memory_changes d = memory_changes (current_delta v) \<and>
      register_changes d = register_changes (current_delta v) \<and> bigmul_state d = snapshot (bigmul v) \<and>
      custom_instr_executed d = 2"
    by (simp add: record_step_def Let_def print_def signalled_def)
  ultimately show ?thesis by blast
qed

text \<open>
  C1. The program LDBM, BIGMUL multiplies: two steps load the operands at the addresses in the
  first instruction's registers and leave at the address in the second's the exact product of
  their first \<open>n\<close> doublewords, in \<open>2 n\<close> doublewords, where \<open>n\<close> (1 to 64) is the second's
  register operand. No other byte and no register changes, and the cycles counted are those of
  the load, the products and the writes.
\<close>

theorem LDBM_BIGMUL_multiplies:
  assumes "custom_next v w1" and "opcode_of w1 = 0x2A"
    and "program_counter v + 4 < program_size v" and "ReadWord (memory v) (program_counter v + 4) = Inr w2"
    and "opcode_of w2 = 0x3F" and "rs1_wide w2 < NUM_GPR" and "rs2_wide w2 < NUM_GPR"
    and "n = unat (reg_val v (rs2_wide w2))" and "1 \<le> n" and "n \<le> 64"
    and "readable_words (memory v) (reg_val v (rs1_wide w1)) 64"
    and "readable_words (memory v) (reg_val v (rs2_wide w1)) 64"
    and "wf_memory (memory_block_size (vm_config v)) (memory v)"
    and "fits (memory v) (reg_val v (rs1_wide w2)) (2 * n)"
    and "15 \<le> fuel" and "total_cycles n + (2 * n + 7) div 8 \<le> fuel"
  shows "\<exists>v1 v2. Step H fuel v = Inr v1 \<and> Step H fuel v1 = Inr v2 \<and>
    big (operand (memory v2) (reg_val v (rs1_wide w2)) (2 * n)) (2 * n) =
      big (operand (memory v) (reg_val v (rs1_wide w1)) 64) n * big (operand (memory v) (reg_val v (rs2_wide w1)) 64) n \<and>
    {y. bytes (memory v2) y \<noteq> bytes (memory v) y} \<subseteq> {y. unat (y - reg_val v (rs1_wide w2)) < 16 * n} \<and>
    registers v2 = registers v \<and> program_counter v2 = program_counter v + 8 \<and>
    cycle_s v2 = cycle_s v + 17 + of_nat (total_cycles n + (2 * n + 7) div 8)"
proof -
  obtain v1 where v1: "Step H fuel v = Inr v1"
    "loaded v (reg_val v (rs1_wide w1)) (reg_val v (rs2_wide w1)) v1"
    using LDBM_Step [OF assms(1,2,15,11,12)] by blast
  have r: "reg_val v1 i = reg_val v i" for i using v1(2) by (simp add: loaded_def same_program_def reg_val_def)
  have nx: "custom_next v1 w2" using v1(2) assms(1,3-7)
    by (simp add: custom_next_def loaded_def same_program_def custom_def)
  have m: "memory v1 = memory v" "vm_config v1 = vm_config v" using v1(2) by (simp_all add: loaded_def same_program_def)
  obtain v2 where v2: "Step H fuel v1 = Inr v2" "product_stored v1 (reg_val v (rs1_wide w2)) n v2"
    using BIGMUL_step [OF nx assms(5), of n fuel H] assms(8-10,13,14,16) m r by auto
  show ?thesis
    using v1 v2 m by (intro exI [of _ v1] exI [of _ v2]) (auto simp: loaded_def product_stored_def same_program_def)
qed

lemma readable_in_range:
  assumes "wf_memory bs m" and "unat a + 8 * n \<le> unat (mem_size m)"
  shows "readable_words m a n"
  unfolding readable_words_def
proof (intro allI impI)
  fix i assume i: "i < n"
  let ?b = "a + of_nat i * 8"
  have "unat ?b + 8 \<le> unat (mem_size m)" using word_addr(2) [OF assms(2) i] assms(2) i by simp
  then have b: "?b < mem_size m - of_nat 7" by (subst word_minus_bound) simp_all
  moreover have "8 \<le> unat (mem_size m)" using assms(2) i by simp
  ultimately obtain x :: u64 where "read_loop (Read m) ?b 0 (Suc 7) 0 = Inr x"
    using read_loop_succeeds [OF assms(1), of ?b 7, where 'a = 64] by auto
  with b show "\<exists>x. ReadDoubleWord m ?b = Inr x" by (simp add: ReadDoubleWord_def ReadGeneric_def not_le)
qed

text \<open>
  LDBM with the operand addresses in \<open>x1\<close> and \<open>x4\<close>, and BIGMUL with the result address in
  \<open>x3\<close> and the size, one doubleword, in \<open>x8\<close>; the operands are 5 and 7.
\<close>

definition multiply_program :: RVSSVM where
  "multiply_program = (new_RVSSVM default_config False)\<lparr>program_size := 8,
     memory := \<lparr>blocks = [0 \<mapsto> [0x2A, 0x80, 0x40, 0, 0x3F, 0x80, 0x81, 0] @ replicate 8 0,
       64 \<mapsto> 5 # replicate 15 0, 128 \<mapsto> 7 # replicate 15 0], block_size = 16, mem_size = 4096\<rparr>,
     vm_config := default_config\<lparr>memory_block_size := 16\<rparr>,
     registers := new_RegisterFile\<lparr>gpr := (\<lambda>_. 0)(1 := 1024, 4 := 2048, 3 := 3072, 8 := 1)\<rparr>\<rparr>"

lemma multiply_program_simps [simp]:
  "program_counter multiply_program = 0" "program_size multiply_program = 8" "bigmul multiply_program = initial_unit"
  "mem_size (memory multiply_program) = 4096" "cycle_s multiply_program = 0"
  by (simp_all add: multiply_program_def new_RVSSVM_def new_VmBase_def VmBase.extend_def)

lemma multiply_program_wf:
  "wf_memory (memory_block_size (vm_config multiply_program)) (memory multiply_program)"
  by (auto simp: multiply_program_def wf_memory_def)

lemma multiply_program_words:
  "ReadWord (memory multiply_program) 0 = Inr 0x0040802A" "ReadWord (memory multiply_program) 4 = Inr 0x0081803F"
  by (simp_all add: multiply_program_def ReadWord_def ReadGeneric_4 Read_def GetBlockIndex_def GetBlockOffset_def
      word_le_nat_alt)

lemma ReadGeneric_8:
  "ReadGeneric 8 m a = bindr (Read m a) (\<lambda>b0. bindr (Read m (a + 1)) (\<lambda>b1. bindr (Read m (a + 2)) (\<lambda>b2.
     bindr (Read m (a + 3)) (\<lambda>b3. bindr (Read m (a + 4)) (\<lambda>b4. bindr (Read m (a + 5)) (\<lambda>b5.
     bindr (Read m (a + 6)) (\<lambda>b6. bindr (Read m (a + 7)) (\<lambda>b7.
       Inr (ucast b0 OR push_bit 8 (ucast b1) OR push_bit 16 (ucast b2) OR push_bit 24 (ucast b3) OR
         push_bit 32 (ucast b4) OR push_bit 40 (ucast b5) OR push_bit 48 (ucast b6) OR push_bit 56 (ucast b7))))))))))"
proof -
  have eight: "(8 :: nat) = Suc (Suc (Suc (Suc (Suc (Suc (Suc (Suc 0)))))))" by simp
  have "read_loop (Read m) a 0 (Suc (Suc (Suc (Suc (Suc (Suc (Suc (Suc 0)))))))) 0 = bindr (Read m a) (\<lambda>b0. bindr (Read m (a + 1)) (\<lambda>b1. bindr (Read m (a + 2)) (\<lambda>b2.
     bindr (Read m (a + 3)) (\<lambda>b3. bindr (Read m (a + 4)) (\<lambda>b4. bindr (Read m (a + 5)) (\<lambda>b5.
     bindr (Read m (a + 6)) (\<lambda>b6. bindr (Read m (a + 7)) (\<lambda>b7.
       Inr (ucast b0 OR push_bit 8 (ucast b1) OR push_bit 16 (ucast b2) OR push_bit 24 (ucast b3) OR
         push_bit 32 (ucast b4) OR push_bit 40 (ucast b5) OR push_bit 48 (ucast b6) OR push_bit 56 (ucast b7))))))))))"
    by (simp add: ac_simps)
  then show ?thesis unfolding ReadGeneric_def by (simp flip: eight)
qed

lemma multiply_program_operands:
  "ReadDoubleWord (memory multiply_program) 1024 = Inr 5" "ReadDoubleWord (memory multiply_program) 2048 = Inr 7"
  by (simp_all add: multiply_program_def ReadDoubleWord_def ReadGeneric_8 Read_def GetBlockIndex_def GetBlockOffset_def
      word_le_nat_alt)

lemma multiply_program_regs:
  "rs1_wide 0x0040802A = 1" "rs2_wide 0x0040802A = 4" "rs1_wide 0x0081803F = 3" "rs2_wide 0x0081803F = 8"
  "reg_val multiply_program 1 = 1024" "reg_val multiply_program 4 = 2048" "reg_val multiply_program 3 = 3072"
  "reg_val multiply_program 8 = 1" "opcode_of 0x0040802A = 0x2A" "opcode_of 0x0081803F = 0x3F"
  by (simp_all add: rs1_wide_def rs2_wide_def reg_val_def multiply_program_def new_RegisterFile_def opcode_of_def)

lemma multiply_program_next: "custom_next multiply_program 0x0040802A"
proof -
  have "wf_unit initial_unit" "bigmul_done initial_unit" "ldbm_done initial_unit"
    by (simp_all add: initial_unit_def wf_unit_def)
  then show ?thesis
    using multiply_program_regs multiply_program_words by (simp add: custom_next_def custom_def NUM_GPR_def)
qed

lemma multiply_program_readable: "unat a + 512 \<le> 4096 \<Longrightarrow> readable_words (memory multiply_program) a 64"
  using readable_in_range [OF multiply_program_wf, of a 64] by simp

lemma multiply_program_loads:
  "15 \<le> fuel \<Longrightarrow> \<exists>v'. Step H fuel multiply_program = Inr v' \<and> loaded multiply_program 1024 2048 v'"
  using LDBM_Step [OF multiply_program_next, of fuel H] multiply_program_readable multiply_program_regs by simp

theorem LDBM_BIGMUL_multiplies_witness:
  "\<forall>H. \<exists>v1 v2. Step H 15 multiply_program = Inr v1 \<and> Step H 15 v1 = Inr v2 \<and>
    big (operand (memory v2) 3072 2) 2 = 35 \<and> cycle_s v2 = 19"
proof
  fix H
  have t: "total_cycles 1 = 1" by (simp add: total_cycles_def diag_batches_def batches_def BATCH_def diag_hi_def diag_lo_def)
  have b: "big (operand (memory multiply_program) a 64) 1 = unat x" if "ReadDoubleWord (memory multiply_program) a = Inr x" for a x
    using that by (simp add: big_def operand_def)
  show "\<exists>v1 v2. Step H 15 multiply_program = Inr v1 \<and> Step H 15 v1 = Inr v2 \<and>
    big (operand (memory v2) 3072 2) 2 = 35 \<and> cycle_s v2 = 19"
    using LDBM_BIGMUL_multiplies [OF multiply_program_next, of "0x0081803F" 1 15 H] multiply_program_regs multiply_program_words
      multiply_program_wf multiply_program_readable b [OF multiply_program_operands(1)] b [OF multiply_program_operands(2)] t
    by (auto simp: NUM_GPR_def fits_def)
qed

text \<open>
  C21. Undo does not take a multiplication back: after a step of BIGMUL the record holds no memory
  change, so \<open>Undo\<close> brings back those variables and caches of the unit that a snapshot holds, but
  the product stays in memory, and the operand size, which no snapshot holds, stays that of the
  multiplication undone.
\<close>

theorem BIGMUL_Undo_keeps_product:
  assumes "custom_next v w" and "opcode_of w = 0x3F"
    and "wf_memory (memory_block_size (vm_config v)) (memory v)"
    and "n = unat (reg_val v (rs2_wide w))" and "1 \<le> n" and "n \<le> 64"
    and "fits (memory v) (reg_val v (rs1_wide w)) (2 * n)"
    and "total_cycles n + (2 * n + 7) div 8 \<le> fuel"
    and "register_changes (current_delta v) = []" and "memory_changes (current_delta v) = []"
  shows "\<exists>v' u. Step H fuel v = Inr v' \<and> Undo v' = Inr u \<and> snapshot (bigmul u) = snapshot (bigmul v) \<and>
    memory u = memory v' \<and> unat (size_of_operand (bigmul u)) = n \<and>
    big (operand (memory u) (reg_val v (rs1_wide w)) (2 * n)) (2 * n) =
      big (cacheA (bigmul v)) n * big (cacheB (bigmul v)) n"
proof -
  obtain v' d where v': "Step H fuel v = Inr v'" "product_stored v (reg_val v (rs1_wide w)) n v'"
    "undo_stack v' = d # undo_stack v" "memory_changes d = []" "register_changes d = []"
    "bigmul_state d = snapshot (bigmul v)" "custom_instr_executed d = 2"
    using BIGMUL_step [OF assms(1-8), of H] assms(9,10) by auto
  from v'(3-7) have "\<exists>u. Undo v' = Inr u \<and> memory u = memory v' \<and> bigmul u = restore (snapshot (bigmul v)) (bigmul v')"
    by (simp add: Undo_def restore_custom_def Let_def print_def)
  with v'(1,2) show ?thesis
    by (auto simp: product_stored_def snapshot_def restore_def)
qed

text \<open>A machine about to step BIGMUL, with the operands in the caches.\<close>

definition cached_program :: RVSSVM where
  "cached_program = multiply_program\<lparr>program_counter := 4,
     bigmul := initial_unit\<lparr>cacheA := 5 # replicate 63 0, cacheB := 7 # replicate 63 0\<rparr>\<rparr>"

lemma cached_program_next: "custom_next cached_program 0x0081803F"
  using multiply_program_regs multiply_program_words
  by (simp add: custom_next_def custom_def NUM_GPR_def cached_program_def wf_unit_def initial_unit_def)

lemma total_cycles_1: "total_cycles 1 = 1"
  by (simp add: total_cycles_def diag_batches_def batches_def BATCH_def diag_hi_def diag_lo_def)

theorem BIGMUL_Undo_keeps_product_witness:
  "\<forall>H. \<exists>v' u. Step H 2 cached_program = Inr v' \<and> Undo v' = Inr u \<and> memory u = memory v' \<and>
    big (operand (memory u) 3072 2) 2 = 35"
proof
  fix H
  have d: "memory cached_program = memory multiply_program" "vm_config cached_program = vm_config multiply_program"
    "reg_val cached_program i = reg_val multiply_program i" "current_delta cached_program = new_StepDelta" for i
    by (simp_all add: cached_program_def reg_val_def multiply_program_def new_RVSSVM_def VmBase.extend_def)
  have b: "big (cacheA (bigmul cached_program)) 1 * big (cacheB (bigmul cached_program)) 1 = 35"
    by (simp add: cached_program_def big_def)
  show "\<exists>v' u. Step H 2 cached_program = Inr v' \<and> Undo v' = Inr u \<and> memory u = memory v' \<and>
    big (operand (memory u) 3072 2) 2 = 35"
    using BIGMUL_Undo_keeps_product [OF cached_program_next, of 1 2 H] multiply_program_wf multiply_program_regs
      total_cycles_1 b
    by (auto simp: d fits_def new_StepDelta_def)
qed

subsection \<open>The register fields of the custom instructions\<close>

lemma rs1_wide_high: "rs1_wide w div 32 = unat (rs2_of w) mod 4"
proof -
  have "drop_bit 5 (ucast (drop_bit 15 w AND 0x7F) :: u8) = take_bit 2 (rs2_of w)"
  proof (rule bit_word_eqI)
    fix n assume n: "n < LENGTH(8)"
    have m: "(0x7F :: u32) = mask 7" "(0x1F :: u32) = mask 5" by (simp_all add: mask_eq_exp_minus_1)
    show "bit (drop_bit 5 (ucast (drop_bit 15 w AND 0x7F) :: u8)) n = bit (take_bit 2 (rs2_of w)) n"
      unfolding rs2_of_def m using n by (auto simp: bit_simps add.commute)
  qed
  then have "unat (drop_bit 5 (ucast (drop_bit 15 w AND 0x7F) :: u8)) = unat (take_bit 2 (rs2_of w))" by simp
  moreover have "unat (drop_bit 5 x) = unat x div 32" for x :: u8
    by (simp only: unat_drop_bit_eq) (simp add: drop_bit_eq_div)
  moreover have "unat (take_bit 2 y) = unat y mod 4" for y :: u8
    by (simp only: unsigned_take_bit_eq) (simp add: take_bit_eq_mod)
  ultimately show ?thesis by (simp only: rs1_wide_def)
qed

text \<open>
  C22. The operand fields of the custom instructions are seven bits wide: the first register field
  runs into the second, so that an instruction whose second register number is no multiple of
  four stops the machine with an out-of-range error.
\<close>

theorem custom_register_fields_overlap:
  assumes "program_counter v < program_size v" and "ReadWord (memory v) (program_counter v) = Inr w"
    and "custom w" and "bigmul_done (bigmul v)" and "ldbm_done (bigmul v)" and "unat (rs2_of w) mod 4 \<noteq> 0"
  shows "Step H fuel v = Inl OutOfRange"
proof -
  have "\<not> rs1_wide w < 32" using rs1_wide_high [of w] assms(6) by auto
  then have out: "read_gpr (rs1_wide w) u = Inl OutOfRange" for u
    by (simp add: read_gpr_def ReadGpr_def NUM_GPR_def)
  have two: "read_gpr i u = Inl e \<Longrightarrow> e = OutOfRange" for i u e
    by (auto simp: read_gpr_def ReadGpr_def split: if_splits)
  have "uint (ucast (w AND 0x7F) :: u8) = (if opcode_of w = 0x2A then 42 else 63)"
    using assms(3) by (auto simp: opcode_of_def custom_def)
  then obtain v0 where p: "preview v = Inr v0" and v0: "program_counter v0 = program_counter v" "program_size v0 = program_size v"
    "memory v0 = memory v" "bigmul v0 = bigmul v" "control_unit v0 = control_unit v"
    using assms(2) by (auto simp: preview_def Let_def)
  obtain v1 where f: "Fetch v0 = Inr v1" and v1: "current_instruction v1 = w" "bigmul v1 = bigmul v" "control_unit v1 = control_unit v"
    using assms(2) v0 by (auto simp: Fetch_def UpdateProgramCounter_def)
  have "Decode v1 = Inl OutOfRange"
    using assms(3-5) v1 custom_signals [OF assms(3), of "control_unit v"] out two
    by (cases "read_gpr (rs2_wide w) (v1\<lparr>control_unit := SetControlSignals (control_unit v1) w\<rparr>)")
      (auto simp: Decode_def Let_def custom_def GetLdbmDone_def GetBigmulDone_def start_ldbm_def start_bigmul_instr_def)
  with p f v0 assms(1) show ?thesis by (simp add: Step_def instruction_def)
qed

theorem custom_register_fields_overlap_witness:
  "\<forall>H. Step H 15 (one_instruction 0x0010002A) = Inl OutOfRange"
proof
  fix H
  have "custom 0x0010002A" "rs2_of 0x0010002A = 1" by (simp_all add: custom_def opcode_of_def rs2_of_def)
  moreover have "bigmul_done (bigmul (one_instruction w))" "ldbm_done (bigmul (one_instruction w))" for w
    by (simp_all add: one_instruction_def new_RVSSVM_def VmBase.extend_def initial_unit_def)
  ultimately show "Step H 15 (one_instruction 0x0010002A) = Inl OutOfRange"
    by (intro custom_register_fields_overlap [where w = "0x0010002A"]) (simp_all add: one_word)
qed

end
