(* ===== verification/CodeGenerator.thy ===== *)
theory CodeGenerator
  imports CString Instructions
begin

text \<open>
  The code generator (\<open>src/assembler/code_generator.cpp\<close>): the unit of intermediate code
  with its bounded character arrays, the word of each instruction format, the listing of the
  intermediate code, and the loop over a program.
\<close>

subsection \<open>The unit of intermediate code\<close>

text \<open>
  The character arrays are their content up to the first null character; the getters are the
  fields. A setter copies with \<open>strncpy\<close> and closes the array, so that it keeps the first 20,
  5 or 32 characters.
\<close>

record ICUnit =
  getLineNumber :: u32
  getInstructionIndex :: u32
  getOpcode :: string
  getRd :: string
  getRs1 :: string
  getRs2 :: string
  getRs3 :: string
  getCsr :: u32
  getImm :: string
  getLabel :: string
  getRm :: u8

definition new_ICUnit :: ICUnit where
  "new_ICUnit = \<lparr>getLineNumber = 0, getInstructionIndex = 0, getOpcode = [], getRd = [], getRs1 = [],
     getRs2 = [], getRs3 = [], getCsr = 0, getImm = [], getLabel = [], getRm = 0\<rparr>"

definition chars :: "nat \<Rightarrow> string \<Rightarrow> string" where
  "chars n s = take n (takeWhile (\<lambda>c. c \<noteq> CHR 0x00) s)"

definition setLineNumber :: "u32 \<Rightarrow> ICUnit \<Rightarrow> ICUnit" where
  "setLineNumber v u = u\<lparr>getLineNumber := v\<rparr>"

definition setInstructionIndex :: "u32 \<Rightarrow> ICUnit \<Rightarrow> ICUnit" where
  "setInstructionIndex v u = u\<lparr>getInstructionIndex := v\<rparr>"

definition setOpcode :: "string \<Rightarrow> ICUnit \<Rightarrow> ICUnit" where
  "setOpcode v u = u\<lparr>getOpcode := chars 20 v\<rparr>"

definition setRd :: "string \<Rightarrow> ICUnit \<Rightarrow> ICUnit" where
  "setRd v u = u\<lparr>getRd := chars 5 v\<rparr>"

definition setRs1 :: "string \<Rightarrow> ICUnit \<Rightarrow> ICUnit" where
  "setRs1 v u = u\<lparr>getRs1 := chars 5 v\<rparr>"

definition setRs2 :: "string \<Rightarrow> ICUnit \<Rightarrow> ICUnit" where
  "setRs2 v u = u\<lparr>getRs2 := chars 5 v\<rparr>"

definition setRs3 :: "string \<Rightarrow> ICUnit \<Rightarrow> ICUnit" where
  "setRs3 v u = u\<lparr>getRs3 := chars 5 v\<rparr>"

definition setCsr :: "u32 \<Rightarrow> ICUnit \<Rightarrow> ICUnit" where
  "setCsr v u = u\<lparr>getCsr := v\<rparr>"

definition setImm :: "string \<Rightarrow> ICUnit \<Rightarrow> ICUnit" where
  "setImm v u = u\<lparr>getImm := chars 32 v\<rparr>"

definition setLabel :: "string \<Rightarrow> ICUnit \<Rightarrow> ICUnit" where
  "setLabel v u = u\<lparr>getLabel := v\<rparr>"

definition setRm :: "u8 \<Rightarrow> ICUnit \<Rightarrow> ICUnit" where
  "setRm v u = u\<lparr>getRm := v\<rparr>"

subsection \<open>Listings\<close>

text \<open>The stream operator of a unit: the filled operands, then immediate, register, mode, label.\<close>

definition hex_digit :: "nat \<Rightarrow> char" where
  "hex_digit d = (if d < 10 then digit_char d else char_of (87 + d))"

fun nat_to_hex :: "nat \<Rightarrow> string" where
  "nat_to_hex n = (if n < 16 then [hex_digit n] else nat_to_hex (n div 16) @ [hex_digit (n mod 16)])"

declare nat_to_hex.simps [simp del]

definition emit_if_filled :: "string \<Rightarrow> string \<times> bool \<Rightarrow> string \<times> bool" where
  "emit_if_filled field p = (case p of (os, first) \<Rightarrow>
     if field \<noteq> [] then (os @ (if first then '' '' else '', '') @ field, False) else (os, first))"

definition show_ICUnit :: "ICUnit \<Rightarrow> string" where
  "show_ICUnit u =
     (let p = (getOpcode u, True);
          p = emit_if_filled (getRd u) p; p = emit_if_filled (getRs1 u) p;
          p = emit_if_filled (getRs2 u) p; p = emit_if_filled (getRs3 u) p;
          p = emit_if_filled (getImm u) p; os = fst p;
          os = (if getCsr u \<noteq> 0 then os @ '' csr=0x'' @ nat_to_hex (unat (getCsr u)) else os);
          os = (if getRm u \<noteq> 0 then os @ '' rm='' @ nat_to_string (unat (getRm u)) else os)
      in if getLabel u \<noteq> [] then os @ '' <'' @ getLabel u @ ''>'' else os)"

definition listing :: "ICUnit \<Rightarrow> string" where
  "listing b =
     (let oc = getOpcode b; sp = '' '' in
      if isValidRTypeInstruction oc then oc @ sp @ getRd b @ sp @ getRs1 b @ sp @ getRs2 b
      else if isValidRLTypeInstruction oc then oc @ sp @ getRd b @ sp @ getRs1 b @ sp @ getRs2 b
      else if isValidSRTypeInstruction oc then oc @ sp @ getRs2 b @ sp @ getImm b @ ''('' @ getRs1 b @ '')''
      else if isValidITypeInstruction oc then oc @ sp @ getRd b @ sp @ getRs1 b @ sp @ getImm b
      else if isValidSTypeInstruction oc then oc @ sp @ getRs2 b @ sp @ getImm b @ ''('' @ getRs1 b @ '')''
      else if isValidBTypeInstruction oc
        then oc @ sp @ getRs1 b @ sp @ getRs2 b @ sp @ getImm b @ '' <'' @ getLabel b @ ''>''
      else if isValidUTypeInstruction oc then oc @ sp @ getRd b @ sp @ getImm b
      else if isValidJTypeInstruction oc then oc @ sp @ getRd b @ sp @ getImm b @ '' <'' @ getLabel b @ ''>''
      else oc @ sp @ getImm b)"

definition printIntermediateCode :: "(ICUnit \<times> bool) list \<Rightarrow> string list" where
  "printIntermediateCode ic = map (\<lambda>p. listing (fst p)) ic"

subsection \<open>The word of each format\<close>

text \<open>
  \<open>std::unordered_map::at\<close>, which throws for a missing key, and the number behind the first
  character of a register name, which throws for an empty name.
\<close>

definition at_key :: "('k \<times> 'v) list \<Rightarrow> 'k \<Rightarrow> 'v result" where
  "at_key m k = (case map_of m k of None \<Rightarrow> Inl OutOfRange | Some e \<Rightarrow> Inr e)"

definition extractRegisterIndex :: "string \<Rightarrow> u32 result" where
  "extractRegisterIndex reg =
     (case reg of [] \<Rightarrow> Inl OutOfRange | _ # ds \<Rightarrow> bindr (stoi ds) (\<lambda>k. Inr (word_of_int k)))"

definition imm_word :: "ICUnit \<Rightarrow> u32 result" where
  "imm_word b = bindr (stoi (getImm b)) (\<lambda>k. Inr (word_of_int k))"

definition generateRTypeMachineCode :: "ICUnit \<Rightarrow> u32 result" where
  "generateRTypeMachineCode b =
     bindr (at_key R_type_instruction_encoding_map (getOpcode b)) (\<lambda>(op, f3, f7).
     bindr (extractRegisterIndex (getRd b)) (\<lambda>rd.
     bindr (extractRegisterIndex (getRs1 b)) (\<lambda>rs1.
     bindr (extractRegisterIndex (getRs2 b)) (\<lambda>rs2.
       Inr (push_bit 25 (of_nat f7) OR push_bit 20 rs2 OR push_bit 15 rs1 OR push_bit 12 (of_nat f3) OR
            push_bit 7 rd OR of_nat op)))))"

definition generateRLTypeMachineCode :: "ICUnit \<Rightarrow> u32 result" where
  "generateRLTypeMachineCode b =
     bindr (at_key RL_type_instruction_encoding_map (getOpcode b)) (\<lambda>(op, f3, f7).
     bindr (extractRegisterIndex (getRd b)) (\<lambda>rd.
     bindr (extractRegisterIndex (getRs1 b)) (\<lambda>rs1.
     bindr (extractRegisterIndex (getRs2 b)) (\<lambda>rs2.
       Inr (push_bit 25 (of_nat f7) OR push_bit 20 rs2 OR push_bit 15 rs1 OR push_bit 12 (of_nat f3) OR
            push_bit 7 rd OR of_nat op)))))"

text \<open>The two halves of a store immediate around the fields between them.\<close>

definition store_word :: "nat \<Rightarrow> nat \<Rightarrow> u32 \<Rightarrow> u32 \<Rightarrow> u32 \<Rightarrow> u32" where
  "store_word op f3 rs1 rs2 imm =
     (let imm_lo = imm AND 0x1F; imm_hi = drop_bit 5 imm AND 0x7F
      in push_bit 25 imm_hi OR push_bit 20 rs2 OR push_bit 15 rs1 OR push_bit 12 (of_nat f3) OR
         push_bit 7 imm_lo OR of_nat op)"

definition generateSRTypeMachineCode :: "ICUnit \<Rightarrow> u32 result" where
  "generateSRTypeMachineCode b =
     bindr (at_key SR_type_instruction_encoding_map (getOpcode b)) (\<lambda>(op, f3).
     bindr (extractRegisterIndex (getRs1 b)) (\<lambda>rs1.
     bindr (extractRegisterIndex (getRs2 b)) (\<lambda>rs2.
     bindr (imm_word b) (\<lambda>imm. Inr (store_word op f3 rs1 rs2 imm)))))"

definition generateI1TypeMachineCode :: "ICUnit \<Rightarrow> u32 result" where
  "generateI1TypeMachineCode b =
     bindr (at_key I1_type_instruction_encoding_map (getOpcode b)) (\<lambda>(op, f3).
     bindr (extractRegisterIndex (getRd b)) (\<lambda>rd.
     bindr (extractRegisterIndex (getRs1 b)) (\<lambda>rs1.
     bindr (imm_word b) (\<lambda>imm.
       Inr (push_bit 20 imm OR push_bit 15 rs1 OR push_bit 12 (of_nat f3) OR push_bit 7 rd OR of_nat op)))))"

definition generateI2TypeMachineCode :: "ICUnit \<Rightarrow> u32 result" where
  "generateI2TypeMachineCode b =
     bindr (at_key I2_type_instruction_encoding_map (getOpcode b)) (\<lambda>(op, f3, f6).
     bindr (extractRegisterIndex (getRd b)) (\<lambda>rd.
     bindr (extractRegisterIndex (getRs1 b)) (\<lambda>rs1.
     bindr (imm_word b) (\<lambda>imm.
       Inr (push_bit 26 (of_nat f6) OR push_bit 20 imm OR push_bit 15 rs1 OR push_bit 12 (of_nat f3) OR
            push_bit 7 rd OR of_nat op)))))"

definition generateI3TypeMachineCode :: "ICUnit \<Rightarrow> u32 result" where
  "generateI3TypeMachineCode b =
     bindr (at_key I3_type_instruction_encoding_map (getOpcode b)) (\<lambda>(op, f3, f7).
       Inr (push_bit 12 (of_nat f3) OR of_nat op))"

definition generateSTypeMachineCode :: "ICUnit \<Rightarrow> u32 result" where
  "generateSTypeMachineCode b =
     bindr (at_key S_type_instruction_encoding_map (getOpcode b)) (\<lambda>(op, f3).
     bindr (extractRegisterIndex (getRs1 b)) (\<lambda>rs1.
     bindr (extractRegisterIndex (getRs2 b)) (\<lambda>rs2.
     bindr (imm_word b) (\<lambda>imm. Inr (store_word op f3 rs1 rs2 imm)))))"

definition generateBTypeMachineCode :: "ICUnit \<Rightarrow> u32 result" where
  "generateBTypeMachineCode b =
     bindr (at_key B_type_instruction_encoding_map (getOpcode b)) (\<lambda>(op, f3).
     bindr (extractRegisterIndex (getRs1 b)) (\<lambda>rs1.
     bindr (extractRegisterIndex (getRs2 b)) (\<lambda>rs2.
     bindr (imm_word b) (\<lambda>imm.
       let imm12 = signed_drop_bit 12 imm AND 1; imm10_5 = signed_drop_bit 5 imm AND 0x3F;
           imm4_1 = signed_drop_bit 1 imm AND 0xF; imm11 = signed_drop_bit 11 imm AND 1
       in Inr (push_bit 31 imm12 OR push_bit 25 imm10_5 OR push_bit 20 rs2 OR push_bit 15 rs1 OR
               push_bit 12 (of_nat f3) OR push_bit 8 imm4_1 OR push_bit 7 imm11 OR of_nat op)))))"

definition generateUTypeMachineCode :: "ICUnit \<Rightarrow> u32 result" where
  "generateUTypeMachineCode b =
     bindr (at_key U_type_instruction_encoding_map (getOpcode b)) (\<lambda>op.
     bindr (extractRegisterIndex (getRd b)) (\<lambda>rd.
     bindr (imm_word b) (\<lambda>imm.
       Inr (push_bit 12 (imm AND 0xFFFFF) OR push_bit 7 rd OR of_nat op))))"

definition generateJTypeMachineCode :: "ICUnit \<Rightarrow> u32 result" where
  "generateJTypeMachineCode b =
     bindr (at_key J_type_instruction_encoding_map (getOpcode b)) (\<lambda>op.
     bindr (extractRegisterIndex (getRd b)) (\<lambda>rd.
     bindr (imm_word b) (\<lambda>imm.
       Inr (push_bit 11 (imm AND 0x100000) OR push_bit 20 (imm AND 0x7FE) OR push_bit 9 (imm AND 0x800) OR
            push_bit 0 (imm AND 0xFF000) OR push_bit 7 rd OR of_nat op))))"

definition generateCSRRTypeMachineCode :: "ICUnit \<Rightarrow> u32 result" where
  "generateCSRRTypeMachineCode b =
     bindr (at_key CSR_R_type_instruction_encoding_map (getOpcode b)) (\<lambda>(op, f3).
     bindr (extractRegisterIndex (getRd b)) (\<lambda>rd.
     bindr (extractRegisterIndex (getRs1 b)) (\<lambda>rs1.
       let csr = getCsr b AND 0xFFF
       in Inr (push_bit 20 csr OR push_bit 15 rs1 OR push_bit 12 (of_nat f3) OR push_bit 7 rd OR of_nat op))))"

definition generateCSRITypeMachineCode :: "ICUnit \<Rightarrow> u32 result" where
  "generateCSRITypeMachineCode b =
     bindr (at_key CSR_I_type_instruction_encoding_map (getOpcode b)) (\<lambda>(op, f3).
     bindr (extractRegisterIndex (getRd b)) (\<lambda>rd.
     bindr (imm_word b) (\<lambda>imm.
       let zimm = imm AND 0x1F; csr = getCsr b AND 0xFFF
       in Inr (push_bit 20 csr OR push_bit 15 zimm OR push_bit 12 (of_nat f3) OR push_bit 7 rd OR of_nat op))))"

definition generateFDRTypeMachineCode :: "ICUnit \<Rightarrow> u32 result" where
  "generateFDRTypeMachineCode b =
     bindr (at_key F_D_R_type_instruction_encoding_map (getOpcode b)) (\<lambda>(op, f3, f7).
     bindr (extractRegisterIndex (getRd b)) (\<lambda>rd.
     bindr (extractRegisterIndex (getRs1 b)) (\<lambda>rs1.
     bindr (extractRegisterIndex (getRs2 b)) (\<lambda>rs2.
       Inr (push_bit 25 (of_nat f7) OR push_bit 20 rs2 OR push_bit 15 rs1 OR push_bit 12 (of_nat f3) OR
            push_bit 7 rd OR of_nat op)))))"

definition rm_word :: "ICUnit \<Rightarrow> u32" where
  "rm_word b = ucast (getRm b AND 7)"

definition generateFDR1TypeMachineCode :: "ICUnit \<Rightarrow> u32 result" where
  "generateFDR1TypeMachineCode b =
     bindr (at_key F_D_R1_type_instruction_encoding_map (getOpcode b)) (\<lambda>(op, f7).
     bindr (extractRegisterIndex (getRd b)) (\<lambda>rd.
     bindr (extractRegisterIndex (getRs1 b)) (\<lambda>rs1.
     bindr (extractRegisterIndex (getRs2 b)) (\<lambda>rs2.
       Inr (push_bit 25 (of_nat f7) OR push_bit 20 rs2 OR push_bit 15 rs1 OR push_bit 12 (rm_word b) OR
            push_bit 7 rd OR of_nat op)))))"

definition generateFDR2TypeMachineCode :: "ICUnit \<Rightarrow> u32 result" where
  "generateFDR2TypeMachineCode b =
     bindr (at_key F_D_R2_type_instruction_encoding_map (getOpcode b)) (\<lambda>(op, f5, f7).
     bindr (extractRegisterIndex (getRd b)) (\<lambda>rd.
     bindr (extractRegisterIndex (getRs1 b)) (\<lambda>rs1.
       Inr (push_bit 25 (of_nat f7) OR push_bit 20 (of_nat f5) OR push_bit 15 rs1 OR push_bit 12 (rm_word b) OR
            push_bit 7 rd OR of_nat op))))"

definition generateFDR3TypeMachineCode :: "ICUnit \<Rightarrow> u32 result" where
  "generateFDR3TypeMachineCode b =
     bindr (at_key F_D_R3_type_instruction_encoding_map (getOpcode b)) (\<lambda>(op, f3, f5, f7).
     bindr (extractRegisterIndex (getRd b)) (\<lambda>rd.
     bindr (extractRegisterIndex (getRs1 b)) (\<lambda>rs1.
       Inr (push_bit 25 (of_nat f7) OR push_bit 20 (of_nat f5) OR push_bit 15 rs1 OR push_bit 12 (of_nat f3) OR
            push_bit 7 rd OR of_nat op))))"

definition generateFDR4TypeMachineCode :: "ICUnit \<Rightarrow> u32 result" where
  "generateFDR4TypeMachineCode b =
     bindr (at_key F_D_R4_type_instruction_encoding_map (getOpcode b)) (\<lambda>(op, f2).
     bindr (extractRegisterIndex (getRd b)) (\<lambda>rd.
     bindr (extractRegisterIndex (getRs1 b)) (\<lambda>rs1.
     bindr (extractRegisterIndex (getRs2 b)) (\<lambda>rs2.
     bindr (extractRegisterIndex (getRs3 b)) (\<lambda>rs3.
       Inr (push_bit 27 rs3 OR push_bit 25 (of_nat f2) OR push_bit 20 rs2 OR push_bit 15 rs1 OR
            push_bit 12 (rm_word b) OR push_bit 7 rd OR of_nat op))))))"

definition generateFDITypeMachineCode :: "ICUnit \<Rightarrow> u32 result" where
  "generateFDITypeMachineCode b =
     bindr (at_key F_D_I_type_instruction_encoding_map (getOpcode b)) (\<lambda>(op, f3).
     bindr (extractRegisterIndex (getRd b)) (\<lambda>rd.
     bindr (extractRegisterIndex (getRs1 b)) (\<lambda>rs1.
     bindr (imm_word b) (\<lambda>imm.
       Inr (push_bit 20 imm OR push_bit 15 rs1 OR push_bit 12 (of_nat f3) OR push_bit 7 rd OR of_nat op)))))"

definition generateFDSTypeMachineCode :: "ICUnit \<Rightarrow> u32 result" where
  "generateFDSTypeMachineCode b =
     bindr (at_key F_D_S_type_instruction_encoding_map (getOpcode b)) (\<lambda>(op, f3).
     bindr (extractRegisterIndex (getRs1 b)) (\<lambda>rs1.
     bindr (extractRegisterIndex (getRs2 b)) (\<lambda>rs2.
     bindr (imm_word b) (\<lambda>imm. Inr (store_word op f3 rs1 rs2 imm)))))"

subsection \<open>The program\<close>

definition generate_one :: "ICUnit \<Rightarrow> u32 result" where
  "generate_one b =
     (let oc = getOpcode b in
      if isValidRTypeInstruction oc then generateRTypeMachineCode b
      else if isValidRLTypeInstruction oc then generateRLTypeMachineCode b
      else if isValidSRTypeInstruction oc then generateSRTypeMachineCode b
      else if isValidI1TypeInstruction oc then generateI1TypeMachineCode b
      else if isValidI2TypeInstruction oc then generateI2TypeMachineCode b
      else if isValidI3TypeInstruction oc then generateI3TypeMachineCode b
      else if isValidSTypeInstruction oc then generateSTypeMachineCode b
      else if isValidBTypeInstruction oc then generateBTypeMachineCode b
      else if isValidUTypeInstruction oc then generateUTypeMachineCode b
      else if isValidJTypeInstruction oc then generateJTypeMachineCode b
      else if isValidCSRRTypeInstruction oc then generateCSRRTypeMachineCode b
      else if isValidCSRITypeInstruction oc then generateCSRITypeMachineCode b
      else if isValidFDRTypeInstruction oc then generateFDRTypeMachineCode b
      else if isValidFDR1TypeInstruction oc then generateFDR1TypeMachineCode b
      else if isValidFDR2TypeInstruction oc then generateFDR2TypeMachineCode b
      else if isValidFDR3TypeInstruction oc then generateFDR3TypeMachineCode b
      else if isValidFDR4TypeInstruction oc then generateFDR4TypeMachineCode b
      else if isValidFDITypeInstruction oc then generateFDITypeMachineCode b
      else if isValidFDSTypeInstruction oc then generateFDSTypeMachineCode b
      else Inl RuntimeError)"

fun generateMachineCode :: "(ICUnit \<times> bool) list \<Rightarrow> u32 list result" where
  "generateMachineCode [] = Inr []"
| "generateMachineCode (p # ps) =
     bindr (generate_one (fst p)) (\<lambda>w. bindr (generateMachineCode ps) (\<lambda>ws. Inr (w # ws)))"

end
