(* ===== verification/Encoding.thy ===== *)
theory Encoding
  imports CodeGenerator VmBase ControlUnit
begin

text \<open>
  What the machine reads back from the words of the code generator: the fields, the immediate
  and the operation of the ALU. A word is a disjunction of shifted fields; where every field
  stays inside its width, each extraction gives its field back.
\<close>

subsection \<open>Fields\<close>

lemma take_small: "x < 2 ^ k \<Longrightarrow> take_bit k x = (x :: 'a::len word)"
  by (simp add: take_bit_eq_mask less_mask_eq)

lemma masks:
  fixes x :: "'a::len word"
  shows "x AND 1 = take_bit 1 x" "x AND 7 = take_bit 3 x" "x AND 0xF = take_bit 4 x"
    "x AND 0x1F = take_bit 5 x" "x AND 0x3F = take_bit 6 x" "x AND 0x7F = take_bit 7 x"
    "x AND 0xFF = take_bit 8 x" "x AND 0x3FF = take_bit 10 x" "x AND 0xFFF = take_bit 12 x"
    "x AND 0xFFFFF = take_bit 20 x"
  by (simp_all add: take_bit_eq_mask mask_eq_exp_minus_1)

lemma AND_singles:
  fixes x :: u32
  shows "bit (x AND 0x100000) n \<longleftrightarrow> n = 20 \<and> bit x n" "bit (x AND 0x7FE) n \<longleftrightarrow> 1 \<le> n \<and> n < 11 \<and> bit x n"
    "bit (x AND 0x800) n \<longleftrightarrow> n = 11 \<and> bit x n" "bit (x AND 0xFF000) n \<longleftrightarrow> 12 \<le> n \<and> n < 20 \<and> bit x n"
    "bit (x AND 0xFFFFF000) n \<longleftrightarrow> 12 \<le> n \<and> bit x n"
proof -
  have e: "0x100000 = push_bit 20 (mask 1 :: u32)" "0x7FE = push_bit 1 (mask 10 :: u32)"
    "0x800 = push_bit 11 (mask 1 :: u32)" "0xFF000 = push_bit 12 (mask 8 :: u32)" "0xFFFFF000 = push_bit 12 (mask 20 :: u32)"
    by (simp_all add: mask_eq_exp_minus_1 push_bit_eq_mult)
  have lim: "bit x n \<Longrightarrow> n < 32" using bit_imp_le_length [of x n] by simp
  show "bit (x AND 0x100000) n \<longleftrightarrow> n = 20 \<and> bit x n"
    unfolding e(1) bit_and_iff bit_push_bit_iff bit_mask_iff using lim by auto
  show "bit (x AND 0x7FE) n \<longleftrightarrow> 1 \<le> n \<and> n < 11 \<and> bit x n"
    unfolding e(2) bit_and_iff bit_push_bit_iff bit_mask_iff using lim by auto
  show "bit (x AND 0x800) n \<longleftrightarrow> n = 11 \<and> bit x n"
    unfolding e(3) bit_and_iff bit_push_bit_iff bit_mask_iff using lim by auto
  show "bit (x AND 0xFF000) n \<longleftrightarrow> 12 \<le> n \<and> n < 20 \<and> bit x n"
    unfolding e(4) bit_and_iff bit_push_bit_iff bit_mask_iff using lim by auto
  show "bit (x AND 0xFFFFF000) n \<longleftrightarrow> 12 \<le> n \<and> bit x n"
    unfolding e(5) bit_and_iff bit_push_bit_iff bit_mask_iff using lim by auto
qed

definition pack :: "u32 \<Rightarrow> u32 \<Rightarrow> u32 \<Rightarrow> u32 \<Rightarrow> u32 \<Rightarrow> u32 \<Rightarrow> u32" where
  "pack f7 rs2 rs1 f3 rd op =
     push_bit 25 f7 OR push_bit 20 rs2 OR push_bit 15 rs1 OR push_bit 12 f3 OR push_bit 7 rd OR op"

lemma pack_fields:
  fixes f7 rs2 rs1 f3 rd op :: u32
  assumes "op < 128" and "rd < 32" and "f3 < 8" and "rs1 < 32" and "rs2 < 32" and "f7 < 128"
  shows "opcode_of (pack f7 rs2 rs1 f3 rd op) = ucast op"
    and "rd_of (pack f7 rs2 rs1 f3 rd op) = ucast rd"
    and "funct3_of (pack f7 rs2 rs1 f3 rd op) = ucast f3"
    and "rs1_of (pack f7 rs2 rs1 f3 rd op) = ucast rs1"
    and "rs2_of (pack f7 rs2 rs1 f3 rd op) = ucast rs2"
    and "funct7_of (pack f7 rs2 rs1 f3 rd op) = ucast f7"
proof -
  have t: "op = take_bit 7 op" "rd = take_bit 5 rd" "f3 = take_bit 3 f3" "rs1 = take_bit 5 rs1"
    "rs2 = take_bit 5 rs2" "f7 = take_bit 7 f7"
    using assms by (simp_all add: take_small)
  show "opcode_of (pack f7 rs2 rs1 f3 rd op) = ucast op"
    by (subst (1 2) t(1)) (rule bit_word_eqI, auto simp: pack_def opcode_of_def masks bit_simps)
  show "rd_of (pack f7 rs2 rs1 f3 rd op) = ucast rd"
    by (subst t(1), subst (1 2) t(2)) (rule bit_word_eqI, auto simp: pack_def rd_of_def masks bit_simps)
  show "funct3_of (pack f7 rs2 rs1 f3 rd op) = ucast f3"
    by (subst t(1), subst t(2), subst (1 2) t(3)) (rule bit_word_eqI, auto simp: pack_def funct3_of_def masks bit_simps)
  show "rs1_of (pack f7 rs2 rs1 f3 rd op) = ucast rs1"
    by (subst t(1), subst t(2), subst t(3), subst (1 2) t(4))
       (rule bit_word_eqI, auto simp: pack_def rs1_of_def masks bit_simps)
  show "rs2_of (pack f7 rs2 rs1 f3 rd op) = ucast rs2"
    by (subst t(1), subst t(2), subst t(3), subst t(4), subst (1 2) t(5))
       (rule bit_word_eqI, auto simp: pack_def rs2_of_def masks bit_simps)
  show "funct7_of (pack f7 rs2 rs1 f3 rd op) = ucast f7"
    by (subst t(1), subst t(2), subst t(3), subst t(4), subst t(5), subst (1 2) t(6))
       (rule bit_word_eqI, auto simp: pack_def funct7_of_def masks bit_simps)
qed

subsection \<open>Sign extension\<close>





subsection \<open>The immediate the machine reads back\<close>









lemma at_key_set: "at_key m k = Inr v \<Longrightarrow> (k, v) \<in> set m"
  by (auto simp: at_key_def split: option.splits dest: map_of_SomeD)

lemma tables:
  "\<forall>(s, op, f3) \<in> set I1_type_instruction_encoding_map. op < 128 \<and> f3 < 8 \<and> (op = 0x13 \<or> op = 0x03 \<or> op = 0x67 \<or> s = ''addiw'')"
  "\<forall>(s, op, f3) \<in> set F_D_I_type_instruction_encoding_map. op = 7 \<and> f3 < 8"
  "\<forall>(s, op, f3) \<in> set S_type_instruction_encoding_map. op = 0x23 \<and> f3 < 8"
  "\<forall>(s, op, f3) \<in> set F_D_S_type_instruction_encoding_map. op = 0x27 \<and> f3 < 8"
  "\<forall>(s, op, f3) \<in> set B_type_instruction_encoding_map. op = 0x63 \<and> f3 < 8"
  "\<forall>(s, op) \<in> set U_type_instruction_encoding_map. op = 0x37 \<or> op = 0x17"
  "\<forall>(s, op) \<in> set J_type_instruction_encoding_map. op = 0x6F"
  "\<forall>(s, op, f3, f7) \<in> set R_type_instruction_encoding_map. (op = 0x33 \<or> op = 0x3B) \<and> f3 < 8 \<and> f7 < 128"
  "\<forall>(s, op, f3, f6) \<in> set I2_type_instruction_encoding_map. (op = 0x13 \<or> op = 0x1B) \<and> f3 < 8 \<and> f6 < 64 \<and>
     (op = 0x13 \<or> s = ''slliw'' \<or> s = ''srliw'' \<or> s = ''sraiw'')"
  "\<forall>(s, op, f3) \<in> set CSR_I_type_instruction_encoding_map. op = 0x73 \<and> f3 < 8"
  by (simp_all add: I1_type_instruction_encoding_map_def F_D_I_type_instruction_encoding_map_def
    S_type_instruction_encoding_map_def F_D_S_type_instruction_encoding_map_def B_type_instruction_encoding_map_def
    U_type_instruction_encoding_map_def J_type_instruction_encoding_map_def R_type_instruction_encoding_map_def
    I2_type_instruction_encoding_map_def CSR_I_type_instruction_encoding_map_def)

lemmas valid_defs = isValidRTypeInstruction_def isValidRLTypeInstruction_def isValidSRTypeInstruction_def
  isValidI1TypeInstruction_def isValidI2TypeInstruction_def isValidI3TypeInstruction_def isValidSTypeInstruction_def
  isValidBTypeInstruction_def isValidUTypeInstruction_def isValidJTypeInstruction_def isValidCSRRTypeInstruction_def
  isValidCSRITypeInstruction_def isValidFDRTypeInstruction_def isValidFDR1TypeInstruction_def
  isValidFDR2TypeInstruction_def isValidFDR3TypeInstruction_def isValidFDR4TypeInstruction_def
  isValidFDITypeInstruction_def isValidFDSTypeInstruction_def

text \<open>The position of the format the dispatcher takes, as a number.\<close>

definition format_index :: "string \<Rightarrow> nat" where
  "format_index oc =
     (if isValidRTypeInstruction oc then 0 else if isValidRLTypeInstruction oc then 1
      else if isValidSRTypeInstruction oc then 2 else if isValidI1TypeInstruction oc then 3
      else if isValidI2TypeInstruction oc then 4 else if isValidI3TypeInstruction oc then 5
      else if isValidSTypeInstruction oc then 6 else if isValidBTypeInstruction oc then 7
      else if isValidUTypeInstruction oc then 8 else if isValidJTypeInstruction oc then 9
      else if isValidCSRRTypeInstruction oc then 10 else if isValidCSRITypeInstruction oc then 11
      else if isValidFDRTypeInstruction oc then 12 else if isValidFDR1TypeInstruction oc then 13
      else if isValidFDR2TypeInstruction oc then 14 else if isValidFDR3TypeInstruction oc then 15
      else if isValidFDR4TypeInstruction oc then 16 else if isValidFDITypeInstruction oc then 17
      else if isValidFDSTypeInstruction oc then 18 else 19)"

lemma format_R: "list_all (\<lambda>oc. format_index oc = 0) RTypeInstructions"
  by code_simp

lemma format_RL: "list_all (\<lambda>oc. format_index oc = 1) RLTypeInstructions"
  by code_simp

lemma format_SR: "list_all (\<lambda>oc. format_index oc = 2) SRTypeInstructions"
  by code_simp

lemma format_I1: "list_all (\<lambda>oc. format_index oc = 3) I1TypeInstructions"
  by code_simp

lemma format_I2: "list_all (\<lambda>oc. format_index oc = 4) I2TypeInstructions"
  by code_simp

lemma format_I3: "list_all (\<lambda>oc. format_index oc = 5) I3TypeInstructions"
  by code_simp

lemma format_S: "list_all (\<lambda>oc. format_index oc = 6) STypeInstructions"
  by code_simp

lemma format_B: "list_all (\<lambda>oc. format_index oc = 7) BTypeInstructions"
  by code_simp

lemma format_U: "list_all (\<lambda>oc. format_index oc = 8) UTypeInstructions"
  by code_simp

lemma format_J: "list_all (\<lambda>oc. format_index oc = 9) JTypeInstructions"
  by code_simp

lemma format_CSRR: "list_all (\<lambda>oc. format_index oc = 10) CSRRInstructions"
  by code_simp

lemma format_CSRI: "list_all (\<lambda>oc. format_index oc = 11) CSRIInstructions"
  by code_simp

lemma format_FDR: "list_all (\<lambda>oc. format_index oc = 12) FDExtensionRTypeInstructions"
  by code_simp

lemma format_FDR1: "list_all (\<lambda>oc. format_index oc = 13) FDExtensionR1TypeInstructions"
  by code_simp

lemma format_FDR2: "list_all (\<lambda>oc. format_index oc = 14) FDExtensionR2TypeInstructions"
  by code_simp

lemma format_FDR3: "list_all (\<lambda>oc. format_index oc = 15) FDExtensionR3TypeInstructions"
  by code_simp

lemma format_FDR4: "list_all (\<lambda>oc. format_index oc = 16) FDExtensionR4TypeInstructions"
  by code_simp

lemma format_FDI: "list_all (\<lambda>oc. format_index oc = 17) FDExtensionITypeInstructions"
  by code_simp

lemma format_FDS: "list_all (\<lambda>oc. format_index oc = 18) FDExtensionSTypeInstructions"
  by code_simp

lemma format_of:
  "oc \<in> set RTypeInstructions \<Longrightarrow> format_index oc = 0" "oc \<in> set I1TypeInstructions \<Longrightarrow> format_index oc = 3"
  "oc \<in> set I2TypeInstructions \<Longrightarrow> format_index oc = 4" "oc \<in> set STypeInstructions \<Longrightarrow> format_index oc = 6"
  "oc \<in> set BTypeInstructions \<Longrightarrow> format_index oc = 7" "oc \<in> set UTypeInstructions \<Longrightarrow> format_index oc = 8"
  "oc \<in> set JTypeInstructions \<Longrightarrow> format_index oc = 9" "oc \<in> set FDExtensionITypeInstructions \<Longrightarrow> format_index oc = 17"
  "oc \<in> set FDExtensionSTypeInstructions \<Longrightarrow> format_index oc = 18" "oc \<in> set CSRIInstructions \<Longrightarrow> format_index oc = 11"
  using format_R format_I1 format_I2 format_S format_B format_U format_J format_FDI format_FDS format_CSRI
  by (simp_all only: list_all_iff)

lemma generate_one_index:
  "generate_one b = (let i = format_index (getOpcode b) in
     if i = 0 then generateRTypeMachineCode b
     else if i = 1 then generateRLTypeMachineCode b
     else if i = 2 then generateSRTypeMachineCode b
     else if i = 3 then generateI1TypeMachineCode b
     else if i = 4 then generateI2TypeMachineCode b
     else if i = 5 then generateI3TypeMachineCode b
     else if i = 6 then generateSTypeMachineCode b
     else if i = 7 then generateBTypeMachineCode b
     else if i = 8 then generateUTypeMachineCode b
     else if i = 9 then generateJTypeMachineCode b
     else if i = 10 then generateCSRRTypeMachineCode b
     else if i = 11 then generateCSRITypeMachineCode b
     else if i = 12 then generateFDRTypeMachineCode b
     else if i = 13 then generateFDR1TypeMachineCode b
     else if i = 14 then generateFDR2TypeMachineCode b
     else if i = 15 then generateFDR3TypeMachineCode b
     else if i = 16 then generateFDR4TypeMachineCode b
     else if i = 17 then generateFDITypeMachineCode b
     else if i = 18 then generateFDSTypeMachineCode b
     else Inl RuntimeError)"
  unfolding generate_one_def format_index_def Let_def by (simp split: if_split)

lemma generate_one_format:
  "format_index (getOpcode b) = 0 \<Longrightarrow> generate_one b = generateRTypeMachineCode b"
  "format_index (getOpcode b) = 3 \<Longrightarrow> generate_one b = generateI1TypeMachineCode b"
  "format_index (getOpcode b) = 4 \<Longrightarrow> generate_one b = generateI2TypeMachineCode b"
  "format_index (getOpcode b) = 6 \<Longrightarrow> generate_one b = generateSTypeMachineCode b"
  "format_index (getOpcode b) = 7 \<Longrightarrow> generate_one b = generateBTypeMachineCode b"
  "format_index (getOpcode b) = 8 \<Longrightarrow> generate_one b = generateUTypeMachineCode b"
  "format_index (getOpcode b) = 9 \<Longrightarrow> generate_one b = generateJTypeMachineCode b"
  "format_index (getOpcode b) = 11 \<Longrightarrow> generate_one b = generateCSRITypeMachineCode b"
  "format_index (getOpcode b) = 17 \<Longrightarrow> generate_one b = generateFDITypeMachineCode b"
  "format_index (getOpcode b) = 18 \<Longrightarrow> generate_one b = generateFDSTypeMachineCode b"
  by (simp_all add: generate_one_index)

text \<open>A unit whose registers, where it names them, are numbered below 32.\<close>

definition register_ok :: "string \<Rightarrow> bool" where
  "register_ok r = (case extractRegisterIndex r of Inl e \<Rightarrow> True | Inr x \<Rightarrow> x < 32)"

definition registers_ok :: "ICUnit \<Rightarrow> bool" where
  "registers_ok b \<longleftrightarrow> register_ok (getRd b) \<and> register_ok (getRs1 b) \<and> register_ok (getRs2 b)"




lemma imm_word_eq: "stoi (getImm b) = Inr k \<Longrightarrow> imm_word b = Inr (word_of_int k)"
  by (simp add: imm_word_def)

lemma field_5: "x < 32 \<Longrightarrow> x = take_bit 5 (x :: u32)"
  by (simp add: take_small)

lemma field_of_nat: "n < 2 ^ j \<Longrightarrow> j < 32 \<Longrightarrow> (of_nat n :: u32) = take_bit j (of_nat n)"
  by (simp add: take_bit_of_nat take_bit_nat_eq_self flip: of_nat_take_bit)


lemma opcode_or: "take_bit 7 x = 0 \<Longrightarrow> opcode_of (x OR y) = opcode_of y"
proof -
  assume "take_bit 7 x = 0"
  then have "take_bit 7 (x OR y) = take_bit 7 y" by (simp add: take_bit_or)
  then show ?thesis by (simp only: opcode_of_def masks)
qed

lemma above_7: "7 \<le> n \<Longrightarrow> take_bit 7 (push_bit n x) = (0 :: u32)" "take_bit 7 (push_bit 0 (x AND 0xFF000)) = (0 :: u32)"
  by (rule bit_word_eqI, auto simp: bit_simps AND_singles)+

lemma opcode_of_nat: "op < 128 \<Longrightarrow> opcode_of (of_nat op) = of_nat op"
  proof -
  assume op: "op < 128"
  then have "(of_nat op :: u32) = take_bit 7 (of_nat op)" by (intro field_of_nat) auto
  then have "opcode_of (of_nat op) = ucast (of_nat op :: u32)" by (simp add: opcode_of_def masks)
  also have "\<dots> = of_nat op" using op by (simp add: unsigned_of_nat take_bit_nat_eq_self)
  finally show ?thesis .
qed











lemma registers_below:
  assumes "registers_ok b"
  shows "extractRegisterIndex (getRd b) = Inr x \<Longrightarrow> x < 32" "extractRegisterIndex (getRs1 b) = Inr x \<Longrightarrow> x < 32"
    "extractRegisterIndex (getRs2 b) = Inr x \<Longrightarrow> x < 32"
  using assms by (simp_all add: registers_ok_def register_ok_def)













lemma generateMachineCode_nth:
  "generateMachineCode ic = Inr ws \<Longrightarrow> length ws = length ic \<and> (\<forall>i < length ic. generate_one (fst (ic ! i)) = Inr (ws ! i))"
proof (induction ic arbitrary: ws)
  case (Cons p ps)
  then obtain x xs where e: "generate_one (fst p) = Inr x" "generateMachineCode ps = Inr xs" "ws = x # xs" by auto
  show ?case using Cons.IH [OF e(2)] e by (auto simp: nth_Cons split: nat.splits)
qed simp








text \<open>The upper seven bits of a shift are its six-bit function code and the sixth bit of its amount.\<close>

lemma fields_of_I2:
  assumes "w = push_bit 26 (of_nat f6) OR push_bit 20 imm OR push_bit 15 rs1 OR push_bit 12 (of_nat f3) OR push_bit 7 rd OR of_nat op"
    and "op = 0x13" and "f3 < 8" and "rs1 < 32" and "rd < 32" and "imm < 64"
  shows "opcode_of w = 0x13" and "funct3_of w = of_nat f3" and "funct7_of w = ucast (drop_bit 5 imm OR push_bit 1 (of_nat f6)) AND 0x7F"
proof -
  show "opcode_of w = 0x13" using opcode_of_nat [of 19] by (simp add: assms(1,2) opcode_or above_7)
  have t: "imm = take_bit 6 imm" using assms(6) by (simp add: take_small)
  have w: "w = push_bit 26 (of_nat f6) OR push_bit 20 (take_bit 6 imm) OR push_bit 15 (take_bit 5 rs1) OR
      push_bit 12 (take_bit 3 (of_nat f3)) OR push_bit 7 (take_bit 5 rd) OR take_bit 7 (of_nat op)"
    using assms(1-6) by (simp flip: field_5 field_of_nat t)
  have "funct3_of w = ucast (take_bit 3 (of_nat f3 :: u32))"
    unfolding w funct3_of_def masks by (rule bit_word_eqI) (auto simp: bit_simps)
  also have "\<dots> = of_nat f3"
    using assms(3) by (simp add: take_bit_of_nat take_bit_nat_eq_self unsigned_of_nat flip: of_nat_take_bit)
  finally show "funct3_of w = of_nat f3" .
  show "funct7_of w = ucast (drop_bit 5 imm OR push_bit 1 (of_nat f6)) AND 0x7F"
    unfolding w funct7_of_def masks
    by (rule bit_word_eqI, subst (2) t)
      (simp only: bit_or_iff bit_push_bit_iff bit_drop_bit_eq o_apply bit_take_bit_iff bit_unsigned_iff, auto simp: ac_simps)
qed

text \<open>
  C15. A right shift by an immediate selects the operation its mnemonic names only for amounts below 32: the
  sixth bit of the amount lies in the function code the machine dispatches on, so \<open>srli\<close> and \<open>srai\<close> by 32
  to 63 select \<open>kNone\<close> instead, the operation that computes zero.
\<close>

theorem assembled_right_shift_selects:
  assumes "generateMachineCode ic = Inr ws" and "i < length ic" and "b = fst (ic ! i)"
    and "registers_ok b" and "stoi (getImm b) = Inr k" and "0 \<le> k" and "k < 64"
    and "getOpcode b = ''srli'' \<or> getOpcode b = ''srai''"
  shows "GetAluSignal (ws ! i) aluop =
    IntOp (if 32 \<le> k then kNone else if getOpcode b = ''srli'' then kSrl else kSra)"
proof -
  have one: "generate_one b = Inr (ws ! i)" using generateMachineCode_nth [OF assms(1)] assms(2,3) by blast
  have v: "isValidI2TypeInstruction (getOpcode b)" using assms(8) by (auto simp: valid_defs I2TypeInstructions_def)
  then have "generateI2TypeMachineCode b = Inr (ws ! i)"
    using one by (simp add: generate_one_format format_of valid_defs)
  then obtain op f3 f6 rd rs1 where e: "at_key I2_type_instruction_encoding_map (getOpcode b) = Inr (op, f3, f6)"
    "extractRegisterIndex (getRd b) = Inr rd" "extractRegisterIndex (getRs1 b) = Inr rs1"
    "ws ! i = push_bit 26 (of_nat f6) OR push_bit 20 (word_of_int k) OR push_bit 15 rs1 OR push_bit 12 (of_nat f3) OR push_bit 7 rd OR of_nat op"
    unfolding generateI2TypeMachineCode_def imm_word_eq [OF assms(5)] by (auto split: prod.splits)
  have t: "op = 0x13" "f3 = 5" "f6 = (if getOpcode b = ''srli'' then 0 else 16)"
    using e(1) assms(8) by (auto simp: at_key_def I2_type_instruction_encoding_map_def)
  define m where "m = (word_of_int k :: u32)"
  have m: "m < 64" "uint m = k" using assms(6,7) by (simp_all add: m_def word_less_def uint_word_of_int)
  have "uint (drop_bit 5 m) = k div 32" using m(2) by (simp add: uint_drop_bit_div)
  moreover have "k div 32 = (if 32 \<le> k then 1 else 0)" using assms(6,7) by auto
  ultimately have d: "drop_bit 5 m = (if 32 \<le> k then 1 else 0)"
    by (intro word_uint_eqI) (simp split: if_split)
  have f: "opcode_of (ws ! i) = 0x13" "funct3_of (ws ! i) = 5"
    "funct7_of (ws ! i) = ucast (drop_bit 5 m OR push_bit 1 (of_nat f6)) AND 0x7F"
    using fields_of_I2 [OF e(4) [folded m_def] t(1) _ _ _ m(1)] registers_below [OF assms(4)] e(2,3) t(2) by simp_all
  show ?thesis unfolding GetAluSignal_def Let_def f(1,2) signal_I_def f(3) d t(3)
    using assms(8) by (cases "32 \<le> k") (elim disjE; simp)+
qed

definition sample_srli :: ICUnit where
  "sample_srli = setImm ''32'' (setRs1 ''x6'' (setRd ''x5'' (setOpcode ''srli'' new_ICUnit)))"

lemma sample_srli_word: "generateMachineCode [(sample_srli, True)] = Inr [0x02035293]"
  by code_simp

lemma sample_srli_ok: "registers_ok sample_srli" "stoi (getImm sample_srli) = Inr 32"
    "getOpcode sample_srli = ''srli'' \<or> getOpcode sample_srli = ''srai''"
  by code_simp+

theorem assembled_right_shift_selects_witness: "GetAluSignal 0x02035293 True = IntOp kNone"
  using assembled_right_shift_selects [OF sample_srli_word _ _ sample_srli_ok(1,2) _ _ sample_srli_ok(3), of 0 True] by simp

subsection \<open>Register instructions\<close>

text \<open>The operation each mnemonic names.\<close>

definition named_operation :: "(string \<times> IntOp) list" where
  "named_operation = [
   (''add'', kAdd), (''sub'', kSub), (''and'', kAnd), (''or'', kOr), (''xor'', kXor), (''sll'', kSll),
   (''srl'', kSrl), (''sra'', kSra), (''slt'', kSlt), (''sltu'', kSltu), (''addw'', kAddw), (''subw'', kSubw),
   (''sllw'', kSllw), (''srlw'', kSrlw), (''sraw'', kSraw), (''mul'', kMul), (''mulh'', kMulh),
   (''mulhsu'', kMulhsu), (''mulhu'', kMulhu), (''div'', kDiv), (''divu'', kDivu), (''rem'', kRem),
   (''remu'', kRemu), (''mulw'', kMulw), (''divw'', kDivw), (''divuw'', kDivuw), (''remw'', kRemw), (''remuw'', kRemuw)]"

definition op_of_fields :: "u8 \<Rightarrow> u8 \<Rightarrow> u8 \<Rightarrow> AluOp" where
  "op_of_fields op f3 f7 = (if op = 0x33 then IntOp (signal_R f3 f7) else IntOp (signal_W f3 f7))"

lemma table_operations:
  "list_all (\<lambda>(s, op, f3, f7). map_of named_operation s = Some (if op = 51 then signal_R (of_nat f3) (of_nat f7) else signal_W (of_nat f3) (of_nat f7)))
     R_type_instruction_encoding_map"
  by code_simp


lemma R_word_fields:
  assumes "generateRTypeMachineCode b = Inr w" and "registers_ok b"
  obtains op f3 f7 rd rs1 rs2 where "(getOpcode b, op, f3, f7) \<in> set R_type_instruction_encoding_map"
    and "extractRegisterIndex (getRd b) = Inr rd" "extractRegisterIndex (getRs1 b) = Inr rs1" "extractRegisterIndex (getRs2 b) = Inr rs2"
    and "opcode_of w = of_nat op" "funct3_of w = of_nat f3" "funct7_of w = of_nat f7"
    and "rd_of w = ucast rd" "rs1_of w = ucast rs1" "rs2_of w = ucast rs2"
proof -
  obtain op f3 f7 rd rs1 rs2 where e: "at_key R_type_instruction_encoding_map (getOpcode b) = Inr (op, f3, f7)"
    "extractRegisterIndex (getRd b) = Inr rd" "extractRegisterIndex (getRs1 b) = Inr rs1" "extractRegisterIndex (getRs2 b) = Inr rs2"
    "w = pack (of_nat f7) rs2 rs1 (of_nat f3) rd (of_nat op)"
    using assms(1) unfolding generateRTypeMachineCode_def pack_def by (auto split: prod.splits)
  have t: "(getOpcode b, op, f3, f7) \<in> set R_type_instruction_encoding_map" by (rule at_key_set [OF e(1)])
  then have "op = 0x33 \<or> op = 0x3B" "f3 < 8" "f7 < 128" using tables(8) by fastforce+
  then have s: "(of_nat op :: u32) < 128" "(of_nat f3 :: u32) < 8" "(of_nat f7 :: u32) < 128" "op < 128"
    by (auto simp: word_less_nat_alt unat_of_nat)
  note f = pack_fields [OF s(1) registers_below(1) [OF assms(2) e(2)] s(2) registers_below(2) [OF assms(2) e(3)]
      registers_below(3) [OF assms(2) e(4)] s(3), folded e(5)]
  have c: "n < 128 \<Longrightarrow> (ucast (of_nat n :: u32) :: u8) = of_nat n" for n
    by (simp add: unsigned_of_nat take_bit_nat_eq_self)
  show ?thesis
    by (rule that [OF t e(2-4)]) (use f c \<open>f3 < 8\<close> \<open>f7 < 128\<close> s(4) in simp_all)
qed

lemma register_word:
  assumes "generate_one b = Inr w" and "registers_ok b" and "isValidRTypeInstruction (getOpcode b)"
  shows "map_of named_operation (getOpcode b) = (case GetAluSignal w aluop of IntOp x \<Rightarrow> Some x | _ \<Rightarrow> None) \<and>
     map_sum id ucast (extractRegisterIndex (getRd b)) = Inr (rd_of w) \<and>
     map_sum id ucast (extractRegisterIndex (getRs1 b)) = Inr (rs1_of w) \<and>
     map_sum id ucast (extractRegisterIndex (getRs2 b)) = Inr (rs2_of w)"
    and "\<exists>op f3 f7. (getOpcode b, op, f3, f7) \<in> set R_type_instruction_encoding_map \<and> opcode_of w = of_nat op"
proof -
  have "generateRTypeMachineCode b = Inr w"
    using assms(1,3) by (simp add: generate_one_format format_of valid_defs)
  then obtain op f3 f7 rd rs1 rs2 where e: "(getOpcode b, op, f3, f7) \<in> set R_type_instruction_encoding_map"
    "extractRegisterIndex (getRd b) = Inr rd" "extractRegisterIndex (getRs1 b) = Inr rs1" "extractRegisterIndex (getRs2 b) = Inr rs2"
    "opcode_of w = of_nat op" "funct3_of w = of_nat f3" "funct7_of w = of_nat f7"
    "rd_of w = ucast rd" "rs1_of w = ucast rs1" "rs2_of w = ucast rs2"
    using assms(2) by (rule R_word_fields)
  have "op = 51 \<or> op = 59" "map_of named_operation (getOpcode b) =
      Some (if op = 51 then signal_R (of_nat f3) (of_nat f7) else signal_W (of_nat f3) (of_nat f7))"
    using e(1) table_operations tables(8) unfolding list_all_iff by fastforce+
  then have "map_of named_operation (getOpcode b) = (case GetAluSignal w aluop of IntOp x \<Rightarrow> Some x | _ \<Rightarrow> None)"
    by (auto simp: GetAluSignal_def Let_def e)
  then show "map_of named_operation (getOpcode b) = (case GetAluSignal w aluop of IntOp x \<Rightarrow> Some x | _ \<Rightarrow> None) \<and>
     map_sum id ucast (extractRegisterIndex (getRd b)) = Inr (rd_of w) \<and>
     map_sum id ucast (extractRegisterIndex (getRs1 b)) = Inr (rs1_of w) \<and>
     map_sum id ucast (extractRegisterIndex (getRs2 b)) = Inr (rs2_of w)" by (simp add: e)
  show "\<exists>op f3 f7. (getOpcode b, op, f3, f7) \<in> set R_type_instruction_encoding_map \<and> opcode_of w = of_nat op"
    using e(1,5) by blast
qed

text \<open>
  C13. The word assembled from a register instruction holds its three registers in the fields the
  machine decodes, and selects the operation of the ALU that its mnemonic names.
\<close>

theorem assembled_register_instruction:
  assumes "generateMachineCode ic = Inr ws" and "i < length ic" and "b = fst (ic ! i)"
    and "registers_ok b" and "isValidRTypeInstruction (getOpcode b)" and "w = ws ! i"
  shows "map_of named_operation (getOpcode b) = (case GetAluSignal w aluop of IntOp x \<Rightarrow> Some x | _ \<Rightarrow> None) \<and>
     map_sum id ucast (extractRegisterIndex (getRd b)) = Inr (rd_of w) \<and>
     map_sum id ucast (extractRegisterIndex (getRs1 b)) = Inr (rs1_of w) \<and>
     map_sum id ucast (extractRegisterIndex (getRs2 b)) = Inr (rs2_of w)"
  using generateMachineCode_nth [OF assms(1)] assms(2-6) register_word(1) [of b w aluop] by blast

definition sample_divuw :: ICUnit where
  "sample_divuw = setRs2 ''x7'' (setRs1 ''x6'' (setRd ''x5'' (setOpcode ''divuw'' new_ICUnit)))"

lemma sample_divuw_word: "generateMachineCode [(sample_divuw, True)] = Inr [0x027352BB]"
  by code_simp

lemma sample_divuw_ok: "registers_ok sample_divuw" "isValidRTypeInstruction (getOpcode sample_divuw)"
  "map_of named_operation (getOpcode sample_divuw) = Some kDivuw"
  by code_simp+

theorem assembled_register_instruction_witness: "GetAluSignal 0x027352BB True = IntOp kDivuw"
  using assembled_register_instruction [OF sample_divuw_word _ _ sample_divuw_ok(1,2), of 0 _ True] sample_divuw_ok(3)
  by (simp split: AluOp.splits)

end
