(* ===== verification/RvssEffects.thy ===== *)
theory RvssEffects
  imports RvssBigmul Encoding
begin

text \<open>
  The effect of one instruction of \<open>RVSSVM::Run\<close> and \<open>RVSSVM::Step\<close> on registers, memory and
  program counter, for the arithmetic instructions and the word instructions.
\<close>

definition gpr_updated :: "RegisterFile \<Rightarrow> nat \<Rightarrow> u64 \<Rightarrow> RegisterFile" where
  "gpr_updated rf i x = (if i = 0 then rf else rf\<lparr>gpr := (gpr rf)(i := x)\<rparr>)"

lemma write_gpr_updated: "i < NUM_GPR \<Longrightarrow> write_gpr i x v = Inr (v\<lparr>registers := gpr_updated (registers v) i x\<rparr>)"
  by (simp add: write_gpr_def WriteGpr_def gpr_updated_def)

text \<open>The machine after fetching and decoding \<open>w\<close>.\<close>

definition decoded :: "u32 \<Rightarrow> RVSSVM \<Rightarrow> RVSSVM" where
  "decoded w v = v\<lparr>current_instruction := w, program_counter := program_counter v + 4,
     control_unit := SetControlSignals (control_unit v) w\<rparr>"

lemma Fetch_Decode:
  assumes "ReadWord (memory v) (program_counter v) = Inr w" and "recordable w"
  shows "bindr (Fetch v) Decode = Inr (decoded w v)"
  using assms Decode_recordable [of "UpdateProgramCounter 4 (v\<lparr>current_instruction := w\<rparr>)"]
  by (simp add: Fetch_def decoded_def UpdateProgramCounter_def)

lemma instruction_decoded:
  assumes "ReadWord (memory v) (program_counter v) = Inr w" and "recordable w"
  shows "instruction H v = bindr (Execute H (decoded w v)) (\<lambda>v. bindr (WriteMemory v) (\<lambda>v. bindr (WriteBack v) (\<lambda>v.
       Inr (count_cycle (v\<lparr>instructions_retired := instructions_retired v + 1\<rparr>)))))"
proof -
  have "instruction H v = bindr (bindr (Fetch v) Decode) (\<lambda>v. bindr (Execute H v) (\<lambda>v. bindr (WriteMemory v) (\<lambda>v. bindr (WriteBack v) (\<lambda>v.
       Inr (count_cycle (v\<lparr>instructions_retired := instructions_retired v + 1\<rparr>))))))"
    by (simp add: instruction_def bindr_assoc)
  then show ?thesis by (simp only: Fetch_Decode [OF assms] bindr_simps)
qed

text \<open>The opcodes whose words go through the integer path and touch no memory.\<close>

lemma arithmetic_recordable:
  assumes "opcode_of w \<in> {0x33, 0x13, 0x3B, 0x1B}"
  shows "recordable w" "\<not> isFInstruction w" "\<not> isDInstruction w"
  using assms by (auto simp: recordable_def isFInstruction_def isDInstruction_def Let_def)

lemma Execute_integer:
  assumes "opcode_of (current_instruction v) \<in> {0x33, 0x13, 0x3B, 0x1B}"
  shows "Execute H v = ExecuteInteger v"
proof -
  have "uint (opcode_of (current_instruction v)) \<noteq> opcode (get_instr_encoding ''kecall'')"
    and "opcode_of (current_instruction v) \<noteq> 0x73"
    using assms by (auto simp: word_uint_eq_iff)
  then show ?thesis using arithmetic_recordable [OF assms] by (simp add: Execute_def Let_def)
qed

lemma after_alu_id:
  assumes "opcode_of (current_instruction v) \<in> {0x33, 0x13, 0x3B, 0x1B}" and "\<not> branch (control_unit v)"
  shows "after_alu imm v = v"
proof -
  have "uint (opcode_of (current_instruction v)) \<noteq> opcode (get_instr_encoding ''kauipc'')"
    and "opcode_of (current_instruction v) \<noteq> 0x63"
    using assms by (auto simp: word_uint_eq_iff)
  then show ?thesis using assms(2) by (simp add: after_alu_def Let_def word_uint_eq_iff)
qed

lemma arithmetic_signals:
  assumes "opcode_of w \<in> {0x33, 0x13, 0x3B, 0x1B}"
  shows "branch (SetControlSignals c w) = False" "mem_read (SetControlSignals c w) = False"
    "mem_write (SetControlSignals c w) = False"
    "reg_write (SetControlSignals c w) \<longleftrightarrow> opcode_of w \<in> {0x33, 0x13}"
    "alu_src (SetControlSignals c w) \<longleftrightarrow> opcode_of w = 0x13"
    "opcode_of w \<in> {0x33, 0x13} \<Longrightarrow> alu_op (SetControlSignals c w)"
  using assms by (auto simp: SetControlSignals_def Let_def)

lemma WriteMemory_arithmetic:
  assumes "opcode_of (current_instruction v) \<in> {0x33, 0x13, 0x3B, 0x1B}"
    and "control_unit v = SetControlSignals c (current_instruction v)"
  shows "WriteMemory v = Inr v"
proof -
  have "opcode_of (current_instruction v) \<noteq> 0x73" using assms(1) by auto
  then show ?thesis
    using arithmetic_recordable [OF assms(1)] arithmetic_signals [OF assms(1), of c]
      SetControlSignals_no_custom [of "current_instruction v" c] assms(2)
    by (simp add: WriteMemory_def Let_def)
qed

lemma WriteBack_arithmetic:
  assumes "opcode_of (current_instruction v) \<in> {0x33, 0x13, 0x3B, 0x1B}"
  shows "WriteBack v = WriteBackInteger v"
proof -
  have "uint (opcode_of (current_instruction v)) \<noteq> opcode (get_instr_encoding ''kecall'')"
    and "opcode_of (current_instruction v) \<noteq> 0x73"
    using assms by (auto simp: word_uint_eq_iff)
  then show ?thesis using arithmetic_recordable [OF assms] by (simp add: WriteBack_def Let_def)
qed

lemma reg_write_value_arithmetic:
  assumes "opcode_of (current_instruction v) \<in> {0x33, 0x13, 0x3B, 0x1B}"
    and "control_unit v = SetControlSignals c (current_instruction v)"
  shows "reg_write_value v = (if opcode_of (current_instruction v) \<in> {0x33, 0x13} then Some (execution_result v) else None)"
proof -
  have "opcode_of (current_instruction v) \<in> {0x33, 0x13} \<Longrightarrow> uint (opcode_of (current_instruction v)) = opcode (get_instr_encoding ''kRtype'') \<or>
      uint (opcode_of (current_instruction v)) = opcode (get_instr_encoding ''kItype'')"
    by auto
  then show ?thesis using arithmetic_signals(4) [OF assms(1), of c] assms(2)
    by (simp add: reg_write_value_def Let_def)
qed

definition operand2 :: "RVSSVM \<Rightarrow> u32 \<Rightarrow> u64" where
  "operand2 v w = (if opcode_of w = 0x13 then scast (ImmGenerator w) else reg_val v (unat (rs2_of w)))"

lemma Execute_arithmetic:
  assumes "opcode_of w \<in> {0x33, 0x13, 0x3B, 0x1B}" and "Execute H (decoded w v) = Inr v'"
  obtains r ov where
    "execute (GetAluSignal w (alu_op (SetControlSignals (control_unit v) w))) (reg_val v (unat (rs1_of w))) (operand2 v w) = Inr (r, ov)"
    and "v' = (decoded w v)\<lparr>execution_result := r\<rparr>"
proof -
  have d: "current_instruction (decoded w v) = w" "control_unit (decoded w v) = SetControlSignals (control_unit v) w"
    "reg_val (decoded w v) = reg_val v"
    by (simp_all add: decoded_def reg_val_def fun_eq_iff)
  note s = arithmetic_signals [OF assms(1)]
  have "ExecuteInteger (decoded w v) = Inr v'"
    using assms(2) Execute_integer [of "decoded w v" H] d(1) assms(1) by simp
  then obtain u where u: "run_alu (reg_val v (unat (rs1_of w))) (operand2 v w) (decoded w v) = Inr u"
    "v' = after_alu (scast (ImmGenerator w)) u"
    unfolding ExecuteInteger_eq Let_def d read_gpr_val [OF register_fields(1)] read_gpr_val [OF register_fields(2)] bindr_simps
      s(5) operand2_def
    by (auto simp: bindr_Inr_iff)
  from u(1) obtain r ov where
    r: "execute (GetAluSignal w (alu_op (SetControlSignals (control_unit v) w))) (reg_val v (unat (rs1_of w))) (operand2 v w) = Inr (r, ov)"
    "u = (decoded w v)\<lparr>execution_result := r\<rparr>"
    by (auto simp: run_alu_def Let_def d bindr_Inr_iff)
  have "after_alu (scast (ImmGenerator w)) u = u"
    by (rule after_alu_id) (use assms(1) s(1) d r(2) in simp_all)
  with u(2) r that show ?thesis by simp
qed

lemma WriteBackInteger_arithmetic:
  assumes "opcode_of (current_instruction v) \<in> {0x33, 0x13, 0x3B, 0x1B}"
    and "control_unit v = SetControlSignals c (current_instruction v)" and "WriteBackInteger v = Inr v'"
  shows "registers v' = (if opcode_of (current_instruction v) \<in> {0x33, 0x13}
      then gpr_updated (registers v) (unat (rd_of (current_instruction v))) (execution_result v) else registers v) \<and>
    memory v' = memory v \<and> program_counter v' = program_counter v"
proof (cases "opcode_of (current_instruction v) \<in> {0x33, 0x13}")
  case True
  let ?i = "unat (rd_of (current_instruction v))" and ?x = "execution_result v"
  have "reg_write_value v = Some ?x" using reg_write_value_arithmetic [OF assms(1,2)] True by simp
  then have "v' = v\<lparr>registers := gpr_updated (registers v) ?i ?x\<rparr> \<or>
      (\<exists>c. v' = push_reg_change c (v\<lparr>registers := gpr_updated (registers v) ?i ?x\<rparr>))"
    using assms(3) register_fields(3) [of "current_instruction v"]
    unfolding WriteBackInteger_def Let_def by (simp add: write_gpr_updated bindr_Inr_iff) metis
  with True show ?thesis by (elim disjE exE) (simp_all add: push_reg_change_def)
next
  case False
  then have "reg_write_value v = None" using reg_write_value_arithmetic [OF assms(1,2)] by simp
  then have "v' = v" using assms(3) by (auto simp: WriteBackInteger_def Let_def bindr_Inr_iff)
  with False show ?thesis by simp
qed

lemma instruction_arithmetic:
  assumes w: "ReadWord (memory v) (program_counter v) = Inr w" and op: "opcode_of w \<in> {0x33, 0x13, 0x3B, 0x1B}"
    and i: "instruction H v = Inr v'"
  obtains r ov where
    "execute (GetAluSignal w (alu_op (SetControlSignals (control_unit v) w))) (reg_val v (unat (rs1_of w))) (operand2 v w) = Inr (r, ov)"
    "registers v' = (if opcode_of w \<in> {0x33, 0x13} then gpr_updated (registers v) (unat (rd_of w)) r else registers v)"
    "memory v' = memory v" "program_counter v' = program_counter v + 4"
proof -
  obtain v1 v2 v3 where e: "Execute H (decoded w v) = Inr v1" "WriteMemory v1 = Inr v2" "WriteBack v2 = Inr v3"
    "v' = count_cycle (v3\<lparr>instructions_retired := instructions_retired v3 + 1\<rparr>)"
    using i instruction_decoded [OF w arithmetic_recordable(1) [OF op]] by (auto simp: bindr_Inr_iff)
  from Execute_arithmetic [OF op e(1)] obtain r ov where
    r: "execute (GetAluSignal w (alu_op (SetControlSignals (control_unit v) w))) (reg_val v (unat (rs1_of w))) (operand2 v w) = Inr (r, ov)"
    "v1 = (decoded w v)\<lparr>execution_result := r\<rparr>" .
  have d: "current_instruction v1 = w" "control_unit v1 = SetControlSignals (control_unit v) (current_instruction v1)"
    "registers v1 = registers v" "memory v1 = memory v" "program_counter v1 = program_counter v + 4" "execution_result v1 = r"
    by (simp_all add: r(2) decoded_def)
  have op1: "opcode_of (current_instruction v1) \<in> {0x33, 0x13, 0x3B, 0x1B}" using op d(1) by simp
  have "v2 = v1" using WriteMemory_arithmetic [OF op1 d(2)] e(2) by simp
  with e(3) have "WriteBackInteger v1 = Inr v3" using WriteBack_arithmetic [OF op1] by simp
  from WriteBackInteger_arithmetic [OF op1 d(2) this] show ?thesis
    by (intro that [OF r(1)]) (simp_all add: d e(4) count_cycle_def)
qed

lemma arithmetic_effect:
  assumes "ReadWord (memory v) (program_counter v) = Inr w" and "opcode_of w \<in> {0x33, 0x13}"
    and "instruction H v = Inr v'"
  shows "\<exists>r ov. execute (GetAluSignal w True) (reg_val v (unat (rs1_of w))) (operand2 v w) = Inr (r, ov) \<and>
    registers v' = gpr_updated (registers v) (unat (rd_of w)) r \<and>
    memory v' = memory v \<and> program_counter v' = program_counter v + 4"
proof -
  have op: "opcode_of w \<in> {0x33, 0x13, 0x3B, 0x1B}" using assms(2) by blast
  show ?thesis
    by (rule instruction_arithmetic [OF assms(1) op assms(3)])
      (use assms(2) arithmetic_signals(6) [OF op assms(2), of "control_unit v"] in simp)
qed

text \<open>
  C12. Executing an arithmetic instruction (opcode 0x33 or 0x13) writes to its destination the result
  of the selected operation on its first register and its second register or sign-extended
  immediate, leaves register zero, every other register and memory alone, and moves to the next word.
\<close>

theorem arithmetic_instruction_effect:
  assumes "ReadWord (memory v) (program_counter v) = Inr w" and "opcode_of w \<in> {0x33, 0x13}"
    and "instruction H v = Inr v'"
  shows "map_sum id (\<lambda>(r, ov). gpr_updated (registers v) (unat (rd_of w)) r)
       (execute (GetAluSignal w True) (reg_val v (unat (rs1_of w))) (operand2 v w)) = Inr (registers v') \<and>
     memory v' = memory v \<and> program_counter v' = program_counter v + 4"
  using arithmetic_effect [OF assms] by auto

text \<open>
  C14. The instructions on words (\<open>addw\<close>, \<open>subw\<close>, \<open>mulw\<close>, \<open>addiw\<close>, \<open>slliw\<close> and the others with opcode
  0x3B or 0x1B) have no effect: no control signal is set for them, so the result of the ALU is
  computed and dropped.
\<close>

theorem word_instruction_no_effect:
  assumes "ReadWord (memory v) (program_counter v) = Inr w" and "opcode_of w \<in> {0x3B, 0x1B}"
    and "instruction H v = Inr v'"
  shows "registers v' = registers v \<and> memory v' = memory v \<and> program_counter v' = program_counter v + 4"
proof -
  have op: "opcode_of w \<in> {0x33, 0x13, 0x3B, 0x1B}" using assms(2) by blast
  have "opcode_of w \<notin> {0x33, 0x13}" using assms(2) by auto
  then show ?thesis using instruction_arithmetic [OF assms(1) op assms(3)] by metis
qed

theorem arithmetic_instruction_effect_witness:
  "\<forall>H. \<exists>v'. instruction H (one_instruction 0x00500093) = Inr v' \<and> gpr (registers v') 1 = 5"
proof
  fix H
  let ?v = "one_instruction 0x00500093"
  have "\<exists>v'. instruction H ?v = Inr v'" by (simp add: vm_eval one_word)
  then obtain v' where v': "instruction H ?v = Inr v'" ..
  have "opcode_of 0x00500093 \<in> {0x33, 0x13}" by (simp add: opcode_of_def)
  from arithmetic_instruction_effect [OF _ this v'] have "gpr (registers v') 1 = 5"
    by (simp add: one_word vm_eval operand2_def reg_val_def gpr_updated_def) (elim conjE, drule sym, simp)
  with v' show "\<exists>v'. instruction H ?v = Inr v' \<and> gpr (registers v') 1 = 5" by blast
qed

text \<open>\<open>0x0010809B\<close> is \<open>addiw x1, x1, 1\<close>.\<close>

theorem word_instruction_no_effect_witness:
  "\<forall>H. \<exists>v'. instruction H (one_instruction 0x0010809B) = Inr v' \<and> registers v' = new_RegisterFile"
proof
  fix H
  let ?v = "one_instruction 0x0010809B"
  have "\<exists>v'. instruction H ?v = Inr v'" by (simp add: vm_eval one_word signal_IW_def)
  then obtain v' where v': "instruction H ?v = Inr v'" ..
  have "opcode_of 0x0010809B \<in> {0x3B, 0x1B}" by (simp add: opcode_of_def)
  from word_instruction_no_effect [OF _ this v'] have "registers v' = new_RegisterFile" by (simp add: one_word)
  with v' show "\<exists>v'. instruction H ?v = Inr v' \<and> registers v' = new_RegisterFile" by blast
qed

end
