(* ===== verification/RvssLoad.thy ===== *)
theory RvssLoad
  imports RvssEffects
begin

text \<open>
  Loading a program (src/vm/vm_base.cpp, \<open>VmBase::LoadProgram\<close>) and running what was assembled:
  the words of the text are read back after the data has been written, and the instruction the
  machine fetches there does what its mnemonic says.
\<close>

subsection \<open>What a load keeps\<close>

text \<open>\<open>load_keeps v v' bound\<close>: only memory changed, it is still well formed, and below \<open>bound\<close> it is the same.\<close>

definition load_keeps :: "'a VmBase_scheme \<Rightarrow> 'a VmBase_scheme \<Rightarrow> nat \<Rightarrow> bool" where
  "load_keeps v v' bound \<longleftrightarrow> (\<exists>m'. v' = v\<lparr>memory := m'\<rparr> \<and> wf_memory (memory_block_size (vm_config v)) m' \<and>
     mem_size m' = mem_size (memory v) \<and> (\<forall>y. unat y < bound \<longrightarrow> bytes m' y = bytes (memory v) y))"

lemma load_keeps_refl: "wf_memory (memory_block_size (vm_config v)) (memory v) \<Longrightarrow> load_keeps v v bound"
  by (auto simp: load_keeps_def intro: exI [of _ "memory v"])

lemma load_keeps_wf: "load_keeps v v' bound \<Longrightarrow> wf_memory (memory_block_size (vm_config v')) (memory v')"
  by (auto simp: load_keeps_def)

lemma load_keeps_trans: "load_keeps v u bound \<Longrightarrow> load_keeps u w bound' \<Longrightarrow> bound \<le> bound' \<Longrightarrow> load_keeps v w bound"
  by (auto simp: load_keeps_def)

lemma away:
  fixes y a :: u64
  assumes "unat y < unat a" and "unat a + n \<le> 2 ^ 64"
  shows "\<not> unat (y - a) < n"
proof -
  have "unat (y - a) = 2 ^ 64 + unat y - unat a"
    using assms by (simp add: unat_sub_if_size word_size)
  with assms show ?thesis by simp
qed

lemma store_keeps:
  assumes "\<exists>m'. v' = v\<lparr>memory := m'\<rparr> \<and> store_frame (memory_block_size (vm_config v)) (memory v) a n m'"
    and "bound \<le> unat a" and "unat a + n \<le> 2 ^ 64"
  shows "load_keeps v v' bound"
proof -
  from assms(1) obtain m' where m: "v' = v\<lparr>memory := m'\<rparr>"
    "store_frame (memory_block_size (vm_config v)) (memory v) a n m'" by blast
  have "bytes m' y = bytes (memory v) y" if "unat y < bound" for y
    using m(2) away [of y a n] that assms(2,3) by (auto simp: store_frame_def)
  with m show ?thesis by (auto simp: load_keeps_def store_frame_def)
qed

subsection \<open>The text\<close>

lemma ReadWord_same:
  assumes "wf_memory bs m" and "wf_memory bs m'" and "mem_size m' = mem_size m"
    and "\<And>j. j < 4 \<Longrightarrow> bytes m' (a + of_nat j) = bytes m (a + of_nat j)"
  shows "ReadWord m' a = ReadWord m a"
proof -
  have r: "Read m' x = Read m x" if "bytes m' x = bytes m x" for x
    using that assms(1-3) Read_bytes [OF assms(1), of x] Read_bytes [OF assms(2), of x]
    by (cases "x < mem_size m") (simp_all add: Read_def not_less)
  have "Read m' a = Read m a" "Read m' (a + 1) = Read m (a + 1)" "Read m' (a + 2) = Read m (a + 2)"
    "Read m' (a + 3) = Read m (a + 3)"
    using r assms(4) [of 0] assms(4) [of 1] assms(4) [of 2] assms(4) [of 3] by simp_all
  with assms(3) show ?thesis by (simp add: ReadWord_def ReadGeneric_4)
qed

lemma load_keeps_ReadWord:
  assumes "load_keeps v v' bound" and "wf_memory (memory_block_size (vm_config v)) (memory v)" and "unat a + 4 \<le> bound"
    and "unat a + 4 \<le> 2 ^ 64"
  shows "ReadWord (memory v') a = ReadWord (memory v) a"
proof (rule ReadWord_same [OF assms(2)])
  show "wf_memory (memory_block_size (vm_config v)) (memory v')" "mem_size (memory v') = mem_size (memory v)"
    using assms(1) by (auto simp: load_keeps_def)
  fix j :: nat assume "j < 4"
  then have "unat (a + of_nat j) < bound"
    using assms(3,4) by (simp add: unat_word_ariths unat_of_nat)
  then show "bytes (memory v') (a + of_nat j) = bytes (memory v) (a + of_nat j)"
    using assms(1) by (auto simp: load_keeps_def)
qed

lemma mc_write_word_keeps:
  assumes "wf_memory (memory_block_size (vm_config v)) (memory v)" and "unat a + 4 \<le> unat (mem_size (memory v))"
  shows "\<exists>v'. mc_write_word a x v = Inr v' \<and> load_keeps v v' (unat a) \<and> ReadWord (memory v') a = Inr x"
proof -
  have "unat (mem_size (memory v)) < 2 ^ 64" by (rule unat_u64_less)
  with assms WriteWord_ReadWord [OF assms(1), of a x] obtain m' where
    "WriteWord (memory_block_size (vm_config v)) (memory v) a x = Inr m'" "ReadWord m' a = Inr x" by auto
  moreover from this have w: "mc_write_word a x v = Inr (v\<lparr>memory := m'\<rparr>)" by (simp add: mc_write_word_def)
  moreover have "load_keeps v (v\<lparr>memory := m'\<rparr>) (unat a)"
    by (rule store_keeps [where n = 4]) (use mc_write_frames(3) [OF assms(1) w] assms(2) \<open>unat (mem_size (memory v)) < 2 ^ 64\<close> in auto)
  ultimately show ?thesis by auto
qed

lemma unat_up: "unat (ucast (c :: u32) :: u64) = unat c"
proof -
  have "uint (ucast c :: u64) = uint c" by (rule uint_up_ucast) (simp add: is_up)
  then show ?thesis by (simp flip: nat_uint_eq)
qed

lemma load_text_reads_back:
  assumes "wf_memory (memory_block_size (vm_config v)) (memory v)"
    and "unat c + 4 * length ws \<le> unat (mem_size (memory v))" and "unat c + 4 * length ws < 2 ^ 32"
  shows "\<exists>v'. load_text ws c v = Inr (v', c + of_nat (4 * length ws)) \<and> load_keeps v v' (unat c) \<and>
    (\<forall>i < length ws. ReadWord (memory v') (of_nat (unat c + 4 * i)) = Inr (ws ! i))"
  using assms
proof (induction ws arbitrary: c v)
  case Nil
  then show ?case by (auto intro: load_keeps_refl)
next
  case (Cons w ws)
  have c: "unat (ucast c :: u64) = unat c" by (rule unat_up)
  have "unat (ucast c :: u64) + 4 \<le> unat (mem_size (memory v))" using Cons.prems(2) c by simp
  from mc_write_word_keeps [OF Cons.prems(1) this, of w] obtain v1 where
    v1: "mc_write_word (ucast c) w v = Inr v1" "load_keeps v v1 (unat c)" "ReadWord (memory v1) (ucast c) = Inr w"
    by (auto simp: c)
  have c4: "unat (c + 4) = unat c + 4" using Cons.prems(3) by (simp add: unat_word_ariths)
  have m1: "mem_size (memory v1) = mem_size (memory v)" using v1(2) by (auto simp: load_keeps_def)
  from Cons.IH [OF load_keeps_wf [OF v1(2)], of "c + 4"] Cons.prems(2,3) c4 m1 obtain v' where
    v': "load_text ws (c + 4) v1 = Inr (v', c + 4 + of_nat (4 * length ws))" "load_keeps v1 v' (unat c + 4)"
      "\<forall>i < length ws. ReadWord (memory v') (of_nat (unat c + 4 + 4 * i)) = Inr (ws ! i)" by auto
  have "ReadWord (memory v') (ucast c) = Inr w"
    using load_keeps_ReadWord [OF v'(2) load_keeps_wf [OF v1(2)], of "ucast c"] v1(3) c Cons.prems(3) by simp
  then have "ReadWord (memory v') (of_nat (unat c)) = Inr w" by simp
  moreover have "load_keeps v v' (unat c)" by (rule load_keeps_trans [OF v1(2) v'(2)]) simp
  ultimately show ?case using v1(1) v'(1,3)
    by (auto simp: nth_Cons ac_simps split: nat.splits intro!: exI [of _ v'])
qed

subsection \<open>The data\<close>

lemma unat_data_address:
  assumes "unat (base :: u64) + 2 ^ 33 \<le> 2 ^ 64"
  shows "unat base \<le> unat (base + ucast (c :: u32))" and "unat (base + ucast c) + 8 \<le> 2 ^ 64"
proof -
  have "unat (ucast c :: u64) < 2 ^ 32" using unsigned_less [of c] by (simp add: unat_up)
  then have "unat (base + ucast c) = unat base + unat (ucast c :: u64)"
    using assms by (simp add: unat_word_ariths)
  with \<open>unat (ucast c :: u64) < 2 ^ 32\<close> assms show "unat base \<le> unat (base + ucast c)"
    and "unat (base + ucast c) + 8 \<le> 2 ^ 64" by simp_all
qed

lemma data_store_keeps:
  assumes "\<exists>m'. v' = v\<lparr>memory := m'\<rparr> \<and> store_frame (memory_block_size (vm_config v)) (memory v) (base + ucast (c :: u32)) n m'"
    and "unat base + 2 ^ 33 \<le> 2 ^ 64" and "n \<le> 8"
  shows "load_keeps v v' (unat base)"
  by (rule store_keeps [OF assms(1)]) (use unat_data_address [OF assms(2), of c] assms(3) in auto)

lemma load_string_keeps:
  "load_string base s c v = Inr (v', c') \<Longrightarrow> wf_memory (memory_block_size (vm_config v)) (memory v) \<Longrightarrow>
     unat base + 2 ^ 33 \<le> 2 ^ 64 \<Longrightarrow> load_keeps v v' (unat base)"
proof (induction s arbitrary: c v)
  case Nil
  then show ?case by (simp add: load_keeps_refl)
next
  case (Cons x xs)
  from Cons.prems(1) obtain v1 where v1: "mc_write_byte (base + ucast c) (word_of_nat (of_char x)) v = Inr v1"
    "load_string base xs (c + 1) v1 = Inr (v', c')" by auto
  have "load_keeps v v1 (unat base)"
    by (rule data_store_keeps [OF mc_write_frames(1) [OF Cons.prems(2) v1(1)] Cons.prems(3)]) simp
  moreover from this have "load_keeps v1 v' (unat base)" using Cons.IH [OF v1(2) load_keeps_wf] Cons.prems(3) by blast
  ultimately show ?case by (rule load_keeps_trans) simp
qed

lemma load_item_keeps:
  assumes "load_item base x c v = Inr (v', c')" and "wf_memory (memory_block_size (vm_config v)) (memory v)"
    and "unat base + 2 ^ 33 \<le> 2 ^ 64"
  shows "load_keeps v v' (unat base)"
proof (cases x)
  case (DataByte y)
  with assms(1) have "mc_write_byte (base + ucast (align 1 c)) y v = Inr v'" by (auto simp: load_item_def Let_def bindr_Inr_iff)
  from data_store_keeps [OF mc_write_frames(1) [OF assms(2) this] assms(3)] show ?thesis by simp
next
  case (DataHalf y)
  with assms(1) have "mc_write_half (base + ucast (align 2 c)) y v = Inr v'" by (auto simp: load_item_def Let_def bindr_Inr_iff)
  from data_store_keeps [OF mc_write_frames(2) [OF assms(2) this] assms(3)] show ?thesis by simp
next
  case (DataWord y)
  with assms(1) have "mc_write_word (base + ucast (align 4 c)) y v = Inr v'" by (auto simp: load_item_def Let_def bindr_Inr_iff)
  from data_store_keeps [OF mc_write_frames(3) [OF assms(2) this] assms(3)] show ?thesis by simp
next
  case (DataFloat y)
  with assms(1) have "mc_write_word (base + ucast (align 4 c)) y v = Inr v'" by (auto simp: load_item_def Let_def bindr_Inr_iff)
  from data_store_keeps [OF mc_write_frames(3) [OF assms(2) this] assms(3)] show ?thesis by simp
next
  case (DataDouble y)
  with assms(1) have "mc_write_double (base + ucast (align 8 c)) y v = Inr v'" by (auto simp: load_item_def Let_def bindr_Inr_iff)
  from data_store_keeps [OF mc_write_frames(4) [OF assms(2) this] assms(3)] show ?thesis by simp
next
  case (DataDoubleFloat y)
  with assms(1) have "mc_write_double (base + ucast (align 8 c)) y v = Inr v'" by (auto simp: load_item_def Let_def bindr_Inr_iff)
  from data_store_keeps [OF mc_write_frames(4) [OF assms(2) this] assms(3)] show ?thesis by simp
next
  case (DataString y)
  with assms show ?thesis by (auto simp: load_item_def intro: load_string_keeps)
qed

lemma load_data_keeps:
  "load_data base xs c v = Inr (v', c') \<Longrightarrow> wf_memory (memory_block_size (vm_config v)) (memory v) \<Longrightarrow>
     unat base + 2 ^ 33 \<le> 2 ^ 64 \<Longrightarrow> load_keeps v v' (unat base)"
proof (induction xs arbitrary: c v)
  case Nil
  then show ?case by (simp add: load_keeps_refl)
next
  case (Cons x xs)
  from Cons.prems(1) obtain v1 c1 where v1: "load_item base x c v = Inr (v1, c1)" "load_data base xs c1 v1 = Inr (v', c')" by auto
  have "load_keeps v v1 (unat base)" by (rule load_item_keeps [OF v1(1) Cons.prems(2,3)])
  moreover from this have "load_keeps v1 v' (unat base)" using Cons.IH [OF v1(2) load_keeps_wf] Cons.prems(3) by blast
  ultimately show ?case by (rule load_keeps_trans) simp
qed

lemma ucast_of_nat_32: "n < 2 ^ 32 \<Longrightarrow> ucast (of_nat n :: u32) = (of_nat n :: u64)"
  by (simp add: unsigned_of_nat take_bit_nat_eq_self)

lemma LoadProgram_text:
  assumes "LoadProgram p v = Inr v'" and "wf_memory (memory_block_size (vm_config v)) (memory v)"
    and "4 * length (text_buffer p) \<le> unat (mem_size (memory v))" and "4 * length (text_buffer p) < 2 ^ 32"
    and "4 * length (text_buffer p) \<le> unat (data_section_start (vm_config v))"
    and "unat (data_section_start (vm_config v)) + 2 ^ 33 \<le> 2 ^ 64" and "i < length (text_buffer p)"
  shows "ReadWord (memory v') (of_nat (4 * i)) = Inr (text_buffer p ! i)"
    and "program_size v' = of_nat (4 * length (text_buffer p))"
    and "wf_memory (memory_block_size (vm_config v')) (memory v')"
proof -
  let ?v = "v\<lparr>program := p\<rparr>" and ?n = "4 * length (text_buffer p)"
  from load_text_reads_back [of ?v 0 "text_buffer p"] assms(2-4) obtain v1 where
    v1: "load_text (text_buffer p) 0 ?v = Inr (v1, of_nat ?n)" "load_keeps ?v v1 0"
      "\<forall>i < length (text_buffer p). ReadWord (memory v1) (of_nat (4 * i)) = Inr (text_buffer p ! i)" by auto
  define v2 where "v2 = AddBreakpoint (ucast (of_nat ?n :: u32)) False (v1\<lparr>program_size := ucast (of_nat ?n :: u32)\<rparr>)"
  have v2: "memory v2 = memory v1" "vm_config v2 = vm_config v" "program_size v2 = ucast (of_nat ?n :: u32)"
    using v1(2) by (auto simp: v2_def AddBreakpoint_def load_keeps_def print_def)
  from assms(1) v1(1) obtain v3 c where
    v3: "load_data (data_section_start (vm_config v)) (data_buffer p) 0 v2 = Inr (v3, c)"
      "v' = (print [OutText ''VM_PROGRAM_LOADED''] v3)\<lparr>output_status := ''VM_PROGRAM_LOADED''\<rparr>"
    using v2(2) by (auto simp: LoadProgram_def Let_def v2_def split: prod.splits)
  have wf: "wf_memory (memory_block_size (vm_config v2)) (memory v2)" using v1(2) v2 by (auto simp: load_keeps_def)
  note l = load_data_keeps [OF v3(1) wf assms(6)]
  have "4 * i + 4 \<le> ?n" using assms(7) by simp
  then have u: "unat (of_nat (4 * i) :: u64) = 4 * i" using assms(4) unfolding unat_of_nat by simp
  have "ReadWord (memory v3) (of_nat (4 * i)) = ReadWord (memory v2) (of_nat (4 * i))"
    by (rule load_keeps_ReadWord [OF l wf], unfold u) (use assms(4,5) \<open>4 * i + 4 \<le> ?n\<close> in simp_all)
  then show "ReadWord (memory v') (of_nat (4 * i)) = Inr (text_buffer p ! i)"
    using v1(3) assms(7) by (simp add: v3(2) v2(1) print_def)
  have "ucast (of_nat ?n :: u32) = (of_nat ?n :: u64)"
    using assms(4) by (rule ucast_of_nat_32)
  with v2(3) l show "program_size v' = of_nat ?n" by (auto simp: v3(2) print_def load_keeps_def)
  show "wf_memory (memory_block_size (vm_config v')) (memory v')"
    using l by (auto simp: v3(2) print_def load_keeps_def)
qed

text \<open>A machine a program fits in: the text below the data section, the data section away from the end.\<close>

definition program_fits :: "AssembledProgram \<Rightarrow> RVSSVM \<Rightarrow> bool" where
  "program_fits p v \<longleftrightarrow> wf_memory (memory_block_size (vm_config v)) (memory v) \<and>
     4 * length (text_buffer p) \<le> unat (mem_size (memory v)) \<and> 4 * length (text_buffer p) < 2 ^ 32 \<and>
     4 * length (text_buffer p) \<le> unat (data_section_start (vm_config v)) \<and>
     unat (data_section_start (vm_config v)) + 2 ^ 33 \<le> 2 ^ 64"

text \<open>
  C10. After a program that fits is loaded, every word of its text is read back at four times its
  index, whatever its data, and the program size is the size of the text in bytes.
\<close>

theorem LoadProgram_text_reads_back:
  assumes "LoadProgram p v = Inr v'" and "program_fits p v" and "i < length (text_buffer p)"
  shows "ReadWord (memory v') (of_nat (4 * i)) = Inr (text_buffer p ! i) \<and>
    program_size v' = of_nat (4 * length (text_buffer p))"
  using LoadProgram_text [OF assms(1)] assms(2,3) by (simp add: program_fits_def)

definition word_mnemonics :: "string list" where
  "word_mnemonics = [''addw'', ''subw'', ''sllw'', ''srlw'', ''sraw'', ''mulw'', ''divw'', ''divuw'', ''remw'', ''remuw'']"

lemma table_word_mnemonics:
  "list_all (\<lambda>(s, op, f3, f7). op = (if s \<in> set word_mnemonics then 59 else 51)) R_type_instruction_encoding_map"
  by code_simp

lemma unat_register: "x < 32 \<Longrightarrow> unat (ucast (x :: u32) :: u8) = unat x"
  by (simp add: unsigned_ucast_eq take_bit_nat_eq_self word_less_nat_alt)

text \<open>
  C3. From mnemonic to register: the code generator, the loader and the machine composed. When a
  program assembled from intermediate code is loaded and the machine stands at instruction \<open>i\<close>, a
  register instruction other than the word instructions puts the result of the operation its
  mnemonic names, on the registers it names, into the register it names, and changes no other
  register and no memory.
\<close>

theorem assembled_instruction_runs:
  assumes asm: "generateMachineCode ic = Inr (text_buffer p)" and load: "LoadProgram p v = Inr u" and fit: "program_fits p v"
    and i: "i < length ic" and b: "b = fst (ic ! i)" and regs: "registers_ok b"
    and op: "isValidRTypeInstruction (getOpcode b)" "getOpcode b \<notin> set word_mnemonics"
    and at_i: "program_counter m = of_nat (4 * i)" "memory m = memory u"
    and names: "extractRegisterIndex (getRd b) = Inr d" "extractRegisterIndex (getRs1 b) = Inr s" "extractRegisterIndex (getRs2 b) = Inr t"
    and run: "instruction H m = Inr m'"
  shows "map_sum id (\<lambda>(r, ov). gpr_updated (registers m) (unat d) r)
      (execute (IntOp (the (map_of named_operation (getOpcode b)))) (reg_val m (unat s)) (reg_val m (unat t))) = Inr (registers m') \<and>
    memory m' = memory m"
proof -
  define w where "w = text_buffer p ! i"
  have len: "length (text_buffer p) = length ic" "generate_one b = Inr w"
    using generateMachineCode_nth [OF asm] i b by (auto simp: w_def)
  note word = register_word [OF len(2) regs op(1)]
  have fetch: "ReadWord (memory m) (program_counter m) = Inr w"
    using LoadProgram_text(1) [OF load] fit i len(1) by (simp only: program_fits_def at_i w_def)
  have w33: "opcode_of w = 0x33" using word(2) table_word_mnemonics op(2) unfolding list_all_iff by fastforce
  then have "opcode_of w \<in> {0x33, 0x13}" by simp
  from arithmetic_effect [OF fetch this run] obtain r ov where
    e: "execute (GetAluSignal w True) (reg_val m (unat (rs1_of w))) (operand2 m w) = Inr (r, ov)"
      "registers m' = gpr_updated (registers m) (unat (rd_of w)) r" "memory m' = memory m"
    by blast
  have "d < 32" "s < 32" "t < 32" using registers_below [OF regs] names by simp_all
  moreover have "ucast d = rd_of w" "ucast s = rs1_of w" "ucast t = rs2_of w"
    using word(1) [of True] names by simp_all
  ultimately have "unat (rd_of w) = unat d" "unat (rs1_of w) = unat s" "unat (rs2_of w) = unat t"
    using unat_register by metis+
  moreover have "GetAluSignal w True = IntOp (the (map_of named_operation (getOpcode b)))"
    using word(1) [of True] w33 by (auto simp: GetAluSignal_def Let_def)
  ultimately show ?thesis using e w33 by (simp add: operand2_def)
qed

definition sample_mul :: ICUnit where
  "sample_mul = setRs2 ''x7'' (setRs1 ''x6'' (setRd ''x5'' (setOpcode ''mul'' new_ICUnit)))"

lemma sample_mul_word: "generateMachineCode [(sample_mul, True)] = Inr [0x027302B3]"
  by code_simp

lemma sample_mul_ok: "registers_ok sample_mul" "isValidRTypeInstruction (getOpcode sample_mul)"
  "getOpcode sample_mul \<notin> set word_mnemonics" "map_of named_operation (getOpcode sample_mul) = Some kMul"
  "extractRegisterIndex (getRd sample_mul) = Inr 5" "extractRegisterIndex (getRs1 sample_mul) = Inr 6"
  "extractRegisterIndex (getRs2 sample_mul) = Inr 7"
  by code_simp+

definition sample_program :: AssembledProgram where
  "sample_program = empty_program\<lparr>text_buffer := [0x027302B3]\<rparr>"

lemma default_machine:
  "vm_config (new_RVSSVM default_config False) = default_config"
  "memory (new_RVSSVM default_config False) = new_Memory default_config"
  by (simp_all add: new_RVSSVM_def new_VmBase_def VmBase.extend_def)

lemma sample_program_fits: "program_fits sample_program (new_RVSSVM default_config False)"
  unfolding program_fits_def default_machine
  by (simp add: sample_program_def new_Memory_def default_config_def wf_memory_def empty_program_def)

lemma LoadProgram_text_only:
  assumes "program_fits p v" and "data_buffer p = []"
  shows "\<exists>u. LoadProgram p v = Inr u"
  using load_text_reads_back [of "v\<lparr>program := p\<rparr>" 0 "text_buffer p"] assms
  by (auto simp: LoadProgram_def program_fits_def Let_def)

lemma sample_program_loads: "\<exists>u. LoadProgram sample_program (new_RVSSVM default_config False) = Inr u"
  by (rule LoadProgram_text_only [OF sample_program_fits]) (simp add: sample_program_def empty_program_def)

theorem LoadProgram_text_reads_back_witness:
  "\<exists>u. LoadProgram sample_program (new_RVSSVM default_config False) = Inr u \<and>
     ReadWord (memory u) 0 = Inr 0x027302B3 \<and> program_size u = 4"
proof -
  obtain u where u: "LoadProgram sample_program (new_RVSSVM default_config False) = Inr u"
    using sample_program_loads by blast
  from LoadProgram_text_reads_back [OF u sample_program_fits, of 0] u show ?thesis
    by (auto simp: sample_program_def)
qed

text \<open>The machine with the sample loaded, 6 in \<open>x6\<close> and 7 in \<open>x7\<close>.\<close>

theorem assembled_instruction_runs_witness:
  "\<forall>H. \<exists>u m'. LoadProgram sample_program (new_RVSSVM default_config False) = Inr u \<and>
     instruction H (u\<lparr>program_counter := 0, registers := new_RegisterFile\<lparr>gpr := (\<lambda>_. 0)(6 := 6, 7 := 7)\<rparr>\<rparr>) = Inr m' \<and>
     gpr (registers m') 5 = 42"
proof
  fix H
  obtain u where u: "LoadProgram sample_program (new_RVSSVM default_config False) = Inr u"
    using sample_program_loads by blast
  define m where "m = u\<lparr>program_counter := 0, registers := new_RegisterFile\<lparr>gpr := (\<lambda>_. 0)(6 := 6, 7 := 7)\<rparr>\<rparr>"
  have m: "program_counter m = of_nat (4 * 0)" "memory m = memory u" "program_counter m = 0"
      "registers m = new_RegisterFile\<lparr>gpr := (\<lambda>_. 0)(6 := 6, 7 := 7)\<rparr>"
    by (simp_all add: m_def)
  have "ReadWord (memory u) 0 = Inr 0x027302B3"
    using LoadProgram_text(1) [OF u, of 0] sample_program_fits by (simp add: program_fits_def sample_program_def)
  then have "\<exists>m'. instruction H m = Inr m'" by (simp add: vm_eval m signal_R_def mul_overflow_iff)
  then obtain m' where m': "instruction H m = Inr m'" ..
  have asm: "generateMachineCode [(sample_mul, True)] = Inr (text_buffer sample_program)"
    by (simp only: sample_mul_word) (simp add: sample_program_def)
  from assembled_instruction_runs [OF asm u sample_program_fits _ _ sample_mul_ok(1-3) m(1,2) sample_mul_ok(5-7) m']
  have "gpr_updated (registers m) 5 (reg_val m 6 * reg_val m 7) = registers m'"
    by (simp add: sample_mul_ok(4) execute_def int_execute_def signed_initialiser_def mul_overflow_iff reg_val_def m(4))
  then have "gpr (registers m') 5 = gpr (gpr_updated (registers m) 5 (reg_val m 6 * reg_val m 7)) 5" by simp
  also have "\<dots> = 42" by (simp add: gpr_updated_def reg_val_def m)
  finally show "\<exists>u m'. LoadProgram sample_program (new_RVSSVM default_config False) = Inr u \<and>
     instruction H (u\<lparr>program_counter := 0, registers := new_RegisterFile\<lparr>gpr := (\<lambda>_. 0)(6 := 6, 7 := 7)\<rparr>\<rparr>) = Inr m' \<and>
     gpr (registers m') 5 = 42" using u m' by (auto simp: m_def)
qed

end
