(* ===== verification/RvssRuns.thy ===== *)
theory RvssRuns
  imports RvssLoad
begin

text \<open>
  That \<open>RVSSVM::Run\<close> ends (src/vm/rvss/rvss_vm.cpp): total correctness of the handlers, in the
  style of a weakest precondition, and a measure that every stall cycle of LDBM and BIGMUL
  brings down.
\<close>

subsection \<open>Values\<close>

lemma ends_registers [simp]:
  "ends (ReadGpr rf i)" "ends (WriteGpr rf i x)" "ends (ReadFpr rf i)" "ends (WriteFpr rf i x)"
  "ends (ReadCsr rf i)" "ends (WriteCsr rf i x)" "ends (read_gpr i v)"
  by (simp_all add: ReadGpr_def WriteGpr_def ReadFpr_def WriteFpr_def ReadCsr_def WriteCsr_def read_gpr_def)

lemma ends_Read [simp]: "ends (Read m a)"
  by (auto simp: Read_def GetBlockIndex_def GetBlockOffset_def intro!: ends_bindr split: option.split)

lemma ends_Write [simp]: "ends (Write bs m a x)"
  by (auto simp: Write_def GetBlockIndex_def GetBlockOffset_def Let_def intro!: ends_bindr split: option.split)

lemma ends_read_loop: "(\<And>a. ends (rd a)) \<Longrightarrow> ends (read_loop rd a i k x)"
  by (induction k arbitrary: i x) auto

lemma ends_write_loop: "(\<And>m a b. ends (wr m a b)) \<Longrightarrow> ends (write_loop wr m a i k x)"
  by (induction k arbitrary: i m) auto

lemma ends_memory [simp]:
  "ends (ReadByte m a)" "ends (ReadHalfWord m a)" "ends (ReadWord m a)" "ends (ReadDoubleWord m a)"
  "ends (WriteByte bs m a b)" "ends (WriteHalfWord bs m a h)" "ends (WriteWord bs m a w)" "ends (WriteDoubleWord bs m a d)"
  by (simp_all add: ReadByte_def ReadHalfWord_def ReadWord_def ReadDoubleWord_def ReadGeneric_def ends_read_loop
      WriteByte_def WriteHalfWord_def WriteWord_def WriteDoubleWord_def WriteGeneric_def ends_write_loop)

lemma ends_read_bytes [simp]: "ends (read_bytes m a n)"
  by (induction n arbitrary: a) auto

lemma ends_arrays [simp]: "ends (array_get xs i)" "ends (array_set xs i x)"
  by (simp_all add: array_get_def array_set_def)

lemma ends_string_at [simp]: "ends (string_at m a)"
proof (induction m a rule: string_at.induct)
  case (1 m a)
  have "ends (ReadByte m a)" by simp
  with 1 show ?case
    by (subst string_at.simps) (cases "ReadByte m a"; auto)
qed

lemma ends_execute [simp]: "ends (execute op a b)"
proof (cases op)
  case (IntOp i)
  then show ?thesis
    by (cases i) (simp_all add: execute_def int_execute_def signed_initialiser_def alu_divuw_def alu_rem_def alu_remw_def alu_remuw_def Let_def)
qed (simp_all add: execute_def)

lemma ends_casts [simp]: "ends (cast_signed n k)" "ends (cast_unsigned n k)"
  by (auto simp: cast_signed_def cast_unsigned_def split: option.split)

lemma ends_fp_single: "ends (fp_single H md op x y z)"
  by (cases op) (auto simp: fp_single_def f32_to_w_def f32_to_wu_def f32_to_l_def f32_to_lu_def Let_def)

lemma ends_fp_double: "ends (fp_double H md op x y z)"
  by (cases op) (auto simp: fp_double_def f64_to_w_def f64_to_wu_def f64_to_l_def f64_to_lu_def Let_def split: prod.split)

lemma ends_fp [simp]: "ends (fpexecute H md op x y z rm)" "ends (dfpexecute H md op x y z rm)"
  by (cases op; auto simp: fpexecute_def dfpexecute_def Let_def ends_fp_single ends_fp_double split: prod.split)+

subsection \<open>Handlers that leave the unit and the control signals alone\<close>

definition keeps :: "RVSSVM \<Rightarrow> RVSSVM \<Rightarrow> bool" where
  "keeps w v \<longleftrightarrow> vm_config v = vm_config w \<and> instructions_retired v = instructions_retired w \<and>
     stop_requested v = stop_requested w \<and> control_unit v = control_unit w \<and>
     current_instruction v = current_instruction w \<and> bigmul v = bigmul w"

lemma keeps_refl [simp]: "keeps v v"
  by (simp add: keeps_def)

lemma keeps_update [simp]:
  "keeps w (v\<lparr>registers := r\<rparr>) = keeps w v" "keeps w (v\<lparr>memory := m\<rparr>) = keeps w v"
  "keeps w (v\<lparr>program_counter := p\<rparr>) = keeps w v" "keeps w (v\<lparr>cout := c\<rparr>) = keeps w v"
  "keeps w (v\<lparr>input_queue := q\<rparr>) = keeps w v" "keeps w (v\<lparr>output_status := s\<rparr>) = keeps w v"
  "keeps w (v\<lparr>current_delta := d\<rparr>) = keeps w v" "keeps w (v\<lparr>execution_result := x\<rparr>) = keeps w v"
  "keeps w (v\<lparr>memory_result := x\<rparr>) = keeps w v" "keeps w (v\<lparr>return_address := x\<rparr>) = keeps w v"
  "keeps w (v\<lparr>branch_flag := b\<rparr>) = keeps w v" "keeps w (v\<lparr>next_pc := x\<rparr>) = keeps w v"
  "keeps w (v\<lparr>csr_target_address := t\<rparr>) = keeps w v" "keeps w (v\<lparr>csr_old_value := x\<rparr>) = keeps w v"
  "keeps w (v\<lparr>csr_write_val := x\<rparr>) = keeps w v" "keeps w (v\<lparr>csr_uimm := u\<rparr>) = keeps w v"
  "keeps w (v\<lparr>host_round := h\<rparr>) = keeps w v" "keeps w (v\<lparr>cycle_s := n\<rparr>) = keeps w v"
  by (simp_all add: keeps_def)

lemma keeps_operations [simp]:
  "keeps w (print out v) = keeps w v" "keeps w (push_reg_change rc v) = keeps w v"
  "keeps w (push_mem_change mc v) = keeps w v" "keeps w (UpdateProgramCounter d v) = keeps w v"
  "keeps w (print_wrapped b out v) = keeps w v"
  by (simp_all add: print_def push_reg_change_def push_mem_change_def UpdateProgramCounter_def print_wrapped_def)

text \<open>The rules for sequences: an intermediate result is a value or a machine.\<close>

definition harmless :: "RVSSVM \<Rightarrow> RVSSVM result \<Rightarrow> bool" where
  "harmless w r \<longleftrightarrow> returns (keeps w) r"

lemma returns_machine: "harmless w r \<Longrightarrow> (\<And>v. keeps w v \<Longrightarrow> P v) \<Longrightarrow> returns P r"
  unfolding harmless_def by (rule returns_weaken)

lemmas returns_values = returns_ends [where 'a = "'n :: len word"] returns_ends [where 'a = "u8 list"]
  returns_ends [where 'a = "'p \<times> 'q"] returns_ends [where 'a = RegisterFile] returns_ends [where 'a = Memory]

named_theorems keeping

lemma keeping_writes [keeping]:
  assumes "keeps w v"
  shows "harmless w (write_gpr i x v)" "harmless w (write_fpr i x v)" "harmless w (write_csr i x v)"
    "harmless w (mc_write_byte a b v)" "harmless w (mc_write_half a h v)"
    "harmless w (mc_write_word a d v)" "harmless w (mc_write_double a q v)"
  using assms by (auto simp: harmless_def write_gpr_def write_fpr_def write_csr_def mc_write_byte_def mc_write_half_def
      mc_write_word_def mc_write_double_def intro!: returns_values)

lemma keeping_write_bytes [keeping]: "keeps w v \<Longrightarrow> harmless w (write_bytes a bs v)"
  by (induction bs arbitrary: a v) (auto simp: harmless_def intro!: returns_machine [of w] keeping)

lemma keeping_syscalls [keeping]:
  assumes "keeps w v"
  shows "harmless w (HandleSyscall v)"
  using assms unfolding harmless_def HandleSyscall_def syscall_exit_def syscall_read_def syscall_write_def Let_def
  by (auto intro!: returns_values returns_machine [of w] keeping split: list.split)

lemma keeping_ExecuteInteger [keeping]: "keeps w v \<Longrightarrow> harmless w (ExecuteInteger v)"
  by (auto simp: harmless_def ExecuteInteger_def run_alu_def execute_branch_def Let_def intro!: returns_values returns_machine [of w] keeping)

lemma keeping_Execute [keeping]: "keeps w v \<Longrightarrow> harmless w (Execute H v)"
  by (auto simp: harmless_def Execute_def ExecuteFloat_def ExecuteDouble_def ExecuteCsr_def rounding_field_def fp_operands_def
      Let_def intro!: returns_values returns_machine [of w] keeping)

lemma keeping_stores [keeping]:
  assumes "keeps w v"
  shows "harmless w (store_value f3 x v)"
  using assms unfolding harmless_def store_value_def store_recorded_def Let_def
  by (auto intro!: returns_values returns_machine [of w] keeping)

lemma keeping_loads [keeping]: "keeps w v \<Longrightarrow> harmless w (load_result f3 v)"
  unfolding harmless_def load_result_def Let_def by (auto intro!: returns_values)

lemma keeping_WriteMemory_fp [keeping]:
  assumes "keeps w v"
  shows "harmless w (WriteMemoryFloat v)" "harmless w (WriteMemoryDouble v)"
  using assms unfolding harmless_def WriteMemoryFloat_def WriteMemoryDouble_def store_recorded_def Let_def
  by (auto intro!: returns_values returns_machine [of w] keeping)

lemma keeping_recorded [keeping]:
  assumes "keeps w v"
  shows "harmless w (write_gpr_recorded rd x v)" "harmless w (write_fpr_recorded rd x v)"
  using assms unfolding harmless_def write_gpr_recorded_def write_fpr_recorded_def
  by (auto intro!: returns_values returns_machine [of w] keeping)

lemma keeping_WriteBackCsr [keeping]: "keeps w v \<Longrightarrow> harmless w (WriteBackCsr v)"
  unfolding harmless_def WriteBackCsr_def Let_def
  by (auto intro!: returns_values returns_machine [of w] keeping split: option.split)

lemma keeping_WriteBackInteger [keeping]: "keeps w v \<Longrightarrow> harmless w (WriteBackInteger v)"
  unfolding harmless_def WriteBackInteger_def Let_def
  by (auto intro!: returns_values returns_machine [of w] keeping split: option.split)

lemma keeping_WriteBack [keeping]: "keeps w v \<Longrightarrow> harmless w (WriteBack v)"
  using keeping_WriteBackCsr [of w v] keeping_WriteBackInteger [of w v]
  by (auto simp: harmless_def WriteBack_def WriteBackFloat_def WriteBackDouble_def Let_def
      keeping_recorded [unfolded harmless_def])

lemma keeping_result_write [keeping]: "keeps w v \<Longrightarrow> harmless w (result_write r i sz v)"
  by (induction r arbitrary: i v) (auto simp: harmless_def Let_def intro!: returns_values returns_machine [of w] keeping)

lemma keeping_print_results [keeping]: "keeps w v \<Longrightarrow> harmless w (print_results r i v)"
  by (induction r arbitrary: i v) (auto simp: harmless_def intro!: returns_values)

subsection \<open>The phases of the unit\<close>

definition sound_unit :: "BigmulUnit \<Rightarrow> bool" where
  "sound_unit u \<longleftrightarrow> wf_unit u \<and> 0 < words u \<and> words u < 512"

definition resting :: "BigmulUnit \<Rightarrow> bool" where
  "resting u \<longleftrightarrow> ldbm_done u \<and> bigmul_done u"

definition load_pending :: "BigmulUnit \<Rightarrow> bool" where
  "load_pending u \<longleftrightarrow> \<not> ldbm_done u \<and> bigmul_done u \<and> unat (ldbm_offset u) < 128"

definition compute_pending :: "BigmulUnit \<Rightarrow> bool" where
  "compute_pending u \<longleftrightarrow> ldbm_done u \<and> \<not> bigmul_done u \<and> write_done u \<and> write_offset u = 0 \<and>
     (bigmul_prog u = 0 \<or> (\<exists>s k. computing u s k \<and> (s = 64 \<and> 64 < words u \<longrightarrow> k = 0)))"

definition write_pending :: "BigmulUnit \<Rightarrow> bool" where
  "write_pending u \<longleftrightarrow> ldbm_done u \<and> \<not> bigmul_done u \<and> \<not> write_done u \<and> words u \<le> 64 \<and>
     unat (write_offset u) < 2 * words u"

text \<open>The cycles of a running computation; the diagonal 64 ends one of too long operands.\<close>

definition compute_rank :: "BigmulUnit \<Rightarrow> nat" where
  "compute_rank u = (let n = words u; s = nat (s_diag u); k = nat (k_iter u) in
     if n \<le> 64 then cycles_left n s k else 100 * (64 - s) + (diag_hi n s - k))"

definition stall_rank :: "BigmulUnit \<Rightarrow> nat" where
  "stall_rank u =
     (if resting u then 0
      else if \<not> ldbm_done u then 128 - unat (ldbm_offset u)
      else if \<not> write_done u then 2 * words u - unat (write_offset u)
      else if bigmul_prog u = 0 then 1025 + compute_rank (start_bigmul u)
      else 1024 + compute_rank u)"

lemma computing_progress:
  assumes "computing u s k" and "s = 64 \<and> 64 < words u \<longrightarrow> k = 0" and "write_done u"
  shows "singlecycle u = Inl Undefined \<or> (\<exists>u'. singlecycle u = Inr u' \<and> same_job u u' \<and>
    (product_ready u' \<and> words u \<le> 64 \<or>
     (\<exists>s k. computing u' s k \<and> (s = 64 \<and> 64 < words u \<longrightarrow> k = 0)) \<and> write_done u' \<and> compute_rank u' < compute_rank u))"
proof (cases "64 < words u \<and> s = 64")
  case True
  with assms singlecycle_undefined [of u] show ?thesis by simp
next
  case False
  have n: "s \<le> 2 * words u - 2" "0 < words u" "bigmul_prog u \<noteq> 0" and k: "k < diag_hi (words u) s"
    and w64: "words u \<le> 64 \<or> s < 64"
    using assms(1) False by (auto simp: computing_def in_diagonal_def)
  from singlecycle_step [OF assms(1) w64] obtain u' where
    u': "singlecycle u = Inr u'" "same_job u u'"
      "if k + BATCH < diag_hi (words u) s then computing u' s (k + BATCH)
       else if s < 2 * words u - 2 then computing u' (Suc s) (diag_lo (words u) (Suc s)) else product_ready u'" by blast
  have w: "words u' = words u" using u'(2) by (intro words_cong) (simp add: same_job_def)
  have wd: "write_done u'" if "computing u' t j" for t j
    using that singlecycle_write_done [OF u'(1) n(3)] assms(3) by (auto simp: computing_def in_diagonal_def)
  have rank: "compute_rank u = (if words u \<le> 64 then cycles_left (words u) s k else 100 * (64 - s) + (diag_hi (words u) s - k))"
    using computing_at [OF assms(1)] by (simp add: compute_rank_def)
  have rank': "compute_rank u' = (if words u \<le> 64 then cycles_left (words u) t j else 100 * (64 - t) + (diag_hi (words u) t - j))"
    if "computing u' t j" for t j using computing_at [OF that] by (simp add: compute_rank_def w)
  note left = cycles_left_step [OF k n(1,2)]
  show ?thesis
  proof (cases "k + BATCH < diag_hi (words u) s")
    case True
    with u'(3) have c: "computing u' s (k + BATCH)" by simp
    have "compute_rank u' < compute_rank u"
      using True left(1) [OF True] unfolding rank rank' [OF c] by (auto simp: BATCH_def)
    with u' c wd [OF c] False show ?thesis by blast
  next
    case l: False
    show ?thesis
    proof (cases "s < 2 * words u - 2")
      case True
      with u'(3) l have c: "computing u' (Suc s) (diag_lo (words u) (Suc s))" by simp
      have h: "diag_hi (words u) (Suc s) - diag_lo (words u) (Suc s) \<le> 66" if "s < 64"
        using that by (auto simp: diag_hi_def diag_lo_def)
      have "compute_rank u' < compute_rank u"
        using True l left(2) w64 h unfolding rank rank' [OF c] by (auto simp: not_less)
      moreover have "diag_lo (words u) (Suc s) = 0" if "Suc s = 64" "64 < words u"
        using that by (simp add: diag_lo_def)
      ultimately show ?thesis using u' c wd [OF c] by blast
    next
      case False
      with l u' w64 n(1) show ?thesis by (auto simp: product_ready_def)
    qed
  qed
qed

lemma start_bigmul_unit:
  "words (start_bigmul u) = words u" "write_done (start_bigmul u)" "\<not> bigmul_done u \<Longrightarrow> same_job u (start_bigmul u)"
  by (auto simp: start_bigmul_def acc_clear_def Let_def same_job_def words_def)

lemma compute_cycle:
  assumes "sound_unit u" and "compute_pending u"
  shows "returns (\<lambda>u'. sound_unit u' \<and> (compute_pending u' \<or> write_pending u') \<and> stall_rank u' < stall_rank u) (executeBigmul u)"
proof -
  define v where "v = (if bigmul_prog u = 0 then start_bigmul u else u)"
  have job: "write_offset u = 0" "ldbm_done u" "\<not> bigmul_done u" "write_done u"
    using assms(2) by (simp_all add: compute_pending_def)
  have "\<exists>s k. computing v s k \<and> (s = 64 \<and> 64 < words u \<longrightarrow> k = 0)"
    using assms start_bigmul_computing [of u] unfolding v_def compute_pending_def sound_unit_def by auto
  then obtain s k where c: "computing v s k" "s = 64 \<and> 64 < words u \<longrightarrow> k = 0" by blast
  have v: "same_job u v" "write_done v" "words v = words u" "singlecycle u = singlecycle v"
    using job start_bigmul_unit [of u] singlecycle_start [of u] by (simp_all add: v_def)
  have r: "1024 + compute_rank v \<le> stall_rank u"
    using assms(2) by (auto simp: stall_rank_def v_def compute_pending_def resting_def)
  from computing_progress [OF c(1) _ v(2)] c(2) v(3) consider "singlecycle v = Inl Undefined" |
    u' where "singlecycle v = Inr u'" "same_job v u'" "product_ready u'" "words u \<le> 64" |
    u' s' k' where "singlecycle v = Inr u'" "same_job v u'" "computing u' s' k'" "s' = 64 \<and> 64 < words u \<longrightarrow> k' = 0"
      "write_done u'" "compute_rank u' < compute_rank v" by auto
  then show ?thesis
  proof cases
    case 1
    then show ?thesis by (simp add: executeBigmul_def v(4))
  next
    case 2
    have j: "same_job u u'" using v(1) 2(2) by (rule same_job_trans)
    then have w: "words u' = words u" by (intro words_cong) (simp add: same_job_def)
    have "write_pending u'" "sound_unit u'" "stall_rank u' \<le> 2 * words u'"
      using 2 j job w assms(1) by (auto simp: write_pending_def product_ready_def same_job_def sound_unit_def stall_rank_def)
    moreover have "2 * words u' < 1024" using w 2(4) by simp
    ultimately show ?thesis using r 2(1) by (auto simp: executeBigmul_def v(4))
  next
    case 3
    have j: "same_job u u'" using v(1) 3(2) by (rule same_job_trans)
    then have w: "words u' = words u" by (intro words_cong) (simp add: same_job_def)
    have "compute_pending u'" "sound_unit u'"
      using 3 j job w assms(1) by (auto simp: compute_pending_def same_job_def sound_unit_def computing_def in_diagonal_def)
    moreover have "stall_rank u' = 1024 + compute_rank u'"
      using 3(3,5) j job by (auto simp: stall_rank_def computing_def in_diagonal_def same_job_def resting_def)
    ultimately show ?thesis using r 3(1,6) by (auto simp: executeBigmul_def v(4))
  qed
qed

subsection \<open>Steady machines\<close>

text \<open>What neither a stall cycle nor a stage of an instruction changes.\<close>

definition run_frame :: "RVSSVM \<Rightarrow> RVSSVM \<Rightarrow> bool" where
  "run_frame v v' \<longleftrightarrow> vm_config v' = vm_config v \<and> instructions_retired v' = instructions_retired v \<and>
     stop_requested v' = stop_requested v"

lemma run_frame_refl [simp]: "run_frame v v"
  by (simp add: run_frame_def)

lemma run_frame_trans: "run_frame u v \<Longrightarrow> run_frame v w \<Longrightarrow> run_frame u w"
  by (simp add: run_frame_def)

text \<open>The unit rests, or the instruction that occupies it is the current one.\<close>

definition steady :: "RVSSVM \<Rightarrow> bool" where
  "steady v \<longleftrightarrow> sound_unit (bigmul v) \<and> (resting (bigmul v) \<or>
     load_pending (bigmul v) \<and> ldbm_start (control_unit v) \<or>
     (compute_pending (bigmul v) \<or> write_pending (bigmul v)) \<and> multiplying v)"

lemma steady_keeps: "steady w \<Longrightarrow> keeps w v \<Longrightarrow> steady v \<and> run_frame w v \<and> bigmul v = bigmul w"
  by (simp add: steady_def keeps_def multiplying_def run_frame_def)

lemma keeps_bigmul: "keeps w v \<Longrightarrow> bigmul v = bigmul w"
  by (simp add: keeps_def)

definition reloaded :: "RVSSVM \<Rightarrow> RVSSVM \<Rightarrow> bool" where
  "reloaded v v' \<longleftrightarrow> run_frame v v' \<and> control_unit v' = control_unit v \<and>
     ldbm_done (bigmul v') = ldbm_done (bigmul v) \<and> ldbm_offset (bigmul v') = ldbm_offset (bigmul v) \<and>
     bigmul_done (bigmul v') = bigmul_done (bigmul v) \<and> size_of_operand (bigmul v') = size_of_operand (bigmul v) \<and>
     length (cacheA (bigmul v')) = length (cacheA (bigmul v)) \<and>
     length (cacheB (bigmul v')) = length (cacheB (bigmul v)) \<and>
     length (resultCache (bigmul v')) = length (resultCache (bigmul v))"

lemma ldbm_load_reloads: "reloaded w v \<Longrightarrow> returns (reloaded w) (ldbm_load is_A r off v)"
proof (induction r arbitrary: off v)
  case (Suc r)
  have "reloaded w (v\<lparr>bigmul := (bigmul v)\<lparr>cacheA := (cacheA (bigmul v))[unat off := x]\<rparr>\<rparr>)"
    "reloaded w (v\<lparr>bigmul := (bigmul v)\<lparr>cacheB := (cacheB (bigmul v))[unat off := x]\<rparr>\<rparr>)" for x
    using Suc.prems by (simp_all add: reloaded_def run_frame_def)
  with Suc show ?case by (auto intro!: returns_values)
qed simp

lemma ldbm_cycle_steady:
  assumes "steady v" and "ldbm_stalled v"
  shows "returns (\<lambda>v'. steady v' \<and> run_frame v v' \<and> stall_rank (bigmul v') < stall_rank (bigmul v)) (ldbm_cycle v)"
proof -
  have p: "load_pending (bigmul v)" and c: "ldbm_start (control_unit v)" and snd: "sound_unit (bigmul v)"
    using assms by (auto simp: steady_def ldbm_stalled_def GetLdbmDone_def resting_def compute_pending_def write_pending_def)
  let ?off = "ldbm_offset (bigmul v)"
  have off: "unat ?off < 128" "unat (?off + 8) = unat ?off + 8"
    using p by (simp_all add: load_pending_def unat_word_ariths)
  have next_offset: "128 \<le> ?off + 8 \<longleftrightarrow> 128 \<le> unat ?off + 8" using off(2) by (simp add: word_le_nat_alt)
  have "returns (reloaded v) (if ?off < 64 then ldbm_load True 8 ?off v
      else if ?off < 128 then ldbm_load False 8 (?off - 64) v else Inr v)"
    by (simp add: ldbm_load_reloads reloaded_def)
  then show ?thesis
    unfolding ldbm_cycle_def Let_def returns_simps(3)
  proof (rule returns_weaken)
    fix x
    assume x: "reloaded v x"
    show "returns (\<lambda>v'. steady v' \<and> run_frame v v' \<and> stall_rank (bigmul v') < stall_rank (bigmul v))
      (Inr (x\<lparr>bigmul := if 128 \<le> ldbm_offset ((bigmul x)\<lparr>ldbm_offset := ldbm_offset (bigmul x) + 8\<rparr>)
         then (bigmul x)\<lparr>ldbm_offset := ldbm_offset (bigmul x) + 8, ldbm_done := True\<rparr>
         else (bigmul x)\<lparr>ldbm_offset := ldbm_offset (bigmul x) + 8\<rparr>\<rparr>))"
      using x p c snd off next_offset
      by (simp add: reloaded_def steady_def sound_unit_def wf_unit_def words_def load_pending_def resting_def
          stall_rank_def run_frame_def; arith)
  qed
qed

lemma write_cycle_steady:
  assumes "steady v" and "write_pending (bigmul v)"
  shows "returns (\<lambda>v'. steady v' \<and> run_frame v v' \<and> stall_rank (bigmul v') < stall_rank (bigmul v)) (bigmul_write_cycle v)"
proof -
  let ?u = "bigmul v" and ?sz = "size_of_operand (bigmul v) * 2"
  have p: "ldbm_done ?u" "\<not> bigmul_done ?u" "\<not> write_done ?u" "words ?u \<le> 64" "unat (write_offset ?u) < 2 * words ?u"
    and s: "sound_unit ?u" and m: "multiplying v"
    using assms by (auto simp: steady_def write_pending_def resting_def load_pending_def)
  have sz: "unat ?sz = 2 * words ?u" using p(4) by (simp add: words_def unat_word_ariths)
  have off: "write_offset ?u < ?sz" "unat (write_offset ?u + 8) = unat (write_offset ?u) + 8"
    using p(4,5) sz by (simp_all add: word_less_nat_alt unat_word_ariths)
  have more: "?sz \<le> write_offset ?u + 8 \<longleftrightarrow> 2 * words ?u \<le> unat (write_offset ?u) + 8"
    using off(2) sz by (simp add: word_le_nat_alt)
  have "returns (keeps v) (result_write 8 (write_offset ?u) ?sz v)"
    using keeping_result_write [of v v] by (simp add: harmless_def)
  then show ?thesis
    unfolding bigmul_write_cycle_def Let_def if_P [OF off(1)] returns_simps(3)
  proof (rule returns_weaken)
    fix x
    assume x: "keeps v x"
    then have b: "bigmul x = ?u" "run_frame v x" "multiplying x" using m by (auto simp: keeps_def run_frame_def multiplying_def)
    let ?w = "x\<lparr>bigmul := (bigmul x)\<lparr>write_offset := write_offset (bigmul x) + 8, write_done := True, bigmul_done := True\<rparr>\<rparr>"
    let ?y = "x\<lparr>bigmul := (bigmul x)\<lparr>write_offset := write_offset (bigmul x) + 8\<rparr>\<rparr>"
    have st: "steady ?w \<and> stall_rank (bigmul ?w) < stall_rank ?u"
      using p s b by (simp add: steady_def sound_unit_def wf_unit_def words_def resting_def stall_rank_def)
    have fr: "run_frame v ?w" using b(2) by (simp add: run_frame_def)
    have "returns (keeps ?w) (print_results (unat ?sz) 0 ?w)"
      using keeping_print_results [of ?w ?w] by (simp add: harmless_def)
    then have "returns (\<lambda>v'. steady v' \<and> run_frame v v' \<and> stall_rank (bigmul v') < stall_rank ?u) (print_results (unat ?sz) 0 ?w)"
    proof (rule returns_weaken)
      fix y
      assume "keeps ?w y"
      with st have "steady y" "run_frame ?w y" "bigmul y = bigmul ?w" using steady_keeps [of ?w y] by simp_all
      with st run_frame_trans [OF fr] show "steady y \<and> run_frame v y \<and> stall_rank (bigmul y) < stall_rank ?u" by simp
    qed
    moreover have "steady ?y \<and> run_frame v ?y \<and> stall_rank (bigmul ?y) < stall_rank ?u"
      if "unat (write_offset ?u) + 8 < 2 * words ?u"
      using that p s b off(2)
      by (simp add: steady_def sound_unit_def wf_unit_def words_def write_pending_def resting_def stall_rank_def
          run_frame_def multiplying_def)
    ultimately show "returns (\<lambda>xa. returns (\<lambda>v'. steady v' \<and> run_frame v v' \<and> stall_rank (bigmul v') < stall_rank ?u)
          (if ?sz \<le> write_offset (bigmul xa)
           then print_results (unat ?sz) 0 (xa\<lparr>bigmul := (bigmul xa)\<lparr>write_done := True, bigmul_done := True\<rparr>\<rparr>)
           else Inr xa))
        (Inr (x\<lparr>bigmul := (bigmul x)\<lparr>write_offset := write_offset (bigmul x) + 8\<rparr>\<rparr>))"
      using b(1) more by simp
  qed
qed

lemma WriteMemory_steady:
  assumes "steady v"
  shows "returns (\<lambda>v'. steady v' \<and> run_frame v v' \<and>
    (ldbm_stalled v \<or> write_pending (bigmul v) \<longrightarrow> stall_rank (bigmul v') < stall_rank (bigmul v))) (WriteMemory v)"
proof (cases "ldbm_stalled v")
  case True
  then have "WriteMemory v = ldbm_cycle v" by (simp add: WriteMemory_def ldbm_stalled_def)
  with ldbm_cycle_steady [OF assms True] show ?thesis by (auto intro: returns_weaken)
next
  case ldbm: False
  show ?thesis
  proof (cases "resting (bigmul v)")
    case True
    let ?w = "current_instruction v"
    have "returns (keeps v) (if bigmul_start (control_unit x) \<and> \<not> GetBigmulDone (bigmul x) \<and> \<not> GetWriteDone (bigmul x)
        then bigmul_write_cycle x
        else if mem_write (control_unit x) then bindr (read_gpr (unat (rs2_of ?w)) x) (\<lambda>y. store_value (funct3_of ?w) y x)
        else Inr x)" if "keeps v x" for x
    proof -
      have "GetBigmulDone (bigmul x)" using True that by (simp add: keeps_def resting_def GetBigmulDone_def)
      with that show ?thesis by (auto intro!: returns_values keeping_stores [unfolded harmless_def])
    qed
    then have "harmless v (WriteMemory v)"
      using True ldbm keeping_loads [of v v] keeping_WriteMemory_fp [of v v]
      unfolding harmless_def WriteMemory_def Let_def ldbm_stalled_def
      by (auto intro: returns_weaken)
    then have "returns (keeps v) (WriteMemory v)" by (simp add: harmless_def)
    moreover have "\<not> write_pending (bigmul v)" using True by (simp add: resting_def write_pending_def)
    ultimately show ?thesis
    proof (elim returns_weaken)
      fix x
      assume "\<not> write_pending (bigmul v)" and "keeps v x"
      with steady_keeps [OF assms, of x] ldbm show "steady x \<and> run_frame v x \<and>
        (ldbm_stalled v \<or> write_pending (bigmul v) \<longrightarrow> stall_rank (bigmul x) < stall_rank (bigmul v))" by simp
    qed
  next
    case False
    then have m: "multiplying v" and b: "compute_pending (bigmul v) \<or> write_pending (bigmul v)"
      using assms ldbm by (auto simp: steady_def ldbm_stalled_def GetLdbmDone_def load_pending_def)
    then have w: "opcode_of (current_instruction v) = 0x3F" "\<not> isFInstruction (current_instruction v)"
      "\<not> isDInstruction (current_instruction v)"
      using custom_not_fp [of "current_instruction v"] by (auto simp: multiplying_def custom_def)
    have c: "\<not> ldbm_start (control_unit v)" "bigmul_start (control_unit v)" "\<not> mem_read (control_unit v)"
      "\<not> mem_write (control_unit v)" using m by (simp_all add: multiplying_def)
    show ?thesis
    proof (cases "write_pending (bigmul v)")
      case True
      then have "WriteMemory v = bigmul_write_cycle v"
        using w c by (simp add: WriteMemory_def GetBigmulDone_def GetWriteDone_def write_pending_def)
      with write_cycle_steady [OF assms True] show ?thesis by (auto intro: returns_weaken)
    next
      case False
      with b have "WriteMemory v = Inr v"
        using w c by (simp add: WriteMemory_def GetBigmulDone_def GetWriteDone_def compute_pending_def)
      with assms False ldbm show ?thesis by simp
    qed
  qed
qed

lemma bigmul_stall_steady:
  assumes "steady v" and "bigmul_stalled v"
  shows "returns (\<lambda>v'. steady v' \<and> run_frame v v' \<and> stall_rank (bigmul v') < stall_rank (bigmul v)) (bigmul_stall_cycle v)"
proof -
  have b: "compute_pending (bigmul v) \<or> write_pending (bigmul v)" and m: "multiplying v"
    using assms by (auto simp: steady_def bigmul_stalled_def GetBigmulDone_def resting_def load_pending_def)
  show ?thesis
  proof (cases "write_pending (bigmul v)")
    case True
    then have "bigmul_stall_cycle v = WriteMemory v" by (simp add: bigmul_stall_cycle_def GetWriteDone_def write_pending_def)
    with WriteMemory_steady [OF assms(1)] True show ?thesis by (auto intro: returns_weaken)
  next
    case False
    with b have c: "compute_pending (bigmul v)" by simp
    have s: "sound_unit (bigmul v)" using assms(1) by (simp add: steady_def)
    have "bigmul_stall_cycle v = bindr (executeBigmul (bigmul v)) (\<lambda>u. Inr (v\<lparr>bigmul := u\<rparr>))"
      using c by (simp add: bigmul_stall_cycle_def GetWriteDone_def compute_pending_def)
    then show ?thesis
      using compute_cycle [OF s c] m
      by (auto simp: steady_def multiplying_def run_frame_def intro: returns_weaken)
  qed
qed

lemma Decode_steady:
  assumes "sound_unit (bigmul v)" and "resting (bigmul v)"
  shows "returns (\<lambda>v'. steady v' \<and> run_frame v v') (Decode v)"
proof -
  let ?w = "current_instruction v" and ?c = "SetControlSignals (control_unit v) (current_instruction v)"
  consider (load) "opcode_of ?w = 0x2A" | (mul) "opcode_of ?w = 0x3F" | (other) "opcode_of ?w \<noteq> 0x2A" "opcode_of ?w \<noteq> 0x3F"
    by blast
  then show ?thesis
  proof cases
    case load
    then have "ldbm_start ?c" using custom_signals(4) [of ?w] by (simp add: custom_def)
    with load assms show ?thesis
      unfolding Decode_def start_ldbm_def Let_def
      by (auto simp: GetLdbmDone_def resting_def steady_def load_pending_def sound_unit_def wf_unit_def words_def run_frame_def
          intro!: returns_values)
  next
    case mul
    then have "bigmul_start ?c" "\<not> ldbm_start ?c" "\<not> mem_read ?c" "\<not> mem_write ?c"
      using custom_signals [of ?w] by (auto simp: custom_def)
    with mul assms show ?thesis
      unfolding Decode_def start_bigmul_instr_def Let_def
      by (auto simp: GetBigmulDone_def resting_def steady_def compute_pending_def sound_unit_def wf_unit_def words_def
          run_frame_def multiplying_def word_less_nat_alt unat_gt_0 intro!: returns_values)
  next
    case other
    then have "uint (opcode_of ?w) \<noteq> 42" "uint (opcode_of ?w) \<noteq> 63" by (auto simp: word_uint_eq_iff)
    with assms show ?thesis by (simp add: Decode_def Let_def steady_def resting_def run_frame_def)
  qed
qed

lemma instruction_steady:
  assumes "steady v" and "resting (bigmul v)"
  shows "returns (\<lambda>v'. steady v' \<and> vm_config v' = vm_config v \<and> stop_requested v' = stop_requested v \<and>
    instructions_retired v' = instructions_retired v + 1) (instruction H v)"
proof -
  have s: "sound_unit (bigmul v)" using assms(1) by (simp add: steady_def)
  let ?P = "\<lambda>x. steady x \<and> run_frame v x"
  have "returns (\<lambda>x. sound_unit (bigmul x) \<and> resting (bigmul x) \<and> run_frame v x) (Fetch v)"
    using s assms(2) by (auto simp: Fetch_def UpdateProgramCounter_def run_frame_def intro!: returns_values)
  note fetch = this
  have decode: "returns ?P (Decode x)" if "sound_unit (bigmul x) \<and> resting (bigmul x) \<and> run_frame v x" for x
    by (rule returns_weaken [OF Decode_steady]) (use that run_frame_trans [of v x] in simp_all)
  have keep: "returns ?P (h x)" if "?P x" and "harmless x (h x)" for x and h :: "RVSSVM \<Rightarrow> RVSSVM result"
    using that(2) unfolding harmless_def
  proof (rule returns_weaken)
    fix y
    assume "keeps x y"
    with that(1) steady_keeps [of x y] run_frame_trans [of v x y] show "?P y" by simp
  qed
  have mem: "returns ?P (WriteMemory x)" if "?P x" for x
    using WriteMemory_steady [OF conjunct1 [OF that]]
  proof (rule returns_weaken)
    fix y
    assume "steady y \<and> run_frame x y \<and>
      (ldbm_stalled x \<or> write_pending (bigmul x) \<longrightarrow> stall_rank (bigmul y) < stall_rank (bigmul x))"
    with that run_frame_trans [of v x y] show "?P y" by simp
  qed
  show ?thesis
    unfolding instruction_def
  proof (rule returns_bind [OF fetch], rule returns_bind [OF decode], assumption, rule returns_bind [OF keep],
      assumption, rule keeping_Execute, simp, rule returns_bind [OF mem], assumption, rule returns_bind [OF keep],
      assumption, rule keeping_WriteBack, simp)
    fix x
    assume "?P x"
    then show "returns (\<lambda>v'. steady v' \<and> vm_config v' = vm_config v \<and> stop_requested v' = stop_requested v \<and>
        instructions_retired v' = instructions_retired v + 1)
      (Inr (count_cycle (x\<lparr>instructions_retired := instructions_retired x + 1\<rparr>)))"
      by (simp add: steady_def count_cycle_def multiplying_def run_frame_def)
  qed
qed

subsection \<open>Loops that settle\<close>

text \<open>A function of its fuel comes to a result that more fuel does not change.\<close>

definition settles :: "('a \<Rightarrow> bool) \<Rightarrow> (nat \<Rightarrow> 'a result) \<Rightarrow> bool" where
  "settles P f \<longleftrightarrow> (\<exists>r F. returns P r \<and> (\<forall>k. f (F + k) = r))"

lemma settles_const: "returns P r \<Longrightarrow> (\<And>k. f k = r) \<Longrightarrow> settles P f"
  by (auto simp: settles_def)

lemma settles_Suc:
  assumes "settles P (\<lambda>k. f (Suc k))"
  shows "settles P f"
proof -
  from assms obtain r F where "returns P r" "\<And>k. f (Suc (F + k)) = r" by (auto simp: settles_def)
  then show ?thesis unfolding settles_def by (intro exI [of _ r] exI [of _ "Suc F"]) simp
qed

lemma settles_seq:
  assumes "settles Q f" and "\<And>x. Q x \<Longrightarrow> settles P (\<lambda>k. g k x)"
  shows "settles P (\<lambda>k. bindr (f k) (g k))"
proof -
  from assms(1) obtain r F where r: "returns Q r" "\<And>k. f (F + k) = r" by (auto simp: settles_def)
  show ?thesis
  proof (cases r)
    case (Inl e)
    with r show ?thesis unfolding settles_def by (intro exI [of _ "Inl e"] exI [of _ F]) simp
  next
    case (Inr x)
    with r(1) assms(2) [of x] obtain q G where q: "returns P q" "\<And>k. g (G + k) x = q" by (auto simp: settles_def)
    have "bindr (f (F + G + k)) (g (F + G + k)) = q" for k
      using r(2) [of "G + k"] q(2) [of "F + k"] Inr by (simp add: add.assoc add.left_commute)
    with q(1) show ?thesis unfolding settles_def by blast
  qed
qed

lemma settles_bindr:
  "returns Q r \<Longrightarrow> (\<And>x. Q x \<Longrightarrow> settles P (\<lambda>k. f k x)) \<Longrightarrow> settles P (\<lambda>k. bindr r (f k))"
  by (rule settles_seq [of Q "\<lambda>_. r"]) (auto intro: settles_const)

lemma settles_value [simp]: "settles (\<lambda>_. True) (\<lambda>k. Inr x)"
  by (rule settles_const [of _ "Inr x"]) simp_all

lemma steady_stop: "steady (v\<lparr>stop_requested := b\<rparr>) = steady v"
  by (simp add: steady_def multiplying_def)

lemma steady_count: "steady (count_cycle v) = steady v"
  by (simp add: steady_def multiplying_def count_cycle_def)

lemma steady_print: "steady (print out v) = steady v"
  by (simp add: steady_def multiplying_def print_def)

lemma stall_round:
  assumes "steady v" and "ldbm_stalled v \<or> bigmul_stalled v"
  shows "returns (\<lambda>v'. steady v' \<and> run_frame v v' \<and> stall_rank (bigmul v') < stall_rank (bigmul v))
    (if ldbm_stalled v then WriteMemory v else bigmul_stall_cycle v)"
  using assms WriteMemory_steady [OF assms(1)] bigmul_stall_steady [OF assms(1)]
  by (auto intro: returns_weaken)

lemma unat_below_max: "(x :: u64) \<noteq> - 1 \<Longrightarrow> unat (x + 1) = unat x + 1"
  using unatSuc [of x] by (simp add: add.commute [of x] add_eq_0_iff)

text \<open>One round of the loop, the two kinds of stall taken together.\<close>

lemma run_loop_round:
  "run_loop H requested i (Suc k) n v =
    (let w = (if requested i then v\<lparr>stop_requested := True\<rparr> else v)
     in if stop_requested w \<or> \<not> program_counter w < program_size w \<or> n > instruction_execution_limit (vm_config w)
        then Inr w
        else if ldbm_stalled w \<or> bigmul_stalled w then
          bindr (if ldbm_stalled w then WriteMemory w else bigmul_stall_cycle w)
            (\<lambda>v. run_loop H requested (i + 1) k n (count_cycle v))
        else bindr (instruction H w) (\<lambda>v. run_loop H requested (i + 1) k (n + 1)
          (print [OutText ''Program Counter: '', OutInt (uint (program_counter v))] v)))"
  unfolding run_loop.simps Let_def by simp

lemma run_loop_settles:
  assumes "steady v" and "instruction_execution_limit (vm_config v) = lim" and "lim \<noteq> - 1" and "n \<le> lim + 1"
  shows "settles (\<lambda>_. True) (\<lambda>fuel. run_loop H requested i fuel n v)"
  using assms
proof (induction "unat (lim + 1) - unat n" arbitrary: n v i rule: less_induct)
  case outer: less
  from outer.prems show ?case
  proof (induction "stall_rank (bigmul v)" arbitrary: v i rule: less_induct)
    case inner: less
    define w where "w = (if requested i then v\<lparr>stop_requested := True\<rparr> else v)"
    have w: "steady w" "vm_config w = vm_config v" "bigmul w = bigmul v"
      using inner.prems(1) by (simp_all add: w_def steady_stop)
    have round: "run_loop H requested i (Suc k) n v =
       (if stop_requested w \<or> \<not> program_counter w < program_size w \<or> n > lim then Inr w
        else if ldbm_stalled w \<or> bigmul_stalled w then
          bindr (if ldbm_stalled w then WriteMemory w else bigmul_stall_cycle w)
            (\<lambda>v. run_loop H requested (i + 1) k n (count_cycle v))
        else bindr (instruction H w) (\<lambda>v. run_loop H requested (i + 1) k (n + 1)
          (print [OutText ''Program Counter: '', OutInt (uint (program_counter v))] v)))" for k
      using inner.prems(2) w(2) unfolding run_loop_round w_def [symmetric] Let_def by simp
    show ?case
    proof (rule settles_Suc)
      consider (stop) "stop_requested w \<or> \<not> program_counter w < program_size w \<or> n > lim"
        | (stall) "\<not> (stop_requested w \<or> \<not> program_counter w < program_size w \<or> n > lim)" "ldbm_stalled w \<or> bigmul_stalled w"
        | (run) "\<not> (stop_requested w \<or> \<not> program_counter w < program_size w \<or> n > lim)" "\<not> (ldbm_stalled w \<or> bigmul_stalled w)"
        by blast
      then show "settles (\<lambda>_. True) (\<lambda>k. run_loop H requested i (Suc k) n v)"
      proof cases
        case stop
        then show ?thesis unfolding round by (intro settles_const [of _ "Inr w"]) simp_all
      next
        case stall
        then show ?thesis unfolding round if_not_P [OF stall(1)] if_P [OF stall(2)]
        proof (intro settles_bindr [OF stall_round [OF w(1)]])
          fix x
          assume "steady x \<and> run_frame w x \<and> stall_rank (bigmul x) < stall_rank (bigmul w)"
          with w inner.prems outer.prems show "settles (\<lambda>_. True) (\<lambda>k. run_loop H requested (i + 1) k n (count_cycle x))"
            by (intro inner.hyps) (simp_all add: steady_count run_frame_def, simp_all add: count_cycle_def)
        qed
      next
        case run
        then have "resting (bigmul w)"
          using w(1) by (auto simp: steady_def ldbm_stalled_def bigmul_stalled_def GetLdbmDone_def GetBigmulDone_def
              load_pending_def compute_pending_def write_pending_def multiplying_def)
        note ins = instruction_steady [OF w(1) this]
        have n: "n \<le> lim" using run(1) by (simp add: not_less)
        have l: "unat (lim + 1) = unat lim + 1" using inner.prems(3) by (rule unat_below_max)
        have "n \<noteq> - 1" using n inner.prems(3) by (auto simp: word_order.extremum_unique)
        then have n1: "unat (n + 1) = unat n + 1" by (rule unat_below_max)
        have le: "n + 1 \<le> lim + 1" using n by (simp add: word_le_nat_alt l n1)
        from run show ?thesis unfolding round if_not_P [OF run(1)] if_not_P [OF run(2)]
        proof (intro settles_bindr [OF ins])
          fix x :: RVSSVM
          let ?x = "print [OutText ''Program Counter: '', OutInt (uint (program_counter x))] x"
          assume "steady x \<and> vm_config x = vm_config w \<and> stop_requested x = stop_requested w \<and>
            instructions_retired x = instructions_retired w + 1"
          with w inner.prems n n1 l le show "settles (\<lambda>_. True) (\<lambda>k. run_loop H requested (i + 1) k (n + 1) ?x)"
            by (intro outer.hyps) (simp_all add: steady_print word_le_nat_alt, simp_all add: print_def)
        qed
      qed
    qed
  qed
qed

text \<open>The stall loops of a step.\<close>

lemma ldbm_stall_loop_settles: "steady v \<Longrightarrow> settles steady (\<lambda>k. ldbm_stall_loop loud k v)"
proof (induction "stall_rank (bigmul v)" arbitrary: v rule: less_induct)
  case less
  show ?case
  proof (rule settles_Suc, cases "ldbm_stalled v")
    case False
    with less.prems show "settles steady (\<lambda>k. ldbm_stall_loop loud (Suc k) v)"
      by (intro settles_const [of _ "Inr v"]) simp_all
  next
    case True
    let ?v = "if loud then print [OutText ''[LDBM Stall] offset='', OutInt (uint (ldbm_offset (bigmul v)))] v else v"
    have v: "bigmul ?v = bigmul v" "steady ?v" "ldbm_stalled ?v"
      using less.prems True by (simp_all add: steady_print) (simp_all add: print_def ldbm_stalled_def)
    have step: "ldbm_stall_loop loud (Suc k) v = bindr (WriteMemory ?v) (\<lambda>v. ldbm_stall_loop loud k (count_cycle v))" for k
      using True by simp
    have "returns (\<lambda>x. steady x \<and> stall_rank (bigmul x) < stall_rank (bigmul v)) (WriteMemory ?v)"
      using WriteMemory_steady [OF v(2)] v(1,3) by (elim returns_weaken) simp
    then show "settles steady (\<lambda>k. ldbm_stall_loop loud (Suc k) v)"
      unfolding step
    proof (rule settles_bindr)
      fix x
      assume "steady x \<and> stall_rank (bigmul x) < stall_rank (bigmul v)"
      then show "settles steady (\<lambda>k. ldbm_stall_loop loud k (count_cycle x))"
        by (intro less.hyps) (simp_all add: steady_count, simp add: count_cycle_def)
    qed
  qed
qed

lemma bigmul_stall_loop_settles: "steady v \<Longrightarrow> settles steady (\<lambda>k. bigmul_stall_loop loud k v)"
proof (induction "stall_rank (bigmul v)" arbitrary: v rule: less_induct)
  case less
  show ?case
  proof (rule settles_Suc, cases "bigmul_stalled v")
    case False
    with less.prems show "settles steady (\<lambda>k. bigmul_stall_loop loud (Suc k) v)"
      by (intro settles_const [of _ "Inr v"]) simp_all
  next
    case True
    let ?v = "if loud \<and> \<not> GetWriteDone (bigmul v)
      then print [OutText ''[BIGMUL Write Stall] write_offset='', OutInt (uint (write_offset (bigmul v)))] v else v"
    have v: "bigmul ?v = bigmul v" "steady ?v" "bigmul_stalled ?v"
      using less.prems True by (simp_all add: steady_print) (simp_all add: print_def bigmul_stalled_def)
    have step: "bigmul_stall_loop loud (Suc k) v =
        bindr (bigmul_stall_cycle ?v) (\<lambda>v. bigmul_stall_loop loud k (count_cycle v))" for k
      using True by simp
    have "returns (\<lambda>x. steady x \<and> stall_rank (bigmul x) < stall_rank (bigmul v)) (bigmul_stall_cycle ?v)"
      using bigmul_stall_steady [OF v(2,3)] v(1) by (elim returns_weaken) simp
    then show "settles steady (\<lambda>k. bigmul_stall_loop loud (Suc k) v)"
      unfolding step
    proof (rule settles_bindr)
      fix x
      assume "steady x \<and> stall_rank (bigmul x) < stall_rank (bigmul v)"
      then show "settles steady (\<lambda>k. bigmul_stall_loop loud k (count_cycle x))"
        by (intro less.hyps) (simp_all add: steady_count, simp add: count_cycle_def)
    qed
  qed
qed

text \<open>
  C5. On a steady machine whose instruction limit is not the largest number, a call of \<open>Run\<close> comes to an
  end, whatever the program, the contents of registers and memory, the host's floating point and the stop
  requests: there is one outcome that every sufficient bound on the rounds of its loop leads to, the
  stall cycles of LDBM and BIGMUL included. The outcome is the machine \<open>Run\<close> returns, an
  error, or \<open>Blocked\<close>: a system call that waits for input the queue does not hold. A machine is
  steady if its multiplication unit rests or is at work on the instruction that started it.
\<close>

theorem Run_ends:
  assumes "steady v" and "instruction_execution_limit (vm_config v) \<noteq> - 1"
  shows "\<exists>r F. r \<noteq> Inl OutOfFuel \<and> (\<forall>k. Run H requested (F + k) v = r)"
proof -
  have "settles (\<lambda>_. True) (\<lambda>fuel. run_loop H requested 0 fuel 0 (v\<lparr>stop_requested := False\<rparr>))"
    by (rule run_loop_settles [where lim = "instruction_execution_limit (vm_config v)"]) (use assms in \<open>simp_all add: steady_stop\<close>)
  then have "settles (\<lambda>_. True) (\<lambda>fuel. Run H requested fuel v)"
    unfolding Run_def by (rule settles_seq) simp
  then show ?thesis unfolding settles_def by (metis returns_simps(2))
qed

text \<open>
  C16. On a steady machine whose multiplication unit rests, a call of \<open>Step\<close> comes to an end: with the
  instruction that is stepped all stall cycles of LDBM and BIGMUL it starts. Every sufficient bound
  on the two loops that wait for them leads to the same outcome, which is the machine
  after the step, an error, or \<open>Blocked\<close> for a system call that waits for input.
\<close>

theorem Step_ends:
  assumes "steady v" and "resting (bigmul v)"
  shows "\<exists>r F. r \<noteq> Inl OutOfFuel \<and> (\<forall>k. Step H (F + k) v = r)"
proof -
  let ?p = "\<lambda>x. steady x \<and> resting (bigmul x)"
  have "returns ?p (preview v)"
    using assms by (auto simp: preview_def Let_def steady_def multiplying_def intro!: returns_values)
  then have "settles (\<lambda>_. True) (\<lambda>fuel. Step H fuel v)"
    unfolding Step_def
  proof (rule settles_bindr)
    fix x
    assume x: "?p x"
    show "settles (\<lambda>_. True) (\<lambda>fuel. if program_counter x < program_size x then
         bindr (instruction H x) (\<lambda>v.
           let v = print [OutText ''Program Counter: '', OutHex (program_counter v)] v
           in bindr (ldbm_stall_loop True fuel v) (\<lambda>v.
              bindr (bigmul_stall_loop True fuel v) (\<lambda>v. Inr (record_step v))))
       else Inr (program_end x))"
    proof (cases "program_counter x < program_size x")
      case False
      then show ?thesis by (intro settles_const [of _ "Inr (program_end x)"]) simp_all
    next
      case True
      have "returns steady (instruction H x)"
        using instruction_steady [of x H] x by (elim conjE) (rule returns_weaken, assumption+, simp)
      then show ?thesis
        unfolding if_P [OF True] Let_def
        by (rule settles_bindr)
          (intro settles_seq [OF ldbm_stall_loop_settles] settles_seq [OF bigmul_stall_loop_settles]; simp add: steady_print)
    qed
  qed
  then show ?thesis unfolding settles_def by (metis returns_simps(2))
qed

subsection \<open>The instruction limit\<close>

lemma returnsD: "returns P r \<Longrightarrow> r = Inr x \<Longrightarrow> P x"
  by simp

lemma run_loop_retired:
  assumes "run_loop H requested i fuel n v = Inr v'" and "steady v"
    and "instruction_execution_limit (vm_config v) = lim" and "lim \<noteq> - 1" and "n \<le> lim + 1"
  shows "\<exists>j. unat n + j \<le> unat lim + 1 \<and> instructions_retired v' = instructions_retired v + of_nat j \<and>
    (\<not> stop_requested v' \<and> program_counter v' < program_size v' \<longrightarrow> unat n + j = unat lim + 1) \<and>
    (stop_requested v' \<longrightarrow> stop_requested v \<or> (\<exists>t. requested t))"
  using assms
proof (induction fuel arbitrary: n v i)
  case 0
  then show ?case by simp
next
  case (Suc fuel)
  define w where "w = (if requested i then v\<lparr>stop_requested := True\<rparr> else v)"
  have w: "steady w" "vm_config w = vm_config v" "instructions_retired w = instructions_retired v"
    "stop_requested w \<longrightarrow> stop_requested v \<or> (\<exists>t. requested t)"
    using Suc.prems(2) by (auto simp: w_def steady_stop)
  have l: "unat (lim + 1) = unat lim + 1" using Suc.prems(4) by (rule unat_below_max)
  have round: "(if stop_requested w \<or> \<not> program_counter w < program_size w \<or> n > lim then Inr w
      else if ldbm_stalled w \<or> bigmul_stalled w then
        bindr (if ldbm_stalled w then WriteMemory w else bigmul_stall_cycle w)
          (\<lambda>v. run_loop H requested (i + 1) fuel n (count_cycle v))
      else bindr (instruction H w) (\<lambda>v. run_loop H requested (i + 1) fuel (n + 1)
        (print [OutText ''Program Counter: '', OutInt (uint (program_counter v))] v))) = Inr v'"
    using Suc.prems(1,3) w(2) unfolding run_loop_round w_def [symmetric] Let_def by simp
  consider (stop) "stop_requested w \<or> \<not> program_counter w < program_size w \<or> n > lim" "v' = w"
    | (stall) x where "ldbm_stalled w \<or> bigmul_stalled w"
        "(if ldbm_stalled w then WriteMemory w else bigmul_stall_cycle w) = Inr x"
        "run_loop H requested (i + 1) fuel n (count_cycle x) = Inr v'"
    | (run) x where "n \<le> lim" "\<not> (ldbm_stalled w \<or> bigmul_stalled w)" "instruction H w = Inr x"
        "run_loop H requested (i + 1) fuel (n + 1)
          (print [OutText ''Program Counter: '', OutInt (uint (program_counter x))] x) = Inr v'"
    using round by (auto split: if_splits simp: not_less)
  then show ?case
  proof cases
    case stop
    have "unat n = unat lim + 1" if "n > lim"
      using that Suc.prems(5) l by (simp add: word_less_nat_alt word_le_nat_alt)
    with stop w Suc.prems(5) l show ?thesis by (intro exI [of _ 0]) (auto simp: word_le_nat_alt)
  next
    case stall
    have "steady x \<and> run_frame w x" using returnsD [OF stall_round [OF w(1) stall(1)] stall(2)] by simp
    with Suc.IH [OF stall(3)] Suc.prems(3-5) w show ?thesis
      by (auto simp: steady_count run_frame_def) (auto simp: count_cycle_def)
  next
    case run
    have "resting (bigmul w)"
      using w(1) run(2) by (auto simp: steady_def ldbm_stalled_def bigmul_stalled_def GetLdbmDone_def GetBigmulDone_def
          load_pending_def compute_pending_def write_pending_def multiplying_def)
    from returnsD [OF instruction_steady [OF w(1) this] run(3)] have
      x: "steady x" "vm_config x = vm_config v" "instructions_retired x = instructions_retired v + 1"
        "stop_requested x = stop_requested w" using w by simp_all
    have "n \<noteq> - 1" using run(1) Suc.prems(4) by (auto simp: word_order.extremum_unique)
    then have n: "unat (n + 1) = unat n + 1" by (rule unat_below_max)
    have "n + 1 \<le> lim + 1" using run(1) by (simp add: word_le_nat_alt l n)
    with Suc.IH [OF run(4)] x Suc.prems(3,4) obtain j where
      j: "unat (n + 1) + j \<le> unat lim + 1" "instructions_retired v' = instructions_retired v + 1 + of_nat j"
        "\<not> stop_requested v' \<and> program_counter v' < program_size v' \<longrightarrow> unat (n + 1) + j = unat lim + 1"
        "stop_requested v' \<longrightarrow> stop_requested w \<or> (\<exists>t. requested t)"
      by (auto simp: steady_print) (auto simp: print_def)
    with n w(4) show ?thesis by (intro exI [of _ "Suc j"]) (auto simp: add.assoc)
  qed
qed

text \<open>
  C6. A run executes at most one instruction more than the configured limit, and if it returns
  before the end of the program without a stop request, exactly one more: a limit of zero runs one
  instruction.
\<close>

theorem Run_instruction_limit:
  assumes "Run H requested fuel v = Inr v'" and "steady v" and "instruction_execution_limit (vm_config v) \<noteq> - 1"
  shows "\<exists>j. instructions_retired v' = instructions_retired v + of_nat j \<and>
    j \<le> unat (instruction_execution_limit (vm_config v)) + 1 \<and>
    (program_counter v' < program_size v' \<and> \<not> (\<exists>t. requested t) \<longrightarrow>
      j = unat (instruction_execution_limit (vm_config v)) + 1)"
proof -
  from assms(1) obtain x where x: "run_loop H requested 0 fuel 0 (v\<lparr>stop_requested := False\<rparr>) = Inr x" "v' = program_end x"
    by (auto simp: Run_def)
  have e: "instructions_retired v' = instructions_retired x" "program_counter v' = program_counter x"
    "program_size v' = program_size x"
    by (simp_all add: x(2) program_end_def print_def)
  from run_loop_retired [OF x(1) _ _ assms(3)] assms(2) obtain j where
    "j \<le> unat (instruction_execution_limit (vm_config v)) + 1" "instructions_retired x = instructions_retired v + of_nat j"
    "\<not> stop_requested x \<and> program_counter x < program_size x \<longrightarrow>
      j = unat (instruction_execution_limit (vm_config v)) + 1" "stop_requested x \<longrightarrow> (\<exists>t. requested t)"
    by (auto simp: steady_stop)
  with e show ?thesis by auto
qed

subsection \<open>Examples\<close>

lemma new_machine_steady:
  "steady (new_RVSSVM c backend)" "resting (bigmul (new_RVSSVM c backend))" "vm_config (new_RVSSVM c backend) = c"
  by (simp_all add: steady_def resting_def sound_unit_def wf_unit_def words_def new_RVSSVM_def new_VmBase_def
      VmBase.extend_def initial_unit_def)

text \<open>A machine with a program of two instructions and an instruction limit of zero.\<close>

definition limited :: RVSSVM where
  "limited = (one_instruction 0x00500093)\<lparr>program_size := 8,
     vm_config := default_config\<lparr>instruction_execution_limit := 0\<rparr>\<rparr>"

lemma limited_simps:
  "program_counter limited = 0" "program_size limited = 8" "memory limited = memory (one_instruction 0x00500093)"
  "control_unit limited = control_unit (one_instruction 0x00500093)" "registers limited = new_RegisterFile"
  "instruction_execution_limit (vm_config limited) = 0" "branch_flag limited = False"
  "bigmul limited = bigmul (one_instruction 0x00500093)" "instructions_retired limited = 0"
  "steady limited"
  by (simp_all add: limited_def steady_def resting_def sound_unit_def wf_unit_def words_def one_instruction_def
      new_RVSSVM_def new_VmBase_def VmBase.extend_def initial_unit_def)

lemma limited_runs: "\<exists>v'. \<forall>k. Run H (\<lambda>_. False) (Suc (Suc k)) limited = Inr v' \<and> program_counter v' = 4 \<and> program_size v' = 8"
  by (simp add: Run_def program_end_def vm_eval one_word limited_simps new_ControlUnit_def)

lemma multiply_program_steady:
  "steady multiply_program" "resting (bigmul multiply_program)" "vm_config multiply_program = default_config\<lparr>memory_block_size := 16\<rparr>"
  by (simp_all add: steady_def resting_def sound_unit_def wf_unit_def words_def initial_unit_def)
    (simp add: multiply_program_def)

text \<open>The machine that runs one of two instructions, and the one that multiplies.\<close>

theorem Run_ends_witness:
  "\<forall>H. (\<exists>v' F. (\<forall>k. Run H (\<lambda>_. False) (F + k) limited = Inr v') \<and> program_counter v' = 4) \<and>
     (\<exists>r F. r \<noteq> Inl OutOfFuel \<and> (\<forall>k. Run H (\<lambda>_. False) (F + k) multiply_program = r))"
proof (intro allI conjI)
  fix H
  obtain r F where r: "\<And>k. Run H (\<lambda>_. False) (F + k) limited = r"
    using Run_ends [of limited H "\<lambda>_. False"] by (auto simp: limited_simps)
  obtain v' where v': "\<And>k. Run H (\<lambda>_. False) (Suc (Suc k)) limited = Inr v'" "program_counter v' = 4"
    using limited_runs by blast
  have "r = Inr v'" using r [of 2] v'(1) [of F] by (simp add: numeral_2_eq_2)
  with r v'(2) show "\<exists>v' F. (\<forall>k. Run H (\<lambda>_. False) (F + k) limited = Inr v') \<and> program_counter v' = 4" by blast
  show "\<exists>r F. r \<noteq> Inl OutOfFuel \<and> (\<forall>k. Run H (\<lambda>_. False) (F + k) multiply_program = r)"
    by (rule Run_ends) (simp_all add: multiply_program_steady default_config_def)
qed

text \<open>The step that loads two operands: one cycle for the instruction and fifteen of stall.\<close>

theorem Step_ends_witness:
  "\<forall>H. \<exists>v' F. (\<forall>k. Step H (F + k) multiply_program = Inr v') \<and> cycle_s v' = 16"
proof
  fix H
  obtain r F where r: "\<And>k. Step H (F + k) multiply_program = r"
    using Step_ends [OF multiply_program_steady(1,2), of H] by blast
  obtain v' where v': "Step H (F + 15) multiply_program = Inr v'" "loaded multiply_program 1024 2048 v'"
    using multiply_program_loads [of "F + 15" H] by auto
  have "r = Inr v'" using r [of 15] v'(1) by simp
  moreover have "cycle_s v' = 16" using v'(2) by (simp add: loaded_def)
  ultimately show "\<exists>v' F. (\<forall>k. Step H (F + k) multiply_program = Inr v') \<and> cycle_s v' = 16" using r by blast
qed

theorem Run_instruction_limit_witness:
  "\<forall>H. \<exists>v'. Run H (\<lambda>_. False) 2 limited = Inr v' \<and> program_counter v' = 4 \<and> program_size v' = 8 \<and>
     instructions_retired v' = 1"
proof
  fix H
  have "\<exists>v'. Run H (\<lambda>_. False) (Suc (Suc 0)) limited = Inr v' \<and> program_counter v' = 4 \<and> program_size v' = 8"
    by (simp add: Run_def program_end_def vm_eval one_word limited_simps new_ControlUnit_def)
  then obtain v' where v': "Run H (\<lambda>_. False) 2 limited = Inr v'" "program_counter v' = 4" "program_size v' = 8"
    by (auto simp: numeral_2_eq_2)
  with Run_instruction_limit [OF v'(1)] have "instructions_retired v' = 1" by (simp add: limited_simps)
  with v' show "\<exists>v'. Run H (\<lambda>_. False) 2 limited = Inr v' \<and> program_counter v' = 4 \<and> program_size v' = 8 \<and>
     instructions_retired v' = 1" by blast
qed

end
