(* ===== verification/Lexer.thy ===== *)
theory Lexer
  imports CString Registers Instructions
begin

text \<open>
  The lexer (src/assembler/lexer.cpp, include/assembler/lexer.h, include/assembler/tokens.h,
  include/common/rounding_modes.h). The input stream is the list of its lines, the state of the
  class a record. \<open>std::isalpha\<close> and the like are those of the C locale. The text
  \<open>std::to_string(std::stod(s))\<close> of a floating-point literal is a parameter \<open>float_text\<close>.
\<close>

subsection \<open>Tokens\<close>

datatype TokenType =
    INVALID | EOF | IDENTIFIER | DIRECTIVE | OPCODE | GP_REGISTER | FP_REGISTER | VEC_REGISTER
  | CSR_REGISTER | NUM | FLOAT | LABEL | LABEL_REF | COMMA | LPAREN | RPAREN | STRING | RM

record Token =
  tok_type :: TokenType
  tok_value :: string
  tok_line :: u32
  tok_column :: u32

definition token :: "TokenType \<Rightarrow> string \<Rightarrow> u32 \<Rightarrow> u32 \<Rightarrow> Token" where
  "token ty v l c = \<lparr>tok_type = ty, tok_value = v, tok_line = l, tok_column = c\<rparr>"

definition rounding_modes :: "(string \<times> nat) list" where
  "rounding_modes = [(''rne'', 0), (''rtz'', 1), (''rdn'', 2), (''rup'', 3), (''rmm'', 4), (''dyn'', 7)]"

definition isValidRoundingMode :: "string \<Rightarrow> bool" where
  "isValidRoundingMode mode \<longleftrightarrow> map_of rounding_modes mode \<noteq> None"

definition getRoundingModeEncoding :: "string \<Rightarrow> nat result" where
  "getRoundingModeEncoding mode =
     (case map_of rounding_modes mode of Some n \<Rightarrow> Inr n | None \<Rightarrow> Inl InvalidArgument)"

subsection \<open>State\<close>

record Lexer =
  current_line :: string
  line_number :: u32
  column_number :: u32
  pos :: nat
  lexed :: "Token list"
  lex_cerr :: "u32 list"

text \<open>The rest of the line, and a step over its next character.\<close>

definition rest :: "Lexer \<Rightarrow> string" where
  "rest l = drop (pos l) (current_line l)"

definition step_char :: "Lexer \<Rightarrow> Lexer" where
  "step_char l = l\<lparr>pos := pos l + 1, column_number := column_number l + 1\<rparr>"

text \<open>The loops that run over characters: while the next one satisfies a test, step over it.\<close>

fun skip_chars :: "(char \<Rightarrow> bool) \<Rightarrow> string \<Rightarrow> Lexer \<Rightarrow> Lexer" where
  "skip_chars P [] l = l"
| "skip_chars P (c # cs) l = (if P c then skip_chars P cs (step_char l) else l)"

definition next_line :: "Lexer \<Rightarrow> Lexer" where
  "next_line l = l\<lparr>line_number := line_number l + 1, column_number := 1\<rparr>"

fun skip_blanks :: "string \<Rightarrow> Lexer \<Rightarrow> Lexer" where
  "skip_blanks [] l = l"
| "skip_blanks (c # cs) l =
     (if is_space c then
        skip_blanks cs (if c = CHR 0x0A then (next_line l)\<lparr>pos := pos l + 1\<rparr> else step_char l)
      else l)"

definition skipWhitespace :: "Lexer \<Rightarrow> Lexer" where
  "skipWhitespace l = skip_blanks (rest l) l"

definition skipLine :: "Lexer \<Rightarrow> Lexer" where
  "skipLine l =
     (let l = skip_chars (\<lambda>c. c \<noteq> CHR 0x0A) (rest l) l
      in case rest l of c # _ \<Rightarrow> next_line l | [] \<Rightarrow> l)"

text \<open>The bodies of \<open>skipComment\<close> and \<open>skipLine\<close> are the same.\<close>

definition skipComment :: "Lexer \<Rightarrow> Lexer" where
  "skipComment l =
     (let l = skip_chars (\<lambda>c. c \<noteq> CHR 0x0A) (rest l) l
      in case rest l of c # _ \<Rightarrow> next_line l | [] \<Rightarrow> l)"

subsection \<open>Identifiers, numbers, directives, strings\<close>

definition isalpha :: "char \<Rightarrow> bool" where
  "isalpha c \<longleftrightarrow> (let n = (of_char c :: nat) in (65 \<le> n \<and> n \<le> 90) \<or> (97 \<le> n \<and> n \<le> 122))"

definition isdigit :: "char \<Rightarrow> bool" where
  "isdigit c \<longleftrightarrow> (let n = (of_char c :: nat) in 48 \<le> n \<and> n \<le> 57)"

definition ident_char :: "char \<Rightarrow> bool" where
  "ident_char c \<longleftrightarrow> isalpha c \<or> isdigit c \<or> c = CHR ''_'' \<or> c = CHR ''.''"

definition number_char :: "char \<Rightarrow> bool" where
  "number_char c \<longleftrightarrow> isdigit c \<or> isalpha c \<or> c = CHR ''-'' \<or> c = CHR ''.'' \<or> c = CHR ''+''"

text \<open>\<open>current_line_.substr(start_pos, pos_ - start_pos)\<close>, from a state to a later one.\<close>

definition text_between :: "Lexer \<Rightarrow> Lexer \<Rightarrow> string" where
  "text_between l l' = take (pos l' - pos l) (rest l)"

definition word_type :: "string \<Rightarrow> TokenType option" where
  "word_type v =
     (if isValidInstruction v then Some OPCODE
      else if IsValidGeneralPurposeRegister v then Some GP_REGISTER
      else if IsValidFloatingPointRegister v then Some FP_REGISTER
      else if IsValidCsr v then Some CSR_REGISTER
      else if isValidRoundingMode v then Some RM
      else None)"

definition after_comma :: "Lexer \<Rightarrow> bool" where
  "after_comma l \<longleftrightarrow> lexed l \<noteq> [] \<and> tok_type (last (lexed l)) = COMMA"

definition lex_identifier :: "Lexer \<Rightarrow> Token \<times> Lexer" where
  "lex_identifier l =
     (let l' = skip_chars ident_char (rest l) l; v = text_between l l';
          t = (\<lambda>ty. token ty v (line_number l) (column_number l))
      in if (case rest l' of c # _ \<Rightarrow> c = CHR '':'' | [] \<Rightarrow> False)
         then (t (if CHR ''.'' \<in> set v then INVALID else LABEL), step_char l')
         else case word_type v of
             Some ty \<Rightarrow> (t ty, l')
           | None \<Rightarrow> (t (if after_comma l then LABEL_REF else INVALID), l'))"

definition strip_minus :: "string \<Rightarrow> bool \<times> string" where
  "strip_minus s = (case s of c # r \<Rightarrow> if c = CHR ''-'' then (True, r) else (False, s) | [] \<Rightarrow> (False, []))"

definition digits :: "nat \<Rightarrow> string \<Rightarrow> bool" where
  "digits base s \<longleftrightarrow> s \<noteq> [] \<and> list_all (is_digit_of base) s"

text \<open>The regular expression \<open>^0[xX][0-9a-fA-F]+$\<close> and its kin, for a prefix of either case.\<close>

definition prefixed :: "char \<Rightarrow> char \<Rightarrow> nat \<Rightarrow> string \<Rightarrow> bool" where
  "prefixed x X base s =
     (case s of z # p # r \<Rightarrow> z = CHR ''0'' \<and> (p = x \<or> p = X) \<and> digits base r | _ \<Rightarrow> False)"

definition float_exponent :: "string \<Rightarrow> bool" where
  "float_exponent s =
     (case s of e # r \<Rightarrow> (e = CHR ''e'' \<or> e = CHR ''E'') \<and>
        digits 10 (case r of c # r' \<Rightarrow> if c = CHR ''-'' \<or> c = CHR ''+'' then r' else r | [] \<Rightarrow> []) | [] \<Rightarrow> False)"

definition float_shape :: "string \<Rightarrow> bool" where
  "float_shape s =
     (let r = snd (strip_minus s); d = takeWhile (is_digit_of 10) r; r = dropWhile (is_digit_of 10) r
      in case r of
          c # r' \<Rightarrow>
            if c = CHR ''.'' then
              (let f = takeWhile (is_digit_of 10) r'; e = dropWhile (is_digit_of 10) r'
               in f \<noteq> [] \<and> (e = [] \<or> float_exponent e))
            else d \<noteq> [] \<and> float_exponent r
        | [] \<Rightarrow> False)"

text \<open>The value without its prefix, as the branches for the radixes rebuild it.\<close>

definition without_prefix :: "string \<Rightarrow> string" where
  "without_prefix v = (case strip_minus v of (neg, r) \<Rightarrow> (if neg then ''-'' else []) @ drop 2 r)"

definition number_token :: "(string \<Rightarrow> string result) \<Rightarrow> string \<Rightarrow> (TokenType \<times> string) result" where
  "number_token float_text v =
     (let r = snd (strip_minus v) in
      if prefixed CHR ''x'' CHR ''X'' 16 v
        then bindr (stoull 16 v) (\<lambda>n. Inr (NUM, nat_to_string (unat n)))
      else if prefixed CHR ''x'' CHR ''X'' 16 r
        then bindr (stoll 16 (without_prefix v)) (\<lambda>n. Inr (NUM, to_string n))
      else if prefixed CHR ''b'' CHR ''B'' 2 r
        then bindr (stoll 2 (without_prefix v)) (\<lambda>n. Inr (NUM, to_string n))
      else if prefixed CHR ''o'' CHR ''O'' 8 r
        then bindr (stoll 8 (without_prefix v)) (\<lambda>n. Inr (NUM, to_string n))
      else if digits 10 r then bindr (stoll 10 v) (\<lambda>n. Inr (NUM, to_string n))
      else if float_shape v then bindr (float_text v) (\<lambda>s. Inr (FLOAT, s))
      else Inr (INVALID, ''Invalid''))"

definition number :: "(string \<Rightarrow> string result) \<Rightarrow> Lexer \<Rightarrow> (Token \<times> Lexer) result" where
  "number float_text l =
     (let l' = skip_chars number_char (rest l) l in
      bindr (number_token float_text (text_between l l')) (\<lambda>(ty, v).
        Inr (token ty v (line_number l) (column_number l), l')))"

definition directive :: "Lexer \<Rightarrow> Token \<times> Lexer" where
  "directive l =
     (let l = l\<lparr>pos := pos l + 1\<rparr>; l' = skip_chars isalpha (rest l) l
      in (token DIRECTIVE (text_between l l') (line_number l) (column_number l), l'))"

definition stringLiteral :: "Lexer \<Rightarrow> Token \<times> Lexer" where
  "stringLiteral l =
     (let l = step_char l; l' = skip_chars (\<lambda>c. c \<noteq> CHR 0x22) (rest l) l
      in if rest l' = [] then
           (token INVALID [] (line_number l) (column_number l), l'\<lparr>lex_cerr := lex_cerr l' @ [line_number l']\<rparr>)
         else (token STRING (text_between l l') (line_number l) (column_number l), step_char l'))"

subsection \<open>The next token\<close>

lemma skip_chars_frame [simp]:
  "current_line (skip_chars P s l) = current_line l" "line_number (skip_chars P s l) = line_number l"
  "lexed (skip_chars P s l) = lexed l"
  by (induction P s l rule: skip_chars.induct) (simp_all add: step_char_def)

lemma skip_chars_pos: "pos (skip_chars P s l) = pos l + length (takeWhile P s)"
  by (induction P s l rule: skip_chars.induct) (simp_all add: step_char_def)

lemma skip_blanks_frame [simp]: "current_line (skip_blanks s l) = current_line l" "lexed (skip_blanks s l) = lexed l"
  by (induction s l rule: skip_blanks.induct) (simp_all add: step_char_def next_line_def)

lemma skip_blanks_pos: "pos (skip_blanks s l) = pos l + length (takeWhile is_space s)"
  by (induction s l rule: skip_blanks.induct) (simp_all add: step_char_def next_line_def)

lemma skipComment_frame [simp]:
  "current_line (skipComment l) = current_line l" "lexed (skipComment l) = lexed l"
  "pos (skipComment l) = pos l + length (takeWhile (\<lambda>c. c \<noteq> CHR 0x0A) (rest l))"
  by (simp_all add: skipComment_def Let_def next_line_def skip_chars_pos split: list.split)

text \<open>A comment is skipped by a further call, from a position behind its mark.\<close>

function getNextToken :: "(string \<Rightarrow> string result) \<Rightarrow> Lexer \<Rightarrow> (Token \<times> Lexer) result" where
  "getNextToken float_text l =
     (let l = skipWhitespace l in
      case rest l of
        [] \<Rightarrow> Inr (token EOF [] (line_number l) (of_nat (pos l)), l)
      | c # _ \<Rightarrow>
          if isalpha c \<or> c = CHR ''_'' then Inr (lex_identifier l)
          else if isdigit c \<or> c = CHR ''-'' then number float_text l
          else if c = CHR '','' then
            (let l = step_char l in Inr (token COMMA '','' (line_number l) (column_number l - 1), l))
          else if c = CHR 0x22 then Inr (stringLiteral l)
          else if c = CHR ''('' then
            (let l = step_char l in Inr (token LPAREN ''('' (line_number l) (column_number l - 1), l))
          else if c = CHR '')'' then
            (let l = step_char l in Inr (token RPAREN '')'' (line_number l) (column_number l - 1), l))
          else if c = CHR ''.'' then Inr (directive l)
          else if c = CHR ''#'' \<or> c = CHR '';'' then getNextToken float_text (skipComment l)
          else (let l = skipLine l in Inr (token INVALID [] (line_number l) (column_number l - 1), l)))"
  by pat_completeness auto
termination
proof (relation "measure (\<lambda>(_, l). length (rest l))")
  show "wf (measure (\<lambda>(_ :: string \<Rightarrow> string result, l). length (rest l)))" by simp
next
  fix float_text :: "string \<Rightarrow> string result" and l w c cs
  assume w: "w = skipWhitespace l" and r: "rest w = c # cs" and c: "c = CHR ''#'' \<or> c = CHR '';''"
  have "length (rest w) \<le> length (rest l)"
    by (simp add: w rest_def skipWhitespace_def skip_blanks_pos)
  moreover have "length (rest (skipComment w)) < length (rest w)"
  proof -
    have "0 < length (takeWhile (\<lambda>c. c \<noteq> CHR 0x0A) (rest w))" using r c by auto
    moreover have "0 < length (rest w)" using r by simp
    moreover have "length (rest (skipComment w)) = length (rest w) - length (takeWhile (\<lambda>c. c \<noteq> CHR 0x0A) (rest w))"
      by (simp add: rest_def)
    ultimately show ?thesis by linarith
  qed
  ultimately show "((float_text, skipComment w), float_text, l) \<in> measure (\<lambda>(_, l). length (rest l))" by simp
qed

declare getNextToken.simps [simp del]

text \<open>The token and the state it leaves, when a character other than a comment's mark is next.\<close>

definition token_at :: "(string \<Rightarrow> string result) \<Rightarrow> char \<Rightarrow> Lexer \<Rightarrow> (Token \<times> Lexer) result" where
  "token_at float_text c l =
     (if isalpha c \<or> c = CHR ''_'' then Inr (lex_identifier l)
      else if isdigit c \<or> c = CHR ''-'' then number float_text l
      else if c = CHR '','' then
        (let l = step_char l in Inr (token COMMA '','' (line_number l) (column_number l - 1), l))
      else if c = CHR 0x22 then Inr (stringLiteral l)
      else if c = CHR ''('' then
        (let l = step_char l in Inr (token LPAREN ''('' (line_number l) (column_number l - 1), l))
      else if c = CHR '')'' then
        (let l = step_char l in Inr (token RPAREN '')'' (line_number l) (column_number l - 1), l))
      else if c = CHR ''.'' then Inr (directive l)
      else (let l = skipLine l in Inr (token INVALID [] (line_number l) (column_number l - 1), l)))"

lemma getNextToken_at:
  "rest (skipWhitespace l) = c # cs \<Longrightarrow> c \<noteq> CHR ''#'' \<Longrightarrow> c \<noteq> CHR '';'' \<Longrightarrow>
     getNextToken float_text l = token_at float_text c (skipWhitespace l)"
  by (subst getNextToken.simps) (simp add: Let_def token_at_def)

lemma getNextToken_comment:
  "rest (skipWhitespace l) = CHR ''#'' # cs \<Longrightarrow>
     getNextToken float_text l = getNextToken float_text (skipComment (skipWhitespace l))"
  "rest (skipWhitespace l) = CHR '';'' # cs \<Longrightarrow>
     getNextToken float_text l = getNextToken float_text (skipComment (skipWhitespace l))"
  by (rule trans [OF getNextToken.simps], simp add: Let_def isalpha_def isdigit_def)+

lemma skipLine_frame [simp]:
  "current_line (skipLine l) = current_line l" "lexed (skipLine l) = lexed l"
  "pos (skipLine l) = pos l + length (takeWhile (\<lambda>c. c \<noteq> CHR 0x0A) (rest l))"
  by (simp_all add: skipLine_def Let_def next_line_def skip_chars_pos split: list.split)

lemma skipWhitespace_frame [simp]:
  "current_line (skipWhitespace l) = current_line l" "lexed (skipWhitespace l) = lexed l"
  "pos l \<le> pos (skipWhitespace l)"
  by (simp_all add: skipWhitespace_def skip_blanks_pos)

lemma step_char_frame [simp]:
  "current_line (step_char l) = current_line l" "lexed (step_char l) = lexed l" "line_number (step_char l) = line_number l"
  "pos (step_char l) = pos l + 1"
  by (simp_all add: step_char_def)

text \<open>A handler stays on its line and moves on.\<close>

definition advances :: "Lexer \<Rightarrow> Lexer \<Rightarrow> bool" where
  "advances l l' \<longleftrightarrow> current_line l' = current_line l \<and> lexed l' = lexed l \<and> pos l < pos l'"

lemma handlers_advance:
  "rest l = c # cs \<Longrightarrow> ident_char c \<Longrightarrow> advances l (snd (lex_identifier l))"
  "rest l = c # cs \<Longrightarrow> number_char c \<Longrightarrow> number float_text l = Inr (t, l') \<Longrightarrow> advances l l'"
  "advances l (snd (stringLiteral l))" "advances l (snd (directive l))" "advances l (step_char l)"
  "rest l = c # cs \<Longrightarrow> c \<noteq> CHR 0x0A \<Longrightarrow> advances l (skipLine l)"
  by (auto simp: advances_def lex_identifier_def number_def stringLiteral_def directive_def Let_def skip_chars_pos
      split: option.split)

lemma token_at_advances:
  assumes "token_at float_text c l = Inr (t, l')" and "rest l = c # cs" and "\<not> is_space c"
  shows "advances l l'"
proof -
  have nl: "c \<noteq> CHR 0x0A" using assms(3) by (auto simp: is_space_def)
  note h = handlers_advance [of l] handlers_advance(1,6) [OF assms(2)] handlers_advance(2) [OF assms(2), of float_text t l']
  consider "isalpha c \<or> c = CHR ''_''" "(t, l') = lex_identifier l"
    | "isdigit c \<or> c = CHR ''-''" "number float_text l = Inr (t, l')"
    | "l' = step_char l" | "(t, l') = stringLiteral l" | "(t, l') = directive l" | "l' = skipLine l"
    using assms(1) unfolding token_at_def Let_def by (auto split: if_splits)
  then show ?thesis
  proof cases
    case 1
    then have "l' = snd (lex_identifier l)" "ident_char c" by (auto simp: ident_char_def dest: arg_cong [of _ _ snd])
    with h show ?thesis by simp
  next
    case 2
    then have "number_char c" by (auto simp: number_char_def)
    with 2 h show ?thesis by simp
  next
    case 4
    then show ?thesis using h(3) by (metis snd_conv)
  next
    case 5
    then show ?thesis using h(4) by (metis snd_conv)
  qed (use h nl in simp_all)
qed

lemma getNextToken_advances:
  "getNextToken float_text l = Inr (t, l') \<Longrightarrow> pos l < length (current_line l) \<Longrightarrow> advances l l'"
proof (induction float_text l rule: getNextToken.induct)
  case (1 float_text l)
  let ?w = "skipWhitespace l"
  show ?case
  proof (cases "rest ?w")
    case Nil
    then have "length (current_line l) \<le> pos ?w" by (simp add: rest_def)
    with Nil 1(2,3) show ?thesis by (subst (asm) getNextToken.simps) (auto simp: Let_def advances_def)
  next
    case (Cons c cs)
    have "\<not> is_space c"
    proof -
      have "rest ?w = dropWhile is_space (rest l)"
        by (simp add: rest_def skipWhitespace_def skip_blanks_pos dropWhile_eq_drop add.commute)
      with Cons show ?thesis by (metis hd_dropWhile list.distinct(1) list.sel(1))
    qed
    show ?thesis
    proof (cases "c = CHR ''#'' \<or> c = CHR '';''")
      case True
      let ?v = "skipComment ?w"
      define n where "n = length (takeWhile (\<lambda>c. c \<noteq> CHR 0x0A) (rest ?w))"
      have "0 < n" using Cons True by (auto simp: n_def)
      moreover have "pos ?v = pos ?w + n" by (simp add: n_def)
      ultimately have v: "pos l < pos ?v" "current_line ?v = current_line l" "lexed ?v = lexed l"
        using skipWhitespace_frame(3) [of l] by (linarith, simp_all)
      have g: "getNextToken float_text ?v = Inr (t, l')"
        using 1(2) Cons True by (subst (asm) getNextToken.simps) (auto simp: Let_def isalpha_def isdigit_def split: if_splits)
      show ?thesis
      proof (cases "pos ?v < length (current_line ?v)")
        case True
        have "advances ?v l'"
          by (rule 1(1) [OF refl Cons _ _ _ _ _ _ _ _ g True]) (use \<open>c = _ \<or> _\<close> in \<open>auto simp: isalpha_def isdigit_def\<close>)
        with v show ?thesis by (simp add: advances_def)
      next
        case False
        have "rest (skipWhitespace ?v) = []" using False skipWhitespace_frame(3) [of ?v] by (simp add: rest_def)
        with g have "l' = skipWhitespace ?v" by (subst (asm) getNextToken.simps) (simp add: Let_def)
        with v show ?thesis using skipWhitespace_frame(3) [of ?v] by (simp add: advances_def)
      qed
    next
      case False
      with 1(2) getNextToken_at [OF Cons] have "token_at float_text c ?w = Inr (t, l')" by simp
      from token_at_advances [OF this Cons \<open>\<not> is_space c\<close>] show ?thesis
        using order.strict_trans1 [OF skipWhitespace_frame(3)] by (simp add: advances_def)
    qed
  qed
qed

subsection \<open>The token list\<close>

text \<open>The inner loop of \<open>getTokenList\<close>, over one line.\<close>

function lex_line :: "(string \<Rightarrow> string result) \<Rightarrow> Lexer \<Rightarrow> Lexer result" where
  "lex_line float_text l =
     (if pos l < length (current_line l) then
        (case getNextToken float_text l of
           Inl e \<Rightarrow> Inl e
         | Inr (t, l) \<Rightarrow> lex_line float_text (if tok_type t \<noteq> EOF then l\<lparr>lexed := lexed l @ [t]\<rparr> else l))
      else Inr l)"
  by pat_completeness auto
termination
  by (relation "measure (\<lambda>(_, l). length (current_line l) - pos l)") (auto dest!: getNextToken_advances simp: advances_def)

declare lex_line.simps [simp del]

fun lex_lines :: "(string \<Rightarrow> string result) \<Rightarrow> string list \<Rightarrow> Lexer \<Rightarrow> Lexer result" where
  "lex_lines float_text [] l = Inr l"
| "lex_lines float_text (s # ss) l =
     bindr (lex_line float_text (l\<lparr>current_line := s, pos := 0, column_number := 1, line_number := line_number l + 1\<rparr>))
       (lex_lines float_text ss)"

definition new_Lexer :: Lexer where
  "new_Lexer = \<lparr>current_line = [], line_number = 0, column_number = 0, pos = 0, lexed = [], lex_cerr = []\<rparr>"

definition getTokenList :: "(string \<Rightarrow> string result) \<Rightarrow> string list \<Rightarrow> Token list result" where
  "getTokenList float_text lines =
     bindr (lex_lines float_text lines new_Lexer) (\<lambda>l.
       Inr (lexed l @ [token EOF [] (line_number l) (column_number l)]))"

text \<open>\<open>std::getline\<close> on the text of a file: a line break at the end starts no further line.\<close>

fun getlines_from :: "string \<Rightarrow> string \<Rightarrow> string list" where
  "getlines_from acc [] = (if acc = [] then [] else [acc])"
| "getlines_from acc (c # cs) =
     (if c = CHR 0x0A then acc # getlines_from [] cs else getlines_from (acc @ [c]) cs)"

definition getlines :: "string \<Rightarrow> string list" where
  "getlines s = getlines_from [] s"


subsection \<open>The lexical grammar\<close>

text \<open>
  The text of a token of a kind, and what may not follow it directly. A number is written as
  \<open>std::to_string\<close> writes it; a reference to a label is told from a mistake by the comma before it.
\<close>

definition word_text :: "string \<Rightarrow> bool" where
  "word_text v \<longleftrightarrow> (case v of c # _ \<Rightarrow> isalpha c \<or> c = CHR ''_'' | [] \<Rightarrow> False) \<and> list_all ident_char v"

inductive lexeme :: "bool \<Rightarrow> TokenType \<Rightarrow> string \<Rightarrow> string \<Rightarrow> bool" for comma where
  word: "word_text v \<Longrightarrow> word_type v = Some ty \<Longrightarrow> lexeme comma ty v v"
| label_ref: "word_text v \<Longrightarrow> word_type v = None \<Longrightarrow> comma \<Longrightarrow> lexeme comma LABEL_REF v v"
| label: "word_text v \<Longrightarrow> CHR ''.'' \<notin> set v \<Longrightarrow> lexeme comma LABEL v (v @ '':'')"
| num: "- (2 ^ 63) \<le> k \<Longrightarrow> k < 2 ^ 63 \<Longrightarrow> lexeme comma NUM (to_string k) (to_string k)"
| comma: "lexeme comma COMMA '','' '',''"
| lparen: "lexeme comma LPAREN ''('' ''(''"
| rparen: "lexeme comma RPAREN '')'' '')''"
| directive: "list_all isalpha v \<Longrightarrow> lexeme comma DIRECTIVE v (CHR ''.'' # v)"
| string: "CHR 0x22 \<notin> set v \<Longrightarrow> lexeme comma STRING v (CHR 0x22 # v @ [CHR 0x22])"

definition may_follow :: "TokenType \<Rightarrow> char \<Rightarrow> bool" where
  "may_follow ty c \<longleftrightarrow>
     (if ty = NUM then \<not> number_char c
      else if ty = DIRECTIVE then \<not> isalpha c
      else if ty \<in> {LABEL, COMMA, LPAREN, RPAREN, STRING} then True
      else \<not> ident_char c \<and> c \<noteq> CHR '':'')"

text \<open>The ways to write a sequence of tokens on a line: blanks between them, a comment at the end.\<close>

inductive written :: "bool \<Rightarrow> (TokenType \<times> string) list \<Rightarrow> string \<Rightarrow> bool" where
  nothing: "written comma [] []"
| comment: "c = CHR ''#'' \<or> c = CHR '';'' \<Longrightarrow> CHR 0x0A \<notin> set s \<Longrightarrow> written comma [] (c # s)"
| blank: "is_space c \<Longrightarrow> c \<noteq> CHR 0x0A \<Longrightarrow> written comma ts s \<Longrightarrow> written comma ts (c # s)"
| token: "lexeme comma ty v lx \<Longrightarrow> (case s of [] \<Rightarrow> True | c # _ \<Rightarrow> may_follow ty c) \<Longrightarrow>
     written (ty = COMMA) ts s \<Longrightarrow> written comma ((ty, v) # ts) (lx @ s)"

lemma rest_skip_chars: "rest (skip_chars P (rest l) l) = dropWhile P (rest l)"
  by (simp add: rest_def skip_chars_pos dropWhile_eq_drop add.commute)

lemma text_between_skip_chars: "text_between l (skip_chars P (rest l) l) = takeWhile P (rest l)"
  by (simp add: text_between_def skip_chars_pos takeWhile_eq_take [symmetric])

lemma rest_step_char [simp]: "rest (step_char l) = tl (rest l)"
  by (simp add: rest_def step_char_def drop_Suc tl_drop)

lemma rest_frame [simp]:
  "rest (l\<lparr>lexed := ts\<rparr>) = rest l" "rest (l\<lparr>lex_cerr := cs\<rparr>) = rest l" "rest (l\<lparr>column_number := n\<rparr>) = rest l"
  by (simp_all add: rest_def)

text \<open>Blanks that are no line breaks.\<close>

lemma skip_blanks_line:
  "CHR 0x0A \<notin> set (takeWhile is_space s) \<Longrightarrow> line_number (skip_blanks s l) = line_number l"
  by (induction s l rule: skip_blanks.induct) (auto simp: step_char_def split: if_splits)

lemma rest_skipWhitespace: "rest (skipWhitespace l) = dropWhile is_space (rest l)"
  by (simp add: rest_def skipWhitespace_def skip_blanks_pos dropWhile_eq_drop add.commute)

lemma char_classes:
  "isalpha c \<or> c = CHR ''_'' \<Longrightarrow> ident_char c \<and> \<not> is_space c \<and> \<not> isdigit c \<and> c \<noteq> CHR ''-'' \<and> c \<noteq> CHR '','' \<and>
     c \<noteq> CHR 0x22 \<and> c \<noteq> CHR ''('' \<and> c \<noteq> CHR '')'' \<and> c \<noteq> CHR ''.'' \<and> c \<noteq> CHR ''#'' \<and> c \<noteq> CHR '';''"
  "isdigit c \<or> c = CHR ''-'' \<Longrightarrow> number_char c \<and> \<not> is_space c \<and> \<not> isalpha c \<and> c \<noteq> CHR ''_'' \<and> c \<noteq> CHR ''#'' \<and> c \<noteq> CHR '';''"
  "\<not> ident_char CHR '':''"
  by (auto simp: ident_char_def number_char_def isalpha_def isdigit_def is_space_def Let_def)

lemma isdigit_is_digit_of: "is_digit_of 10 c \<longleftrightarrow> isdigit c"
  by (auto simp: is_digit_of_def digit_val_def isdigit_def Let_def)

text \<open>What a step over one token yields.\<close>

definition yields :: "(string \<Rightarrow> string result) \<Rightarrow> Lexer \<Rightarrow> TokenType \<Rightarrow> string \<Rightarrow> string \<Rightarrow> bool" where
  "yields float_text l ty v s \<longleftrightarrow> (\<exists>t l'. getNextToken float_text l = Inr (t, l') \<and> tok_type t = ty \<and> tok_value t = v \<and>
     tok_line t = line_number l \<and> rest l' = s \<and> line_number l' = line_number l)"

lemma yields_token_at:
  assumes "dropWhile is_space (rest l) = c # cs" and "c \<noteq> CHR ''#''" and "c \<noteq> CHR '';''"
    and "CHR 0x0A \<notin> set (takeWhile is_space (rest l))"
    and "\<And>w. rest w = c # cs \<Longrightarrow> lexed w = lexed l \<Longrightarrow> \<exists>t l'. token_at float_text c w = Inr (t, l') \<and> tok_type t = ty \<and>
      tok_value t = v \<and> tok_line t = line_number w \<and> rest l' = s \<and> line_number l' = line_number w"
  shows "yields float_text l ty v s"
proof -
  have r: "rest (skipWhitespace l) = c # cs" using assms(1) by (simp add: rest_skipWhitespace)
  have "line_number (skipWhitespace l) = line_number l"
    using skip_blanks_line [OF assms(4)] by (simp add: skipWhitespace_def)
  with assms(5) [OF r] getNextToken_at [OF r assms(2,3)] show ?thesis by (simp add: yields_def)
qed


lemma stoll_to_string:
  "- (2 ^ 63) \<le> k \<Longrightarrow> k < 2 ^ 63 \<Longrightarrow> stoll 10 (to_string k) = Inr k"
  by (simp add: to_string_def stoll_def parse_nat_to_string parse_minus_nat_to_string signed_value_def)

lemma nat_to_string_isdigit: "list_all isdigit (nat_to_string n)"
  using nat_to_string_digits [of _ n] by (auto simp: list_all_iff isdigit_is_digit_of)

lemma strip_minus_to_string: "\<exists>n. snd (strip_minus (to_string k)) = nat_to_string n \<and> to_string k \<noteq> []"
proof (cases "k < 0")
  case True
  then show ?thesis by (auto simp: to_string_def strip_minus_def)
next
  case False
  obtain c cs where s: "nat_to_string (nat k) = c # cs"
    using nat_to_string_nonempty by (cases "nat_to_string (nat k)") auto
  then have "c \<noteq> CHR ''-''" using nat_to_string_digits [of c "nat k"] is_digit_of_10_chars(1) by simp
  with False s show ?thesis by (intro exI [of _ "nat k"]) (simp add: to_string_def strip_minus_def)
qed

lemma not_prefixed: "list_all isdigit r \<Longrightarrow> \<not> isdigit x \<Longrightarrow> \<not> isdigit X \<Longrightarrow> \<not> prefixed x X b r"
  by (auto simp: prefixed_def split: list.split)

lemma number_token_to_string:
  assumes "- (2 ^ 63) \<le> k" and "k < 2 ^ 63"
  shows "number_token float_text (to_string k) = Inr (NUM, to_string k)"
proof -
  obtain n where n: "snd (strip_minus (to_string k)) = nat_to_string n" "to_string k \<noteq> []"
    using strip_minus_to_string by blast
  have d: "list_all isdigit (nat_to_string n)" by (rule nat_to_string_isdigit)
  then have "digits 10 (nat_to_string n)"
    by (simp add: digits_def nat_to_string_nonempty list_all_iff isdigit_is_digit_of)
  moreover have p: "\<not> prefixed x X b (nat_to_string n)" if "\<not> isdigit x" "\<not> isdigit X" for x X b
    using not_prefixed [OF d that] .
  moreover have "\<not> prefixed CHR ''x'' CHR ''X'' 16 (to_string k)"
  proof (cases "k < 0")
    case False
    then show ?thesis using not_prefixed [OF nat_to_string_isdigit, of "CHR ''x''"] by (simp add: to_string_def isdigit_def)
  qed (simp add: to_string_def prefixed_def split: list.split)
  ultimately show ?thesis
    using assms by (simp add: number_token_def n stoll_to_string isdigit_def)
qed

lemma to_string_number_char: "list_all number_char (to_string k)"
  using nat_to_string_isdigit [of "nat k"] nat_to_string_isdigit [of "nat (- k)"]
  by (auto simp: to_string_def number_char_def list_all_iff)

lemma to_string_first: "\<exists>c cs. to_string k = c # cs \<and> (isdigit c \<or> c = CHR ''-'')"
proof -
  obtain c cs where "nat_to_string (nat k) = c # cs"
    using nat_to_string_nonempty by (cases "nat_to_string (nat k)") auto
  then show ?thesis using nat_to_string_isdigit [of "nat k"] by (auto simp: to_string_def)
qed

lemma takeWhile_stop: "list_all P v \<Longrightarrow> (case s of [] \<Rightarrow> True | c # _ \<Rightarrow> \<not> P c) \<Longrightarrow> takeWhile P (v @ s) = v"
  by (cases s) (auto simp: list_all_iff takeWhile_append)

lemma dropWhile_stop: "list_all P v \<Longrightarrow> (case s of [] \<Rightarrow> True | c # _ \<Rightarrow> \<not> P c) \<Longrightarrow> dropWhile P (v @ s) = s"
  by (cases s) (auto simp: list_all_iff dropWhile_append)

lemma skip_chars_reads:
  assumes "rest w = v @ s" and "list_all P v" and "case s of [] \<Rightarrow> True | c # _ \<Rightarrow> \<not> P c"
  obtains x where "skip_chars P (rest w) w = x" and "rest x = s" and "text_between w x = v"
    and "line_number x = line_number w"
proof
  show "rest (skip_chars P (rest w) w) = s" "text_between w (skip_chars P (rest w) w) = v"
    using dropWhile_stop [OF assms(2,3)] takeWhile_stop [OF assms(2,3)]
    unfolding rest_skip_chars text_between_skip_chars by (simp_all only: assms(1))
qed simp_all

lemma lex_identifier_word:
  assumes "rest w = v @ s" and "word_text v" and "word_type v = Some ty \<or> word_type v = None \<and> after_comma w \<and> ty = LABEL_REF"
    and "case s of [] \<Rightarrow> True | c # _ \<Rightarrow> \<not> ident_char c \<and> c \<noteq> CHR '':''"
  shows "\<exists>t l'. lex_identifier w = (t, l') \<and> tok_type t = ty \<and> tok_value t = v \<and> tok_line t = line_number w \<and>
    rest l' = s \<and> line_number l' = line_number w"
proof -
  have f: "case s of [] \<Rightarrow> True | c # _ \<Rightarrow> \<not> ident_char c" using assms(4) by (auto split: list.splits)
  have a: "list_all ident_char v" using assms(2) by (simp add: word_text_def)
  obtain x where x: "skip_chars ident_char (rest w) w = x" "rest x = s" "text_between w x = v" "line_number x = line_number w"
    by (rule skip_chars_reads [OF assms(1) a f])
  have "\<not> (case s of c # _ \<Rightarrow> c = CHR '':'' | [] \<Rightarrow> False)" using assms(4) by (auto split: list.splits)
  then show ?thesis
    using assms(3) x(4) unfolding lex_identifier_def Let_def x(1-3) by (auto simp: token_def x)
qed

lemma lex_identifier_label:
  assumes "rest w = v @ CHR '':'' # s" and "word_text v" and "CHR ''.'' \<notin> set v"
  shows "\<exists>t l'. lex_identifier w = (t, l') \<and> tok_type t = LABEL \<and> tok_value t = v \<and> tok_line t = line_number w \<and>
    rest l' = s \<and> line_number l' = line_number w"
proof -
  have a: "list_all ident_char v" using assms(2) by (simp add: word_text_def)
  have f: "case CHR '':'' # s of [] \<Rightarrow> True | c # _ \<Rightarrow> \<not> ident_char c" using char_classes(3) by simp
  obtain x where x: "skip_chars ident_char (rest w) w = x" "rest x = CHR '':'' # s" "text_between w x = v"
    "line_number x = line_number w" by (rule skip_chars_reads [OF assms(1) a f])
  show ?thesis
    using assms(3) unfolding lex_identifier_def Let_def x(1-3) by (simp add: token_def x)
qed

lemma word_type_kinds: "word_type v = Some ty \<Longrightarrow> ty \<in> {OPCODE, GP_REGISTER, FP_REGISTER, CSR_REGISTER, RM}"
  by (auto simp: word_type_def split: if_splits)

lemma word_first: "word_text v \<Longrightarrow> \<exists>c cs. v = c # cs \<and> (isalpha c \<or> c = CHR ''_'')"
  by (auto simp: word_text_def split: list.splits)

text \<open>The first character of a text selects the handler, and the handler reads the text.\<close>

definition reads :: "(string \<Rightarrow> string result) \<Rightarrow> Lexer \<Rightarrow> TokenType \<Rightarrow> string \<Rightarrow> string \<Rightarrow> string \<Rightarrow> bool" where
  "reads float_text w ty v lx s \<longleftrightarrow> (\<exists>c cs. lx = c # cs \<and> \<not> is_space c \<and> c \<noteq> CHR ''#'' \<and> c \<noteq> CHR '';'' \<and>
     (\<exists>t l'. token_at float_text c w = Inr (t, l') \<and> tok_type t = ty \<and> tok_value t = v \<and> tok_line t = line_number w \<and>
        rest l' = s \<and> line_number l' = line_number w))"

lemma reads_word:
  assumes "word_text v" and "\<exists>t l'. lex_identifier w = (t, l') \<and> tok_type t = ty \<and> tok_value t = v \<and>
      tok_line t = line_number w \<and> rest l' = s \<and> line_number l' = line_number w"
  shows "reads float_text w ty v (v @ ending) s"
proof -
  obtain c cs where c: "v = c # cs" "isalpha c \<or> c = CHR ''_''" using word_first [OF assms(1)] by blast
  with assms(2) char_classes(1) [OF c(2)] show ?thesis by (auto simp: reads_def token_at_def)
qed

lemma reads_number:
  assumes "rest w = to_string k @ s" and "- (2 ^ 63) \<le> k" and "k < 2 ^ 63"
    and "case s of [] \<Rightarrow> True | c # _ \<Rightarrow> \<not> number_char c"
  shows "reads float_text w NUM (to_string k) (to_string k) s"
proof -
  obtain c cs where c: "to_string k = c # cs" "isdigit c \<or> c = CHR ''-''" using to_string_first by blast
  obtain x where x: "skip_chars number_char (rest w) w = x" "rest x = s" "text_between w x = to_string k"
    "line_number x = line_number w" by (rule skip_chars_reads [OF assms(1) to_string_number_char assms(4)])
  have "\<exists>t l'. number float_text w = Inr (t, l') \<and> tok_type t = NUM \<and> tok_value t = to_string k \<and>
      tok_line t = line_number w \<and> rest l' = s \<and> line_number l' = line_number w"
    unfolding number_def Let_def x(1-3) by (simp add: number_token_to_string [OF assms(2,3)] x token_def)
  with c char_classes(2) [OF c(2)] show ?thesis unfolding reads_def token_at_def by simp
qed

lemma reads_string:
  assumes "rest w = CHR 0x22 # v @ CHR 0x22 # s" and "CHR 0x22 \<notin> set v"
  shows "reads float_text w STRING v (CHR 0x22 # v @ [CHR 0x22]) s"
proof -
  let ?w = "step_char w"
  have w: "rest ?w = v @ CHR 0x22 # s" by (simp add: assms(1))
  have a: "list_all (\<lambda>c. c \<noteq> CHR 0x22) v" using assms(2) by (auto simp: list_all_iff)
  have f: "case CHR 0x22 # s of [] \<Rightarrow> True | c # _ \<Rightarrow> \<not> c \<noteq> CHR 0x22" by simp
  obtain x where x: "skip_chars (\<lambda>c. c \<noteq> CHR 0x22) (rest ?w) ?w = x" "rest x = CHR 0x22 # s" "text_between ?w x = v"
    "line_number x = line_number ?w" by (rule skip_chars_reads [OF w a f])
  show ?thesis
    unfolding reads_def token_at_def stringLiteral_def Let_def x(1-3)
    by (simp add: x token_def isalpha_def isdigit_def is_space_def)
qed

lemma reads_directive:
  assumes "rest w = CHR ''.'' # v @ s" and "list_all isalpha v" and "case s of [] \<Rightarrow> True | c # _ \<Rightarrow> \<not> isalpha c"
  shows "reads float_text w DIRECTIVE v (CHR ''.'' # v) s"
proof -
  let ?w = "w\<lparr>pos := pos w + 1\<rparr>"
  have w: "rest ?w = v @ s" using assms(1) rest_step_char [of w] by (simp add: rest_def step_char_def)
  obtain x where x: "skip_chars isalpha (rest ?w) ?w = x" "rest x = s" "text_between ?w x = v"
    "line_number x = line_number ?w" by (rule skip_chars_reads [OF w assms(2,3)])
  show ?thesis
    unfolding reads_def token_at_def directive_def Let_def x(1-3)
    by (simp add: x token_def isalpha_def isdigit_def is_space_def)
qed

lemma lexeme_reads:
  assumes "lexeme (after_comma w) ty v lx" and "rest w = lx @ s" and "case s of [] \<Rightarrow> True | c # _ \<Rightarrow> may_follow ty c"
  shows "reads float_text w ty v lx s"
  using assms
proof cases
  case word
  have "case s of [] \<Rightarrow> True | c # _ \<Rightarrow> \<not> ident_char c \<and> c \<noteq> CHR '':''"
    using assms(3) word_type_kinds [OF word(3)] by (auto simp: may_follow_def split: list.splits)
  from reads_word [OF word(2) lex_identifier_word [OF _ word(2) _ this], of w ty float_text "[]"] word assms(2)
  show ?thesis by simp
next
  case label_ref
  have "case s of [] \<Rightarrow> True | c # _ \<Rightarrow> \<not> ident_char c \<and> c \<noteq> CHR '':''"
    using assms(3) label_ref(1) by (auto simp: may_follow_def split: list.splits)
  from reads_word [OF label_ref(3) lex_identifier_word [OF _ label_ref(3) _ this], of w ty float_text "[]"] label_ref assms(2)
  show ?thesis by simp
next
  case label
  then have "rest w = v @ CHR '':'' # s" using assms(2) by simp
  from reads_word [OF label(3) lex_identifier_label [OF this label(3,4)], of float_text "'':''"] label show ?thesis by simp
next
  case (num k)
  have "case s of [] \<Rightarrow> True | c # _ \<Rightarrow> \<not> number_char c"
    using assms(3) num(1) by (auto simp: may_follow_def split: list.splits)
  from reads_number [OF _ num(4,5) this, of w float_text] num assms(2) show ?thesis by simp
next
  case directive
  have "case s of [] \<Rightarrow> True | c # _ \<Rightarrow> \<not> isalpha c"
    using assms(3) directive(1) by (auto simp: may_follow_def split: list.splits)
  from reads_directive [OF _ directive(3) this, of w float_text] directive assms(2) show ?thesis by simp
next
  case string
  with assms(2) reads_string [of w v s float_text] show ?thesis by simp
qed (use assms(2) in \<open>auto simp: reads_def token_at_def token_def isalpha_def isdigit_def is_space_def Let_def\<close>)

subsection \<open>The lexer reads what is written\<close>

lemma lexeme_first: "lexeme comma ty v lx \<Longrightarrow> \<exists>c cs. lx = c # cs \<and> \<not> is_space c"
proof (induction rule: lexeme.induct)
  case (word v ty)
  then show ?case using word_first [of v] char_classes(1) by blast
next
  case (label_ref v)
  then show ?case using word_first [of v] char_classes(1) by blast
next
  case (label v)
  then show ?case using word_first [of v] char_classes(1) by (metis append_Cons)
next
  case (num k)
  then show ?case using to_string_first [of k] char_classes(2) by blast
qed (simp_all add: is_space_def)

lemma written_cases:
  "written comma ts s \<Longrightarrow> CHR 0x0A \<notin> set (takeWhile is_space s) \<and>
    (case ts of
       [] \<Rightarrow> (case dropWhile is_space s of [] \<Rightarrow> True | c # cs \<Rightarrow> (c = CHR ''#'' \<or> c = CHR '';'') \<and> CHR 0x0A \<notin> set cs)
     | (ty, v) # ts' \<Rightarrow> \<exists>lx r. lexeme comma ty v lx \<and> (case r of [] \<Rightarrow> True | c # _ \<Rightarrow> may_follow ty c) \<and>
         written (ty = COMMA) ts' r \<and> dropWhile is_space s = lx @ r)"
proof (induction rule: written.induct)
  case (token comma ty v lx s ts)
  obtain c cs where "lx = c # cs" "\<not> is_space c" using lexeme_first [OF token(1)] by blast
  with token show ?case by auto
next
  case (comment c s comma)
  then have "\<not> is_space c" by (auto simp: is_space_def)
  with comment show ?case by simp
next
  case (blank c comma ts s)
  then show ?case by (cases ts) simp_all
qed simp

definition typed :: "Token \<Rightarrow> TokenType \<times> string \<times> u32" where
  "typed t = (tok_type t, tok_value t, tok_line t)"

lemma lex_line_end:
  assumes "written comma [] (rest l)"
  shows "\<exists>l'. lex_line float_text l = Inr l' \<and> lexed l' = lexed l \<and> line_number l' = line_number l"
proof (cases "pos l < length (current_line l)")
  case False
  then show ?thesis by (subst lex_line.simps) simp
next
  case True
  let ?w = "skipWhitespace l"
  have c: "CHR 0x0A \<notin> set (takeWhile is_space (rest l))" "case rest ?w of [] \<Rightarrow> True
      | c # cs \<Rightarrow> (c = CHR ''#'' \<or> c = CHR '';'') \<and> CHR 0x0A \<notin> set cs"
    using written_cases [OF assms] by (simp_all add: rest_skipWhitespace)
  have ln: "line_number ?w = line_number l" using skip_blanks_line [OF c(1)] by (simp add: skipWhitespace_def)
  have "\<exists>t l'. getNextToken float_text l = Inr (t, l') \<and> tok_type t = EOF \<and> rest l' = [] \<and> line_number l' = line_number l \<and>
      lexed l' = lexed l"
  proof (cases "rest ?w")
    case Nil
    then show ?thesis using ln by (subst getNextToken.simps) (simp add: token_def Let_def)
  next
    case (Cons x xs)
    let ?v = "skipComment ?w"
    have x: "x = CHR ''#'' \<or> x = CHR '';''" "CHR 0x0A \<notin> set xs" using c(2) Cons by auto
    then have a: "list_all (\<lambda>c. c \<noteq> CHR 0x0A) (rest ?w)" using Cons by (auto simp: list_all_iff)
    obtain y where y: "skip_chars (\<lambda>c. c \<noteq> CHR 0x0A) (rest ?w) ?w = y" "rest y = []" "line_number y = line_number ?w"
      by (rule skip_chars_reads [of ?w "rest ?w" "[]", OF _ a]) simp_all
    then have "?v = y" by (simp add: skipComment_def Let_def)
    moreover have "lexed y = lexed ?w" unfolding y(1) [symmetric] by simp
    ultimately have v: "rest ?v = []" "line_number ?v = line_number l" "lexed ?v = lexed l"
      using y(2,3) ln by (simp_all only: skipWhitespace_frame)
    then have e: "rest (skipWhitespace ?v) = []" "line_number (skipWhitespace ?v) = line_number l"
      using skip_blanks_line [of "rest ?v" ?v] by (simp_all add: rest_skipWhitespace) (simp add: skipWhitespace_def)
    have "getNextToken float_text l = getNextToken float_text ?v"
      using Cons x(1) getNextToken_comment by blast
    also have "\<dots> = Inr (token EOF [] (line_number l) (of_nat (pos (skipWhitespace ?v))), skipWhitespace ?v)"
      using e by (subst getNextToken.simps) (simp add: Let_def)
    finally show ?thesis using e v(3) by (simp add: token_def)
  qed
  then obtain t l' where g: "getNextToken float_text l = Inr (t, l')" "tok_type t = EOF" "rest l' = []"
    "line_number l' = line_number l" "lexed l' = lexed l" by blast
  have "lex_line float_text l' = Inr l'"
    using g(3) by (subst lex_line.simps) (simp add: rest_def)
  with g True show ?thesis by (subst lex_line.simps) simp
qed

lemma lex_line_written:
  "written (after_comma l) ts (rest l) \<Longrightarrow>
     \<exists>l'. lex_line float_text l = Inr l' \<and> line_number l' = line_number l \<and>
       map typed (lexed l') = map typed (lexed l) @ map (\<lambda>(ty, v). (ty, v, line_number l)) ts"
proof (induction ts arbitrary: l)
  case Nil
  then show ?case using lex_line_end [of _ l float_text] by fastforce
next
  case (Cons tv ts)
  obtain ty v where tv: "tv = (ty, v)" by (cases tv)
  let ?w = "skipWhitespace l"
  from written_cases [OF Cons.prems] tv obtain lx r where
    w: "CHR 0x0A \<notin> set (takeWhile is_space (rest l))" "lexeme (after_comma l) ty v lx"
      "case r of [] \<Rightarrow> True | c # _ \<Rightarrow> may_follow ty c" "written (ty = COMMA) ts r" "rest ?w = lx @ r"
    by (auto simp: rest_skipWhitespace)
  have ln: "line_number ?w = line_number l" using skip_blanks_line [OF w(1)] by (simp add: skipWhitespace_def)
  have "after_comma ?w = after_comma l" by (simp add: after_comma_def)
  with lexeme_reads [of ?w ty v lx r float_text] w obtain c cs t l' where
    c: "lx = c # cs" "c \<noteq> CHR ''#''" "c \<noteq> CHR '';''" "token_at float_text c ?w = Inr (t, l')" "tok_type t = ty"
      "tok_value t = v" "tok_line t = line_number l" "rest l' = r" "line_number l' = line_number l" "\<not> is_space c"
    using ln by (auto simp: reads_def)
  have r: "rest ?w = c # (cs @ r)" using w(5) c(1) by simp
  then have g: "getNextToken float_text l = Inr (t, l')" using getNextToken_at [OF r c(2,3)] c(4) by simp
  have pos: "pos l < length (current_line l)"
  proof (rule ccontr)
    assume "\<not> ?thesis"
    then have "length (current_line l) \<le> pos ?w" using skipWhitespace_frame(3) [of l] by linarith
    then have "rest ?w = []" by (simp add: rest_def)
    with r show False by simp
  qed
  from getNextToken_advances [OF g pos] have lx: "lexed l' = lexed l" by (simp add: advances_def)
  have ty: "ty \<noteq> EOF" using w(2) word_type_kinds by (cases rule: lexeme.cases) auto
  let ?l = "l'\<lparr>lexed := lexed l' @ [t]\<rparr>"
  have "after_comma ?l = (ty = COMMA)" using c(5) by (simp add: after_comma_def)
  with w(4) c(8) have "written (after_comma ?l) ts (rest ?l)" by simp
  from Cons.IH [OF this] obtain l2 where
    l2: "lex_line float_text ?l = Inr l2" "line_number l2 = line_number l"
      "map typed (lexed l2) = map typed (lexed ?l) @ map (\<lambda>(ty, v). (ty, v, line_number l)) ts" using c(9) by auto
  have "lex_line float_text l = lex_line float_text ?l"
    using g pos ty c(5) by (subst lex_line.simps) simp
  moreover have "typed t = (ty, v, line_number l)" using c(5-7) by (simp add: typed_def)
  ultimately show ?case using l2 lx by (simp add: tv)
qed

text \<open>Whether the last token of a line, or the last before it when it has none, is a comma.\<close>

definition comma_at_end :: "bool \<Rightarrow> (TokenType \<times> string) list \<Rightarrow> bool" where
  "comma_at_end comma ts = (if ts = [] then comma else fst (last ts) = COMMA)"

fun written_lines :: "bool \<Rightarrow> (TokenType \<times> string) list list \<Rightarrow> string list \<Rightarrow> bool" where
  "written_lines comma [] [] \<longleftrightarrow> True"
| "written_lines comma (ts # tss) (s # ss) \<longleftrightarrow> written comma ts s \<and> written_lines (comma_at_end comma ts) tss ss"
| "written_lines comma _ _ \<longleftrightarrow> False"

text \<open>The tokens of the lines, each with the number of its line, the first of them line \<open>n + 1\<close>.\<close>

fun on_lines :: "u32 \<Rightarrow> (TokenType \<times> string) list list \<Rightarrow> (TokenType \<times> string \<times> u32) list" where
  "on_lines n [] = []"
| "on_lines n (ts # tss) = map (\<lambda>(ty, v). (ty, v, n + 1)) ts @ on_lines (n + 1) tss"

lemma after_comma_typed: "after_comma l \<longleftrightarrow> map typed (lexed l) \<noteq> [] \<and> fst (last (map typed (lexed l))) = COMMA"
  by (auto simp: after_comma_def last_map typed_def)

lemma lex_lines_written:
  "written_lines (after_comma l) tss ss \<Longrightarrow>
     \<exists>l'. lex_lines float_text ss l = Inr l' \<and> line_number l' = line_number l + of_nat (length ss) \<and>
       map typed (lexed l') = map typed (lexed l) @ on_lines (line_number l) tss"
proof (induction "after_comma l" tss ss arbitrary: l rule: written_lines.induct)
  case (2 ts tss s ss)
  let ?l = "l\<lparr>current_line := s, pos := 0, column_number := 1, line_number := line_number l + 1\<rparr>"
  have "written (after_comma ?l) ts (rest ?l)" using 2(2) by (simp add: after_comma_def rest_def)
  from lex_line_written [OF this] obtain l1 where
    l1: "lex_line float_text ?l = Inr l1" "line_number l1 = line_number l + 1"
      "map typed (lexed l1) = map typed (lexed l) @ map (\<lambda>(ty, v). (ty, v, line_number l + 1)) ts" by fastforce
  have "after_comma l1 = comma_at_end (after_comma l) ts"
    unfolding after_comma_typed l1(3) by (auto simp: comma_at_end_def last_map split: prod.split)
  with 2(2) have "written_lines (after_comma l1) tss ss" by simp
  with 2(1) \<open>after_comma l1 = _\<close> obtain l2 where
    "lex_lines float_text ss l1 = Inr l2" "line_number l2 = line_number l1 + of_nat (length ss)"
      "map typed (lexed l2) = map typed (lexed l1) @ on_lines (line_number l1) tss" by metis
  with l1 show ?case by (simp add: algebra_simps)
qed simp_all

text \<open>
  C29. The lexer reads back what was written: for a text whose lines are sequences of lexemes in any
  of the ways the grammar allows (any blanks between them, comments, labels, references after a
  comma, numbers in the whole 64-bit range, strings), the token list is the sequence that was
  written, with its kinds and values and the number of the line of each, and the end-of-file token.
\<close>

theorem getTokenList_reads:
  assumes "written_lines False tss ss"
  shows "\<exists>toks. getTokenList float_text ss = Inr toks \<and>
           map typed toks = on_lines 0 tss @ [(EOF, [], of_nat (length ss))]"
proof -
  have "written_lines (after_comma new_Lexer) tss ss" using assms by (simp add: after_comma_def new_Lexer_def)
  from lex_lines_written [OF this] obtain l where "lex_lines float_text ss new_Lexer = Inr l"
    "line_number l = of_nat (length ss)" "map typed (lexed l) = on_lines 0 tss"
    by (fastforce simp: new_Lexer_def)
  then show ?thesis by (simp add: getTokenList_def typed_def token_def)
qed

lemma written_space: "written comma ts s \<Longrightarrow> written comma ts (CHR '' '' # s)"
  by (rule written.blank) (simp_all add: is_space_def)

lemma written_token:
  "lexeme comma ty v lx \<Longrightarrow> written (ty = COMMA) ts s \<Longrightarrow> (case s of [] \<Rightarrow> True | c # _ \<Rightarrow> may_follow ty c) \<Longrightarrow>
     x = lx @ s \<Longrightarrow> written comma ((ty, v) # ts) x"
  by (simp add: written.token)

lemma example_line:
  "written False [(LABEL, ''up''), (OPCODE, ''addi''), (GP_REGISTER, ''x1''), (COMMA, '',''), (NUM, ''-5'')]
     ''up: addi x1, -5 # down''"
proof -
  have "to_string (- 5) = ''-5''" by code_simp
  with lexeme.num [of "- 5"] have n: "lexeme True NUM ''-5'' ''-5''" by simp
  have "written False [] '' # down''"
    by (intro written_space written.comment) simp_all
  then have "written True [(NUM, ''-5'')] '' -5 # down''"
    by (intro written_space written_token [OF n]) (simp_all add: may_follow_def number_char_def isdigit_def isalpha_def)
  then have "written False [(COMMA, '',''), (NUM, ''-5'')] '', -5 # down''"
    by (intro written_token [OF lexeme.comma]) (simp_all add: may_follow_def)
  moreover have "lexeme False GP_REGISTER ''x1'' ''x1''" by (rule lexeme.word) code_simp+
  ultimately have "written False [(GP_REGISTER, ''x1''), (COMMA, '',''), (NUM, ''-5'')] '' x1, -5 # down''"
    by (intro written_space) (erule written_token, auto simp: may_follow_def ident_char_def isdigit_def isalpha_def)
  moreover have "lexeme False OPCODE ''addi'' ''addi''" by (rule lexeme.word) code_simp+
  ultimately have "written False [(OPCODE, ''addi''), (GP_REGISTER, ''x1''), (COMMA, '',''), (NUM, ''-5'')] '' addi x1, -5 # down''"
    by (intro written_space) (erule written_token, auto simp: may_follow_def ident_char_def isdigit_def isalpha_def)
  moreover have "lexeme False LABEL ''up'' ''up:''"
    using lexeme.label [of "''up''" False] by (simp add: word_text_def ident_char_def isalpha_def)
  ultimately show ?thesis by (elim written_token) (auto simp: may_follow_def)
qed

theorem getTokenList_reads_witness:
  "\<exists>toks. getTokenList (\<lambda>_. Inl InvalidArgument) [''up: addi x1, -5 # down'', []] = Inr toks \<and>
     map typed toks = [(LABEL, ''up'', 1), (OPCODE, ''addi'', 1), (GP_REGISTER, ''x1'', 1), (COMMA, '','', 1),
       (NUM, ''-5'', 1), (EOF, [], 2)]"
  using getTokenList_reads [of "[[(LABEL, ''up''), (OPCODE, ''addi''), (GP_REGISTER, ''x1''), (COMMA, '',''), (NUM, ''-5'')], []]"
      "[''up: addi x1, -5 # down'', []]" "\<lambda>_. Inl InvalidArgument"] example_line
  by (simp add: written.nothing)

end
