(* ===== verification/Parser.thy ===== *)
theory Parser
  imports Lexer CodeGenerator VmBase
begin

text \<open>
  The parser (src/assembler/parser.cpp, include/assembler/parser.h and the four files of
  src/assembler/parse_formats/): from the token list to the units of intermediate code, the data
  items, the symbol table and the errors. The text of the source line, which the code reads from
  the file once more to print it under an error, is left out. The values of floating-point
  literals are the parameters \<open>stof\<close> and \<open>stod\<close> of a record \<open>FloatReader\<close>, as bit patterns.
\<close>

subsection \<open>State\<close>

datatype ErrorKind =
    SyntaxError | UnexpectedTokenError | ImmediateOutOfRangeError | MisalignedImmediateError
  | UnexpectedOperandError | InvalidLabelRefError | LabelRedefinitionError | InvalidRegisterError

text \<open>An entry of \<open>all_errors\<close>: its class, the two messages, line and column.\<close>

record Diagnostic =
  error_kind :: ErrorKind
  error_message :: string
  error_expected :: string
  error_line :: u32
  error_column :: u32

record ParseError =
  parse_line :: u32
  parse_message :: string

record SymbolData =
  address :: u64
  symbol_line :: u64
  isData :: bool

record FloatReader =
  stof :: "string \<Rightarrow> u32 result"
  stod :: "string \<Rightarrow> u64 result"

record Parser =
  tokens :: "Token list"
  token_pos :: nat
  instruction_index :: u32
  error_count :: u32
  parse_errors :: "ParseError list"
  all_errors :: "Diagnostic list"
  data_items :: "DataItem list"
  data_index :: u64
  symbol_table :: "string \<rightharpoonup> SymbolData"
  back_patch :: "u32 list"
  intermediate_code :: "(ICUnit \<times> bool) list"
  line_mapping :: "(u32 \<times> u32) list"
  parser_cout :: "string list"

definition new_Parser :: "Token list \<Rightarrow> Parser" where
  "new_Parser ts = \<lparr>tokens = ts, token_pos = 0, instruction_index = 0, error_count = 0, parse_errors = [],
     all_errors = [], data_items = [], data_index = 0, symbol_table = Map.empty, back_patch = [],
     intermediate_code = [], line_mapping = [], parser_cout = []\<rparr>"

definition no_token :: Token where
  "no_token = token EOF [] 1 1"

definition peekToken :: "Parser \<Rightarrow> nat \<Rightarrow> Token" where
  "peekToken p n = (if token_pos p + n < length (tokens p) then tokens p ! (token_pos p + n) else no_token)"

definition currentToken :: "Parser \<Rightarrow> Token" where
  "currentToken p = (if token_pos p < length (tokens p) then tokens p ! token_pos p else no_token)"

definition nextToken :: "Parser \<Rightarrow> Parser" where
  "nextToken p = (if token_pos p < length (tokens p) then p\<lparr>token_pos := token_pos p + 1\<rparr> else p)"

text \<open>Loops that pass tokens: while the current one satisfies a test, take the next.\<close>

definition remaining_tokens :: "Parser \<Rightarrow> Token list" where
  "remaining_tokens p = drop (token_pos p) (tokens p)"

fun skip_tokens :: "(Token \<Rightarrow> bool) \<Rightarrow> Token list \<Rightarrow> Parser \<Rightarrow> Parser" where
  "skip_tokens P [] p = p"
| "skip_tokens P (t # ts) p = (if P t then skip_tokens P ts (nextToken p) else p)"

definition skipCurrentLine :: "Parser \<Rightarrow> Parser" where
  "skipCurrentLine p =
     skip_tokens (\<lambda>t. tok_line t = tok_line (currentToken p) \<and> tok_type t \<noteq> EOF) (remaining_tokens p) p"

definition recordError :: "u32 \<Rightarrow> string \<Rightarrow> Parser \<Rightarrow> Parser" where
  "recordError l m p =
     p\<lparr>parse_errors := parse_errors p @ [\<lparr>parse_line = l, parse_message = m\<rparr>], error_count := error_count p + 1\<rparr>"

text \<open>The three statements that report an error: the count, the short and the long form.\<close>

definition report :: "ErrorKind \<Rightarrow> string \<Rightarrow> string \<Rightarrow> string \<Rightarrow> u32 \<Rightarrow> u32 \<Rightarrow> Parser \<Rightarrow> Parser" where
  "report kind short msg expected l c p =
     (let p = recordError l short (p\<lparr>error_count := error_count p + 1\<rparr>)
      in p\<lparr>all_errors := all_errors p @ [\<lparr>error_kind = kind, error_message = msg, error_expected = expected,
             error_line = l, error_column = c\<rparr>]\<rparr>)"

definition report_at :: "Token \<Rightarrow> ErrorKind \<Rightarrow> string \<Rightarrow> string \<Rightarrow> string \<Rightarrow> Parser \<Rightarrow> Parser" where
  "report_at t kind short msg expected p = report kind short msg expected (tok_line t) (tok_column t) p"

text \<open>\<open>std::map\<close> with numbers as keys: the entries in the order of their keys.\<close>

fun map_put :: "'k::linorder \<Rightarrow> 'v \<Rightarrow> ('k \<times> 'v) list \<Rightarrow> ('k \<times> 'v) list" where
  "map_put k v [] = [(k, v)]"
| "map_put k v ((k', v') # m) =
     (if k < k' then (k, v) # (k', v') # m else if k = k' then (k, v) # m else (k', v') # map_put k v m)"

subsection \<open>Data\<close>

definition data_align :: "u64 \<Rightarrow> Parser \<Rightarrow> Parser" where
  "data_align a p =
     (if data_index p mod a \<noteq> 0 then p\<lparr>data_index := data_index p + (a - data_index p mod a)\<rparr> else p)"

definition place :: "u64 \<Rightarrow> u64 \<Rightarrow> DataItem \<Rightarrow> Parser \<Rightarrow> Parser" where
  "place a n x p =
     (let p = data_align a p in p\<lparr>data_items := data_items p @ [x], data_index := data_index p + n\<rparr>)"

fun ParseEscapedString :: "string \<Rightarrow> string" where
  "ParseEscapedString [] = []"
| "ParseEscapedString [c] = [c]"
| "ParseEscapedString (c # d # s) =
     (if c = CHR 0x5C then
        (if d = CHR ''n'' then [CHR 0x0A] else if d = CHR ''t'' then [CHR 0x09]
         else if d = CHR 0x5C then [CHR 0x5C] else if d = CHR 0x22 then [CHR 0x22] else [CHR 0x5C, d])
        @ ParseEscapedString s
      else c # ParseEscapedString (d # s))"

text \<open>The alignment a label takes from the directive behind it.\<close>

definition label_alignment :: "string \<Rightarrow> u64 option" where
  "label_alignment v = map_of [(''word'', 4), (''dword'', 8), (''halfword'', 2), (''byte'', 1), (''float'', 4),
     (''double'', 8), (''string'', 1), (''zero'', 1), (''udword'', 8)] v"

text \<open>
  The branches for the directives: the kind of token each takes as values, and what it does with
  one. A negative argument of \<open>.zero\<close> counts as a number of 64 bits.
\<close>

definition data_directive :: "FloatReader \<Rightarrow> string \<Rightarrow> (TokenType \<times> (Token \<Rightarrow> Parser \<Rightarrow> Parser result)) option" where
  "data_directive F v =
     (if v = ''dword'' then Some (NUM, \<lambda>t p. bindr (stoll 10 (tok_value t)) (\<lambda>k. Inr (place 8 8 (DataDouble (word_of_int k)) p)))
      else if v = ''word'' then Some (NUM, \<lambda>t p. bindr (stoll 10 (tok_value t)) (\<lambda>k. Inr (place 4 4 (DataWord (word_of_int k)) p)))
      else if v = ''halfword'' then Some (NUM, \<lambda>t p. bindr (stoll 10 (tok_value t)) (\<lambda>k. Inr (place 2 2 (DataHalf (word_of_int k)) p)))
      else if v = ''byte'' then Some (NUM, \<lambda>t p. bindr (stoll 10 (tok_value t)) (\<lambda>k. Inr (place 1 1 (DataByte (word_of_int k)) p)))
      else if v = ''float'' then Some (FLOAT, \<lambda>t p. bindr (stof F (tok_value t)) (\<lambda>x. Inr (place 4 4 (DataFloat x) p)))
      else if v = ''double'' then Some (FLOAT, \<lambda>t p. bindr (stod F (tok_value t)) (\<lambda>x. Inr (place 8 8 (DataDoubleFloat x) p)))
      else if v = ''zero'' then Some (NUM, \<lambda>t p. bindr (stoll 10 (tok_value t)) (\<lambda>k.
          let n = unat (word_of_int k :: u64) in
          if n > 0 then Inr ((place 1 1 (DataByte 0) ^^ n) p)
          else Inr (report_at t SyntaxError ''Invalid zero directive: Expected a positive number''
                      ''Invalid zero directive'' ''Expected a positive number'' p)))
      else if v = ''string'' then Some (STRING, \<lambda>t p.
          let s = ParseEscapedString (tok_value t) @ [CHR 0x00] in Inr (place 1 (of_nat (length s)) (DataString s) p))
      else if v = ''udword'' then Some (NUM, \<lambda>t p. bindr (stoull 10 (tok_value t)) (\<lambda>k. Inr (place 8 8 (DataDouble k) p)))
      else None)"

fun data_values :: "TokenType \<Rightarrow> (Token \<Rightarrow> Parser \<Rightarrow> Parser result) \<Rightarrow> Token list \<Rightarrow> Parser \<Rightarrow> Parser result" where
  "data_values ty put [] p = Inr p"
| "data_values ty put (t # ts) p =
     (if tok_type t = ty then bindr (put t p) (\<lambda>p. data_values ty put ts (nextToken p))
      else if tok_type t = COMMA then data_values ty put ts (nextToken p)
      else Inr p)"

text \<open>The values at which a data or bss section ends, whatever the kind of the token.\<close>

definition section_word :: "string \<Rightarrow> bool" where
  "section_word v \<longleftrightarrow> v \<in> {''text'', ''data'', ''bss'', ''section''}"

definition data_label :: "Parser \<Rightarrow> Parser" where
  "data_label p =
     (let t = currentToken p;
          p = (case label_alignment (tok_value (peekToken p 1)) of
                 Some a \<Rightarrow> data_align a p
               | None \<Rightarrow> report_at t SyntaxError
                   ''Invalid directive: Expected .dword, .word, .halfword, .byte, .float, .double, .string, .zero, .udword''
                   ''Invalid directive''
                   ''Expected .dword, .word, .halfword, .byte, .float, .double, .string, .zero, .udword'' p)
      in nextToken (p\<lparr>symbol_table := (symbol_table p)(tok_value t \<mapsto>
           \<lparr>address = data_index p, symbol_line = ucast (tok_line t), isData = True\<rparr>)\<rparr>))"

definition data_step :: "FloatReader \<Rightarrow> Parser \<Rightarrow> Parser result" where
  "data_step F p =
     (let t = currentToken p in
      if tok_type t = LABEL then Inr (data_label p)
      else case data_directive F (tok_value t) of
          Some (ty, put) \<Rightarrow> let p = nextToken p in data_values ty put (remaining_tokens p) p
        | None \<Rightarrow> Inr (nextToken (report_at t SyntaxError
            ''Invalid directive: Expected .dword, .word, .halfword, .byte, .string, .float, .double, .zero .udword''
            ''Invalid directive''
            ''Expected .dword, .word, .halfword, .byte, .string, .float, .double, .zero, .udword'' p)))"

subsection \<open>How the tokens are passed\<close>

text \<open>\<open>moves p q\<close>: \<open>q\<close> has the tokens of \<open>p\<close> and is not before it.\<close>

definition moves :: "Parser \<Rightarrow> Parser \<Rightarrow> bool" where
  "moves p q \<longleftrightarrow> tokens q = tokens p \<and> token_pos p \<le> token_pos q"

definition passes :: "Parser \<Rightarrow> Parser \<Rightarrow> bool" where
  "passes p q \<longleftrightarrow> tokens q = tokens p \<and> token_pos p < token_pos q"

lemma moves_refl [simp]: "moves p p"
  by (simp add: moves_def)

lemma moves_trans: "moves p q \<Longrightarrow> moves q r \<Longrightarrow> moves p r"
  by (simp add: moves_def)

lemma nextToken_frame [simp]:
  "tokens (nextToken p) = tokens p" "moves p (nextToken p)"
  by (simp_all add: nextToken_def moves_def)

lemma moves_next: "moves (nextToken p) q \<Longrightarrow> moves p q"
  by (rule moves_trans [OF nextToken_frame(2)])

lemma not_at_end: "tok_type (currentToken p) \<noteq> EOF \<Longrightarrow> token_pos p < length (tokens p)"
  by (auto simp: currentToken_def no_token_def token_def split: if_splits)

lemma passes_nextToken: "tok_type (currentToken p) \<noteq> EOF \<Longrightarrow> passes p (nextToken p)"
  using not_at_end [of p] by (simp add: passes_def nextToken_def)

lemma skip_tokens_moves [simp]: "moves p (skip_tokens P ts p)"
  by (induction P ts p rule: skip_tokens.induct) (auto intro: moves_next)

lemma passes_moves: "passes p q \<Longrightarrow> moves q r \<Longrightarrow> passes p r"
  by (auto simp: passes_def moves_def)

lemma moves_passes: "moves p q \<Longrightarrow> passes q r \<Longrightarrow> passes p r"
  by (auto simp: passes_def moves_def)

lemma report_frame [simp]:
  "tokens (report k a b c l n p) = tokens p" "token_pos (report k a b c l n p) = token_pos p"
  "tokens (report_at t k a b c p) = tokens p" "token_pos (report_at t k a b c p) = token_pos p"
  "currentToken (report_at t k a b c p) = currentToken p"
  by (simp_all add: report_def report_at_def recordError_def Let_def currentToken_def)

lemma place_frame [simp]:
  "tokens (data_align a p) = tokens p" "token_pos (data_align a p) = token_pos p"
  "tokens (place a n x p) = tokens p" "token_pos (place a n x p) = token_pos p"
  by (simp_all add: data_align_def place_def Let_def)

lemma places_frame [simp]:
  "tokens ((place a n x ^^ k) p) = tokens p" "token_pos ((place a n x ^^ k) p) = token_pos p"
  by (induction k) simp_all

lemma moves_same: "tokens q = tokens p \<Longrightarrow> token_pos q = token_pos p \<Longrightarrow> moves p q"
  by (simp add: moves_def)

lemma data_directive_keeps:
  "data_directive F v = Some (ty, put) \<Longrightarrow> put t p = Inr q \<Longrightarrow> moves p q"
  unfolding data_directive_def Let_def by (auto intro!: moves_same split: if_splits)

lemma data_values_moves:
  assumes "\<And>t p q. put t p = Inr q \<Longrightarrow> moves p q"
  shows "data_values ty put ts p = Inr q \<Longrightarrow> moves p q"
  by (induction ts arbitrary: p) (auto split: if_splits intro: moves_next moves_trans [OF _ moves_next] dest!: assms)

lemma data_step_passes:
  assumes "data_step F p = Inr q" and "tok_type (currentToken p) \<noteq> EOF"
  shows "passes p q"
proof -
  have next_passes: "passes p (nextToken p')" if "tokens p' = tokens p" "token_pos p' = token_pos p" for p'
    using not_at_end [OF assms(2)] that by (simp add: passes_def nextToken_def)
  show ?thesis
  proof (cases "tok_type (currentToken p) = LABEL")
    case True
    then show ?thesis using assms(1)
      by (auto simp: data_step_def data_label_def Let_def intro!: next_passes split: option.splits)
  next
    case False
    show ?thesis
    proof (cases "data_directive F (tok_value (currentToken p))")
      case None
      with False assms(1) show ?thesis by (auto simp: data_step_def Let_def intro!: next_passes)
    next
      case (Some x)
      obtain ty put where x: "x = (ty, put)" by (cases x)
      have "data_values ty put (remaining_tokens (nextToken p)) (nextToken p) = Inr q"
        using False assms(1) Some x by (simp add: data_step_def Let_def)
      then have "moves (nextToken p) q" by (rule data_values_moves [rotated]) (rule data_directive_keeps [OF Some [unfolded x]])
      then show ?thesis using passes_moves [OF passes_nextToken [OF assms(2)]] by blast
    qed
  qed
qed

lemma passes_less:
  "passes p q \<Longrightarrow> tok_type (currentToken p) \<noteq> EOF \<Longrightarrow>
     length (tokens q) - token_pos q < length (tokens p) - token_pos p"
  using not_at_end [of p] by (auto simp: passes_def)

function parseDataDirective :: "FloatReader \<Rightarrow> Parser \<Rightarrow> Parser result" where
  "parseDataDirective F p =
     (if section_word (tok_value (currentToken p)) \<or> tok_type (currentToken p) = EOF then Inr p
      else case data_step F p of Inl e \<Rightarrow> Inl e | Inr p \<Rightarrow> parseDataDirective F p)"
  by pat_completeness auto
termination
  by (relation "measure (\<lambda>(_, p). length (tokens p) - token_pos p)")
     (simp_all add: data_step_passes passes_less)

declare parseDataDirective.simps [simp del]

definition parseBSSDirective :: "Parser \<Rightarrow> Parser" where
  "parseBSSDirective p = skip_tokens (\<lambda>t. \<not> section_word (tok_value t) \<and> tok_type t \<noteq> EOF) (remaining_tokens p) p"

subsection \<open>Emitting a unit\<close>

text \<open>The operands on the line of the current token: their kinds in turn, and the line at its end.\<close>

fun on_line :: "Parser \<Rightarrow> nat \<Rightarrow> TokenType list \<Rightarrow> bool" where
  "on_line p n [] \<longleftrightarrow> tok_type (peekToken p n) = EOF \<or> tok_line (peekToken p n) \<noteq> tok_line (currentToken p)"
| "on_line p n (ty # tys) \<longleftrightarrow>
     tok_line (peekToken p n) = tok_line (currentToken p) \<and> tok_type (peekToken p n) = ty \<and> on_line p (Suc n) tys"

definition shape :: "Parser \<Rightarrow> TokenType list \<Rightarrow> bool" where
  "shape p tys = on_line p 1 tys"

definition reg_name :: "Parser \<Rightarrow> nat \<Rightarrow> string result" where
  "reg_name p n = at_key reg_alias_to_name (tok_value (peekToken p n))"

definition num_value :: "Parser \<Rightarrow> nat \<Rightarrow> int result" where
  "num_value p n = stoll 10 (tok_value (peekToken p n))"

definition unit_at :: "string \<Rightarrow> Parser \<Rightarrow> ICUnit" where
  "unit_at op p =
     setInstructionIndex (instruction_index p) (setLineNumber (tok_line (currentToken p)) (setOpcode op new_ICUnit))"

definition current_unit :: "Parser \<Rightarrow> ICUnit" where
  "current_unit p = unit_at (tok_value (currentToken p)) p"

definition emit :: "ICUnit \<Rightarrow> bool \<Rightarrow> Parser \<Rightarrow> Parser" where
  "emit b ok p =
     p\<lparr>intermediate_code := intermediate_code p @ [(b, ok)],
       line_mapping := map_put (instruction_index p) (getLineNumber b) (line_mapping p),
       instruction_index := instruction_index p + 1\<rparr>"

text \<open>A parse function that has accepted a line returns with the tokens of the line passed.\<close>

definition done_line :: "Parser \<Rightarrow> Parser option result" where
  "done_line p = Inr (Some (skipCurrentLine p))"

definition finish :: "ICUnit \<Rightarrow> Parser \<Rightarrow> Parser option result" where
  "finish b p = done_line (emit b True p)"

definition out_of_range :: "Token \<Rightarrow> string \<Rightarrow> Parser \<Rightarrow> Parser option result" where
  "out_of_range t expected p =
     done_line (report_at t ImmediateOutOfRangeError ''Immediate value out of range'' ''Immediate value out of range'' expected p)"

definition misaligned :: "Token \<Rightarrow> Parser \<Rightarrow> Parser option result" where
  "misaligned t p =
     done_line (report_at t MisalignedImmediateError ''Misaligned immediate value'' ''Misaligned immediate value''
       ''Expected: imm % 4 == 0'' p)"

definition within :: "int \<Rightarrow> int \<Rightarrow> int \<Rightarrow> bool" where
  "within lo hi k \<longleftrightarrow> lo \<le> k \<and> k \<le> hi"

text \<open>The distance from the current instruction to a label of the text section.\<close>

definition code_label :: "string \<Rightarrow> Parser \<Rightarrow> u64 option" where
  "code_label l p = (case symbol_table p l of Some d \<Rightarrow> if isData d then None else Some (address d) | None \<Rightarrow> None)"

definition offset_to :: "u64 \<Rightarrow> u32 \<Rightarrow> int" where
  "offset_to addr i = sint (addr - ucast (i * 4))"

definition emit_unresolved :: "string \<Rightarrow> ICUnit \<Rightarrow> Parser \<Rightarrow> Parser option result" where
  "emit_unresolved l b p =
     done_line (emit (setLabel l b) False (p\<lparr>back_patch := back_patch p @ [instruction_index p]\<rparr>))"

subsection \<open>Integer formats (i_m_formats.cpp)\<close>

definition parse_O :: "Parser \<Rightarrow> Parser option result" where
  "parse_O p =
     (if shape p [] then
        finish (current_unit p) p
      else Inr None)"

definition parse_O_GPR_C_GPR_C_GPR :: "Parser \<Rightarrow> Parser option result" where
  "parse_O_GPR_C_GPR_C_GPR p =
     (if shape p [GP_REGISTER, COMMA, GP_REGISTER, COMMA, GP_REGISTER] then
        bindr (reg_name p 1) (\<lambda>rd. bindr (reg_name p 3) (\<lambda>rs1. bindr (reg_name p 5) (\<lambda>rs2.
          finish (setRs2 rs2 (setRs1 rs1 (setRd rd (current_unit p)))) p)))
      else Inr None)"

definition parse_O_GPR_C_GPR_C_I :: "Parser \<Rightarrow> Parser option result" where
  "parse_O_GPR_C_GPR_C_I p =
     (if shape p [GP_REGISTER, COMMA, GP_REGISTER, COMMA, NUM] then
        (let b = current_unit p; t = peekToken p 5 in
         if isValidITypeInstruction (getOpcode b) then
           bindr (reg_name p 1) (\<lambda>rd. bindr (reg_name p 3) (\<lambda>rs1. bindr (num_value p 5) (\<lambda>imm.
             let b = setRs1 rs1 (setRd rd b) in
             if isValidI2TypeInstruction (getOpcode b) then
               (if within 0 31 imm then finish (setImm (to_string imm) b) p
                else out_of_range t ''Expected: 0 <= imm <= 31'' p)
             else if within (- 2048) 2047 imm then finish (setImm (to_string imm) b) p
             else out_of_range t ''Expected: -2048 <= imm <= 2047'' p)))
         else if isValidBTypeInstruction (getOpcode b) then
           bindr (reg_name p 1) (\<lambda>rs1. bindr (reg_name p 3) (\<lambda>rs2. bindr (num_value p 5) (\<lambda>imm.
             if within (- 4096) 4095 imm then
               (if imm mod 4 = 0 then finish (setImm (to_string imm) (setRs2 rs2 (setRs1 rs1 b))) p
                else misaligned t p)
             else out_of_range t ''Expected: -4096 <= imm <= 4095'' p)))
         else finish b p)
      else Inr None)"

definition parse_O_GPR_C_I :: "Parser \<Rightarrow> Parser option result" where
  "parse_O_GPR_C_I p =
     (if shape p [GP_REGISTER, COMMA, NUM] then
        (let b = current_unit p; t = peekToken p 3 in
         if isValidUTypeInstruction (getOpcode b) then
           bindr (reg_name p 1) (\<lambda>rd. bindr (num_value p 3) (\<lambda>imm.
             if within 0 1048575 imm then finish (setImm (to_string imm) (setRd rd b)) p
             else out_of_range t ''Expected: 0 <= imm <= 1048575'' p))
         else if isValidJTypeInstruction (getOpcode b) then
           bindr (reg_name p 1) (\<lambda>rd. bindr (num_value p 3) (\<lambda>imm.
             if within (- 1048576) 1048575 imm then
               (if imm mod 2 = 0 then finish (setImm (to_string imm) (setRd rd b)) p
                else misaligned t p)
             else out_of_range t ''Expected: -1048576 <= imm <= 1048575'' p))
         else finish b p)
      else Inr None)"

definition parse_O_GPR_C_GPR_C_IL :: "Parser \<Rightarrow> Parser option result" where
  "parse_O_GPR_C_GPR_C_IL p =
     (if shape p [GP_REGISTER, COMMA, GP_REGISTER, COMMA, LABEL_REF] then
        (let b = current_unit p; t = peekToken p 5 in
         if isValidBTypeInstruction (getOpcode b) then
           bindr (reg_name p 1) (\<lambda>rs1. bindr (reg_name p 3) (\<lambda>rs2.
             let b = setRs2 rs2 (setRs1 rs1 b) in
             case code_label (tok_value t) p of
               Some addr \<Rightarrow>
                 let offset = offset_to addr (instruction_index p) in
                 if within (- 4096) 4095 offset
                 then finish (setLabel (tok_value t) (setImm (to_string offset) b)) p
                 else out_of_range t ''Expected: -4096 <= imm <= 4095'' p
             | None \<Rightarrow> emit_unresolved (tok_value t) b p))
         else finish b p)
      else Inr None)"

definition parse_O_GPR_C_IL :: "Parser \<Rightarrow> Parser option result" where
  "parse_O_GPR_C_IL p =
     (if shape p [GP_REGISTER, COMMA, LABEL_REF] then
        (let b = current_unit p; t = peekToken p 3 in
         if isValidJTypeInstruction (getOpcode b) then
           bindr (reg_name p 1) (\<lambda>rd.
             let b = setRd rd b in
             case code_label (tok_value t) p of
               Some addr \<Rightarrow>
                 let offset = offset_to addr (instruction_index p) in
                 if within (- 1048576) 1048575 offset
                 then finish (setLabel (tok_value t) (setImm (to_string offset) b)) p
                 else out_of_range t ''Expected: -1048576 <= imm <= 1048575'' p
             | None \<Rightarrow> emit_unresolved (tok_value t) b p)
         else finish b p)
      else Inr None)"

text \<open>
  The two halves of the distance from an instruction to an address, on \<open>int64_t\<close> and
  \<open>int32_t\<close>; an overflow of the wide type is undefined.
\<close>

definition fits64 :: "int \<Rightarrow> bool" where
  "fits64 k \<longleftrightarrow> - (2 ^ 63) \<le> k \<and> k < 2 ^ 63"

definition pcrel :: "u64 \<Rightarrow> u32 \<Rightarrow> (int \<times> int) result" where
  "pcrel symbol i =
     (let offset = sint symbol - sint (ucast (i * 4) :: u64) in
      if \<not> fits64 offset \<or> \<not> fits64 (offset + 0x800) then Inl Undefined
      else let hi20 = sint (word_of_int ((offset + 0x800) div 2 ^ 12) :: u32);
               lo12 = offset - sint (word_of_int (hi20 * 2 ^ 12) :: u32)
           in if fits64 lo12 then Inr (hi20, sint (word_of_int lo12 :: u32)) else Inl Undefined)"

definition invalid_label :: "Token \<Rightarrow> Parser \<Rightarrow> Parser option result" where
  "invalid_label t p =
     done_line (report_at t InvalidLabelRefError ''Invalid label reference'' ''Invalid label reference''
       ''Expected: Label defined in .data section'' p)"

definition data_label_address :: "string \<Rightarrow> Parser \<Rightarrow> u64 option" where
  "data_label_address l p =
     (case symbol_table p l of Some d \<Rightarrow> if isData d then Some (address d) else None | None \<Rightarrow> None)"

text \<open>The number of the load stays zero, and its predecessor gets the number that is meant for it.\<close>

definition parse_O_GPR_C_DL :: "VmConfig \<Rightarrow> Parser \<Rightarrow> Parser option result" where
  "parse_O_GPR_C_DL c p =
     (if shape p [GP_REGISTER, COMMA, LABEL_REF] then
        bindr (reg_name p 1) (\<lambda>reg.
          case data_label_address (tok_value (peekToken p 3)) p of
            None \<Rightarrow> invalid_label (peekToken p 3) p
          | Some addr \<Rightarrow>
              bindr (pcrel (data_section_start c + addr) (instruction_index p)) (\<lambda>(hi20, lo12).
                let line = tok_line (currentToken p); i = instruction_index p;
                    auipc = setImm (to_string hi20) (setRd reg (setInstructionIndex (i + 1)
                      (setLineNumber line (setOpcode ''auipc'' new_ICUnit))));
                    load = setImm (to_string lo12) (setRs1 reg (setRd reg
                      (setLineNumber line (setOpcode (tok_value (currentToken p)) new_ICUnit))));
                    p = p\<lparr>parser_cout := parser_cout p @
                      [''auipc '' @ reg @ '', 0x'' @ nat_to_hex (unat (word_of_int hi20 :: u32)),
                       getOpcode load @ '' '' @ reg @ '', '' @ to_string lo12 @ ''('' @ reg @ '')'']\<rparr>
                in finish load (emit auipc True p)))
      else Inr None)"

definition parse_O_GPR_C_I_LP_GPR_RP :: "Parser \<Rightarrow> Parser option result" where
  "parse_O_GPR_C_I_LP_GPR_RP p =
     (if shape p [GP_REGISTER, COMMA, NUM, LPAREN, GP_REGISTER, RPAREN] then
        (let b = current_unit p; t = peekToken p 3; range = ''Expected: -2048 <= imm <= 2047'' in
         if isValidITypeInstruction (getOpcode b) then
           bindr (reg_name p 1) (\<lambda>rd. bindr (num_value p 3) (\<lambda>imm.
             if within (- 2048) 2047 imm
             then bindr (reg_name p 5) (\<lambda>rs1. finish (setRs1 rs1 (setImm (to_string imm) (setRd rd b))) p)
             else out_of_range t range p))
         else if isValidSTypeInstruction (getOpcode b) then
           bindr (reg_name p 1) (\<lambda>rs2. bindr (num_value p 3) (\<lambda>imm.
             if within (- 2048) 2047 imm
             then bindr (reg_name p 5) (\<lambda>rs1. finish (setRs1 rs1 (setImm (to_string imm) (setRs2 rs2 b))) p)
             else out_of_range t range p))
         else if isValidSRTypeInstruction (getOpcode b) then
           bindr (reg_name p 1) (\<lambda>rs2. bindr (num_value p 3) (\<lambda>imm.
             if within (- 2048) 2047 imm
             then bindr (reg_name p 5) (\<lambda>rs1. finish (setRs1 rs1 (setImm (to_string imm) (setRs2 rs2 b))) p)
             else out_of_range t range p))
         else finish b p)
      else Inr None)"

subsection \<open>CSR formats (csr_formats.cpp)\<close>

definition csr_address :: "Parser \<Rightarrow> nat \<Rightarrow> u32 result" where
  "csr_address p n = bindr (at_key csr_to_address (tok_value (peekToken p n))) (\<lambda>a. Inr (of_nat a))"

definition parse_O_GPR_C_CSR_C_GPR :: "Parser \<Rightarrow> Parser option result" where
  "parse_O_GPR_C_CSR_C_GPR p =
     (if shape p [GP_REGISTER, COMMA, CSR_REGISTER, COMMA, GP_REGISTER] then
        bindr (reg_name p 1) (\<lambda>rd. bindr (csr_address p 3) (\<lambda>csr. bindr (reg_name p 5) (\<lambda>rs1.
          finish (setRs1 rs1 (setCsr csr (setRd rd (current_unit p)))) p)))
      else Inr None)"

definition parse_O_GPR_C_CSR_C_I :: "Parser \<Rightarrow> Parser option result" where
  "parse_O_GPR_C_CSR_C_I p =
     (if shape p [GP_REGISTER, COMMA, CSR_REGISTER, COMMA, NUM] then
        bindr (reg_name p 1) (\<lambda>rd. bindr (csr_address p 3) (\<lambda>csr. bindr (num_value p 5) (\<lambda>imm.
          if within 0 31 imm then finish (setImm (to_string imm) (setCsr csr (setRd rd (current_unit p)))) p
          else out_of_range (peekToken p 5) ''Expected:0 <= imm <= 31'' p)))
      else Inr None)"

subsection \<open>Floating-point formats (f_d_formats.cpp)\<close>

definition rm_encoding :: "Parser \<Rightarrow> nat \<Rightarrow> u8 result" where
  "rm_encoding p n = bindr (getRoundingModeEncoding (tok_value (peekToken p n))) (\<lambda>e. Inr (of_nat e))"

definition parse_O_FPR_C_FPR_C_FPR_C_FPR :: "Parser \<Rightarrow> Parser option result" where
  "parse_O_FPR_C_FPR_C_FPR_C_FPR p =
     (if shape p [FP_REGISTER, COMMA, FP_REGISTER, COMMA, FP_REGISTER, COMMA, FP_REGISTER] then
        bindr (reg_name p 1) (\<lambda>rd. bindr (reg_name p 3) (\<lambda>rs1.
        bindr (reg_name p 5) (\<lambda>rs2. bindr (reg_name p 7) (\<lambda>rs3.
          finish (setRm 7 (setRs3 rs3 (setRs2 rs2 (setRs1 rs1 (setRd rd (current_unit p)))))) p))))
      else Inr None)"

definition parse_O_FPR_C_FPR_C_FPR_C_FPR_C_RM :: "Parser \<Rightarrow> Parser option result" where
  "parse_O_FPR_C_FPR_C_FPR_C_FPR_C_RM p =
     (if shape p [FP_REGISTER, COMMA, FP_REGISTER, COMMA, FP_REGISTER, COMMA, FP_REGISTER, COMMA, RM] then
        bindr (reg_name p 1) (\<lambda>rd. bindr (reg_name p 3) (\<lambda>rs1.
        bindr (reg_name p 5) (\<lambda>rs2. bindr (reg_name p 7) (\<lambda>rs3.
        bindr (rm_encoding p 9) (\<lambda>rm.
          finish (setRm rm (setRs3 rs3 (setRs2 rs2 (setRs1 rs1 (setRd rd (current_unit p)))))) p)))))
      else Inr None)"

definition parse_O_FPR_C_FPR_C_FPR :: "Parser \<Rightarrow> Parser option result" where
  "parse_O_FPR_C_FPR_C_FPR p =
     (if shape p [FP_REGISTER, COMMA, FP_REGISTER, COMMA, FP_REGISTER] then
        bindr (reg_name p 1) (\<lambda>rd. bindr (reg_name p 3) (\<lambda>rs1.
        bindr (reg_name p 5) (\<lambda>rs2.
          finish (setRm 7 (setRs2 rs2 (setRs1 rs1 (setRd rd (current_unit p))))) p)))
      else Inr None)"

definition parse_O_FPR_C_FPR_C_FPR_C_RM :: "Parser \<Rightarrow> Parser option result" where
  "parse_O_FPR_C_FPR_C_FPR_C_RM p =
     (if shape p [FP_REGISTER, COMMA, FP_REGISTER, COMMA, FP_REGISTER, COMMA, RM] then
        bindr (reg_name p 1) (\<lambda>rd. bindr (reg_name p 3) (\<lambda>rs1.
        bindr (reg_name p 5) (\<lambda>rs2.
        bindr (rm_encoding p 7) (\<lambda>rm.
          finish (setRm rm (setRs2 rs2 (setRs1 rs1 (setRd rd (current_unit p))))) p))))
      else Inr None)"

definition parse_O_FPR_C_FPR :: "Parser \<Rightarrow> Parser option result" where
  "parse_O_FPR_C_FPR p =
     (if shape p [FP_REGISTER, COMMA, FP_REGISTER] then
        bindr (reg_name p 1) (\<lambda>rd. bindr (reg_name p 3) (\<lambda>rs1.
          finish (setRm 7 (setRs1 rs1 (setRd rd (current_unit p)))) p))
      else Inr None)"

definition parse_O_FPR_C_FPR_C_RM :: "Parser \<Rightarrow> Parser option result" where
  "parse_O_FPR_C_FPR_C_RM p =
     (if shape p [FP_REGISTER, COMMA, FP_REGISTER, COMMA, RM] then
        bindr (reg_name p 1) (\<lambda>rd. bindr (reg_name p 3) (\<lambda>rs1.
        bindr (rm_encoding p 5) (\<lambda>rm.
          finish (setRm rm (setRs1 rs1 (setRd rd (current_unit p)))) p)))
      else Inr None)"

definition parse_O_FPR_C_GPR :: "Parser \<Rightarrow> Parser option result" where
  "parse_O_FPR_C_GPR p =
     (if shape p [FP_REGISTER, COMMA, GP_REGISTER] then
        bindr (reg_name p 1) (\<lambda>rd. bindr (reg_name p 3) (\<lambda>rs1.
          finish (setRm 7 (setRs1 rs1 (setRd rd (current_unit p)))) p))
      else Inr None)"

definition parse_O_FPR_C_GPR_C_RM :: "Parser \<Rightarrow> Parser option result" where
  "parse_O_FPR_C_GPR_C_RM p =
     (if shape p [FP_REGISTER, COMMA, GP_REGISTER, COMMA, RM] then
        bindr (reg_name p 1) (\<lambda>rd. bindr (reg_name p 3) (\<lambda>rs1.
        bindr (rm_encoding p 5) (\<lambda>rm.
          finish (setRm rm (setRs1 rs1 (setRd rd (current_unit p)))) p)))
      else Inr None)"

definition parse_O_GPR_C_FPR :: "Parser \<Rightarrow> Parser option result" where
  "parse_O_GPR_C_FPR p =
     (if shape p [GP_REGISTER, COMMA, FP_REGISTER] then
        bindr (reg_name p 1) (\<lambda>rd. bindr (reg_name p 3) (\<lambda>rs1.
          finish (setRm 7 (setRs1 rs1 (setRd rd (current_unit p)))) p))
      else Inr None)"

definition parse_O_GPR_C_FPR_C_RM :: "Parser \<Rightarrow> Parser option result" where
  "parse_O_GPR_C_FPR_C_RM p =
     (if shape p [GP_REGISTER, COMMA, FP_REGISTER, COMMA, RM] then
        bindr (reg_name p 1) (\<lambda>rd. bindr (reg_name p 3) (\<lambda>rs1.
        bindr (rm_encoding p 5) (\<lambda>rm.
          finish (setRm rm (setRs1 rs1 (setRd rd (current_unit p)))) p)))
      else Inr None)"

definition parse_O_GPR_C_FPR_C_FPR :: "Parser \<Rightarrow> Parser option result" where
  "parse_O_GPR_C_FPR_C_FPR p =
     (if shape p [GP_REGISTER, COMMA, FP_REGISTER, COMMA, FP_REGISTER] then
        bindr (reg_name p 1) (\<lambda>rd. bindr (reg_name p 3) (\<lambda>rs1.
        bindr (reg_name p 5) (\<lambda>rs2.
          finish (setRs2 rs2 (setRs1 rs1 (setRd rd (current_unit p)))) p)))
      else Inr None)"

definition parse_O_FPR_C_I_LP_GPR_RP :: "Parser \<Rightarrow> Parser option result" where
  "parse_O_FPR_C_I_LP_GPR_RP p =
     (if shape p [FP_REGISTER, COMMA, NUM, LPAREN, GP_REGISTER, RPAREN] then
        (let b = current_unit p; t = peekToken p 3; range = ''Expected: -2048 <= imm <= 2047'' in
         if isValidFDITypeInstruction (getOpcode b) then
           bindr (reg_name p 1) (\<lambda>rd. bindr (num_value p 3) (\<lambda>imm.
             if within (- 2048) 2047 imm
             then bindr (reg_name p 5) (\<lambda>rs1. finish (setRs1 rs1 (setImm (to_string imm) (setRd rd b))) p)
             else out_of_range t range p))
         else if isValidFDSTypeInstruction (getOpcode b) then
           bindr (reg_name p 1) (\<lambda>rs2. bindr (num_value p 3) (\<lambda>imm.
             if within (- 2048) 2047 imm
             then bindr (reg_name p 5) (\<lambda>rs1. finish (setRs1 rs1 (setImm (to_string imm) (setRs2 rs2 b))) p)
             else out_of_range t range p))
         else finish b p)
      else Inr None)"

subsection \<open>Pseudo-instructions (pseudo_formats.cpp)\<close>

definition parse_la :: "VmConfig \<Rightarrow> Parser \<Rightarrow> Parser option result" where
  "parse_la c p =
     (if shape p [GP_REGISTER, COMMA, LABEL_REF] then
        bindr (reg_name p 1) (\<lambda>reg.
          case data_label_address (tok_value (peekToken p 3)) p of
            None \<Rightarrow> invalid_label (currentToken p) p
          | Some addr \<Rightarrow>
              bindr (pcrel (data_section_start c + addr) (instruction_index p)) (\<lambda>(hi20, lo12).
                let auipc = setImm (to_string hi20) (setRs2 [] (setRs1 [] (setRd reg (unit_at ''auipc'' p))));
                    p = emit auipc True p;
                    addi = setImm (to_string lo12) (setRs2 [] (setRs1 reg (setRd reg (unit_at ''addi'' p))))
                in finish addi p))
      else Inr None)"

definition parse_nop :: "Parser \<Rightarrow> Parser option result" where
  "parse_nop p =
     (if shape p [] then
        Inr (Some (nextToken (emit (setImm ''0'' (setRs1 ''x0'' (setRd ''x0'' (unit_at ''addi'' p)))) True p)))
      else Inr None)"

definition parse_li :: "Parser \<Rightarrow> Parser option result" where
  "parse_li p =
     (if shape p [GP_REGISTER, COMMA, NUM] then
        bindr (num_value p 3) (\<lambda>imm. bindr (reg_name p 1) (\<lambda>reg.
          if within (- 2048) 2047 imm then
            finish (setImm (tok_value (peekToken p 3)) (setRs1 ''x0'' (setRd reg (unit_at ''addi'' p)))) p
          else if within (- 2147483648) 2147483647 imm then
            (let upper = (imm + 2 ^ 11) div 2 ^ 12; lower = imm - upper * 2 ^ 12;
                 p = emit (setImm (to_string upper) (setRd reg (unit_at ''lui'' p))) True p
             in if lower \<noteq> 0
                then finish (setImm (to_string lower) (setRs1 reg (setRd reg (unit_at ''addi'' p)))) p
                else done_line p)
          else out_of_range (currentToken p) ''Expected: -2^31 <= imm <= 2^31 - 1'' p))
      else Inr None)"

definition parse_mv :: "Parser \<Rightarrow> Parser option result" where
  "parse_mv p =
     (if shape p [GP_REGISTER, COMMA, GP_REGISTER] then
        bindr (reg_name p 1) (\<lambda>rd. bindr (reg_name p 3) (\<lambda>rs1.
          finish (setRs2 ''x0'' (setRs1 rs1 (setRd rd (unit_at ''add'' p)))) p))
      else Inr None)"

definition parse_not :: "Parser \<Rightarrow> Parser option result" where
  "parse_not p =
     (if shape p [GP_REGISTER, COMMA, GP_REGISTER] then
        bindr (reg_name p 1) (\<lambda>rd. bindr (reg_name p 3) (\<lambda>rs1.
          finish (setImm ''-1'' (setRs1 rs1 (setRd rd (unit_at ''xori'' p)))) p))
      else Inr None)"

definition parse_ret :: "Parser \<Rightarrow> Parser option result" where
  "parse_ret p =
     (if shape p [] then
        Inr (Some (nextToken (emit (setImm ''0'' (setRs1 ''x1'' (setRd ''x0'' (unit_at ''jalr'' p)))) True p)))
      else Inr None)"

definition parse_pseudo :: "VmConfig \<Rightarrow> Parser \<Rightarrow> Parser option result" where
  "parse_pseudo c p =
     (let op = tok_value (currentToken p) in
      if op = ''la'' then parse_la c p
      else if op = ''nop'' then parse_nop p
      else if op = ''li'' then parse_li p
      else if op = ''mv'' then parse_mv p
      else if op = ''not'' then parse_not p
      else if op = ''ret'' then parse_ret p
      else Inr None)"

subsection \<open>The text section\<close>

fun parse_syntax :: "VmConfig \<Rightarrow> SyntaxType \<Rightarrow> Parser \<Rightarrow> Parser option result" where
  "parse_syntax c O_GPR_C_GPR_C_GPR p = parse_O_GPR_C_GPR_C_GPR p"
| "parse_syntax c O_GPR_C_GPR_C_I p = parse_O_GPR_C_GPR_C_I p"
| "parse_syntax c O_GPR_C_GPR_C_IL p = parse_O_GPR_C_GPR_C_IL p"
| "parse_syntax c O_GPR_C_I_LP_GPR_RP p = parse_O_GPR_C_I_LP_GPR_RP p"
| "parse_syntax c O_GPR_C_I p = parse_O_GPR_C_I p"
| "parse_syntax c O_GPR_C_IL p = parse_O_GPR_C_IL p"
| "parse_syntax c O_GPR_C_DL p = parse_O_GPR_C_DL c p"
| "parse_syntax c O_GPR_C_GPR_C_DL p = Inr None"
| "parse_syntax c O_none p = parse_O p"
| "parse_syntax c PSEUDO p = parse_pseudo c p"
| "parse_syntax c O_GPR_C_CSR_C_GPR p = parse_O_GPR_C_CSR_C_GPR p"
| "parse_syntax c O_GPR_C_CSR_C_I p = parse_O_GPR_C_CSR_C_I p"
| "parse_syntax c O_FPR_C_FPR_C_FPR_C_FPR p = parse_O_FPR_C_FPR_C_FPR_C_FPR p"
| "parse_syntax c O_FPR_C_FPR_C_FPR_C_FPR_C_RM p = parse_O_FPR_C_FPR_C_FPR_C_FPR_C_RM p"
| "parse_syntax c O_FPR_C_FPR_C_FPR p = parse_O_FPR_C_FPR_C_FPR p"
| "parse_syntax c O_FPR_C_FPR_C_FPR_C_RM p = parse_O_FPR_C_FPR_C_FPR_C_RM p"
| "parse_syntax c O_FPR_C_FPR p = parse_O_FPR_C_FPR p"
| "parse_syntax c O_FPR_C_FPR_C_RM p = parse_O_FPR_C_FPR_C_RM p"
| "parse_syntax c O_FPR_C_GPR p = parse_O_FPR_C_GPR p"
| "parse_syntax c O_FPR_C_GPR_C_RM p = parse_O_FPR_C_GPR_C_RM p"
| "parse_syntax c O_GPR_C_FPR p = parse_O_GPR_C_FPR p"
| "parse_syntax c O_GPR_C_FPR_C_RM p = parse_O_GPR_C_FPR_C_RM p"
| "parse_syntax c O_GPR_C_FPR_C_FPR p = parse_O_GPR_C_FPR_C_FPR p"
| "parse_syntax c O_FPR_C_I_LP_GPR_RP p = parse_O_FPR_C_I_LP_GPR_RP p"

fun try_syntaxes :: "VmConfig \<Rightarrow> SyntaxType list \<Rightarrow> Parser \<Rightarrow> Parser option result" where
  "try_syntaxes c [] p = Inr None"
| "try_syntaxes c (s # ss) p =
     bindr (parse_syntax c s p) (\<lambda>r. case r of Some q \<Rightarrow> Inr (Some q) | None \<Rightarrow> try_syntaxes c ss p)"

definition syntaxes_of :: "string \<Rightarrow> SyntaxType list" where
  "syntaxes_of op = (case map_of instruction_syntax_map op of Some ss \<Rightarrow> ss | None \<Rightarrow> [])"

definition code_label_step :: "Parser \<Rightarrow> Parser" where
  "code_label_step p =
     (let t = currentToken p in
      case symbol_table p (tok_value t) of
        Some d \<Rightarrow> let l = nat_to_string (unat (symbol_line d)) in
          nextToken (report_at t LabelRedefinitionError (''Label redefinition: already defined at line '' @ l)
            ''Label redefinition'' (''Label already defined at line '' @ l) p)
      | None \<Rightarrow> nextToken (p\<lparr>symbol_table := (symbol_table p)(tok_value t \<mapsto>
          \<lparr>address = ucast (instruction_index p * 4), symbol_line = ucast (tok_line t), isData = False\<rparr>)\<rparr>))"

definition text_step :: "VmConfig \<Rightarrow> Parser \<Rightarrow> Parser result" where
  "text_step c p =
     (let t = currentToken p; v = tok_value t in
      if tok_type t = LABEL then Inr (code_label_step p)
      else if tok_type t = OPCODE then
        (if isValidMExtensionInstruction v \<and> \<not> m_extension_enabled c then
           Inr (skipCurrentLine (report_at t UnexpectedTokenError (''Unexpected opcode, M extension is disabled: '' @ v)
             ''Unexpected opcode, M extension is disabled'' [] p))
         else bindr (try_syntaxes c (syntaxes_of v) p) (\<lambda>r.
           case r of
             Some q \<Rightarrow> Inr q
           | None \<Rightarrow> Inr (skipCurrentLine (report_at t SyntaxError (''Invalid syntax: Expected: '' @ getExpectedSyntaxes v)
               ''Syntax error'' (''Expected: '' @ getExpectedSyntaxes v) p))))
      else Inr (skipCurrentLine (report_at t UnexpectedTokenError (''Unexpected token: '' @ v) ''Unexpected token'' [] p)))"

text \<open>A function that accepts a line passes its tokens.\<close>

definition accepts :: "Parser \<Rightarrow> Parser option result \<Rightarrow> bool" where
  "accepts p r \<longleftrightarrow> (\<forall>q. r = Inr (Some q) \<longrightarrow> passes p q)"

lemma accepts_simps [simp]: "accepts p (Inl e)" "accepts p (Inr None)" "accepts p (Inr (Some q)) = passes p q"
  by (simp_all add: accepts_def)

lemma accepts_bindr: "(\<And>a. r = Inr a \<Longrightarrow> accepts p (f a)) \<Longrightarrow> accepts p (bindr r f)"
  by (cases r) simp_all

lemma emit_frame [simp]:
  "tokens (emit b ok p) = tokens p" "token_pos (emit b ok p) = token_pos p" "currentToken (emit b ok p) = currentToken p"
  by (simp_all add: emit_def currentToken_def)

lemma skipCurrentLine_passes:
  assumes "tok_type (currentToken p) \<noteq> EOF"
  shows "passes p (skipCurrentLine p)"
proof -
  note l = not_at_end [OF assms]
  then have c: "remaining_tokens p = currentToken p # drop (Suc (token_pos p)) (tokens p)"
    by (simp add: remaining_tokens_def currentToken_def Cons_nth_drop_Suc)
  show ?thesis unfolding skipCurrentLine_def c using assms
    by (auto intro!: passes_moves [OF passes_nextToken])
qed

lemma accepts_done_line:
  assumes "tokens q = tokens p" and "token_pos q = token_pos p" and "tok_type (currentToken p) \<noteq> EOF"
  shows "accepts p (done_line q)"
proof -
  have "currentToken q = currentToken p" using assms(1,2) by (simp add: currentToken_def)
  with skipCurrentLine_passes [of q] assms show ?thesis by (simp add: done_line_def passes_def)
qed

lemma accepts_ends:
  assumes "tok_type (currentToken p) \<noteq> EOF" and "tokens q = tokens p" and "token_pos q = token_pos p"
  shows "accepts p (finish b q)" "accepts p (out_of_range t m q)" "accepts p (misaligned t q)"
    "accepts p (invalid_label t q)" "accepts p (emit_unresolved l b q)"
  using assms by (simp_all add: finish_def out_of_range_def misaligned_def invalid_label_def emit_unresolved_def accepts_done_line)

lemma accepts_nextToken:
  "tok_type (currentToken p) \<noteq> EOF \<Longrightarrow> passes p (nextToken (emit b ok p))"
  using not_at_end [of p] by (simp add: passes_def nextToken_def)

lemma accepts_pseudo: "tok_type (currentToken p) \<noteq> EOF \<Longrightarrow> accepts p (parse_pseudo c p)"
  unfolding parse_pseudo_def parse_la_def parse_nop_def parse_li_def parse_mv_def parse_not_def parse_ret_def Let_def
  by (auto intro!: accepts_bindr accepts_ends accepts_done_line accepts_nextToken split: option.split)

lemmas integer_formats =
  parse_O_def parse_O_GPR_C_GPR_C_GPR_def parse_O_GPR_C_GPR_C_I_def parse_O_GPR_C_I_def parse_O_GPR_C_GPR_C_IL_def
  parse_O_GPR_C_IL_def parse_O_GPR_C_DL_def parse_O_GPR_C_I_LP_GPR_RP_def parse_O_GPR_C_CSR_C_GPR_def
  parse_O_GPR_C_CSR_C_I_def

lemmas float_formats =
  parse_O_FPR_C_FPR_C_FPR_C_FPR_def parse_O_FPR_C_FPR_C_FPR_C_FPR_C_RM_def parse_O_FPR_C_FPR_C_FPR_def
  parse_O_FPR_C_FPR_C_FPR_C_RM_def parse_O_FPR_C_FPR_def parse_O_FPR_C_FPR_C_RM_def parse_O_FPR_C_GPR_def
  parse_O_FPR_C_GPR_C_RM_def parse_O_GPR_C_FPR_def parse_O_GPR_C_FPR_C_RM_def parse_O_GPR_C_FPR_C_FPR_def
  parse_O_FPR_C_I_LP_GPR_RP_def

lemma accepts_syntax: "tok_type (currentToken p) \<noteq> EOF \<Longrightarrow> accepts p (parse_syntax c s p)"
  by (cases s) (auto simp: integer_formats float_formats Let_def accepts_pseudo
    intro!: accepts_bindr accepts_ends split: option.split)

lemma accepts_syntaxes: "tok_type (currentToken p) \<noteq> EOF \<Longrightarrow> accepts p (try_syntaxes c ss p)"
proof (induction ss)
  case (Cons s ss)
  then show ?case using accepts_syntax [of p c s]
    by (auto intro!: accepts_bindr split: option.split)
qed simp

lemma text_step_passes:
  assumes "text_step c p = Inr q" and "tok_type (currentToken p) \<noteq> EOF"
  shows "passes p q"
proof -
  have skip: "passes p (skipCurrentLine p')" if "tokens p' = tokens p" "token_pos p' = token_pos p" for p'
    using accepts_done_line [OF that assms(2)] by (simp add: done_line_def)
  have step: "passes p (nextToken p')" if "tokens p' = tokens p" "token_pos p' = token_pos p" for p'
    using not_at_end [OF assms(2)] that by (simp add: passes_def nextToken_def)
  show ?thesis
    using assms(1) accepts_syntaxes [OF assms(2)]
    by (auto simp: text_step_def code_label_step_def Let_def accepts_def intro!: skip step split: if_splits option.splits)
qed

function parseTextDirective :: "VmConfig \<Rightarrow> Parser \<Rightarrow> Parser result" where
  "parseTextDirective c p =
     (if tok_type (currentToken p) = DIRECTIVE \<or> tok_type (currentToken p) = EOF then Inr p
      else case text_step c p of Inl e \<Rightarrow> Inl e | Inr p \<Rightarrow> parseTextDirective c p)"
  by pat_completeness auto
termination
  by (relation "measure (\<lambda>(_, p). length (tokens p) - token_pos p)")
     (simp_all add: text_step_passes passes_less)

declare parseTextDirective.simps [simp del]

subsection \<open>The two passes\<close>

definition at_directive :: "string \<Rightarrow> Parser \<Rightarrow> bool" where
  "at_directive v p \<longleftrightarrow> tok_value (currentToken p) = v \<and> tok_type (currentToken p) = DIRECTIVE"

definition at_code :: "Parser \<Rightarrow> bool" where
  "at_code p \<longleftrightarrow> tok_type (currentToken p) = LABEL \<or> tok_type (currentToken p) = OPCODE"

definition invalid_token :: "string \<Rightarrow> string \<Rightarrow> Parser \<Rightarrow> Parser" where
  "invalid_token short expected p =
     nextToken (report_at (currentToken p) SyntaxError short ''Invalid token'' expected p)"

text \<open>
  One round of the first loop. Inside the text it passes tokens up to the value of another section,
  whatever the kind of the token that has this value.
\<close>

definition first_step :: "FloatReader \<Rightarrow> Parser \<Rightarrow> Parser result" where
  "first_step F p =
     (if at_directive ''section'' p then Inr (nextToken p)
      else if at_directive ''data'' p then parseDataDirective F (nextToken p)
      else if at_directive ''bss'' p then Inr (parseBSSDirective (nextToken p))
      else if at_directive ''text'' p \<or> at_code p then
        Inr (skip_tokens (\<lambda>t. tok_type t \<noteq> EOF \<and> tok_value t \<notin> {''data'', ''section'', ''bss''}) (remaining_tokens p) p)
      else Inr (invalid_token ''Invalid token: Expected .data, .text, or <opcode> or <label>''
                  ''Expected: .data, .text, or <opcode> or <label>'' p))"

fun first_pass :: "FloatReader \<Rightarrow> nat \<Rightarrow> Parser \<Rightarrow> Parser result" where
  "first_pass F 0 p = (if tok_type (currentToken p) = EOF then Inr p else Inl OutOfFuel)"
| "first_pass F (Suc fuel) p =
     (if tok_type (currentToken p) = EOF then Inr p else bindr (first_step F p) (first_pass F fuel))"

definition second_step :: "VmConfig \<Rightarrow> Parser \<Rightarrow> Parser result" where
  "second_step c p =
     (if at_directive ''section'' p then Inr (nextToken p)
      else if at_directive ''data'' p \<or> at_directive ''bss'' p then
        Inr (skip_tokens (\<lambda>t. tok_type t \<noteq> EOF \<and> tok_value t \<noteq> ''text'') (remaining_tokens p) p)
      else if at_directive ''text'' p then parseTextDirective c (nextToken p)
      else if at_code p then parseTextDirective c p
      else Inr (invalid_token ''Invalid token: Expected .data, .text, .bss or <opcode> or <label>''
                  ''Expected: .data, .text, .bss or <opcode> or <label>'' p))"

fun second_pass :: "VmConfig \<Rightarrow> nat \<Rightarrow> Parser \<Rightarrow> Parser result" where
  "second_pass c 0 p = (if tok_type (currentToken p) = EOF then Inr p else Inl OutOfFuel)"
| "second_pass c (Suc fuel) p =
     (if tok_type (currentToken p) = EOF then Inr p else bindr (second_step c p) (second_pass c fuel))"

subsection \<open>References that were left open\<close>

text \<open>The cases of the last loop; a branch to a data label is an error, but keeps its unit.\<close>

definition patch_range :: "string \<Rightarrow> ICUnit \<Rightarrow> Parser \<Rightarrow> Parser" where
  "patch_range expected b p =
     report ImmediateOutOfRangeError ''Immediate value out of range'' ''Immediate value out of range'' expected
       (getLineNumber b) 0 p"

definition patch_ref :: "string \<Rightarrow> string \<Rightarrow> ICUnit \<Rightarrow> Parser \<Rightarrow> Parser" where
  "patch_ref short expected b p =
     report InvalidLabelRefError short ''Invalid label reference'' expected (getLineNumber b) 0 p"

definition patched :: "nat \<Rightarrow> ICUnit \<Rightarrow> Parser \<Rightarrow> Parser" where
  "patched i b p = p\<lparr>intermediate_code := (intermediate_code p)[i := (b, True)]\<rparr>"

definition patch_one :: "u32 \<Rightarrow> Parser \<Rightarrow> Parser result" where
  "patch_one i p =
     (if unat i \<ge> length (intermediate_code p) then Inl Undefined
      else let b = fst (intermediate_code p ! unat i) in
      case symbol_table p (getLabel b) of
        None \<Rightarrow> Inr (patch_ref ''Invalid label reference: Label reference not found'' ''Label reference not found'' b p)
      | Some d \<Rightarrow>
          let offset = offset_to (address d) i in
          if isValidBTypeInstruction (getOpcode b) then
            (if isData d then
               Inr (patched (unat i) b (patch_ref ''Invalid label reference: Label references data'' ''Label references data'' b p))
             else if within (- 4096) 4095 offset then Inr (patched (unat i) (setImm (to_string offset) b) p)
             else Inr (patch_range ''Expected: -4096 <= imm <= 4095'' b p))
          else if isValidJTypeInstruction (getOpcode b) then
            (if within (- 1048576) 1048575 offset then Inr (patched (unat i) (setImm (to_string offset) b) p)
             else Inr (patch_range ''Expected: -1048576 <= imm <= 1048575'' b p))
          else Inr (patch_ref ''Invalid label reference: Label references data'' ''Label reference not found'' b p))"

fun patch_all :: "u32 list \<Rightarrow> Parser \<Rightarrow> Parser result" where
  "patch_all [] p = Inr p"
| "patch_all (i # is) p = bindr (patch_one i p) (patch_all is)"

text \<open>The bound on the rounds of each pass is an argument; the number of tokens is enough.\<close>

definition parse :: "VmConfig \<Rightarrow> FloatReader \<Rightarrow> nat \<Rightarrow> Parser \<Rightarrow> Parser result" where
  "parse c F fuel p =
     bindr (first_pass F fuel (p\<lparr>instruction_index := 0, data_index := 0\<rparr>)) (\<lambda>p.
     bindr (second_pass c fuel (p\<lparr>token_pos := 0, instruction_index := 0\<rparr>)) (\<lambda>p.
       patch_all (back_patch p) p))"

definition getErrorCount :: "Parser \<Rightarrow> u32" where
  "getErrorCount p = error_count p"

end
