(* ===== verification/ParserRuns.thy ===== *)
theory ParserRuns
  imports Parser
begin

text \<open>
  When the parser ends (src/assembler/parser.cpp, \<open>Parser::parse\<close>): both passes take at most one
  round per token, unless a label has the name of a section, at which the first pass never moves on.
\<close>

subsection \<open>Steps that end\<close>

lemma ends_stoll [simp]: "ends (stoll b s)" "ends (stoull b s)"
  by (simp_all add: stoll_def stoull_def split: option.split)

lemma ends_operands [simp]:
  "ends (reg_name p n)" "ends (num_value p n)" "ends (csr_address p n)" "ends (rm_encoding p n)" "ends (pcrel a i)"
  by (auto simp: reg_name_def num_value_def csr_address_def rm_encoding_def getRoundingModeEncoding_def at_key_def
      pcrel_def Let_def intro!: ends_bindr split: option.split)

lemma ends_lines [simp]:
  "ends (done_line p)" "ends (finish b p)" "ends (out_of_range t m p)" "ends (misaligned t p)"
  "ends (invalid_label t p)" "ends (emit_unresolved l b p)"
  by (simp_all add: done_line_def finish_def out_of_range_def misaligned_def invalid_label_def emit_unresolved_def)

lemma ends_syntax: "ends (parse_syntax c s p)"
  by (cases s) (auto simp: integer_formats float_formats parse_pseudo_def parse_la_def parse_nop_def parse_li_def
      parse_mv_def parse_not_def parse_ret_def Let_def intro!: ends_bindr split: option.split)

lemma ends_syntaxes: "ends (try_syntaxes c ss p)"
  by (induction ss) (auto intro!: ends_bindr ends_syntax split: option.split)

lemma ends_text_step: "ends (text_step c p)"
  by (auto simp: text_step_def Let_def intro!: ends_bindr ends_syntaxes split: option.split)

lemma ends_parseTextDirective: "ends (parseTextDirective c p)"
proof (induction c p rule: parseTextDirective.induct)
  case (1 c p)
  then show ?case using ends_text_step [of c p]
    by (subst parseTextDirective.simps) (auto simp: ends_def split: sum.split)
qed

definition reads_floats :: "FloatReader \<Rightarrow> bool" where
  "reads_floats F \<longleftrightarrow> (\<forall>s. ends (stof F s) \<and> ends (stod F s))"

lemma ends_data_values:
  "(\<And>t p. ends (put t p)) \<Longrightarrow> ends (data_values ty put ts p)"
  by (induction ts arbitrary: p) auto

lemma ends_data_step:
  assumes "reads_floats F"
  shows "ends (data_step F p)"
proof -
  have "data_directive F v = Some (ty, put) \<Longrightarrow> ends (put t q)" for v ty put t q
    using assms by (auto simp: data_directive_def Let_def reads_floats_def split: if_splits intro!: ends_bindr)
  then show ?thesis by (auto simp: data_step_def Let_def intro!: ends_data_values split: option.split)
qed

lemma parseDataDirective_ends:
  "reads_floats F \<Longrightarrow> returns (moves p) (parseDataDirective F p)"
proof (induction F p rule: parseDataDirective.induct)
  case (1 F p)
  show ?case
  proof (cases "section_word (tok_value (currentToken p)) \<or> tok_type (currentToken p) = EOF")
    case True
    then show ?thesis by (subst parseDataDirective.simps) simp
  next
    case False
    show ?thesis
    proof (cases "data_step F p")
      case (Inl e)
      with False ends_data_step [OF 1(2), of p] show ?thesis by (subst parseDataDirective.simps) (simp add: ends_def)
    next
      case (Inr q)
      then have "passes p q" using data_step_passes False by blast
      then have "moves q r \<Longrightarrow> moves p r" for r by (auto simp: passes_def moves_def)
      with 1 False Inr show ?thesis by (subst parseDataDirective.simps) (auto elim: returns_weaken)
    qed
  qed
qed

lemma parseTextDirective_moves: "returns (moves p) (parseTextDirective c p)"
proof (induction c p rule: parseTextDirective.induct)
  case (1 c p)
  show ?case
  proof (cases "tok_type (currentToken p) = DIRECTIVE \<or> tok_type (currentToken p) = EOF")
    case True
    then show ?thesis by (subst parseTextDirective.simps) simp
  next
    case False
    show ?thesis
    proof (cases "text_step c p")
      case (Inl e)
      with False ends_text_step [of c p] show ?thesis by (subst parseTextDirective.simps) (simp add: ends_def)
    next
      case (Inr q)
      then have "passes p q" using text_step_passes False by blast
      then have "moves q r \<Longrightarrow> moves p r" for r by (auto simp: passes_def moves_def)
      with 1 False Inr show ?thesis by (subst parseTextDirective.simps) (auto elim: returns_weaken)
    qed
  qed
qed

subsection \<open>The passes\<close>

text \<open>No label has the name of a section other than the text.\<close>

definition plain_labels :: "Token list \<Rightarrow> bool" where
  "plain_labels ts \<longleftrightarrow>
     (\<forall>t \<in> set ts. tok_type t \<in> {LABEL, OPCODE} \<longrightarrow> tok_value t \<notin> {''data'', ''section'', ''bss''})"

lemma currentToken_in: "tok_type (currentToken p) \<noteq> EOF \<Longrightarrow> currentToken p \<in> set (tokens p)"
  by (frule not_at_end) (unfold currentToken_def, simp)

lemma remaining_Cons:
  "tok_type (currentToken p) \<noteq> EOF \<Longrightarrow> remaining_tokens p = currentToken p # drop (Suc (token_pos p)) (tokens p)"
  by (frule not_at_end) (unfold remaining_tokens_def currentToken_def, simp add: Cons_nth_drop_Suc)

lemma skip_tokens_passes:
  assumes "tok_type (currentToken p) \<noteq> EOF" and "P (currentToken p)"
  shows "passes p (skip_tokens P (remaining_tokens p) p)"
  unfolding remaining_Cons [OF assms(1)] skip_tokens.simps if_P [where P = "P (currentToken p)", OF assms(2)]
  by (rule passes_moves [OF passes_nextToken [OF assms(1)] skip_tokens_moves])

lemma invalid_token_passes:
  "tok_type (currentToken p) \<noteq> EOF \<Longrightarrow> passes p (invalid_token a b p)"
  using not_at_end [of p] by (simp add: passes_def invalid_token_def nextToken_def)

lemma first_step_passes:
  assumes "reads_floats F" and "plain_labels (tokens p)" and "tok_type (currentToken p) \<noteq> EOF"
  shows "returns (passes p) (first_step F p)"
proof -
  note n = passes_nextToken [OF assms(3)]
  have d: "returns (passes p) (parseDataDirective F (nextToken p))"
    using parseDataDirective_ends [OF assms(1)] by (rule returns_weaken) (rule passes_moves [OF n])
  have s: "passes p (skip_tokens (\<lambda>t. tok_type t \<noteq> EOF \<and> tok_value t \<notin> {''data'', ''section'', ''bss''}) (remaining_tokens p) p)"
    if "at_directive ''text'' p \<or> at_code p"
    using that assms(2,3) currentToken_in [OF assms(3)]
    by (intro skip_tokens_passes) (auto simp: at_directive_def at_code_def plain_labels_def)
  show ?thesis
    unfolding first_step_def using n d s assms(3)
    by (auto simp: parseBSSDirective_def invalid_token_passes intro: passes_moves)
qed

lemma second_step_passes:
  assumes "tok_type (currentToken p) \<noteq> EOF"
  shows "returns (passes p) (second_step c p)"
proof -
  note n = passes_nextToken [OF assms]
  have d: "returns (passes p) (parseTextDirective c (nextToken p))"
    using parseTextDirective_moves by (rule returns_weaken) (rule passes_moves [OF n])
  have t: "returns (passes p) (parseTextDirective c p)" if c: "at_code p"
  proof (cases "text_step c p")
    case (Inl e)
    with c assms ends_text_step [of c p] show ?thesis
      by (subst parseTextDirective.simps) (auto simp: ends_def at_code_def)
  next
    case (Inr q)
    have "returns (passes p) (parseTextDirective c q)"
      using parseTextDirective_moves by (rule returns_weaken) (rule passes_moves [OF text_step_passes [OF Inr assms]])
    with c assms Inr show ?thesis by (subst parseTextDirective.simps) (auto simp: at_code_def)
  qed
  have s: "passes p (skip_tokens (\<lambda>t. tok_type t \<noteq> EOF \<and> tok_value t \<noteq> ''text'') (remaining_tokens p) p)"
    if "at_directive ''data'' p \<or> at_directive ''bss'' p"
    using that assms by (intro skip_tokens_passes) (auto simp: at_directive_def)
  show ?thesis
    unfolding second_step_def using n d s t assms by (auto simp: invalid_token_passes)
qed

text \<open>A loop that passes a token in every round needs no more rounds than there are tokens left.\<close>

lemma first_pass_returns:
  "reads_floats F \<Longrightarrow> plain_labels (tokens p) \<Longrightarrow> length (tokens p) - token_pos p \<le> fuel \<Longrightarrow>
     returns (\<lambda>q. tokens q = tokens p) (first_pass F fuel p)"
proof (induction fuel arbitrary: p)
  case 0
  then show ?case using not_at_end [of p] by auto
next
  case (Suc fuel)
  show ?case
  proof (cases "tok_type (currentToken p) = EOF")
    case False
    have "returns (\<lambda>q. tokens q = tokens p) (first_pass F fuel q)" if q: "passes p q" for q
    proof -
      have "length (tokens q) - token_pos q \<le> fuel" using passes_less [OF q False] Suc.prems(3) by simp
      moreover have "tokens q = tokens p" using q by (simp add: passes_def)
      ultimately show ?thesis using Suc.IH [of q] Suc.prems(1,2) by simp
    qed
    then have "returns (\<lambda>q. tokens q = tokens p) (bindr (first_step F p) (first_pass F fuel))"
      by (rule returns_bind [OF first_step_passes [OF Suc.prems(1,2) False]])
    with False show ?thesis by simp
  qed simp
qed

lemma second_pass_returns:
  "length (tokens p) - token_pos p \<le> fuel \<Longrightarrow> returns (\<lambda>q. tokens q = tokens p) (second_pass c fuel p)"
proof (induction fuel arbitrary: p)
  case 0
  then show ?case using not_at_end [of p] by auto
next
  case (Suc fuel)
  show ?case
  proof (cases "tok_type (currentToken p) = EOF")
    case False
    have "returns (\<lambda>q. tokens q = tokens p) (second_pass c fuel q)" if q: "passes p q" for q
    proof -
      have "length (tokens q) - token_pos q \<le> fuel" using passes_less [OF q False] Suc.prems by simp
      moreover have "tokens q = tokens p" using q by (simp add: passes_def)
      ultimately show ?thesis using Suc.IH [of q] by simp
    qed
    then have "returns (\<lambda>q. tokens q = tokens p) (bindr (second_step c p) (second_pass c fuel))"
      by (rule returns_bind [OF second_step_passes [OF False]])
    with False show ?thesis by simp
  qed simp
qed

lemma ends_patch_all: "ends (patch_all is p)"
  by (induction "is" arbitrary: p) (auto simp: patch_one_def Let_def intro!: ends_bindr split: option.split)

text \<open>
  C17. Parsing ends: with one round per token both passes come to an end, in a parser or in an
  exception, whatever the tokens are, provided that no label has the name of the data or bss section
  or of the section directive.
\<close>

theorem parse_ends:
  assumes "reads_floats F" and "plain_labels ts" and "length ts \<le> fuel"
  shows "parse c F fuel (new_Parser ts) \<noteq> Inl OutOfFuel"
proof -
  let ?p = "(new_Parser ts)\<lparr>instruction_index := 0, data_index := 0\<rparr>"
  have ts: "tokens ?p = ts" by (simp add: new_Parser_def)
  with assms have "returns (\<lambda>q. tokens q = ts) (first_pass F fuel ?p)"
    using first_pass_returns [of F ?p fuel] by simp
  moreover have "returns (\<lambda>q. True) (bindr (second_pass c fuel (p\<lparr>token_pos := 0, instruction_index := 0\<rparr>)) (\<lambda>p. patch_all (back_patch p) p))"
    if "tokens p = ts" for p
    by (rule returns_bind [OF second_pass_returns returns_ends [OF ends_patch_all]]) (use that assms(3) in simp_all)
  ultimately have "returns (\<lambda>_. True) (parse c F fuel (new_Parser ts))"
    unfolding parse_def by (rule returns_bind)
  then show ?thesis by (auto simp: returns_def)
qed

text \<open>
  C40. A program that opens with a label called \<open>data\<close>, \<open>bss\<close> or \<open>section\<close> hangs the assembler: the
  first pass makes no progress at the label, so no number of rounds is enough.
\<close>

theorem parse_hangs_at_section_label:
  assumes "tok_type t = LABEL" and "tok_value t \<in> {''data'', ''bss'', ''section''}"
  shows "parse c F fuel (new_Parser (t # ts)) = Inl OutOfFuel"
proof -
  let ?p = "(new_Parser (t # ts))\<lparr>instruction_index := 0, data_index := 0\<rparr>"
  have c: "currentToken ?p = t" "remaining_tokens ?p = t # ts"
    by (simp_all add: new_Parser_def currentToken_def remaining_tokens_def)
  then have "first_step F ?p = Inr ?p"
    using assms by (auto simp: first_step_def at_directive_def at_code_def)
  then have "first_pass F fuel ?p = Inl OutOfFuel"
    using c assms(1) by (induction fuel) simp_all
  then show ?thesis by (simp add: parse_def)
qed

theorem parse_ends_witness:
  "parse default_config \<lparr>stof = \<lambda>_. Inl InvalidArgument, stod = \<lambda>_. Inl InvalidArgument\<rparr> 3
     (new_Parser [token LABEL ''up'' 1 1, token OPCODE ''ret'' 2 1, token EOF [] 2 4]) \<noteq> Inl OutOfFuel"
  by (rule parse_ends) (simp_all add: reads_floats_def plain_labels_def token_def)

theorem parse_hangs_at_section_label_witness:
  "\<forall>F fuel. parse default_config F fuel (new_Parser [token LABEL ''data'' 1 1, token EOF [] 1 6]) = Inl OutOfFuel"
  by (intro allI parse_hangs_at_section_label) (simp_all add: token_def)

end
