(* ===== verification/ParserLabels.thy ===== *)
theory ParserLabels
  imports ParserRuns Encoding
begin

text \<open>
  What the parser emits (src/assembler/parser.cpp): the moves its functions are made of, as a step
  relation, and the invariant of all parsers reached in the text: registers are in range, and a unit
  that refers to a label either holds the distance to it or is on the list of open references.
\<close>

subsection \<open>Moves\<close>

definition register_named :: "string \<Rightarrow> bool" where
  "register_named r \<longleftrightarrow> r = [] \<or> r \<in> (\<lambda>e. chars 5 (snd e)) ` set reg_alias_to_name"

definition registers_named :: "ICUnit \<Rightarrow> bool" where
  "registers_named b \<longleftrightarrow> register_named (getRd b) \<and> register_named (getRs1 b) \<and> register_named (getRs2 b)"

text \<open>A unit placed at \<open>i\<close> with a label holds the distance to a place of the text.\<close>

definition resolved :: "(string \<rightharpoonup> SymbolData) \<Rightarrow> u32 \<Rightarrow> ICUnit \<Rightarrow> bool" where
  "resolved st i b \<longleftrightarrow> (getLabel b = [] \<or>
     (\<exists>d. st (getLabel b) = Some d \<and> \<not> isData d \<and> getImm b = to_string (offset_to (address d) i)))"

inductive parse_move :: "Parser \<Rightarrow> Parser \<Rightarrow> bool" where
  pass: "parse_move p (p\<lparr>token_pos := n\<rparr>)"
| error: "parse_move p (report k m1 m2 m3 l n p)"
| say: "parse_move p (p\<lparr>parser_cout := out\<rparr>)"
| emit: "registers_named b \<Longrightarrow> resolved (symbol_table p) (instruction_index p) b \<Longrightarrow> parse_move p (emit b True p)"
| leave: "registers_named b \<Longrightarrow>
     parse_move p (emit b False (p\<lparr>back_patch := back_patch p @ [instruction_index p]\<rparr>))"
| label: "symbol_table p l = None \<Longrightarrow> parse_move p (p\<lparr>symbol_table := (symbol_table p)(l \<mapsto>
     \<lparr>address = ucast (instruction_index p * 4), symbol_line = n, isData = False\<rparr>)\<rparr>)"

abbreviation parse_moves :: "Parser \<Rightarrow> Parser \<Rightarrow> bool" where
  "parse_moves \<equiv> parse_move\<^sup>*\<^sup>*"

lemma parse_moves_nextToken: "parse_moves p (nextToken p)"
  by (auto simp: nextToken_def intro: parse_move.pass)

lemma parse_moves_skip: "parse_moves p (skip_tokens P ts p)"
  by (induction P ts p rule: skip_tokens.induct) (auto intro: rtranclp_trans [OF parse_moves_nextToken])

lemma parse_moves_report: "parse_moves p (report_at t k a b c p)"
  by (auto simp: report_at_def intro: parse_move.error)

text \<open>What is accepted has been reached by moves.\<close>

definition moving :: "Parser \<Rightarrow> Parser option result \<Rightarrow> bool" where
  "moving p r \<longleftrightarrow> (\<forall>q. r = Inr (Some q) \<longrightarrow> parse_moves p q)"

lemma moving_simps [simp]: "moving p (Inl e)" "moving p (Inr None)" "moving p (Inr (Some q)) = parse_moves p q"
  by (simp_all add: moving_def)

lemma moving_bindr: "(\<And>a. r = Inr a \<Longrightarrow> moving p (f a)) \<Longrightarrow> moving p (bindr r f)"
  by (cases r) simp_all

lemma moving_done_line: "parse_moves p q \<Longrightarrow> moving p (done_line q)"
  by (simp add: done_line_def skipCurrentLine_def rtranclp_trans [OF _ parse_moves_skip])

lemma moving_errors:
  "moving p (out_of_range t m p)" "moving p (misaligned t p)" "moving p (invalid_label t p)"
  by (simp_all add: out_of_range_def misaligned_def invalid_label_def moving_done_line parse_moves_report)

lemma moving_emit:
  "registers_named b \<Longrightarrow> resolved (symbol_table p) (instruction_index p) b \<Longrightarrow> parse_moves p (emit b True p)"
  by (auto intro: parse_move.emit)

lemma moving_finish:
  "registers_named b \<Longrightarrow> resolved (symbol_table p) (instruction_index p) b \<Longrightarrow> moving p (finish b p)"
  by (simp add: finish_def moving_done_line moving_emit)

lemma moving_unresolved:
  "registers_named (setLabel l b) \<Longrightarrow> moving p (emit_unresolved l b p)"
  by (auto simp: emit_unresolved_def intro!: moving_done_line parse_move.leave)

subsection \<open>The units of the formats\<close>

lemma alias_names: "list_all (\<lambda>(a, r). register_ok (chars 5 r)) reg_alias_to_name"
  by code_simp

lemma register_named_alias: "reg_name p n = Inr r \<Longrightarrow> register_named (chars 5 r)"
  by (force simp: reg_name_def at_key_def register_named_def dest: map_of_SomeD split: option.splits)

lemma register_named_ok: "register_named r \<Longrightarrow> register_ok r"
  using alias_names by (auto simp: register_named_def list_all_iff register_ok_def extractRegisterIndex_def)

lemma registers_named_ok: "registers_named b \<Longrightarrow> registers_ok b"
  by (simp add: registers_named_def registers_ok_def register_named_ok)

lemma register_named_constants:
  "register_named []" "register_named (chars 5 [])" "register_named (chars 5 ''x0'')" "register_named (chars 5 ''x1'')"
proof -
  have "list_all (\<lambda>r. chars 5 r \<in> set (map (\<lambda>e. chars 5 (snd e)) reg_alias_to_name)) [''x0'', ''x1'']" by code_simp
  then show "register_named (chars 5 ''x0'')" "register_named (chars 5 ''x1'')" by (simp_all add: register_named_def)
qed (simp_all add: register_named_def chars_def)

lemma registers_named_set:
  "registers_named b \<Longrightarrow> register_named (chars 5 r) \<Longrightarrow> registers_named (setRd r b)"
  "registers_named b \<Longrightarrow> register_named (chars 5 r) \<Longrightarrow> registers_named (setRs1 r b)"
  "registers_named b \<Longrightarrow> register_named (chars 5 r) \<Longrightarrow> registers_named (setRs2 r b)"
  by (simp_all add: registers_named_def setRd_def setRs1_def setRs2_def)

lemma registers_named_same [simp]:
  "registers_named (setRs3 r b) = registers_named b" "registers_named (setImm s b) = registers_named b"
  "registers_named (setLabel s b) = registers_named b" "registers_named (setRm m b) = registers_named b"
  "registers_named (setCsr x b) = registers_named b" "registers_named (setOpcode s b) = registers_named b"
  "registers_named (setLineNumber l b) = registers_named b" "registers_named (setInstructionIndex i b) = registers_named b"
  "registers_named new_ICUnit"
  by (simp_all add: registers_named_def setRs3_def setImm_def setLabel_def setRm_def
      setCsr_def setOpcode_def setLineNumber_def setInstructionIndex_def new_ICUnit_def register_named_constants)

lemma registers_named_unit [simp]: "registers_named (unit_at op p)" "registers_named (current_unit p)"
  by (simp_all add: unit_at_def current_unit_def)

lemma label_set [simp]:
  "getLabel (setRd r b) = getLabel b" "getLabel (setRs1 r b) = getLabel b" "getLabel (setRs2 r b) = getLabel b"
  "getLabel (setRs3 r b) = getLabel b" "getLabel (setImm s b) = getLabel b" "getLabel (setRm m b) = getLabel b"
  "getLabel (setCsr x b) = getLabel b" "getLabel (setOpcode s b) = getLabel b" "getLabel (setLineNumber l b) = getLabel b"
  "getLabel (setInstructionIndex i b) = getLabel b" "getLabel (setLabel s b) = s"
  "getLabel new_ICUnit = []" "getLabel (unit_at op p) = []" "getLabel (current_unit p) = []"
  by (simp_all add: setRd_def setRs1_def setRs2_def setRs3_def setImm_def setLabel_def setRm_def current_unit_def unit_at_def
      setCsr_def setOpcode_def setLineNumber_def setInstructionIndex_def new_ICUnit_def)

lemma resolved_no_label: "getLabel b = [] \<Longrightarrow> resolved st i b"
  by (simp add: resolved_def)

lemma length_nat_to_string: "n < 10 ^ Suc k \<Longrightarrow> length (nat_to_string n) \<le> Suc k"
proof (induction k arbitrary: n)
  case 0
  then show ?case by (subst nat_to_string.simps) simp
next
  case (Suc k)
  then have "n div 10 < 10 ^ Suc k" by (simp add: less_mult_imp_div_less)
  with Suc.IH [of "n div 10"] show ?case by (subst nat_to_string.simps) simp
qed

lemma chars_to_string:
  assumes "within (- 2147483648) 2147483648 k"
  shows "chars 32 (to_string k) = to_string k"
proof -
  have "list_all number_char (to_string k)" by (rule to_string_number_char)
  then have "takeWhile (\<lambda>c. c \<noteq> CHR 0x00) (to_string k) = to_string k"
    by (auto simp: takeWhile_eq_all_conv list_all_iff number_char_def isalpha_def isdigit_def)
  moreover have "nat k < 10 ^ Suc 30" "nat (- k) < 10 ^ Suc 30" using assms by (auto simp: within_def)
  then have "length (to_string k) \<le> 32"
    using length_nat_to_string [of "nat k" 30] length_nat_to_string [of "nat (- k)" 30] by (simp add: to_string_def)
  ultimately show ?thesis by (simp only: chars_def take_all)
qed

lemma resolved_reference:
  assumes "code_label l p = Some addr" and "within (- 2147483648) 2147483648 (offset_to addr i)"
  shows "resolved (symbol_table p) i (setLabel l (setImm (to_string (offset_to addr i)) b))"
  using assms chars_to_string [OF assms(2)]
  by (auto simp: resolved_def code_label_def setImm_def setLabel_def split: option.splits if_splits)

lemma within_weaken: "within lo hi k \<Longrightarrow> lo' \<le> lo \<Longrightarrow> hi \<le> hi' \<Longrightarrow> within lo' hi' k"
  by (simp add: within_def)

lemma moving_named:
  "registers_named b \<Longrightarrow> getLabel b = [] \<Longrightarrow> moving p (finish b p)"
  by (simp add: moving_finish resolved_no_label)

lemma moving_reference:
  assumes "registers_named b" and "within lo hi (offset_to addr (instruction_index p))" and "code_label l p = Some addr"
    and "- 2147483648 \<le> lo" "hi \<le> 2147483648"
  shows "moving p (finish (setLabel l (setImm (to_string (offset_to addr (instruction_index p))) b)) p)"
  using assms within_weaken [OF assms(2,4,5)] by (intro moving_finish resolved_reference) simp_all

lemmas moving_references =
  moving_reference [where lo = "- 4096" and hi = 4095, simplified]
  moving_reference [where lo = "- 1048576" and hi = 1048575, simplified]

lemma moving_one:
  assumes "registers_named b" "getLabel b = []"
  shows "parse_moves p (emit b True p)" "moving p (done_line (emit b True p))" "parse_moves p (nextToken (emit b True p))"
proof -
  show e: "parse_moves p (emit b True p)" using assms by (intro moving_emit resolved_no_label)
  then show "moving p (done_line (emit b True p))" by (rule moving_done_line)
  show "parse_moves p (nextToken (emit b True p))" by (rule rtranclp_trans [OF e parse_moves_nextToken])
qed

lemma moving_two:
  assumes "registers_named b" "getLabel b = []" "registers_named b'" "getLabel b' = []"
  shows "moving p (finish b' (emit b True p))"
  unfolding finish_def
  by (intro moving_done_line rtranclp_trans [OF moving_one(1) moving_one(1)] assms)

lemmas unit_registers = registers_named_set register_named_constants register_named_alias

lemma moving_pseudo: "moving p (parse_pseudo c p)"
proof -
  have la: "moving p (parse_la c p)"
    unfolding parse_la_def Let_def
    by (auto intro!: moving_bindr moving_errors moving_two unit_registers split: option.split)
  moreover have "moving p (parse_nop p)" "moving p (parse_ret p)"
    unfolding parse_nop_def parse_ret_def by (auto intro!: moving_one unit_registers)
  moreover have "moving p (parse_li p)"
    unfolding parse_li_def Let_def
    by (auto intro!: moving_bindr moving_errors moving_two moving_named moving_one(2) unit_registers)
  moreover have "moving p (parse_mv p)" "moving p (parse_not p)"
    unfolding parse_mv_def parse_not_def by (auto intro!: moving_bindr moving_named unit_registers)
  ultimately show ?thesis by (simp add: parse_pseudo_def Let_def)
qed

lemma moving_load_label: "moving p (parse_O_GPR_C_DL c p)"
proof -
  have say: "moving p (finish b' (emit b True (p\<lparr>parser_cout := out\<rparr>)))"
    if "registers_named b" "getLabel b = []" "registers_named b'" "getLabel b' = []" for b b' out
    using moving_two [OF that, of "p\<lparr>parser_cout := out\<rparr>"] parse_move.say [of p out]
    by (auto simp: moving_def intro: converse_rtranclp_into_rtranclp)
  show ?thesis
    unfolding parse_O_GPR_C_DL_def Let_def
    by (auto intro!: moving_bindr moving_errors say unit_registers split: option.split)
qed

lemma moving_float: "moving p (parse_syntax c s p)"
  if "s \<in> {O_FPR_C_FPR_C_FPR_C_FPR, O_FPR_C_FPR_C_FPR_C_FPR_C_RM, O_FPR_C_FPR_C_FPR, O_FPR_C_FPR_C_FPR_C_RM, O_FPR_C_FPR,
     O_FPR_C_FPR_C_RM, O_FPR_C_GPR, O_FPR_C_GPR_C_RM, O_GPR_C_FPR, O_GPR_C_FPR_C_RM, O_GPR_C_FPR_C_FPR, O_FPR_C_I_LP_GPR_RP}"
  using that by (auto simp: float_formats Let_def intro!: moving_bindr moving_errors moving_named unit_registers)

lemma if_cases_moving: "(c \<Longrightarrow> moving p r) \<Longrightarrow> (\<not> c \<Longrightarrow> moving p r') \<Longrightarrow> moving p (if c then r else r')"
  by simp

lemma moving_branch: "moving p (parse_O_GPR_C_GPR_C_IL p)" "moving p (parse_O_GPR_C_IL p)"
proof -
  have "moving p (parse_O_GPR_C_GPR_C_IL p)"
    unfolding parse_O_GPR_C_GPR_C_IL_def Let_def
    by (rule if_cases_moving) (auto intro!: moving_bindr moving_errors moving_named [where b = "current_unit p"]
      moving_unresolved moving_references(1) unit_registers split: option.split)
  moreover have "moving p (parse_O_GPR_C_IL p)"
    unfolding parse_O_GPR_C_IL_def Let_def
    by (rule if_cases_moving) (auto intro!: moving_bindr moving_errors moving_named [where b = "current_unit p"]
      moving_unresolved moving_references(2) unit_registers split: option.split)
  ultimately show "moving p (parse_O_GPR_C_GPR_C_IL p)" "moving p (parse_O_GPR_C_IL p)" by blast+
qed

lemma moving_syntax: "moving p (parse_syntax c s p)"
proof (cases s)
  case O_GPR_C_GPR_C_I
  then show ?thesis
    by (auto simp: parse_O_GPR_C_GPR_C_I_def Let_def intro!: moving_bindr moving_errors moving_named unit_registers)
next
  case O_GPR_C_I_LP_GPR_RP
  then show ?thesis
    by (auto simp: parse_O_GPR_C_I_LP_GPR_RP_def Let_def intro!: moving_bindr moving_errors moving_named unit_registers)
next
  case O_GPR_C_I
  then show ?thesis
    by (auto simp: parse_O_GPR_C_I_def Let_def intro!: moving_bindr moving_errors moving_named unit_registers)
qed (auto simp: parse_O_def parse_O_GPR_C_GPR_C_GPR_def parse_O_GPR_C_CSR_C_GPR_def parse_O_GPR_C_CSR_C_I_def
    moving_pseudo moving_load_label moving_branch
    intro!: moving_float [simplified] moving_bindr moving_errors moving_named unit_registers simp del: parse_syntax.simps(13-))


lemma moving_syntaxes: "moving p (try_syntaxes c ss p)"
proof (induction ss)
  case (Cons s ss)
  then show ?case using moving_syntax [of p c s] by (auto intro!: moving_bindr split: option.split)
qed simp

lemma text_step_moves:
  assumes "text_step c p = Inr q"
  shows "parse_moves p q"
proof -
  have skip: "parse_moves p (skipCurrentLine (report_at t k x y z p))" for t k x y z
    unfolding skipCurrentLine_def by (rule rtranclp_trans [OF parse_moves_report parse_moves_skip])
  have step: "parse_moves p (nextToken (report_at t k x y z p))" for t k x y z
    by (rule rtranclp_trans [OF parse_moves_report parse_moves_nextToken])
  have "parse_moves p (code_label_step p)"
    by (auto simp: code_label_step_def Let_def intro: step rtranclp_trans [OF _ parse_moves_nextToken] parse_move.label
        split: option.split)
  then show ?thesis
    using assms moving_syntaxes [of p c]
    by (auto simp: text_step_def Let_def moving_def intro: skip split: if_splits option.splits)
qed

lemma parseTextDirective_reached: "parseTextDirective c p = Inr q \<Longrightarrow> parse_moves p q"
proof (induction c p rule: parseTextDirective.induct)
  case (1 c p)
  show ?case
  proof (cases "tok_type (currentToken p) = DIRECTIVE \<or> tok_type (currentToken p) = EOF")
    case True
    with 1(2) show ?thesis by (subst (asm) parseTextDirective.simps) simp
  next
    case False
    with 1(2) obtain r where r: "text_step c p = Inr r" "parseTextDirective c r = Inr q"
      by (subst (asm) parseTextDirective.simps) (auto split: sum.splits)
    with 1(1) [OF False r] show ?thesis using text_step_moves [OF r(1)] by (meson rtranclp_trans)
  qed
qed

lemma second_step_moves: "second_step c p = Inr q \<Longrightarrow> parse_moves p q"
  by (auto simp: second_step_def invalid_token_def parse_moves_nextToken
      intro: parse_moves_skip parseTextDirective_reached rtranclp_trans [OF parse_moves_nextToken parseTextDirective_reached]
        rtranclp_trans [OF parse_moves_report parse_moves_nextToken] split: if_splits)

lemma second_pass_moves: "second_pass c fuel p = Inr q \<Longrightarrow> parse_moves p q"
  by (induction fuel arbitrary: p) (auto split: if_splits intro: rtranclp_trans [OF second_step_moves])

subsection \<open>The first pass emits nothing\<close>

definition no_code :: "Parser \<Rightarrow> bool" where
  "no_code p \<longleftrightarrow> intermediate_code p = [] \<and> back_patch p = [] \<and> line_mapping p = [] \<and>
     (\<forall>l d. symbol_table p l = Some d \<longrightarrow> isData d)"

lemma no_code_ops:
  "no_code (nextToken p) = no_code p" "no_code (data_align a p) = no_code p" "no_code (place a n x p) = no_code p"
  "no_code ((place a n x ^^ k) p) = no_code p" "no_code (report_at t k' m1 m2 m3 p) = no_code p"
  by (induction k) (simp_all add: no_code_def nextToken_def data_align_def place_def Let_def report_at_def report_def recordError_def)

lemma no_code_skip: "no_code (skip_tokens P ts p) = no_code p"
  by (induction P ts p rule: skip_tokens.induct) (simp_all add: no_code_ops)

lemma no_code_data_values:
  "(\<And>t p q. put t p = Inr q \<Longrightarrow> no_code p \<Longrightarrow> no_code q) \<Longrightarrow> data_values ty put ts p = Inr q \<Longrightarrow> no_code p \<Longrightarrow> no_code q"
  by (induction ts arbitrary: p) (auto simp: no_code_ops split: if_splits)

lemma no_code_data_step:
  assumes "data_step F p = Inr q" and "no_code p"
  shows "no_code q"
proof -
  have put: "data_directive F v = Some (ty, put) \<Longrightarrow> put t r = Inr r' \<Longrightarrow> no_code r \<Longrightarrow> no_code r'" for v ty put t r r'
    by (auto simp: data_directive_def Let_def no_code_ops split: if_splits)
  have label: "no_code (data_label p)"
  proof -
    have "no_code (p'\<lparr>symbol_table := (symbol_table p')(l \<mapsto> \<lparr>address = a, symbol_line = n, isData = True\<rparr>)\<rparr>)"
      if "no_code p'" for p' l a n
      using that by (simp add: no_code_def)
    then show ?thesis using assms(2) by (auto simp: data_label_def Let_def no_code_ops split: option.split)
  qed
  have kept: "no_code q" if d: "data_directive F v = Some (ty, put)" and v: "data_values ty put ts r = Inr q" "no_code r" for v ty put ts r
    using put [OF d] v by (rule no_code_data_values)
  show ?thesis
    using assms label
    by (auto simp: data_step_def Let_def split: if_splits option.splits intro: kept simp: no_code_ops)
qed

lemma no_code_parseData: "parseDataDirective F p = Inr q \<Longrightarrow> no_code p \<Longrightarrow> no_code q"
proof (induction F p rule: parseDataDirective.induct)
  case (1 F p)
  show ?case
  proof (cases "section_word (tok_value (currentToken p)) \<or> tok_type (currentToken p) = EOF")
    case True
    with 1(2,3) show ?thesis by (subst (asm) parseDataDirective.simps) simp
  next
    case False
    with 1(2) obtain r where r: "data_step F p = Inr r" "parseDataDirective F r = Inr q"
      by (subst (asm) parseDataDirective.simps) (auto split: sum.splits)
    with 1(1) [OF False r] no_code_data_step [OF r(1) 1(3)] show ?thesis by blast
  qed
qed

lemma no_code_first_pass: "first_pass F fuel p = Inr q \<Longrightarrow> no_code p \<Longrightarrow> no_code q"
proof (induction fuel arbitrary: p)
  case (Suc fuel)
  show ?case
  proof (cases "tok_type (currentToken p) = EOF")
    case False
    with Suc.prems(1) obtain r where r: "first_step F p = Inr r" "first_pass F fuel r = Inr q" by auto
    have "no_code r" using r(1) Suc.prems(2)
      by (auto simp: first_step_def parseBSSDirective_def invalid_token_def no_code_ops no_code_skip
          intro: no_code_parseData split: if_splits)
    then show ?thesis using Suc.IH r(2) by blast
  qed (use Suc.prems in simp)
qed (simp split: if_splits)

subsection \<open>The invariant of the text\<close>

definition code_address :: "u64 \<Rightarrow> nat \<Rightarrow> bool" where
  "code_address a n \<longleftrightarrow> (\<exists>j \<le> n. a = ucast (of_nat j * 4 :: u32))"

definition refs_ok :: "Parser \<Rightarrow> bool" where
  "refs_ok p \<longleftrightarrow> instruction_index p = of_nat (length (intermediate_code p)) \<and>
     (\<forall>l d. symbol_table p l = Some d \<longrightarrow> \<not> isData d \<longrightarrow> code_address (address d) (length (intermediate_code p))) \<and>
     (\<forall>i < length (intermediate_code p). registers_named (fst (intermediate_code p ! i)) \<and>
        (if snd (intermediate_code p ! i) then resolved (symbol_table p) (of_nat i) (fst (intermediate_code p ! i))
         else of_nat i \<in> set (back_patch p)))"

lemma code_address_mono: "code_address a n \<Longrightarrow> n \<le> m \<Longrightarrow> code_address a m"
proof (unfold code_address_def, elim exE conjE)
  fix j :: nat
  assume "n \<le> m" "j \<le> n" "a = ucast (of_nat j * 4 :: u32)"
  then show "\<exists>j \<le> m. a = ucast (of_nat j * 4 :: u32)" by (intro exI [of _ j]) simp
qed

lemma code_address_Suc [intro]: "code_address a n \<Longrightarrow> code_address a (Suc n)"
  by (erule code_address_mono) simp

lemma resolved_more: "resolved st i b \<Longrightarrow> st l = None \<Longrightarrow> resolved (st(l \<mapsto> d)) i b"
  by (auto simp: resolved_def)

lemma refs_ok_same:
  "refs_ok p \<Longrightarrow> intermediate_code q = intermediate_code p \<Longrightarrow> instruction_index q = instruction_index p \<Longrightarrow>
     symbol_table q = symbol_table p \<Longrightarrow> back_patch q = back_patch p \<Longrightarrow> refs_ok q"
  by (simp add: refs_ok_def)

lemma parse_move_refs_ok: "parse_move p q \<Longrightarrow> refs_ok p \<Longrightarrow> refs_ok q"
proof (induction rule: parse_move.induct)
  case (error p k m1 m2 m3 l n)
  show ?case by (rule refs_ok_same [OF error]) (simp_all add: report_def recordError_def)
next
  case (emit b p)
  then show ?case by (auto simp: refs_ok_def emit_def nth_append less_Suc_eq)
next
  case (leave b p)
  then show ?case by (auto simp: refs_ok_def emit_def nth_append less_Suc_eq)
next
  case (label p l n)
  have "code_address (ucast (instruction_index p * 4)) (length (intermediate_code p))"
    using label(2) by (auto simp: refs_ok_def code_address_def)
  with label show ?case by (auto simp: refs_ok_def resolved_more)
qed (simp_all add: refs_ok_def)

lemma parse_moves_refs_ok: "parse_moves p q \<Longrightarrow> refs_ok p \<Longrightarrow> refs_ok q"
  by (induction rule: rtranclp_induct) (simp_all add: parse_move_refs_ok)

subsection \<open>Closing the open references\<close>

text \<open>What a finished unit satisfies; a jump may also have been given the number of a data label.\<close>

definition settled :: "(string \<rightharpoonup> SymbolData) \<Rightarrow> u32 \<Rightarrow> ICUnit \<Rightarrow> bool" where
  "settled st i b \<longleftrightarrow> (getLabel b = [] \<or>
     (\<exists>d. st (getLabel b) = Some d \<and> (isData d \<longrightarrow> isValidJTypeInstruction (getOpcode b)) \<and>
        getImm b = to_string (offset_to (address d) i)))"

definition patching :: "u32 list \<Rightarrow> Parser \<Rightarrow> bool" where
  "patching is p \<longleftrightarrow>
     (\<forall>l d. symbol_table p l = Some d \<longrightarrow> \<not> isData d \<longrightarrow> code_address (address d) (length (intermediate_code p))) \<and>
     (\<forall>i < length (intermediate_code p). registers_named (fst (intermediate_code p ! i)) \<and>
        (if snd (intermediate_code p ! i) then settled (symbol_table p) (of_nat i) (fst (intermediate_code p ! i))
         else of_nat i \<in> set is))"

lemma resolved_settled: "resolved st i b \<Longrightarrow> settled st i b"
  by (auto simp: resolved_def settled_def)

lemma refs_ok_patching: "refs_ok p \<Longrightarrow> patching (back_patch p) p"
  by (auto simp: refs_ok_def patching_def resolved_settled)

lemma parse_errors_report: "parse_errors (report k a b c l n p) \<noteq> []"
  by (simp add: report_def recordError_def Let_def)

lemma patch_one_no_error:
  assumes "patch_one i p = Inr q" and "parse_errors q = []"
  obtains d b where "unat i < length (intermediate_code p)" "b = fst (intermediate_code p ! unat i)"
    "symbol_table p (getLabel b) = Some d" "isData d \<longrightarrow> isValidJTypeInstruction (getOpcode b)"
    "within (- 2147483648) 2147483648 (offset_to (address d) i)"
    "q = patched (unat i) (setImm (to_string (offset_to (address d) i)) b) p"
proof -
  let ?b = "fst (intermediate_code p ! unat i)"
  have l: "unat i < length (intermediate_code p)" using assms(1) by (auto simp: patch_one_def split: if_splits)
  have "\<exists>d. symbol_table p (getLabel ?b) = Some d \<and> (isData d \<longrightarrow> isValidJTypeInstruction (getOpcode ?b)) \<and>
      within (- 2147483648) 2147483648 (offset_to (address d) i) \<and>
      q = patched (unat i) (setImm (to_string (offset_to (address d) i)) ?b) p"
    using assms l
    by (auto simp: patch_one_def Let_def patch_range_def patch_ref_def parse_errors_report patched_def within_def
        split: option.splits if_splits)
  with that l show ?thesis by blast
qed

lemma parse_errors_patch_one: "patch_one i p = Inr q \<Longrightarrow> parse_errors q = [] \<Longrightarrow> parse_errors p = []"
  by (elim patch_one_no_error) (simp_all add: patched_def)

lemma parse_errors_patch_all: "patch_all is p = Inr q \<Longrightarrow> parse_errors q = [] \<Longrightarrow> parse_errors p = []"
  by (induction "is" arbitrary: p) (auto dest: parse_errors_patch_one)

lemma patch_one_patching:
  assumes "patch_one i p = Inr q" and "parse_errors q = []" and "patching (i # is) p"
    and len: "length (intermediate_code p) \<le> 2 ^ 32"
  shows "patching is q \<and> length (intermediate_code q) = length (intermediate_code p) \<and> symbol_table q = symbol_table p"
proof -
  obtain d b where d: "unat i < length (intermediate_code p)" "b = fst (intermediate_code p ! unat i)"
    "symbol_table p (getLabel b) = Some d" "isData d \<longrightarrow> isValidJTypeInstruction (getOpcode b)"
    "within (- 2147483648) 2147483648 (offset_to (address d) i)"
    and q: "q = patched (unat i) (setImm (to_string (offset_to (address d) i)) b) p"
    by (rule patch_one_no_error [OF assms(1,2)])
  let ?b = "setImm (to_string (offset_to (address d) i)) b"
  have b: "registers_named ?b" "settled (symbol_table p) i ?b"
    using assms(3) d chars_to_string [OF d(5)] by (auto simp: patching_def settled_def setImm_def registers_named_def)
  have index: "j = unat i" if "of_nat j = i" "j < length (intermediate_code p)" for j
    using that len by (auto simp: unat_of_nat)
  show ?thesis
    unfolding q patched_def patching_def
  proof (intro conjI allI impI)
    fix j
    assume "j < length (intermediate_code (p\<lparr>intermediate_code := (intermediate_code p)[unat i := (?b, True)]\<rparr>))"
    then have j: "j < length (intermediate_code p)" by simp
    show "registers_named (fst (intermediate_code (p\<lparr>intermediate_code := (intermediate_code p)[unat i := (?b, True)]\<rparr>) ! j))"
      using assms(3) b j d(1) by (auto simp: patching_def nth_list_update)
    have "of_nat j = i \<longrightarrow> j = unat i" using index j by blast
    then show "if snd (intermediate_code (p\<lparr>intermediate_code := (intermediate_code p)[unat i := (?b, True)]\<rparr>) ! j)
      then settled (symbol_table (p\<lparr>intermediate_code := (intermediate_code p)[unat i := (?b, True)]\<rparr>)) (of_nat j)
        (fst (intermediate_code (p\<lparr>intermediate_code := (intermediate_code p)[unat i := (?b, True)]\<rparr>) ! j))
      else of_nat j \<in> set is"
      using assms(3) b j d(1) by (auto simp: patching_def nth_list_update)
  qed (use assms(3) in \<open>simp_all add: patching_def\<close>)
qed

lemma patch_all_patching:
  "patch_all is p = Inr q \<Longrightarrow> parse_errors q = [] \<Longrightarrow> patching is p \<Longrightarrow> length (intermediate_code p) \<le> 2 ^ 32 \<Longrightarrow>
     patching [] q \<and> length (intermediate_code q) = length (intermediate_code p)"
proof (induction "is" arbitrary: p)
  case (Cons i "is")
  then obtain r where r: "patch_one i p = Inr r" "patch_all is r = Inr q" by auto
  with Cons.prems patch_one_patching [OF r(1) parse_errors_patch_all [OF r(2)]] Cons.IH [OF r(2)] show ?case by auto
qed simp

lemma patch_all_length:
  "patch_all is p = Inr q \<Longrightarrow> parse_errors q = [] \<Longrightarrow> length (intermediate_code q) = length (intermediate_code p)"
proof (induction "is" arbitrary: p)
  case (Cons i "is")
  then obtain r where r: "patch_one i p = Inr r" "patch_all is r = Inr q" by auto
  with Cons.IH [OF r(2)] Cons.prems(2) parse_errors_patch_all [OF r(2)] show ?case
    by (auto elim!: patch_one_no_error simp: patched_def)
qed simp

lemma parse_patching:
  assumes "parse c F fuel (new_Parser ts) = Inr q" and "parse_errors q = []" and "length (intermediate_code q) \<le> 2 ^ 32"
  shows "patching [] q"
proof -
  obtain p1 p2 where p: "first_pass F fuel ((new_Parser ts)\<lparr>instruction_index := 0, data_index := 0\<rparr>) = Inr p1"
    "second_pass c fuel (p1\<lparr>token_pos := 0, instruction_index := 0\<rparr>) = Inr p2" "patch_all (back_patch p2) p2 = Inr q"
    using assms(1) by (auto simp: parse_def)
  have "no_code p1" by (rule no_code_first_pass [OF p(1)]) (simp add: no_code_def new_Parser_def)
  then have "refs_ok (p1\<lparr>token_pos := 0, instruction_index := 0\<rparr>)" by (auto simp: refs_ok_def no_code_def)
  then have "patching (back_patch p2) p2" using parse_moves_refs_ok [OF second_pass_moves [OF p(2)]] refs_ok_patching by blast
  moreover have "length (intermediate_code q) = length (intermediate_code p2)"
    using patch_all_length [OF p(3) assms(2)] .
  ultimately show ?thesis using patch_all_patching [OF p(3) assms(2)] assms(3) by simp
qed

lemma offset_to_code:
  assumes "code_address a n" and "i < n" and "n < 2 ^ 30"
  obtains j where "j \<le> n" "a = of_nat (4 * j)" "offset_to a (of_nat i) = 4 * (int j - int i)"
proof -
  from assms(1) obtain j where j: "j \<le> n" "a = ucast (of_nat j * 4 :: u32)" by (auto simp: code_address_def)
  have u: "uint (of_nat k * 4 :: u32) = 4 * int k" if "k \<le> n" for k
    using that assms(3) by (simp add: uint_word_ariths unsigned_of_nat take_bit_nat_eq_self mod_pos_pos_trivial)
  have a: "uint a = 4 * int j" using u [OF j(1)] j assms(3) by (simp add: unsigned_ucast_eq take_bit_int_eq_self)
  have b: "uint (ucast (of_nat i * 4 :: u32) :: u64) = 4 * int i"
    using u [of i] assms(2,3) by (simp add: unsigned_ucast_eq take_bit_int_eq_self)
  have "a - ucast (of_nat i * 4 :: u32) = word_of_int (4 * int j - 4 * int i)"
    by (metis a b wi_hom_sub word_of_int_uint)
  then have "offset_to a (of_nat i) = 4 * (int j - int i)"
    unfolding offset_to_def using assms(2,3) j(1) sint_word_of_int_fits [where 'a = 64, of "4 * int j - 4 * int i"] by simp
  moreover have "a = of_nat (4 * j)" using a by (metis of_int_of_nat_eq of_nat_mult of_nat_numeral word_of_int_uint)
  ultimately show ?thesis using that j(1) by blast
qed

text \<open>
  C11. A program that is parsed without an error has no open reference: every unit is final, its
  registers are in range, and a unit that refers to a label of the text, before it or behind it,
  holds the distance from its own address to that of the label, which is the address of one of the
  instructions or of the end of the text. Only a jump may also refer to a label of the data.
\<close>

theorem parse_resolves_labels:
  assumes "parse c F fuel (new_Parser ts) = Inr q" and "parse_errors q = []" and "length (intermediate_code q) < 2 ^ 30"
    and "i < length (intermediate_code q)" and "intermediate_code q ! i = (b, final)"
  shows "final \<and> registers_ok b \<and> (getLabel b = [] \<or>
    (\<exists>d. symbol_table q (getLabel b) = Some d \<and>
      (isData d \<and> isValidJTypeInstruction (getOpcode b) \<or>
       \<not> isData d \<and> (\<exists>j \<le> length (intermediate_code q). address d = of_nat (4 * j) \<and>
         getImm b = to_string (4 * (int j - int i))))))"
proof -
  have "length (intermediate_code q) \<le> 2 ^ 32" using assms(3) by simp
  from parse_patching [OF assms(1,2) this] assms(4,5) have i: "final" "registers_named b" "settled (symbol_table q) (of_nat i) b"
    and code: "symbol_table q l = Some d \<Longrightarrow> \<not> isData d \<Longrightarrow> code_address (address d) (length (intermediate_code q))" for l d
    by (auto simp: patching_def split: if_splits)
  have "\<exists>j \<le> length (intermediate_code q). address d = of_nat (4 * j) \<and> getImm b = to_string (4 * (int j - int i))"
    if "symbol_table q (getLabel b) = Some d" "\<not> isData d" "getImm b = to_string (offset_to (address d) (of_nat i))" for d
    using offset_to_code [OF code [OF that(1,2)] assms(4,3)] that(3) by metis
  then show ?thesis using i registers_named_ok by (fastforce simp: settled_def)
qed

definition sample_loop :: "Token list" where
  "sample_loop = [token LABEL ''up'' 1 1, token OPCODE ''beq'' 1 5, token GP_REGISTER ''x1'' 1 9, token COMMA '','' 1 11,
     token GP_REGISTER ''t0'' 1 13, token COMMA '','' 1 15, token LABEL_REF ''out'' 1 17,
     token OPCODE ''jal'' 2 1, token GP_REGISTER ''x0'' 2 5, token COMMA '','' 2 7, token LABEL_REF ''up'' 2 9,
     token LABEL ''out'' 3 1, token EOF [] 3 5]"

definition no_floats :: FloatReader where
  "no_floats = \<lparr>stof = \<lambda>_. Inl InvalidArgument, stod = \<lambda>_. Inl InvalidArgument\<rparr>"

lemma sample_loop_parsed:
  "map_sum id (\<lambda>q. (parse_errors q, map (\<lambda>p. (getOpcode (fst p), getLabel (fst p), getImm (fst p))) (intermediate_code q)))
     (parse default_config no_floats 13 (new_Parser sample_loop)) =
   Inr ([], [(''beq'', ''out'', ''8''), (''jal'', ''up'', ''-4'')])"
  by code_simp

lemma sample_loop_labels:
  "map_sum id (\<lambda>q. map_option isData (symbol_table q ''up'')) (parse default_config no_floats 13 (new_Parser sample_loop)) =
     Inr (Some False)"
  by code_simp

theorem parse_resolves_labels_witness:
  "\<exists>q. parse default_config no_floats 13 (new_Parser sample_loop) = Inr q \<and>
     (\<exists>d. symbol_table q ''up'' = Some d \<and> (\<exists>j \<le> 2. address d = of_nat (4 * j) \<and> ''-4'' = to_string (4 * (int j - 1))))"
proof -
  obtain q where q: "parse default_config no_floats 13 (new_Parser sample_loop) = Inr q"
    using sample_loop_parsed by (cases "parse default_config no_floats 13 (new_Parser sample_loop)") simp_all
  let ?f = "\<lambda>p :: ICUnit \<times> bool. (getOpcode (fst p), getLabel (fst p), getImm (fst p))"
  have p: "parse_errors q = []" "map ?f (intermediate_code q) = [(''beq'', ''out'', ''8''), (''jal'', ''up'', ''-4'')]"
  proof -
    have "map_sum id (\<lambda>q. (parse_errors q, map ?f (intermediate_code q))) (Inr q :: Parser result) =
        Inr ([], [(''beq'', ''out'', ''8''), (''jal'', ''up'', ''-4'')])"
      using sample_loop_parsed by (simp only: q)
    then show "parse_errors q = []" "map ?f (intermediate_code q) = [(''beq'', ''out'', ''8''), (''jal'', ''up'', ''-4'')]"
      by (simp_all only: map_sum.simps sum.inject prod.inject)
  qed
  have l: "length (intermediate_code q) = 2" using arg_cong [OF p(2), of length] by (simp only: length_map) simp
  obtain b final where b: "intermediate_code q ! 1 = (b, final)" by (cases "intermediate_code q ! 1")
  have f: "?f (intermediate_code q ! 1) = (''jal'', ''up'', ''-4'')"
    using p(2) l nth_map [of 1 "intermediate_code q" ?f] by simp
  then have lb: "getLabel b = ''up''" "getImm b = ''-4''" using b by simp_all
  have code: "symbol_table q ''up'' = Some d \<Longrightarrow> \<not> isData d" for d
    using sample_loop_labels q by simp
  have "length (intermediate_code q) < 2 ^ 30" "1 < length (intermediate_code q)" using l by simp_all
  from parse_resolves_labels [OF q p(1) this b] obtain d where
    d: "symbol_table q ''up'' = Some d" "isData d \<or> (\<exists>j \<le> 2. address d = of_nat (4 * j) \<and> ''-4'' = to_string (4 * (int j - int 1)))"
    unfolding lb l by blast
  from q d code [OF d(1)] show ?thesis by (intro exI [of _ q]) (simp only: of_nat_1, blast)
qed

end
