(* ===== verification/DocJs.thy ===== *)
theory DocJs
  imports Prelude "HOL-Library.Sublist"
begin

text \<open>
  What the scripts of the documentation pages (docs/html) use of JavaScript's library: strings
  as sequences of UTF-16 code units, lower case, hexadecimal and decimal numerals, the
  comparison of a string with a number, and the global functions \<open>escape\<close> and
  \<open>unescape\<close>. The conversion to lower case is written out for texts of units below 256; on
  other texts it is a parameter, the conversion of the host's Unicode tables. The script's \<open>convertToId\<close> (docs/html/search/search.js) stands here too.
\<close>

type_synonym jstring = "nat list"

definition js :: "string \<Rightarrow> jstring" where
  "js s = map of_char s"

definition code_units :: "jstring \<Rightarrow> bool" where
  "code_units s \<longleftrightarrow> (\<forall>c \<in> set s. c < 65536)"

lemma js_simps [simp]:
  "js [] = []" "js (c # cs) = of_char c # js cs" "js (s @ t) = js s @ js t" "length (js s) = length s"
  by (simp_all add: js_def)

lemma code_units_simps [simp]:
  "code_units []" "code_units (c # s) \<longleftrightarrow> c < 65536 \<and> code_units s"
  "code_units (s @ t) \<longleftrightarrow> code_units s \<and> code_units t"
  by (auto simp: code_units_def)

lemma js_eq_iff [simp]: "js s = js t \<longleftrightarrow> s = t"
  unfolding js_def by (intro inj_eq) (simp add: inj_map inj_def)

subsection \<open>Case and spaces\<close>

definition lower_unit :: "nat \<Rightarrow> nat" where
  "lower_unit c = (if 65 \<le> c \<and> c \<le> 90 \<or> 0xC0 \<le> c \<and> c \<le> 0xDE \<and> c \<noteq> 0xD7 then c + 32 else c)"

definition lower :: "jstring \<Rightarrow> jstring" where
  "lower s = map lower_unit s"

definition latin1 :: "jstring \<Rightarrow> bool" where
  "latin1 s \<longleftrightarrow> (\<forall>c \<in> set s. c < 256)"

text \<open>
  \<open>toLowerCase\<close>: \<open>U\<close> is the Unicode conversion, which depends on the whole text (a sigma at the end of a
  word) and can leave the units from 256 up (the Kelvin sign becomes \<open>k\<close>).
\<close>

definition toLowerCase :: "(jstring \<Rightarrow> jstring) \<Rightarrow> jstring \<Rightarrow> jstring" where
  "toLowerCase U s = (if list_all (\<lambda>c. c < 256) s then lower s else U s)"

text \<open>\<open>replace(/^ +/, "")\<close>, \<open>replace(/ +$/, "")\<close> and \<open>replace(/ +/g, "")\<close>\<close>

definition strip_leading :: "jstring \<Rightarrow> jstring" where
  "strip_leading s = dropWhile (\<lambda>c. c = 32) s"

definition strip_trailing :: "jstring \<Rightarrow> jstring" where
  "strip_trailing s = rev (dropWhile (\<lambda>c. c = 32) (rev s))"

definition strip_all_spaces :: "jstring \<Rightarrow> jstring" where
  "strip_all_spaces s = filter (\<lambda>c. c \<noteq> 32) s"

text \<open>\<open>indexOf\<close>: the first position at which \<open>x\<close> occurs.\<close>

fun index_from :: "nat \<Rightarrow> jstring \<Rightarrow> jstring \<Rightarrow> nat option" where
  "index_from i s x = (if take (length x) s = x then Some i
     else case s of [] \<Rightarrow> None | _ # t \<Rightarrow> index_from (Suc i) t x)"

definition indexOf :: "jstring \<Rightarrow> jstring \<Rightarrow> nat option" where
  "indexOf s x = index_from 0 s x"

declare index_from.simps [simp del]

subsection \<open>Numerals\<close>

definition hex_digit :: "nat \<Rightarrow> nat" where
  "hex_digit d = (if d < 10 then 48 + d else 87 + d)"

definition HEX_digit :: "nat \<Rightarrow> nat" where
  "HEX_digit d = (if d < 10 then 48 + d else 55 + d)"

text \<open>\<open>toString(16)\<close> and the conversion of an integer to a string\<close>

fun to_hex :: "nat \<Rightarrow> jstring" where
  "to_hex n = (if n < 16 then [hex_digit n] else to_hex (n div 16) @ [hex_digit (n mod 16)])"

fun dec_nat :: "nat \<Rightarrow> jstring" where
  "dec_nat n = (if n < 10 then [48 + n] else dec_nat (n div 10) @ [48 + n mod 10])"

declare to_hex.simps [simp del] dec_nat.simps [simp del]

definition dec :: "int \<Rightarrow> jstring" where
  "dec i = (if i < 0 then 45 # dec_nat (nat (- i)) else dec_nat (nat i))"

definition is_digit :: "nat \<Rightarrow> bool" where
  "is_digit c \<longleftrightarrow> 48 \<le> c \<and> c \<le> 57"

definition hex_value :: "nat \<Rightarrow> nat option" where
  "hex_value c = (if 48 \<le> c \<and> c \<le> 57 then Some (c - 48)
     else if 97 \<le> c \<and> c \<le> 102 then Some (c - 87)
     else if 65 \<le> c \<and> c \<le> 70 then Some (c - 55) else None)"

subsection \<open>Comparing a string with the number one\<close>

text \<open>
  \<open>s > 1\<close> converts \<open>s\<close> to a number; a text that is no numeral is \<open>NaN\<close>, which is not
  greater. A decimal numeral rounds to a double above 1 exactly when its value is above
  \<open>1 + 2 ^ -53\<close>.
\<close>

definition js_space :: "nat \<Rightarrow> bool" where
  "js_space c \<longleftrightarrow> c \<in> {9, 10, 11, 12, 13, 32, 160, 0x1680, 0x2028, 0x2029, 0x202F, 0x205F, 0x3000, 0xFEFF}
     \<or> 0x2000 \<le> c \<and> c \<le> 0x200A"

definition trim :: "jstring \<Rightarrow> jstring" where
  "trim s = rev (dropWhile js_space (rev (dropWhile js_space s)))"

definition radix_value :: "nat \<Rightarrow> jstring \<Rightarrow> nat option" where
  "radix_value r s = (if s \<noteq> [] \<and> (\<forall>c \<in> set s. \<exists>d \<in> {..<r}. hex_value c = Some d)
     then Some (foldl (\<lambda>a c. a * r + the (hex_value c)) 0 s) else None)"

definition exponent :: "jstring \<Rightarrow> int option" where
  "exponent s = (case s of
       [] \<Rightarrow> Some 0
     | c # t \<Rightarrow> if c = 101 \<or> c = 69 then
         (case t of
            [] \<Rightarrow> None
          | g # u \<Rightarrow> if g = 45 then map_option (\<lambda>n. - int n) (radix_value 10 u)
                     else map_option int (radix_value 10 (if g = 43 then u else t)))
       else None)"

definition scaled_exceeds_one :: "nat \<Rightarrow> int \<Rightarrow> bool" where
  "scaled_exceeds_one m e =
     (if 0 \<le> e then m * 10 ^ nat e * 2 ^ 53 > 2 ^ 53 + 1 else m * 2 ^ 53 > (2 ^ 53 + 1) * 10 ^ nat (- e))"

definition decimal_exceeds_one :: "jstring \<Rightarrow> bool" where
  "decimal_exceeds_one t =
     (let ip = takeWhile is_digit t; r = dropWhile is_digit t;
          dot = (case r of c # _ \<Rightarrow> c = 46 | [] \<Rightarrow> False);
          fp = (if dot then takeWhile is_digit (tl r) else []);
          x = exponent (if dot then dropWhile is_digit (tl r) else r)
      in case (radix_value 10 (ip @ fp), x) of
           (Some m, Some e) \<Rightarrow> scaled_exceeds_one m (e - int (length fp))
         | _ \<Rightarrow> False)"

definition exceeds_one :: "jstring \<Rightarrow> bool" where
  "exceeds_one s =
     (let t = trim s; p = take 2 t;
          radix = (\<lambda>r. case radix_value r (drop 2 t) of Some n \<Rightarrow> n > 1 | None \<Rightarrow> False)
      in if p = js ''0x'' \<or> p = js ''0X'' then radix 16
         else if p = js ''0o'' \<or> p = js ''0O'' then radix 8
         else if p = js ''0b'' \<or> p = js ''0B'' then radix 2
         else let u = (if t \<noteq> [] \<and> hd t = 43 then tl t else t)
           in u = js ''Infinity'' \<or> decimal_exceeds_one u)"

subsection \<open>\<open>escape\<close> and \<open>unescape\<close>\<close>

definition escape_safe :: "nat \<Rightarrow> bool" where
  "escape_safe c \<longleftrightarrow> 65 \<le> c \<and> c \<le> 90 \<or> 97 \<le> c \<and> c \<le> 122 \<or> 48 \<le> c \<and> c \<le> 57 \<or>
     c \<in> {64, 42, 95, 43, 45, 46, 47}"

definition escape_unit :: "nat \<Rightarrow> jstring" where
  "escape_unit c =
     (if escape_safe c then [c]
      else if c < 256 then [37, HEX_digit (c div 16), HEX_digit (c mod 16)]
      else [37, 117, HEX_digit (c div 4096), HEX_digit (c div 256 mod 16),
            HEX_digit (c div 16 mod 16), HEX_digit (c mod 16)])"

definition escape :: "jstring \<Rightarrow> jstring" where
  "escape s = concat (map escape_unit s)"

definition decode_hex :: "jstring \<Rightarrow> nat option" where
  "decode_hex ds = radix_value 16 ds"

text \<open>What stands after a percent sign: the unit it encodes and the number of units used.\<close>

definition escaped_at :: "jstring \<Rightarrow> (nat \<times> nat) option" where
  "escaped_at s =
     (if s \<noteq> [] \<and> hd s = 117 \<and> length s \<ge> 5 \<and> decode_hex (take 4 (tl s)) \<noteq> None
      then Some (the (decode_hex (take 4 (tl s))), 5)
      else if length s \<ge> 2 \<and> decode_hex (take 2 s) \<noteq> None
      then Some (the (decode_hex (take 2 s)), 2)
      else None)"

function unescape :: "jstring \<Rightarrow> jstring" where
  "unescape [] = []"
| "unescape (c # s) =
     (if c = 37 then (case escaped_at s of
          Some (u, n) \<Rightarrow> u # unescape (drop n s)
        | None \<Rightarrow> c # unescape s)
      else c # unescape s)"
  by pat_completeness auto
termination by (relation "measure length") auto

subsection \<open>Identifiers of search results\<close>

definition id_unit :: "nat \<Rightarrow> bool" where
  "id_unit c \<longleftrightarrow> 97 \<le> c \<and> c \<le> 122 \<or> 48 \<le> c \<and> c \<le> 57 \<or> 0x80 \<le> c"

definition convert_unit :: "nat \<Rightarrow> jstring" where
  "convert_unit cn =
     (if id_unit cn then [cn]
      else if cn < 16 then js ''_0'' @ to_hex cn
      else js ''_'' @ to_hex cn)"

fun convert_loop :: "jstring \<Rightarrow> jstring \<Rightarrow> jstring" where
  "convert_loop result [] = result"
| "convert_loop result (c # cs) = convert_loop (result @ convert_unit c) cs"

definition convertToId :: "jstring \<Rightarrow> jstring" where
  "convertToId search = convert_loop [] search"

subsection \<open>Facts\<close>

lemma lower_simps [simp]:
  "lower [] = []" "lower (c # s) = lower_unit c # lower s" "lower (s @ t) = lower s @ lower t"
  by (simp_all add: lower_def)

lemma latin1_simps [simp]:
  "latin1 []" "latin1 (c # s) \<longleftrightarrow> c < 256 \<and> latin1 s" "latin1 (s @ t) \<longleftrightarrow> latin1 s \<and> latin1 t"
  by (auto simp: latin1_def)

lemma latin1_js [simp]: "latin1 (js s)"
  by (auto simp: latin1_def js_def)

lemma toLowerCase_latin1: "latin1 s \<Longrightarrow> toLowerCase U s = lower s"
  by (simp add: toLowerCase_def latin1_def list_all_iff)

lemma latin1_units: "latin1 s \<Longrightarrow> code_units s"
  by (auto simp: latin1_def code_units_def)

lemma latin1_subset: "latin1 s \<Longrightarrow> set t \<subseteq> set s \<Longrightarrow> latin1 t"
  by (auto simp: latin1_def)

lemma latin1_lower: "latin1 s \<Longrightarrow> latin1 (lower s)"
  by (auto simp: latin1_def lower_def lower_unit_def)

lemma lower_unit_idem [simp]: "lower_unit (lower_unit c) = lower_unit c"
  by (simp add: lower_unit_def)

lemma lower_idem [simp]: "lower (lower s) = lower s"
  by (simp add: lower_def)

lemma convert_loop_concat: "convert_loop r s = r @ concat (map convert_unit s)"
  by (induction s arbitrary: r) simp_all

lemma convertToId_simps [simp]:
  "convertToId [] = []" "convertToId (c # s) = convert_unit c @ convertToId s"
  "convertToId (s @ t) = convertToId s @ convertToId t"
  by (simp_all add: convertToId_def convert_loop_concat)

text \<open>An escaped unit is an underscore and two hexadecimal digits.\<close>

lemma convert_unit_eq:
  "convert_unit c = (if id_unit c then [c] else [95, hex_digit (c div 16), hex_digit (c mod 16)])"
proof (cases "id_unit c")
  case False
  then have "c div 16 < 16" by (auto simp: id_unit_def)
  with False show ?thesis
    by (cases "c < 16") (simp_all add: convert_unit_def to_hex.simps [of c] to_hex.simps [of "c div 16"] hex_digit_def)
qed (simp add: convert_unit_def)

lemma hex_digit_inj: "a < 16 \<Longrightarrow> b < 16 \<Longrightarrow> hex_digit a = hex_digit b \<longleftrightarrow> a = b"
  by (auto simp: hex_digit_def)

lemma not_id_unit_95 [simp]: "\<not> id_unit 95"
  by (simp add: id_unit_def)

lemma convert_unit_Nil [simp]: "convert_unit c \<noteq> []"
  by (simp add: convert_unit_eq)

lemma convert_unit_append_eq:
  "convert_unit c @ s = convert_unit d @ t \<longleftrightarrow> c = d \<and> s = t"
proof
  assume e: "convert_unit c @ s = convert_unit d @ t"
  show "c = d \<and> s = t"
  proof (cases "id_unit c \<or> id_unit d")
    case True
    with e show ?thesis by (auto simp: convert_unit_eq split: if_splits)
  next
    case False
    then have "c div 16 < 16" "d div 16 < 16" by (auto simp: id_unit_def)
    with e False have "c div 16 = d div 16" "c mod 16 = d mod 16"
      by (simp_all add: convert_unit_eq hex_digit_inj)
    then have "c = d" by (metis div_mult_mod_eq)
    with e show ?thesis by simp
  qed
qed simp

lemma convertToId_prefix_append:
  "prefix (convertToId s) (convertToId n @ t) \<longleftrightarrow>
     prefix s n \<or> (\<exists>r. s = n @ r \<and> prefix (convertToId r) t)"
proof (induction n arbitrary: s)
  case Nil
  then show ?case by auto
next
  case (Cons d n)
  show ?case
  proof (cases s)
    case Nil
    then show ?thesis by simp
  next
    case (Cons c s')
    have "prefix (convertToId (c # s')) (convertToId (d # n) @ t) \<longleftrightarrow>
        c = d \<and> prefix (convertToId s') (convertToId n @ t)"
      unfolding prefix_def by (auto simp: convert_unit_append_eq)
    with Cons Cons.IH [of s'] show ?thesis by auto
  qed
qed

lemma convertToId_prefix: "prefix (convertToId s) (convertToId n) \<longleftrightarrow> prefix s n"
  using convertToId_prefix_append [of s n "[]"] by (auto simp: convertToId_def convert_loop_concat)

lemma lower_convertToId:
  "lower (convertToId (lower s)) = convertToId (lower s)"
proof (induction s)
  case (Cons c s)
  have "lower (convert_unit (lower_unit c)) = convert_unit (lower_unit c)"
    by (auto simp: convert_unit_eq lower_unit_def hex_digit_def id_unit_def)
  with Cons show ?case by simp
qed simp

lemma lower_digits: "\<forall>c \<in> set ds. is_digit c \<Longrightarrow> lower ds = ds"
  by (induction ds) (auto simp: lower_unit_def is_digit_def)

lemma latin1_convertToId: "latin1 s \<Longrightarrow> latin1 (convertToId s)"
proof (induction s)
  case (Cons c s)
  then have "latin1 (convert_unit c)" by (auto simp: convert_unit_eq hex_digit_def)
  with Cons show ?case by simp
qed simp

lemma latin1_digits: "\<forall>c \<in> set ds. is_digit c \<Longrightarrow> latin1 ds"
  by (auto simp: latin1_def is_digit_def)

subsection \<open>unescape after escape\<close>

lemma hex_value_HEX_digit: "d < 16 \<Longrightarrow> hex_value (HEX_digit d) = Some d"
  by (auto simp: hex_value_def HEX_digit_def)

lemma decode_hex_digits:
  assumes "\<forall>d \<in> set ds. d < 16" and "ds \<noteq> []"
  shows "decode_hex (map HEX_digit ds) = Some (foldl (\<lambda>a d. a * 16 + d) 0 ds)"
proof -
  have "foldl (\<lambda>a c. a * 16 + the (hex_value c)) n (map HEX_digit ds) = foldl (\<lambda>a d. a * 16 + d) n ds" for n
    using assms(1) by (induction ds arbitrary: n) (simp_all add: hex_value_HEX_digit)
  then show ?thesis
    using assms by (auto simp: decode_hex_def radix_value_def hex_value_HEX_digit)
qed

lemma unescape_escape_unit:
  assumes "c < 65536"
  shows "unescape (escape_unit c @ s) = c # unescape s"
proof (cases "escape_safe c")
  case True
  then show ?thesis by (auto simp: escape_unit_def escape_safe_def)
next
  case False
  show ?thesis
  proof (cases "c < 256")
    case True
    have "decode_hex [HEX_digit (c div 16), HEX_digit (c mod 16)] = Some c"
      using decode_hex_digits [of "[c div 16, c mod 16]"] True by simp
    moreover have "HEX_digit (c div 16) \<noteq> 117"
    proof -
      have "c div 16 < 16" using True by simp
      then show ?thesis by (simp add: HEX_digit_def)
    qed
    ultimately show ?thesis using False True by (simp add: escape_unit_def escaped_at_def)
  next
    case b: False
    let ?ds = "[HEX_digit (c div 4096), HEX_digit (c div 256 mod 16), HEX_digit (c div 16 mod 16), HEX_digit (c mod 16)]"
    have "((c div 4096 * 16 + c div 256 mod 16) * 16 + c div 16 mod 16) * 16 + c mod 16 = c"
    proof -
      have "c div 256 = c div 16 div 16" "c div 4096 = c div 16 div 16 div 16" by (simp_all add: div_mult2_eq [symmetric])
      then show ?thesis by (simp only: div_mult_mod_eq)
    qed
    then have "decode_hex ?ds = Some c"
      using decode_hex_digits [of "[c div 4096, c div 256 mod 16, c div 16 mod 16, c mod 16]"] assms by simp
    then have "escaped_at (117 # ?ds @ s) = Some (c, 5)" by (simp add: escaped_at_def)
    moreover have "escape_unit c = 37 # 117 # ?ds" using b False by (simp only: escape_unit_def if_False)
    ultimately show ?thesis by simp
  qed
qed

lemma escape_simps [simp]: "escape [] = []" "escape (c # s) = escape_unit c @ escape s"
  by (simp_all add: escape_def)

lemma unescape_escape: "code_units s \<Longrightarrow> unescape (escape s) = s"
  by (induction s) (simp_all add: unescape_escape_unit)

lemma escape_no_query: "c \<in> set (escape s) \<Longrightarrow> c \<noteq> 63 \<and> c \<noteq> 35 \<and> c \<noteq> 32"
proof (induction s)
  case (Cons d s)
  have "HEX_digit n \<notin> {63, 35, 32}" for n by (simp add: HEX_digit_def)
  then have "set (escape_unit d) \<inter> {63, 35, 32} = {}"
    unfolding escape_unit_def by (auto simp: escape_safe_def)
  with Cons show ?case by auto
qed simp

subsection \<open>Decimal numerals\<close>

lemma dec_nat_digits: "c \<in> set (dec_nat n) \<Longrightarrow> is_digit c"
proof (induction n arbitrary: c rule: dec_nat.induct)
  case (1 n)
  have "is_digit (48 + n mod 10)" "n < 10 \<Longrightarrow> is_digit (48 + n)" by (simp_all add: is_digit_def)
  with 1 show ?case by (subst (asm) dec_nat.simps) (auto split: if_splits)
qed

lemma dec_nat_inj: "dec_nat m = dec_nat n \<longleftrightarrow> m = n"
proof -
  have v: "foldl (\<lambda>a c. a * 10 + (c - 48)) 0 (dec_nat n) = n" for n
  proof (induction n rule: dec_nat.induct)
    case (1 n)
    then show ?case by (cases "n < 10") (simp_all add: dec_nat.simps [of n])
  qed
  then show ?thesis by metis
qed

lemma dec_nat_Nil [simp]: "dec_nat n \<noteq> []"
  by (subst dec_nat.simps) simp

lemma dec_inj: "dec i = dec j \<longleftrightarrow> i = j"
proof -
  have "hd (dec_nat n) \<noteq> 45" for n
    using dec_nat_digits [of "hd (dec_nat n)" n] by (auto simp: is_digit_def)
  then show ?thesis
    by (auto simp: dec_def dec_nat_inj split: if_splits) (metis list.sel(1))+
qed

end
