(* ===== verification/DocDom.thy ===== *)
theory DocDom
  imports DocJs
begin

text \<open>
  The tree of a page as the scripts of the documentation (docs/html/search/search.js) see it,
  and \<open>FindChildElement\<close>, which walks it by the links between nodes. A node is an element
  with its tag, attributes, \<open>style.display\<close> and children, or content set by \<open>innerHTML\<close>;
  it is named by its path, the positions of its ancestors and itself among their siblings.
\<close>

datatype dom =
    Elem (tag: string) (attrs: "(string \<times> jstring) list") (shown: jstring) (kids: "dom list")
  | Html jstring

fun attr :: "string \<Rightarrow> dom \<Rightarrow> jstring option" where
  "attr a (Elem t as s ks) = map_of as a"
| "attr a (Html h) = None"

definition id_is :: "jstring \<Rightarrow> dom \<Rightarrow> bool" where
  "id_is x d \<longleftrightarrow> attr ''id'' d = Some x"

definition class_is :: "jstring \<Rightarrow> dom \<Rightarrow> bool" where
  "class_is x d \<longleftrightarrow> attr ''class'' d = Some x"

fun is_div :: "dom \<Rightarrow> bool" where
  "is_div (Elem t as s ks) \<longleftrightarrow> t = ''div''"
| "is_div (Html h) \<longleftrightarrow> False"

fun child_nodes :: "dom \<Rightarrow> dom list" where
  "child_nodes (Elem t as s ks) = ks"
| "child_nodes (Html h) = []"

fun display_of :: "dom \<Rightarrow> jstring" where
  "display_of (Elem t as s ks) = s"
| "display_of (Html h) = []"

fun set_display :: "jstring \<Rightarrow> dom \<Rightarrow> dom" where
  "set_display s' (Elem t as s ks) = Elem t as s' ks"
| "set_display s' (Html h) = Html h"

fun dom_size :: "dom \<Rightarrow> nat" where
  "dom_size (Elem t as s ks) = Suc (sum_list (map dom_size ks))"
| "dom_size (Html h) = 1"

subsection \<open>Nodes by their path\<close>

fun node_at :: "dom \<Rightarrow> nat list \<Rightarrow> dom option" where
  "node_at d [] = Some d"
| "node_at d (i # p) = (if i < length (child_nodes d) then node_at (child_nodes d ! i) p else None)"

fun update_at :: "nat list \<Rightarrow> (dom \<Rightarrow> dom) \<Rightarrow> dom \<Rightarrow> dom" where
  "update_at [] f d = f d"
| "update_at (i # p) f (Elem t as s ks) =
     (if i < length ks then Elem t as s (ks[i := update_at p f (ks ! i)]) else Elem t as s ks)"
| "update_at (i # p) f (Html h) = Html h"

text \<open>The first node in document order with a property; \<open>getElementById\<close>\<close>

fun find_dom :: "(dom \<Rightarrow> bool) \<Rightarrow> dom \<Rightarrow> nat list option"
  and find_doms :: "(dom \<Rightarrow> bool) \<Rightarrow> nat \<Rightarrow> dom list \<Rightarrow> nat list option" where
  "find_dom P (Elem t as s ks) = (if P (Elem t as s ks) then Some [] else find_doms P 0 ks)"
| "find_dom P (Html h) = (if P (Html h) then Some [] else None)"
| "find_doms P i [] = None"
| "find_doms P i (k # ks) = (case find_dom P k of Some p \<Rightarrow> Some (i # p) | None \<Rightarrow> find_doms P (Suc i) ks)"

definition getElementById :: "dom \<Rightarrow> jstring \<Rightarrow> nat list option" where
  "getElementById d x = find_dom (id_is x) d"

text \<open>\<open>parentNode\<close> is the path without its last position.\<close>

definition parentNode :: "nat list \<Rightarrow> nat list option" where
  "parentNode p = (if p = [] then None else Some (butlast p))"

definition grandparent :: "nat list \<Rightarrow> nat list option" where
  "grandparent p = (case parentNode p of None \<Rightarrow> None | Some q \<Rightarrow> parentNode q)"

definition firstChild :: "dom \<Rightarrow> nat list \<Rightarrow> nat list option" where
  "firstChild d p = (if node_at d (p @ [0]) = None then None else Some (p @ [0]))"

definition nextSibling :: "dom \<Rightarrow> nat list \<Rightarrow> nat list option" where
  "nextSibling d p = (if p = [] then None else
     let q = butlast p @ [Suc (last p)] in if node_at d q = None then None else Some q)"

subsection \<open>FindChildElement\<close>

text \<open>
  The walk below the element \<open>d\<close> with the id; paths are relative to it, so \<open>parentElement\<close>
  is the empty path. \<open>climb\<close> is the inner \<open>do while\<close> loop with the step to the next
  sibling after it. One round of the outer loop is one unit of fuel; \<open>None\<close> is fuel used up,
  \<open>Some None\<close> the function's return without a value.
\<close>

definition is_SRChildren :: "dom \<Rightarrow> bool" where
  "is_SRChildren d \<longleftrightarrow> is_div d \<and> class_is (js ''SRChildren'') d"

function climb :: "dom \<Rightarrow> nat list \<Rightarrow> nat list option" where
  "climb d p =
     (if p = [] \<or> butlast p = [] then None
      else case nextSibling d (butlast p) of
          Some q \<Rightarrow> Some q
        | None \<Rightarrow> climb d (butlast p))"
  by pat_completeness auto
termination by (relation "measure (\<lambda>(d, p). length p)") auto

declare climb.simps [simp del]

definition walk_step :: "dom \<Rightarrow> nat list \<Rightarrow> nat list option" where
  "walk_step d p =
     (if (\<exists>e. node_at d p = Some e \<and> is_div e \<and> child_nodes e \<noteq> []) then firstChild d p
      else case nextSibling d p of
          Some q \<Rightarrow> Some q
        | None \<Rightarrow> climb d p)"

fun walk :: "nat \<Rightarrow> dom \<Rightarrow> nat list option \<Rightarrow> nat list option option" where
  "walk fuel d None = Some None"
| "walk 0 d (Some p) = None"
| "walk (Suc fuel) d (Some p) =
     (if p = [] then Some None
      else case node_at d p of
          None \<Rightarrow> Some None
        | Some e \<Rightarrow> if is_SRChildren e then Some (Some p) else walk fuel d (walk_step d p))"

text \<open>
  The element with the id must exist: \<open>parentElement.firstChild\<close> of \<open>null\<close> is a
  \<open>TypeError\<close>, here \<open>Some (Inl ())\<close>. \<open>None\<close> is the walk that has not ended within one round for
  every node below the element.
\<close>

definition FindChildElement :: "dom \<Rightarrow> jstring \<Rightarrow> (unit + nat list option) option" where
  "FindChildElement doc x =
     (case getElementById doc x of
        None \<Rightarrow> Some (Inl ())
      | Some p \<Rightarrow>
          let d = the (node_at doc p)
          in case walk (dom_size d) d (firstChild d []) of
               Some r \<Rightarrow> Some (Inr (map_option (\<lambda>q. p @ q) r))
             | None \<Rightarrow> None)"

text \<open>
  What the walk computes: the first \<open>SRChildren\<close> division in document order, where only
  divisions are entered.
\<close>

fun div_child :: "dom \<Rightarrow> nat list option"
  and div_children :: "nat \<Rightarrow> dom list \<Rightarrow> nat list option" where
  "div_child (Elem t as s ks) =
     (if is_SRChildren (Elem t as s ks) then Some []
      else if t = ''div'' then div_children 0 ks else None)"
| "div_child (Html h) = None"
| "div_children i [] = None"
| "div_children i (k # ks) =
     (case div_child k of Some p \<Rightarrow> Some (i # p) | None \<Rightarrow> div_children (Suc i) ks)"


subsection \<open>The walk is the recursive search\<close>

definition after :: "dom \<Rightarrow> nat list \<Rightarrow> nat list option" where
  "after d p = (case nextSibling d p of Some q \<Rightarrow> Some q | None \<Rightarrow> climb d p)"

lemma node_at_append: "node_at d (p @ q) = (case node_at d p of None \<Rightarrow> None | Some e \<Rightarrow> node_at e q)"
  by (induction p arbitrary: d) auto

lemma node_at_snoc:
  "node_at d q = Some f \<Longrightarrow> node_at d (q @ [i]) = (if i < length (child_nodes f) then Some (child_nodes f ! i) else None)"
  by (simp add: node_at_append)

lemma after_snoc:
  assumes "node_at d q = Some f"
  shows "after d (q @ [i]) = (if Suc i < length (child_nodes f) then Some (q @ [Suc i])
    else if q = [] then None else after d q)"
proof -
  have "nextSibling d (q @ [i]) = (if Suc i < length (child_nodes f) then Some (q @ [Suc i]) else None)"
    using assms by (simp add: nextSibling_def node_at_snoc)
  moreover have "climb d (q @ [i]) = (if q = [] then None else after d q)"
    by (simp add: after_def climb.simps [of d "q @ [i]"] split: option.split)
  ultimately show ?thesis by (simp add: after_def [of d "q @ [i]"])
qed

text \<open>The walk from a node finds what the recursive search finds below it, or goes on after it.\<close>

lemma walk_node:
  shows "(\<forall>d p. node_at d p = Some e \<longrightarrow> p \<noteq> [] \<longrightarrow>
     (\<exists>k \<le> dom_size e. \<forall>n. walk (n + k) d (Some p) =
        (case div_child e of Some r \<Rightarrow> Some (Some (p @ r)) | None \<Rightarrow> walk n d (after d p))))"
  and "(\<forall>d q f. node_at d q = Some f \<longrightarrow> drop i (child_nodes f) = ks \<longrightarrow> ks \<noteq> [] \<longrightarrow>
     (\<exists>k \<le> sum_list (map dom_size ks). \<forall>n. walk (n + k) d (Some (q @ [i])) =
        (case div_children i ks of Some r \<Rightarrow> Some (Some (q @ r))
         | None \<Rightarrow> walk n d (if q = [] then None else after d q))))"
proof (induction e and i ks rule: div_child_div_children.induct)
  case (1 t as s ks)
  let ?e = "Elem t as s ks"
  show ?case
  proof (intro allI impI)
    fix d p assume p: "node_at d p = Some ?e" "p \<noteq> []"
    show "\<exists>k \<le> dom_size ?e. \<forall>n. walk (n + k) d (Some p) =
        (case div_child ?e of Some r \<Rightarrow> Some (Some (p @ r)) | None \<Rightarrow> walk n d (after d p))"
    proof (cases "\<not> is_SRChildren ?e \<and> t = ''div'' \<and> ks \<noteq> []")
      case True
      with 1 p obtain k where k: "k \<le> sum_list (map dom_size ks)"
        "\<And>n. walk (n + k) d (Some (p @ [0])) = (case div_children 0 ks of Some r \<Rightarrow> Some (Some (p @ r))
           | None \<Rightarrow> walk n d (if p = [] then None else after d p))"
        by (metis child_nodes.simps(1) drop0)
      from True have t: "t = ''div''" and n: "\<not> is_SRChildren (Elem ''div'' as s ks)" by auto
      have "walk_step d p = Some (p @ [0])" using True p by (simp add: walk_step_def firstChild_def node_at_snoc)
      moreover have "\<not> is_SRChildren ?e" using True by blast
      ultimately have "walk (n + Suc k) d (Some p) = walk (n + k) d (Some (p @ [0]))" for n
        using p by simp
      with k t n p show ?thesis by (intro exI [of _ "Suc k"]) (simp add: t)
    next
      case False
      then have "walk_step d p = after d p" if "\<not> is_SRChildren ?e"
        using that p by (auto simp: walk_step_def after_def)
      with False p show ?thesis by (intro exI [of _ 1]) (auto simp: Suc_le_eq)
    qed
  qed
next
  case (2 h)
  have "\<not> is_SRChildren (Html h)" by (simp add: is_SRChildren_def)
  moreover have "walk_step d p = after d p" if "node_at d p = Some (Html h)" for d p
    using that by (simp add: walk_step_def after_def)
  ultimately show ?case by (auto intro!: exI [of _ 1])
next
  case (3 i)
  then show ?case by simp
next
  case (4 i e ks)
  show ?case
  proof (intro allI impI)
    fix d q f assume q: "node_at d q = Some f" "drop i (child_nodes f) = e # ks" "e # ks \<noteq> []"
    have i: "i < length (child_nodes f)" "child_nodes f ! i = e" "drop (Suc i) (child_nodes f) = ks"
      using q(2) by (metis drop_all leI list.distinct(1), metis drop_eq_Nil2 hd_drop_conv_nth leI list.distinct(1) list.sel(1), metis drop_Suc list.sel(3) tl_drop)
    with q have "node_at d (q @ [i]) = Some e" by (simp add: node_at_snoc)
    from 4(1) [rule_format, OF this] obtain k where k: "k \<le> dom_size e" "\<And>n. walk (n + k) d (Some (q @ [i])) =
        (case div_child e of Some r \<Rightarrow> Some (Some ((q @ [i]) @ r)) | None \<Rightarrow> walk n d (after d (q @ [i])))" by blast
    show "\<exists>k \<le> sum_list (map dom_size (e # ks)). \<forall>n. walk (n + k) d (Some (q @ [i])) =
        (case div_children i (e # ks) of Some r \<Rightarrow> Some (Some (q @ r))
         | None \<Rightarrow> walk n d (if q = [] then None else after d q))"
    proof (cases "div_child e")
      case (Some r)
      with k show ?thesis by (intro exI [of _ k]) auto
    next
      case None
      show ?thesis
      proof (cases "ks = []")
        case True
        with i have "\<not> Suc i < length (child_nodes f)" by (metis drop_eq_Nil2 not_le)
        with None k True show ?thesis by (intro exI [of _ k]) (simp add: after_snoc [OF q(1)])
      next
        case False
        with i have l: "Suc i < length (child_nodes f)" by (metis drop_eq_Nil2 leI)
        from 4(2) [OF None] False q(1) i(3) obtain k' where k': "k' \<le> sum_list (map dom_size ks)"
          "\<And>n. walk (n + k') d (Some (q @ [Suc i])) = (case div_children (Suc i) ks of Some r \<Rightarrow> Some (Some (q @ r))
             | None \<Rightarrow> walk n d (if q = [] then None else after d q))" by blast
        have "walk (n + (k + k')) d (Some (q @ [i])) = walk (n + k') d (Some (q @ [Suc i]))" for n
          using k(2) [of "n + k'"] None l by (simp add: after_snoc [OF q(1)] add.assoc add.commute [of k])
        with k k' None show ?thesis by (intro exI [of _ "k + k'"]) auto
      qed
    qed
  qed
qed

lemma walk_finds:
  "walk (dom_size d) d (firstChild d []) = Some (div_children 0 (child_nodes d))"
proof (cases "child_nodes d = []")
  case True
  then show ?thesis by (simp add: firstChild_def)
next
  case False
  have "\<exists>k \<le> sum_list (map dom_size (child_nodes d)). \<forall>n. walk (n + k) d (Some ([] @ [0])) =
        (case div_children 0 (child_nodes d) of Some r \<Rightarrow> Some (Some ([] @ r)) | None \<Rightarrow> walk n d None)"
    using walk_node(2) [rule_format, of d "[]" d 0 "child_nodes d"] False by (simp cong: option.case_cong)
  then obtain k where
    k: "k \<le> sum_list (map dom_size (child_nodes d))"
      "\<And>n. walk (n + k) d (Some ([] @ [0])) =
        (case div_children 0 (child_nodes d) of Some r \<Rightarrow> Some (Some ([] @ r)) | None \<Rightarrow> walk n d None)"
    by blast
  have "sum_list (map dom_size (child_nodes d)) \<le> dom_size d" by (cases d) simp_all
  with k(1) have "dom_size d = (dom_size d - k) + k" by simp
  with k(2) [of "dom_size d - k"] False show ?thesis
    by (simp add: firstChild_def split: option.splits)
qed

lemma FindChildElement_search:
  "FindChildElement doc x = Some (case getElementById doc x of
     None \<Rightarrow> Inl ()
   | Some p \<Rightarrow> Inr (map_option (\<lambda>q. p @ q) (div_children 0 (child_nodes (the (node_at doc p))))))"
  by (simp add: FindChildElement_def walk_finds Let_def split: option.split)

text \<open>
  C34. \<open>FindChildElement\<close> terminates, with at most one round of its loop for every node below the element
  with the given id, and returns the first \<open>SRChildren\<close> division in document
  order below that element, entering divisions only: the walk over
  \<open>firstChild\<close>, \<open>nextSibling\<close> and \<open>parentNode\<close> equals the recursive search. Without
  such an element it is a \<open>TypeError\<close>.
\<close>

theorem FindChildElement_first:
  "FindChildElement doc x = Some (case getElementById doc x of
     None \<Rightarrow> Inl ()
   | Some p \<Rightarrow> Inr (map_option (\<lambda>q. p @ q) (div_children 0 (child_nodes (the (node_at doc p))))))"
  by (rule FindChildElement_search)

end
