(* ===== verification/DocSearchBox.thy ===== *)
theory DocSearchBox
  imports DocJs
begin

text \<open>
  The search box of the documentation pages: \<open>getXPos\<close>, \<open>getYPos\<close> and the class
  \<open>SearchBox\<close> of docs/html/search/search.js with the tables of
  docs/html/search/searchdata.js. The record holds the object's variables and the parts of the
  page its methods touch. The geometry of an element (its size, and the offsets of the element
  and of its offset parents below the body) is what the browser reports. A pending timer is its
  number, the script it runs and its delay. A handler returns the page changed, or \<open>Inl\<close> of
  the page as it stands when a \<open>TypeError\<close> leaves the handler. The events the browser sends in
  answer to \<open>focus\<close> and \<open>blur\<close> are events of their own. \<open>unicode_lower\<close> is the browser's
  conversion to lower case of texts with a unit from 256 up.
\<close>

subsection \<open>The tables of the index\<close>

definition indexSectionsWithContent :: "jstring list" where
  "indexSectionsWithContent =
     [js ''_abcdefghijklmnoprstuvwz~'',
      js ''abcefijlmnprstuv'',
      js ''acegiv'',
      js ''acefgilmprtuv'',
      js ''abcdefghijlmnoprstuvw~'',
      js ''abcdefijlmnoprstuvz'',
      js ''acerstv'',
      js ''acdefgiklmnoprsuv'',
      js ''o'',
      js ''_acdfhps'',
      js ''cr'']"

definition indexSectionNames :: "jstring list" where
  "indexSectionNames =
     [js ''all'',
      js ''classes'',
      js ''namespaces'',
      js ''files'',
      js ''functions'',
      js ''variables'',
      js ''enums'',
      js ''enumvalues'',
      js ''related'',
      js ''defines'',
      js ''pages'']"

definition indexSectionLabels :: "jstring list" where
  "indexSectionLabels =
     [js ''All'',
      js ''Classes'',
      js ''Namespaces'',
      js ''Files'',
      js ''Functions'',
      js ''Variables'',
      js ''Enumerations'',
      js ''Enumerator'',
      js ''Friends'',
      js ''Macros'',
      js ''Pages'']"

subsection \<open>Positions\<close>

record Box =
  offsetWidth :: int
  offsetHeight :: int
  offset_chain :: "(int \<times> int) list"

fun sum_left :: "(int \<times> int) list \<Rightarrow> int \<Rightarrow> int" where
  "sum_left [] x = x"
| "sum_left ((l, t) # items) x = sum_left items (x + l)"

fun sum_top :: "(int \<times> int) list \<Rightarrow> int \<Rightarrow> int" where
  "sum_top [] y = y"
| "sum_top ((l, t) # items) y = sum_top items (y + t)"

definition getXPos :: "Box \<Rightarrow> int" where
  "getXPos item = (if offsetWidth item \<noteq> 0 then sum_left (offset_chain item) 0 else 0)"

definition getYPos :: "Box \<Rightarrow> int" where
  "getYPos item = (if offsetWidth item \<noteq> 0 then sum_top (offset_chain item) 0 else 0)"

definition px :: "int \<Rightarrow> jstring" where
  "px i = dec i @ js ''px''"

subsection \<open>State\<close>

record SearchBox =
  box_name :: jstring
  resultsPath :: jstring
  keyTimeout :: nat
  keyTimeoutLength :: nat
  closeSelectionTimeout :: nat
  lastSearchValue :: jstring
  lastResultsPage :: jstring
  hideTimeout :: nat
  searchIndex :: nat
  searchActive :: bool
  insideFrame :: bool
  searchLabel :: jstring
  extension :: jstring

record Style =
  display :: jstring
  st_position :: jstring
  st_width :: jstring
  st_left :: jstring
  st_top :: jstring

text \<open>A child of the selection window: its class, what its first child shows, the label after
  it and the action of a click.\<close>

record SelectChild =
  className :: jstring
  mark :: jstring
  label_text :: jstring
  onclick :: jstring

datatype focus_target = FieldFocused | SelectItemFocused nat | NothingFocused

record SearchPage = SearchBox +
  field_value :: jstring
  focused :: focus_target
  select_geometry :: Box
  select_window :: Style
  select_window_width :: int
  select_children :: "SelectChild list"
  results_window :: Style
  results_frame :: Style
  results_frame_width :: int
  close_button :: Style
  box_class :: jstring
  box_geometry :: Box
  clientWidth :: int
  frame_location :: jstring
  frame_messages :: "jstring list"
  timers :: "(nat \<times> jstring \<times> nat) list"
  last_timer :: nat
  alerts :: "jstring list"
  unicode_lower :: "jstring \<Rightarrow> jstring"

text \<open>The constructor: an empty string, like a missing argument, is false.\<close>

definition new_SearchBox :: "jstring \<Rightarrow> jstring \<Rightarrow> bool \<Rightarrow> jstring \<Rightarrow> jstring \<Rightarrow> SearchPage \<Rightarrow> SearchPage" where
  "new_SearchBox nm path inFrame lbl ext p =
     (let p = (if nm = [] \<or> path = [] then p\<lparr>alerts := alerts p @ [js ''Missing parameters to SearchBox.'']\<rparr> else p)
      in p\<lparr>box_name := nm, resultsPath := path, keyTimeout := 0, keyTimeoutLength := 500,
           closeSelectionTimeout := 300, lastSearchValue := [], lastResultsPage := [],
           hideTimeout := 0, searchIndex := 0, searchActive := False, insideFrame := inFrame,
           searchLabel := lbl, extension := if ext = [] then js ''.html'' else ext\<rparr>)"

subsection \<open>Timers\<close>

definition setTimeout :: "jstring \<Rightarrow> nat \<Rightarrow> SearchPage \<Rightarrow> SearchPage \<times> nat" where
  "setTimeout script delay p =
     (let n = last_timer p + 1 in (p\<lparr>timers := timers p @ [(n, script, delay)], last_timer := n\<rparr>, n))"

definition clearTimeout :: "nat \<Rightarrow> SearchPage \<Rightarrow> SearchPage" where
  "clearTimeout n p = p\<lparr>timers := filter (\<lambda>(m, _, _). m \<noteq> n) (timers p)\<rparr>"

subsection \<open>Activation\<close>

definition Activate :: "bool \<Rightarrow> SearchPage \<Rightarrow> SearchPage" where
  "Activate isActive p =
     (if isActive \<or> display (results_window p) = js ''block'' then
        (let p = p\<lparr>box_class := js ''MSearchBoxActive''\<rparr>
         in if field_value p = searchLabel p then p\<lparr>field_value := [], searchActive := True\<rparr> else p)
      else p\<lparr>box_class := js ''MSearchBoxInactive'', field_value := searchLabel p,
             searchActive := False, lastSearchValue := [], lastResultsPage := []\<rparr>)"

definition OnSearchFieldFocus :: "bool \<Rightarrow> SearchPage \<Rightarrow> SearchPage" where
  "OnSearchFieldFocus isActive p = Activate isActive p"

subsection \<open>The selection window\<close>

definition OnSearchSelectShow :: "SearchPage \<Rightarrow> SearchPage \<times> bool" where
  "OnSearchSelectShow p =
     (let searchField = select_geometry p;
          lft = getXPos searchField; tp = getYPos searchField;
          lft = (if insideFrame p then lft + offsetWidth searchField + 6 else lft);
          tp = tp + offsetHeight searchField;
          lft = (if insideFrame p then lft - select_window_width p else lft);
          p = p\<lparr>select_window := (select_window p)\<lparr>display := js ''block'', st_left := px lft, st_top := px tp\<rparr>\<rparr>;
          p = (if hideTimeout p \<noteq> 0 then (clearTimeout (hideTimeout p) p)\<lparr>hideTimeout := 0\<rparr> else p)
      in (p, False))"

definition OnSearchSelectHide :: "SearchPage \<Rightarrow> SearchPage" where
  "OnSearchSelectHide p =
     (let (p, n) = setTimeout (box_name p @ js ''.CloseSelectionWindow()'') (closeSelectionTimeout p) p
      in p\<lparr>hideTimeout := n\<rparr>)"

definition CloseResultsWindow :: "SearchPage \<Rightarrow> SearchPage" where
  "CloseResultsWindow p =
     Activate False (p\<lparr>results_window := (results_window p)\<lparr>display := js ''none''\<rparr>,
                        close_button := (close_button p)\<lparr>display := js ''none''\<rparr>\<rparr>)"

definition CloseSelectionWindow :: "SearchPage \<Rightarrow> SearchPage" where
  "CloseSelectionWindow p = p\<lparr>select_window := (select_window p)\<lparr>display := js ''none''\<rparr>\<rparr>"

fun count_items :: "SelectChild list \<Rightarrow> nat \<Rightarrow> nat" where
  "count_items [] n = n"
| "count_items (c # cs) n = count_items cs (if className c = js ''SelectItem'' then n + 1 else n)"

definition SelectItemCount :: "SearchPage \<Rightarrow> nat" where
  "SelectItemCount p = count_items (select_children p) 0"

text \<open>The item with index \<open>sel\<close> gets the bullet; \<open>j\<close> counts the items passed.\<close>

fun set_marks :: "nat \<Rightarrow> nat \<Rightarrow> SelectChild list \<Rightarrow> SelectChild list" where
  "set_marks sel j [] = []"
| "set_marks sel j (c # cs) =
     (if className c = js ''SelectItem''
      then c\<lparr>mark := if j = sel then js ''&#8226;'' else js ''&#160;''\<rparr> # set_marks sel (j + 1) cs
      else c # set_marks sel j cs)"

definition SelectItemSet :: "nat \<Rightarrow> SearchPage \<Rightarrow> SearchPage" where
  "SelectItemSet sel p = p\<lparr>select_children := set_marks sel 0 (select_children p)\<rparr>"

subsection \<open>Searching\<close>

text \<open>The first character of the search text, the key of the index pages.\<close>

definition index_char :: "(jstring \<Rightarrow> jstring) \<Rightarrow> jstring \<Rightarrow> jstring" where
  "index_char U searchValue =
     (let lowered = toLowerCase U searchValue
      in if lowered \<noteq> [] \<and> 0xD800 \<le> hd lowered \<and> hd lowered \<le> 0xDBFF \<and> exceeds_one searchValue
         then take 2 searchValue else toLowerCase U (take 1 searchValue))"

text \<open>The page of results, the page with the search text as query, and whether there is one;
  no section with that index is a \<open>TypeError\<close>.\<close>

definition results_page :: "jstring \<Rightarrow> SearchPage \<Rightarrow> (jstring \<times> jstring \<times> bool) option" where
  "results_page searchValue p =
     (if searchIndex p < length indexSectionsWithContent then
        Some (case indexOf (indexSectionsWithContent ! searchIndex p) (index_char (unicode_lower p) searchValue) of
            Some idx \<Rightarrow>
              let page = resultsPath p @ js ''/'' @ indexSectionNames ! searchIndex p @ js ''_'' @
                         to_hex idx @ extension p
              in (page, page @ js ''?'' @ escape searchValue, True)
          | None \<Rightarrow>
              let page = resultsPath p @ js ''/nomatches'' @ extension p in (page, page, False))
      else None)"

definition show_results :: "SearchPage \<Rightarrow> SearchPage" where
  "show_results p =
     (if display (results_window p) \<noteq> js ''block'' then
        (let p = p\<lparr>close_button := (close_button p)\<lparr>display := js ''inline-block''\<rparr>\<rparr>
         in if insideFrame p then
              (let width = px (clientWidth p - 8)
               in p\<lparr>results_window := (results_window p)\<lparr>st_position := js ''relative'',
                      display := js ''block'', st_width := width\<rparr>,
                    results_frame := (results_frame p)\<lparr>st_width := width\<rparr>\<rparr>)
            else
              (let lft = getXPos (box_geometry p) + 150; tp = getYPos (box_geometry p) + 20;
                   lft = lft - results_frame_width p
               in p\<lparr>results_window := (results_window p)\<lparr>display := js ''block'',
                      st_top := px tp, st_left := px lft\<rparr>\<rparr>))
      else p)"

definition Search :: "SearchPage \<Rightarrow> SearchPage + SearchPage" where
  "Search p =
     (let p = p\<lparr>keyTimeout := 0\<rparr>; searchValue = strip_leading (field_value p)
      in case results_page searchValue p of
           None \<Rightarrow> Inl p
         | Some (page, with_search, _) \<Rightarrow>
             Inr ((show_results (p\<lparr>frame_location := with_search\<rparr>))
                    \<lparr>lastSearchValue := searchValue, lastResultsPage := page\<rparr>))"

subsection \<open>Event handlers\<close>

definition OnSelectItem :: "nat \<Rightarrow> SearchPage \<Rightarrow> SearchPage + SearchPage" where
  "OnSelectItem sel p =
     (let p = SelectItemSet sel (p\<lparr>searchIndex := sel\<rparr>); searchValue = strip_all_spaces (field_value p)
      in if searchValue \<noteq> [] \<and> searchActive p then Search p else Inr p)"

definition OnSearchSelectKey :: "nat \<Rightarrow> SearchPage \<Rightarrow> SearchPage + SearchPage" where
  "OnSearchSelectKey keyCode p =
     (if keyCode = 40 \<and> searchIndex p < SelectItemCount p then
        OnSelectItem (searchIndex p + 1) (p\<lparr>searchIndex := searchIndex p + 1\<rparr>)
      else if keyCode = 38 \<and> searchIndex p > 0 then
        OnSelectItem (searchIndex p - 1) (p\<lparr>searchIndex := searchIndex p - 1\<rparr>)
      else if keyCode = 13 \<or> keyCode = 27 then
        bindr (OnSelectItem (searchIndex p) p) (\<lambda>p. Inr ((CloseSelectionWindow p)\<lparr>focused := FieldFocused\<rparr>))
      else Inr p)"

fun first_item :: "nat \<Rightarrow> SelectChild list \<Rightarrow> nat option" where
  "first_item i [] = None"
| "first_item i (c # cs) = (if className c = js ''SelectItem'' then Some i else first_item (i + 1) cs)"

definition hide_results :: "SearchPage \<Rightarrow> SearchPage" where
  "hide_results p = p\<lparr>results_window := (results_window p)\<lparr>display := js ''none''\<rparr>,
     close_button := (close_button p)\<lparr>display := js ''none''\<rparr>, lastSearchValue := []\<rparr>"

text \<open>The part of the handler after the keys: the text may have changed.\<close>

definition field_changed :: "SearchPage \<Rightarrow> SearchPage" where
  "field_changed p =
     (let searchValue = strip_all_spaces (field_value p)
      in if searchValue \<noteq> lastSearchValue p then
           (if searchValue \<noteq> [] then
              (let (p, n) = setTimeout (box_name p @ js ''.Search()'') (keyTimeoutLength p) p
               in p\<lparr>keyTimeout := n\<rparr>)
            else hide_results p)
         else p)"

definition OnSearchFieldChange :: "nat \<Rightarrow> bool \<Rightarrow> SearchPage \<Rightarrow> SearchPage" where
  "OnSearchFieldChange keyCode shiftKey p =
     (let p = (if keyTimeout p \<noteq> 0 then (clearTimeout (keyTimeout p) p)\<lparr>keyTimeout := 0\<rparr> else p)
      in if keyCode = 40 \<or> keyCode = 13 then
           (if shiftKey then
              (let p = fst (OnSearchSelectShow p)
               in case first_item 0 (select_children p) of
                    Some i \<Rightarrow> p\<lparr>focused := SelectItemFocused i\<rparr> | None \<Rightarrow> p)
            else field_changed (p\<lparr>frame_messages := frame_messages p @ [js ''take_focus'']\<rparr>))
         else if keyCode = 27 then
           Activate False (hide_results (p\<lparr>focused := NothingFocused\<rparr>))
         else field_changed p)"

subsection \<open>Start\<close>

definition select_link :: "nat \<Rightarrow> SelectChild" where
  "select_link key = \<lparr>className = js ''SelectItem'', mark = js ''&#160;'',
     label_text = indexSectionLabels ! key,
     onclick = js ''searchBox.OnSelectItem('' @ dec_nat key @ js '')''\<rparr>"

definition init_search :: "SearchPage \<Rightarrow> SearchPage + SearchPage" where
  "init_search p = OnSelectItem 0 (p\<lparr>select_children := select_children p @
     map select_link [0..<length indexSectionLabels]\<rparr>)"

subsection \<open>Reachable pages\<close>

text \<open>The page a handler leaves, whether it returns or a \<open>TypeError\<close> leaves it.\<close>

definition outcome :: "'a + 'a \<Rightarrow> 'a" where
  "outcome r = (case r of Inl p \<Rightarrow> p | Inr p \<Rightarrow> p)"

definition fire :: "nat \<Rightarrow> SearchPage \<Rightarrow> SearchPage" where
  "fire n p = p\<lparr>timers := filter (\<lambda>(m, _, _). m \<noteq> n) (timers p)\<rparr>"

text \<open>
  One event of the page: the field gets or loses the focus, a key changes the field's text, the
  pointer enters or leaves the selector, an item is clicked, a key goes to the selector, the
  close button is pressed, or a timer runs out.
\<close>

inductive box_step :: "SearchPage \<Rightarrow> SearchPage \<Rightarrow> bool" where
  focus: "box_step p (OnSearchFieldFocus b p)"
| change: "box_step p (OnSearchFieldChange k sh (p\<lparr>field_value := t\<rparr>))"
| show_select: "box_step p (fst (OnSearchSelectShow p))"
| hide_select: "box_step p (OnSearchSelectHide p)"
| select: "i < SelectItemCount p \<Longrightarrow> box_step p (outcome (OnSelectItem i p))"
| select_key: "box_step p (outcome (OnSearchSelectKey k p))"
| close: "box_step p (CloseResultsWindow p)"
| search_timer: "(n, box_name p @ js ''.Search()'', d) \<in> set (timers p) \<Longrightarrow>
    box_step p (outcome (Search (fire n p)))"
| close_timer: "(n, box_name p @ js ''.CloseSelectionWindow()'', d) \<in> set (timers p) \<Longrightarrow>
    box_step p (CloseSelectionWindow (fire n p))"

inductive_cases box_stepE: "box_step p q"

definition timers_ok :: "SearchPage \<Rightarrow> bool" where
  "timers_ok p \<longleftrightarrow> (\<forall>(n, _, _) \<in> set (timers p). 0 < n \<and> n \<le> last_timer p) \<and>
     distinct (map fst (timers p)) \<and>
     (keyTimeout p \<noteq> 0 \<longrightarrow> (\<exists>d. (keyTimeout p, box_name p @ js ''.Search()'', d) \<in> set (timers p))) \<and>
     hideTimeout p \<le> last_timer p \<and> (hideTimeout p \<noteq> 0 \<longrightarrow> hideTimeout p \<noteq> keyTimeout p)"

definition windows_ok :: "SearchPage \<Rightarrow> bool" where
  "windows_ok p \<longleftrightarrow> (display (results_window p) = js ''block'') = (display (close_button p) = js ''inline-block'')"

definition index_ok :: "SearchPage \<Rightarrow> bool" where
  "index_ok p \<longleftrightarrow> searchIndex p \<le> SelectItemCount p"


lemma count_set_marks [simp]: "count_items (set_marks i j cs) n = count_items cs n"
  by (induction cs arbitrary: j n) simp_all

text \<open>What the operations keep: \<open>kept\<close> gathers the fields the invariant speaks of apart from the
  two displays and the selection.\<close>

definition kept :: "SearchPage \<Rightarrow> jstring \<times> nat \<times> (nat \<times> jstring \<times> nat) list \<times> nat \<times> nat" where
  "kept p = (box_name p, hideTimeout p, timers p, last_timer p, SelectItemCount p)"

lemma kept_simps [simp]:
  "kept (Activate b p) = kept p" "kept (hide_results p) = kept p" "kept (show_results p) = kept p"
  "kept (SelectItemSet i p) = kept p" "kept (CloseSelectionWindow p) = kept p"
  by (simp_all add: kept_def Activate_def hide_results_def show_results_def SelectItemSet_def SelectItemCount_def
      CloseSelectionWindow_def Let_def)

lemma index_key_simps [simp]:
  "searchIndex (Activate b p) = searchIndex p" "keyTimeout (Activate b p) = keyTimeout p"
  "searchIndex (hide_results p) = searchIndex p" "keyTimeout (hide_results p) = keyTimeout p"
  "searchIndex (show_results p) = searchIndex p" "keyTimeout (show_results p) = keyTimeout p"
  "searchIndex (SelectItemSet i p) = searchIndex p" "keyTimeout (SelectItemSet i p) = keyTimeout p"
  "searchIndex (CloseSelectionWindow p) = searchIndex p" "keyTimeout (CloseSelectionWindow p) = keyTimeout p"
  by (simp_all add: Activate_def hide_results_def show_results_def SelectItemSet_def CloseSelectionWindow_def Let_def)

lemma windows_ops:
  "windows_ok p \<Longrightarrow> windows_ok (Activate b p)"
  "windows_ok (hide_results p)"
  "windows_ok p \<Longrightarrow> windows_ok (show_results p)"
  "windows_ok (SelectItemSet i p) = windows_ok p" "windows_ok (CloseSelectionWindow p) = windows_ok p"
  by (simp_all add: windows_ok_def Activate_def hide_results_def show_results_def SelectItemSet_def
      CloseSelectionWindow_def Let_def)

definition same_but_key :: "SearchPage \<Rightarrow> SearchPage \<Rightarrow> bool" where
  "same_but_key p q \<longleftrightarrow> kept q = kept p \<and> (keyTimeout q = 0 \<or> keyTimeout q = keyTimeout p) \<and>
     (windows_ok p \<longrightarrow> windows_ok q)"

lemma same_timers_ok: "same_but_key p q \<Longrightarrow> timers_ok p \<Longrightarrow> timers_ok q"
  by (auto simp: same_but_key_def timers_ok_def kept_def)

lemma Search_keeps: "same_but_key p (outcome (Search p)) \<and> searchIndex (outcome (Search p)) = searchIndex p"
proof -
  have "kept (p\<lparr>keyTimeout := x, frame_location := u\<rparr>) = kept p" "kept (p\<lparr>keyTimeout := x\<rparr>) = kept p"
    "kept (p\<lparr>lastSearchValue := v, lastResultsPage := w\<rparr>) = kept p" for p x u v w
    by (simp_all add: kept_def SelectItemCount_def)
  moreover have "windows_ok (p\<lparr>keyTimeout := x, frame_location := u\<rparr>) = windows_ok p"
    "windows_ok (p\<lparr>keyTimeout := x\<rparr>) = windows_ok p"
    "windows_ok (p\<lparr>lastSearchValue := v, lastResultsPage := w\<rparr>) = windows_ok p" for p x u v w
    by (simp_all add: windows_ok_def)
  ultimately show ?thesis
    by (auto simp: same_but_key_def Search_def outcome_def Let_def windows_ops split: option.split)
qed

lemma OnSelectItem_keeps:
  "same_but_key p (outcome (OnSelectItem i p)) \<and> searchIndex (outcome (OnSelectItem i p)) = i"
proof -
  let ?p = "SelectItemSet i (p\<lparr>searchIndex := i\<rparr>)"
  have "same_but_key p ?p" "searchIndex ?p = i"
    by (simp_all add: same_but_key_def kept_def SelectItemSet_def SelectItemCount_def windows_ok_def)
  then show ?thesis
    using Search_keeps [of ?p] by (auto simp: OnSelectItem_def Let_def same_but_key_def outcome_def)
qed

lemma OnSearchSelectKey_keeps:
  assumes "index_ok p"
  shows "same_but_key p (outcome (OnSearchSelectKey k p)) \<and> index_ok (outcome (OnSearchSelectKey k p))"
proof -
  have u: "same_but_key p q" if "same_but_key (p\<lparr>searchIndex := i\<rparr>) q" for i q
    using that by (simp add: same_but_key_def kept_def windows_ok_def SelectItemCount_def)
  have n: "SelectItemCount q = SelectItemCount p" if "same_but_key p q" for q
    using that by (simp add: same_but_key_def kept_def)
  have down: "same_but_key p (outcome (OnSelectItem i (p\<lparr>searchIndex := i\<rparr>))) \<and>
      searchIndex (outcome (OnSelectItem i (p\<lparr>searchIndex := i\<rparr>))) = i" for i
    using OnSelectItem_keeps u by blast
  have close: "same_but_key p (outcome (bindr (OnSelectItem (searchIndex p) p)
        (\<lambda>p. Inr ((CloseSelectionWindow p)\<lparr>focused := FieldFocused\<rparr>)))) \<and>
      searchIndex (outcome (bindr (OnSelectItem (searchIndex p) p)
        (\<lambda>p. Inr ((CloseSelectionWindow p)\<lparr>focused := FieldFocused\<rparr>)))) = searchIndex p"
    using OnSelectItem_keeps [of p "searchIndex p"]
    by (cases "OnSelectItem (searchIndex p) p")
      (auto simp: outcome_def same_but_key_def kept_def CloseSelectionWindow_def SelectItemCount_def windows_ok_def)
  have none: "same_but_key p p" by (simp add: same_but_key_def)
  consider "OnSearchSelectKey k p = OnSelectItem (searchIndex p + 1) (p\<lparr>searchIndex := searchIndex p + 1\<rparr>)"
      "searchIndex p < SelectItemCount p"
    | "OnSearchSelectKey k p = OnSelectItem (searchIndex p - 1) (p\<lparr>searchIndex := searchIndex p - 1\<rparr>)"
    | "OnSearchSelectKey k p = bindr (OnSelectItem (searchIndex p) p)
        (\<lambda>p. Inr ((CloseSelectionWindow p)\<lparr>focused := FieldFocused\<rparr>))"
    | "OnSearchSelectKey k p = Inr p"
    unfolding OnSearchSelectKey_def by meson
  then show ?thesis
  proof cases
    case 1
    with down [of "searchIndex p + 1"] n show ?thesis by (metis Suc_eq_plus1 Suc_leI index_ok_def)
  next
    case 2
    with down [of "searchIndex p - 1"] n assms show ?thesis
      by (metis diff_le_self index_ok_def order_trans)
  next
    case 3
    with close n assms show ?thesis by (metis index_ok_def)
  next
    case 4
    with none assms show ?thesis by (simp add: outcome_def)
  qed
qed

text \<open>Starting a timer gives it a new number; stopping one keeps the others.\<close>

lemma timers_ok_cleared:
  assumes "timers_ok p"
  shows "timers_ok ((clearTimeout (keyTimeout p) p)\<lparr>keyTimeout := 0\<rparr>)"
    and "timers_ok ((clearTimeout (hideTimeout p) p)\<lparr>hideTimeout := 0\<rparr>)"
    and "timers_ok (fire n (p\<lparr>keyTimeout := 0\<rparr>))"
  using assms by (auto simp: timers_ok_def clearTimeout_def fire_def distinct_map_filter)

lemma timers_ok_started:
  assumes "timers_ok p"
  shows "timers_ok (p\<lparr>timers := timers p @ [(last_timer p + 1, box_name p @ js ''.Search()'', d)],
      last_timer := last_timer p + 1, keyTimeout := last_timer p + 1\<rparr>)"
    and "timers_ok (p\<lparr>timers := timers p @ [(last_timer p + 1, x, d)],
      last_timer := last_timer p + 1, hideTimeout := last_timer p + 1\<rparr>)"
  using assms by (auto simp: timers_ok_def intro: le_SucI)


definition box_ok :: "SearchPage \<Rightarrow> bool" where
  "box_ok p \<longleftrightarrow> timers_ok p \<and> windows_ok p \<and> index_ok p"

lemma box_ok_same: "box_ok p \<Longrightarrow> same_but_key p q \<Longrightarrow> index_ok q \<Longrightarrow> box_ok q"
  using same_timers_ok by (auto simp: box_ok_def same_but_key_def)

lemma index_ok_same: "index_ok p \<Longrightarrow> same_but_key p q \<Longrightarrow> searchIndex q = searchIndex p \<Longrightarrow> index_ok q"
  by (simp add: index_ok_def same_but_key_def kept_def)

lemma box_ok_Search: "timers_ok (p\<lparr>keyTimeout := 0\<rparr>) \<Longrightarrow> windows_ok p \<Longrightarrow> index_ok p \<Longrightarrow> box_ok (outcome (Search p))"
proof -
  assume a: "timers_ok (p\<lparr>keyTimeout := 0\<rparr>)" "windows_ok p" "index_ok p"
  let ?p = "p\<lparr>keyTimeout := 0\<rparr>"
  have "Search p = Search ?p" by (simp add: Search_def)
  moreover have "box_ok ?p" using a by (simp add: box_ok_def windows_ok_def index_ok_def SelectItemCount_def)
  ultimately show ?thesis
    using Search_keeps [of ?p] box_ok_same [of ?p] index_ok_same [of ?p] by (simp add: box_ok_def)
qed

lemma box_ok_hide: "box_ok p \<Longrightarrow> box_ok (hide_results p)"
  by (intro box_ok_same [of p "hide_results p"] index_ok_same [of p "hide_results p"])
    (simp_all add: same_but_key_def windows_ops box_ok_def)

lemma box_ok_field_changed: "box_ok p \<Longrightarrow> box_ok (field_changed p)"
proof -
  assume p: "box_ok p"
  have "box_ok (p\<lparr>timers := timers p @ [(last_timer p + 1, box_name p @ js ''.Search()'', d)],
      last_timer := last_timer p + 1, keyTimeout := last_timer p + 1\<rparr>)" for d
    using p timers_ok_started(1) [of p d] by (simp add: box_ok_def windows_ok_def index_ok_def SelectItemCount_def)
  then show ?thesis
    using p box_ok_hide by (simp add: field_changed_def setTimeout_def Let_def)
qed

lemma box_ok_Show: "box_ok p \<Longrightarrow> box_ok (fst (OnSearchSelectShow p))"
proof -
  assume p: "box_ok p"
  define w where "w x y = p\<lparr>select_window := (select_window p)\<lparr>display := js ''block'', st_left := x, st_top := y\<rparr>\<rparr>" for x y
  have w: "box_ok (w x y)" for x y
    using p by (simp add: w_def box_ok_def timers_ok_def windows_ok_def index_ok_def SelectItemCount_def)
  have c: "box_ok ((clearTimeout (hideTimeout q) q)\<lparr>hideTimeout := 0\<rparr>)" if "box_ok q" for q
    using that timers_ok_cleared(2) [of q]
    by (simp add: box_ok_def windows_ok_def index_ok_def SelectItemCount_def clearTimeout_def)
  have "\<exists>x y. fst (OnSearchSelectShow p) = (if hideTimeout (w x y) \<noteq> 0
      then (clearTimeout (hideTimeout (w x y)) (w x y))\<lparr>hideTimeout := 0\<rparr> else w x y)"
    unfolding OnSearchSelectShow_def Let_def w_def fst_conv by (intro exI) (rule refl)
  then obtain x y where "fst (OnSearchSelectShow p) = (if hideTimeout (w x y) \<noteq> 0
      then (clearTimeout (hideTimeout (w x y)) (w x y))\<lparr>hideTimeout := 0\<rparr> else w x y)" by blast
  then show ?thesis using w c by simp
qed

lemma box_ok_Activate: "box_ok p \<Longrightarrow> box_ok (Activate b p)"
  by (intro box_ok_same [of p "Activate b p"] index_ok_same [of p "Activate b p"])
    (simp_all add: same_but_key_def windows_ops box_ok_def)

lemma box_ok_Change: "box_ok p \<Longrightarrow> box_ok (OnSearchFieldChange k sh p)"
proof -
  assume p: "box_ok p"
  let ?q = "if keyTimeout p \<noteq> 0 then (clearTimeout (keyTimeout p) p)\<lparr>keyTimeout := 0\<rparr> else p"
  have q: "box_ok ?q"
    using p timers_ok_cleared(1) [of p]
    by (simp add: box_ok_def windows_ok_def index_ok_def SelectItemCount_def clearTimeout_def)
  have f: "box_ok (p\<lparr>focused := x\<rparr>)" "box_ok (p\<lparr>frame_messages := y\<rparr>)" if "box_ok p" for p x y
    using that by (simp_all add: box_ok_def timers_ok_def windows_ok_def index_ok_def SelectItemCount_def)
  define r where "r = ?q"
  have r: "box_ok r" using q by (simp add: r_def)
  have "box_ok (case first_item 0 cs of Some i \<Rightarrow> q\<lparr>focused := SelectItemFocused i\<rparr> | None \<Rightarrow> q)"
    if "box_ok q" for q cs using f(1) that by (cases "first_item 0 cs") simp_all
  note rules = this [OF box_ok_Show [OF r]] box_ok_field_changed [OF f(2) [OF r]]
    box_ok_Activate [OF box_ok_hide [OF f(1) [OF r]]] box_ok_field_changed [OF r]
  have "OnSearchFieldChange k sh p =
     (if k = 40 \<or> k = 13 then
        (if sh then (let p = fst (OnSearchSelectShow r) in case first_item 0 (select_children p) of
             Some i \<Rightarrow> p\<lparr>focused := SelectItemFocused i\<rparr> | None \<Rightarrow> p)
         else field_changed (r\<lparr>frame_messages := frame_messages r @ [js ''take_focus'']\<rparr>))
      else if k = 27 then Activate False (hide_results (r\<lparr>focused := NothingFocused\<rparr>))
      else field_changed r)"
    unfolding OnSearchFieldChange_def Let_def r_def by (rule refl)
  with rules show ?thesis by (simp only: Let_def simp_thms split: if_split)
qed

lemma scripts_differ: "n @ js ''.Search()'' \<noteq> n @ js ''.CloseSelectionWindow()''"
  by simp

lemma box_step_ok: "box_step p q \<Longrightarrow> box_ok p \<Longrightarrow> box_ok q"
proof (induction rule: box_step.induct)
  case (focus p b)
  then show ?case by (simp add: OnSearchFieldFocus_def box_ok_Activate)
next
  case (change p k sh t)
  then have "box_ok (p\<lparr>field_value := t\<rparr>)"
    by (simp add: box_ok_def timers_ok_def windows_ok_def index_ok_def SelectItemCount_def)
  then show ?case by (rule box_ok_Change)
next
  case (show_select p)
  then show ?case by (rule box_ok_Show)
next
  case (hide_select p)
  then show ?case
    using timers_ok_started(2) [of p]
    by (simp add: OnSearchSelectHide_def setTimeout_def Let_def box_ok_def windows_ok_def index_ok_def SelectItemCount_def)
next
  case (select i p)
  then have "SelectItemCount (outcome (OnSelectItem i p)) = SelectItemCount p"
    using OnSelectItem_keeps [of p i] by (simp add: same_but_key_def kept_def)
  with select(1) OnSelectItem_keeps [of p i] have "index_ok (outcome (OnSelectItem i p))" by (simp add: index_ok_def)
  with select(2) OnSelectItem_keeps [of p i] show ?case using box_ok_same by blast
next
  case (select_key p k)
  then have "index_ok p" by (simp add: box_ok_def)
  with select_key OnSearchSelectKey_keeps [of p k] show ?case using box_ok_same by blast
next
  case (close p)
  then have "box_ok (p\<lparr>results_window := (results_window p)\<lparr>display := js ''none''\<rparr>,
      close_button := (close_button p)\<lparr>display := js ''none''\<rparr>\<rparr>)"
    by (simp add: box_ok_def timers_ok_def windows_ok_def index_ok_def SelectItemCount_def)
  then show ?case unfolding CloseResultsWindow_def by (rule box_ok_Activate)
next
  case (search_timer n p d)
  have "(fire n p)\<lparr>keyTimeout := 0\<rparr> = fire n (p\<lparr>keyTimeout := 0\<rparr>)" by (simp add: fire_def)
  with search_timer timers_ok_cleared(3) [of p n] have "timers_ok ((fire n p)\<lparr>keyTimeout := 0\<rparr>)"
    by (simp only: box_ok_def)
  moreover have "windows_ok (fire n p)" "index_ok (fire n p)"
    using search_timer(2) by (simp_all add: box_ok_def windows_ok_def index_ok_def SelectItemCount_def fire_def)
  ultimately show ?case by (rule box_ok_Search)
next
  case (close_timer n p d)
  have "n \<noteq> keyTimeout p \<or> keyTimeout p = 0"
  proof (rule ccontr)
    assume "\<not> ?thesis"
    with close_timer obtain d' where "(n, box_name p @ js ''.Search()'', d') \<in> set (timers p)"
      by (auto simp: box_ok_def timers_ok_def)
    moreover have "distinct (map fst (timers p))" using close_timer by (simp add: box_ok_def timers_ok_def)
    ultimately have "(box_name p @ js ''.Search()'', d') = (box_name p @ js ''.CloseSelectionWindow()'', d)"
      using close_timer(1) by (metis eq_key_imp_eq_value)
    then show False using scripts_differ [of "box_name p"] by blast
  qed
  then have "timers_ok (fire n p)"
    using close_timer by (auto simp: box_ok_def timers_ok_def fire_def distinct_map_filter)
  with close_timer show ?case
    by (simp add: box_ok_def CloseSelectionWindow_def timers_ok_def windows_ok_def index_ok_def SelectItemCount_def fire_def)
qed


text \<open>A page starts with both windows in the same state and no timers.\<close>

inductive reachable :: "SearchPage \<Rightarrow> bool" where
  start: "timers p = [] \<Longrightarrow> windows_ok p \<Longrightarrow> reachable (outcome (init_search (new_SearchBox nm path fr lbl ext p)))"
| step: "reachable p \<Longrightarrow> box_step p q \<Longrightarrow> reachable q"

lemma reachable_ok: "reachable p \<Longrightarrow> box_ok p"
proof (induction rule: reachable.induct)
  case (start p nm path fr lbl ext)
  let ?q = "(new_SearchBox nm path fr lbl ext p)\<lparr>select_children := select_children p @
     map select_link [0..<length indexSectionLabels]\<rparr>"
  have "box_ok ?q"
    using start by (simp add: box_ok_def timers_ok_def windows_ok_def index_ok_def new_SearchBox_def Let_def)
  moreover have "init_search (new_SearchBox nm path fr lbl ext p) = OnSelectItem 0 ?q"
    by (simp add: init_search_def new_SearchBox_def Let_def)
  ultimately show ?case
    using OnSelectItem_keeps [of ?q 0] box_ok_same [of ?q] by (auto simp: index_ok_def)
next
  case (step p q)
  then show ?case by (blast intro: box_step_ok)
qed

text \<open>
  C32. On every reachable page the results window is displayed exactly when the close button is,
  the selected section is at most one past the last selectable item, and a key timeout that is
  set is a pending timer that runs the search.
\<close>

theorem reachable_windows:
  assumes "reachable p"
  shows "(display (results_window p) = js ''block'') = (display (close_button p) = js ''inline-block'') \<and>
    searchIndex p \<le> SelectItemCount p \<and>
    (keyTimeout p \<noteq> 0 \<longrightarrow> (\<exists>d. (keyTimeout p, box_name p @ js ''.Search()'', d) \<in> set (timers p)))"
  using reachable_ok [OF assms] by (simp add: box_ok_def windows_ok_def index_ok_def timers_ok_def)

definition no_style :: Style where
  "no_style = \<lparr>display = [], st_position = [], st_width = [], st_left = [], st_top = []\<rparr>"

definition blank_box :: Box where
  "blank_box = \<lparr>offsetWidth = 0, offsetHeight = 0, offset_chain = []\<rparr>"

definition blank_page :: SearchPage where
  "blank_page = \<lparr>box_name = [], resultsPath = [], keyTimeout = 0, keyTimeoutLength = 0,
     closeSelectionTimeout = 0, lastSearchValue = [], lastResultsPage = [], hideTimeout = 0,
     searchIndex = 0, searchActive = False, insideFrame = False, searchLabel = [], extension = [],
     field_value = js ''Search'', focused = NothingFocused, select_geometry = blank_box,
     select_window = no_style, select_window_width = 0, select_children = [],
     results_window = no_style, results_frame = no_style, results_frame_width = 0,
     close_button = no_style, box_class = js ''MSearchBoxInactive'', box_geometry = blank_box,
     clientWidth = 800, frame_location = [], frame_messages = [], timers = [], last_timer = 0,
     alerts = [], unicode_lower = (\<lambda>s. s)\<rparr>"

definition sample_page :: SearchPage where
  "sample_page = outcome (init_search (new_SearchBox (js ''searchBox'') (js ''search'') False
     (js ''Search'') (js ''.html'') blank_page))"

lemma reachable_sample: "reachable sample_page"
  unfolding sample_page_def by (rule start) (simp_all add: blank_page_def windows_ok_def no_style_def)

theorem reachable_windows_witness:
  "let p = OnSearchFieldChange 65 False (sample_page\<lparr>field_value := js ''alu''\<rparr>) in
    (display (results_window p) = js ''block'') = (display (close_button p) = js ''inline-block'') \<and>
    searchIndex p \<le> SelectItemCount p \<and>
    (keyTimeout p \<noteq> 0 \<longrightarrow> (\<exists>d. (keyTimeout p, box_name p @ js ''.Search()'', d) \<in> set (timers p)))"
  unfolding Let_def by (rule reachable_windows [OF step [OF reachable_sample change]])

text \<open>
  C36. The selection runs past the sections: a press of the down key with the last section
  selected selects a section that does not exist, and if a search text stands in the active
  field, the search it starts ends in a \<open>TypeError\<close>.
\<close>

theorem down_key_past_last_section:
  assumes "SelectItemCount p = length indexSectionNames" and "searchIndex p = length indexSectionNames - 1"
    and "strip_all_spaces (field_value p) \<noteq> []" and "searchActive p"
  shows "\<exists>q. OnSearchSelectKey 40 p = Inl q \<and> searchIndex q = length indexSectionNames"
proof -
  have n: "length indexSectionNames = 11" "length indexSectionsWithContent = 11"
    by (simp_all add: indexSectionNames_def indexSectionsWithContent_def)
  then have "OnSearchSelectKey 40 p = OnSelectItem 11 (p\<lparr>searchIndex := 11\<rparr>)"
    using assms(1,2) by (simp add: OnSearchSelectKey_def)
  then show ?thesis
    using assms(3,4) n by (simp add: OnSelectItem_def SelectItemSet_def Search_def results_page_def Let_def)
qed

theorem down_key_past_last_section_witness:
  "\<exists>q. OnSearchSelectKey 40 (sample_page\<lparr>searchIndex := 10, searchActive := True, field_value := js ''alu''\<rparr>) = Inl q \<and>
     searchIndex q = length indexSectionNames"
  by (rule down_key_past_last_section)
    (simp_all add: sample_page_def outcome_def init_search_def OnSelectItem_def SelectItemSet_def
      SelectItemCount_def new_SearchBox_def blank_page_def strip_all_spaces_def Let_def
      indexSectionNames_def indexSectionLabels_def select_link_def upt_rec)

end
