(* ===== verification/DocResults.thy ===== *)
theory DocResults
  imports DocDom DocSearchBox "HOL-Library.AList"
begin

text \<open>
  The page of search results: \<open>createResults\<close> and the class \<open>SearchResults\<close> of
  docs/html/search/search.js, which show the entries of one index file and move the focus among
  them. The record holds the object's variables, the page, the focused element and, as the frame's
  parent, the page with the search box. A handler returns the page and its value, or \<open>Inl\<close> of
  the page a \<open>TypeError\<close> leaves.
\<close>

subsection \<open>Building the rows\<close>

text \<open>An entry of \<open>searchData\<close>: identifier, name, and the links with address, target flag
  and scope.\<close>

record Entry =
  e_id :: jstring
  e_name :: jstring
  e_links :: "(jstring \<times> nat \<times> jstring) list"

fun setAttribute :: "string \<Rightarrow> jstring \<Rightarrow> dom \<Rightarrow> dom" where
  "setAttribute a v (Elem t as s ks) = Elem t (AList.update a v as) s ks"
| "setAttribute a v (Html h) = Html h"

definition createElement :: "string \<Rightarrow> dom" where
  "createElement t = Elem t [] [] []"

fun innerHTML :: "jstring \<Rightarrow> dom \<Rightarrow> dom" where
  "innerHTML h (Elem t as s ks) = Elem t as s (if h = [] then [] else [Html h])"
| "innerHTML h (Html g) = Html g"

fun appendChild :: "dom \<Rightarrow> dom \<Rightarrow> dom" where
  "appendChild c (Elem t as s ks) = Elem t as s (ks @ [c])"
| "appendChild c (Html g) = Html g"

definition setKeyActions :: "jstring \<Rightarrow> dom \<Rightarrow> dom" where
  "setKeyActions action e =
     setAttribute ''onkeyup'' action (setAttribute ''onkeypress'' action
       (setAttribute ''onkeydown'' action e))"

definition setClassAttr :: "jstring \<Rightarrow> dom \<Rightarrow> dom" where
  "setClassAttr a e = setAttribute ''className'' a (setAttribute ''class'' a e)"

definition item_name :: "int \<Rightarrow> jstring" where
  "item_name e = js ''Item'' @ dec e"

definition child_name :: "int \<Rightarrow> int \<Rightarrow> jstring" where
  "child_name e c = js ''Item'' @ dec e @ js ''_c'' @ dec c"

definition link_target :: "jstring \<times> nat \<times> jstring \<Rightarrow> dom \<Rightarrow> dom" where
  "link_target l e = (case l of (url, flag, scope) \<Rightarrow>
     let e = setAttribute ''href'' url e
     in if flag \<noteq> 0 then setAttribute ''target'' (js ''_parent'') e else e)"

definition srChild :: "nat \<Rightarrow> nat \<Rightarrow> jstring \<times> nat \<times> jstring \<Rightarrow> dom" where
  "srChild e c l =
     (let a = setAttribute ''id'' (child_name (int e) (int c)) (createElement ''a'');
          a = setKeyActions (js ''return searchResults.NavChild(event,'' @ dec (int e) @ js '','' @
                dec (int c) @ js '')'') a;
          a = link_target l (setClassAttr (js ''SRScope'') a)
      in innerHTML (snd (snd l)) a)"

definition srResult :: "nat \<Rightarrow> Entry \<Rightarrow> dom" where
  "srResult e d =
     (let row = setClassAttr (js ''SRResult'') (setAttribute ''id'' (js ''SR_'' @ e_id d) (createElement ''div''));
          entry = setClassAttr (js ''SREntry'') (createElement ''div'');
          lnk = setAttribute ''id'' (item_name (int e)) (createElement ''a'');
          lnk = setKeyActions (js ''return searchResults.Nav(event,'' @ dec (int e) @ js '')'') lnk;
          lnk = innerHTML (e_name d) (setClassAttr (js ''SRSymbol'') lnk)
      in case e_links d of
           [l] \<Rightarrow>
             let scope = innerHTML (snd (snd l)) (setClassAttr (js ''SRScope'') (createElement ''span''))
             in appendChild (appendChild scope (appendChild (link_target l lnk) entry)) row
         | ls \<Rightarrow>
             let lnk = setAttribute ''href''
                   (js ''javascript:searchResults.Toggle(\"SR_'' @ e_id d @ js ''\")'') lnk;
                 children = foldl (\<lambda>cs c. appendChild (srChild e c (ls ! c)) cs)
                   (setClassAttr (js ''SRChildren'') (createElement ''div'')) [0..<length ls]
             in appendChild (appendChild children (appendChild lnk entry)) row)"

definition createResults :: "Entry list \<Rightarrow> dom \<Rightarrow> dom" where
  "createResults searchData results =
     foldl (\<lambda>r e. appendChild (srResult e (searchData ! e)) r) results [0..<length searchData]"

subsection \<open>State\<close>

record ResultsPage =
  lastMatchCount :: nat
  lastKey :: nat
  repeatOn :: bool
  document :: dom
  active_element :: "nat list option"
  location_search :: jstring
  parent_page :: SearchPage

definition new_SearchResults :: "dom \<Rightarrow> jstring \<Rightarrow> SearchPage \<Rightarrow> ResultsPage" where
  "new_SearchResults d query parent = \<lparr>lastMatchCount = 0, lastKey = 0, repeatOn = False, document = d,
     active_element = None, location_search = query, parent_page = parent\<rparr>"

text \<open>\<open>style.display\<close> of the element with an id; without one, a \<open>TypeError\<close>.\<close>

definition show_element :: "string \<Rightarrow> string \<Rightarrow> ResultsPage \<Rightarrow> ResultsPage + ResultsPage" where
  "show_element x s r = (case getElementById (document r) (js x) of
       None \<Rightarrow> Inl r
     | Some p \<Rightarrow> Inr (r\<lparr>document := update_at p (set_display (js s)) (document r)\<rparr>))"

subsection \<open>Showing the matches\<close>

text \<open>\<open>replace(/^sr\d*_/, '')\<close>\<close>

definition strip_sr :: "jstring \<Rightarrow> jstring" where
  "strip_sr s =
     (if take 2 s = js ''sr'' then
        (let r = dropWhile is_digit (drop 2 s)
         in case r of c # t \<Rightarrow> if c = 95 then t else s | [] \<Rightarrow> s)
      else s)"

definition search_term :: "(jstring \<Rightarrow> jstring) \<Rightarrow> jstring \<Rightarrow> jstring" where
  "search_term U search = convertToId (toLowerCase U (strip_trailing (strip_leading search)))"

definition row_matches :: "(jstring \<Rightarrow> jstring) \<Rightarrow> jstring \<Rightarrow> jstring \<Rightarrow> bool" where
  "row_matches U search row_id =
     (let rowMatchName = strip_sr (toLowerCase U row_id)
      in length search \<le> length rowMatchName \<and> take (length search) rowMatchName = search)"

text \<open>The loop over the divisions: the rows get their display and the matches are counted.\<close>

fun mark_rows :: "(jstring \<Rightarrow> jstring) \<Rightarrow> jstring \<Rightarrow> dom \<Rightarrow> nat \<Rightarrow> dom \<times> nat"
  and mark_all :: "(jstring \<Rightarrow> jstring) \<Rightarrow> jstring \<Rightarrow> dom list \<Rightarrow> nat \<Rightarrow> dom list \<times> nat" where
  "mark_rows U search (Elem t as s ks) matches =
     (let row = t = ''div'' \<and> class_is (js ''SRResult'') (Elem t as s ks);
          hit = row_matches U search (case map_of as ''id'' of Some x \<Rightarrow> x | None \<Rightarrow> []);
          s' = (if row then if hit then js ''block'' else js ''none'' else s);
          (ks', m) = mark_all U search ks (if row \<and> hit then matches + 1 else matches)
      in (Elem t as s' ks', m))"
| "mark_rows U search (Html h) matches = (Html h, matches)"
| "mark_all U search [] matches = ([], matches)"
| "mark_all U search (k # ks) matches =
     (let (k', m) = mark_rows U search k matches; (ks', m') = mark_all U search ks m in (k' # ks', m'))"

definition Results_Search :: "jstring \<Rightarrow> ResultsPage \<Rightarrow> ResultsPage + ResultsPage" where
  "Results_Search search r =
     (let search = (if search = [] then unescape (tl (location_search r)) else search);
          U = unicode_lower (parent_page r);
          search = search_term U search;
          (d, matches) = mark_rows U search (document r) 0;
          r = r\<lparr>document := d\<rparr>
      in bindr (show_element ''Searching'' ''none'' r) (\<lambda>r.
         bindr (show_element ''NoMatches'' (if matches = 0 then ''block'' else ''none'') r) (\<lambda>r.
           Inr (r\<lparr>lastMatchCount := matches\<rparr>))))"

definition find_child :: "ResultsPage \<Rightarrow> jstring \<Rightarrow> ResultsPage + nat list option" where
  "find_child r x = (case the (FindChildElement (document r) x) of Inl _ \<Rightarrow> Inl r | Inr q \<Rightarrow> Inr q)"

definition is_open :: "ResultsPage \<Rightarrow> nat list option \<Rightarrow> bool" where
  "is_open r q = (case q of None \<Rightarrow> False
     | Some p \<Rightarrow> map_option display_of (node_at (document r) p) = Some (js ''block''))"

definition set_open :: "string \<Rightarrow> nat list option \<Rightarrow> ResultsPage \<Rightarrow> ResultsPage" where
  "set_open s q r = (case q of None \<Rightarrow> r
     | Some p \<Rightarrow> r\<lparr>document := update_at p (set_display (js s)) (document r)\<rparr>)"

definition Toggle :: "jstring \<Rightarrow> ResultsPage \<Rightarrow> ResultsPage + ResultsPage" where
  "Toggle x r = bindr (find_child r x) (\<lambda>q.
     Inr (set_open (if is_open r q then ''none'' else ''block'') q r))"

subsection \<open>Moving the focus\<close>

text \<open>An item is visible when its row, the parent of its parent, is displayed as a block.\<close>

definition item_visible :: "dom \<Rightarrow> nat list \<Rightarrow> bool" where
  "item_visible d p \<longleftrightarrow> (case grandparent p of None \<Rightarrow> False
     | Some g \<Rightarrow> map_option display_of (node_at d g) = Some (js ''block''))"

text \<open>The loops of \<open>NavNext\<close> and \<open>NavPrev\<close> with the direction they step in.\<close>

fun nav_loop :: "int \<Rightarrow> nat \<Rightarrow> dom \<Rightarrow> int \<Rightarrow> nat list option option" where
  "nav_loop step 0 d index = None"
| "nav_loop step (Suc fuel) d index =
     (case getElementById d (item_name index) of
        None \<Rightarrow> Some None
      | Some p \<Rightarrow> if item_visible d p then Some (Some p) else nav_loop step fuel d (index + step))"

text \<open>No page has more items than nodes, so the loop ends within one round more.\<close>

definition NavNext :: "dom \<Rightarrow> int \<Rightarrow> nat list option" where
  "NavNext d index = (case nav_loop 1 (dom_size d + 1) d index of Some r \<Rightarrow> r | None \<Rightarrow> None)"

definition NavPrev :: "dom \<Rightarrow> int \<Rightarrow> nat list option" where
  "NavPrev d index = (case nav_loop (- 1) (dom_size d + 1) d index of Some r \<Rightarrow> r | None \<Rightarrow> None)"

datatype key_event = KeyDown | KeyPress | KeyUp | OtherEvent

definition ProcessKeys :: "key_event \<Rightarrow> nat \<Rightarrow> ResultsPage \<Rightarrow> ResultsPage \<times> bool" where
  "ProcessKeys e keyCode r = (case e of
       KeyDown \<Rightarrow> let r = r\<lparr>repeatOn := False, lastKey := keyCode\<rparr> in (r, lastKey r \<noteq> 0)
     | KeyPress \<Rightarrow>
         if \<not> repeatOn r then (if lastKey r \<noteq> 0 then r\<lparr>repeatOn := True\<rparr> else r, False)
         else (r, lastKey r \<noteq> 0)
     | KeyUp \<Rightarrow> let r = r\<lparr>lastKey := 0, repeatOn := False\<rparr> in (r, lastKey r \<noteq> 0)
     | OtherEvent \<Rightarrow> (r, lastKey r \<noteq> 0))"

definition focus_on :: "nat list \<Rightarrow> ResultsPage \<Rightarrow> ResultsPage" where
  "focus_on p r = r\<lparr>active_element := Some p\<rparr>"

definition focus_parent :: "ResultsPage \<Rightarrow> ResultsPage" where
  "focus_parent r = r\<lparr>parent_page := (parent_page r)\<lparr>focused := FieldFocused\<rparr>\<rparr>"

text \<open>\<open>id\<close> of the parent of the parent of an element: the empty string when it has none.\<close>

definition row_id :: "dom \<Rightarrow> nat list \<Rightarrow> jstring option" where
  "row_id d p = (case grandparent p of None \<Rightarrow> None
     | Some g \<Rightarrow> map_option (\<lambda>e. case attr ''id'' e of Some x \<Rightarrow> x | None \<Rightarrow> []) (node_at d g))"

definition row_child :: "ResultsPage \<Rightarrow> nat list \<Rightarrow> ResultsPage + nat list option" where
  "row_child r p = (case row_id (document r) p of None \<Rightarrow> Inl r | Some x \<Rightarrow> find_child r x)"

definition item_child :: "ResultsPage \<Rightarrow> int \<Rightarrow> ResultsPage + nat list option" where
  "item_child r index = (case getElementById (document r) (item_name index) of
       None \<Rightarrow> Inl r | Some p \<Rightarrow> row_child r p)"

text \<open>The last of the children \<open>Item<index>_c0\<close>, \<open>Item<index>_c1\<close>, ...\<close>

fun last_child :: "nat \<Rightarrow> dom \<Rightarrow> int \<Rightarrow> int \<Rightarrow> nat list option \<Rightarrow> nat list option" where
  "last_child 0 d index n best = best"
| "last_child (Suc fuel) d index n best =
     (case getElementById d (child_name index n) of
        None \<Rightarrow> best
      | Some p \<Rightarrow> last_child fuel d index (n + 1) (Some p))"

definition Nav_up :: "int \<Rightarrow> ResultsPage \<Rightarrow> ResultsPage + ResultsPage" where
  "Nav_up itemIndex r =
     (let newIndex = itemIndex - 1; d = document r; focusItem = NavPrev d newIndex
      in bindr (case focusItem of
             None \<Rightarrow> Inr None
           | Some p \<Rightarrow> bindr (row_child r p) (\<lambda>child.
               Inr (if is_open r child then last_child (dom_size d + 1) d newIndex 0 (Some p) else Some p)))
           (\<lambda>focusItem. Inr (case focusItem of Some p \<Rightarrow> focus_on p r | None \<Rightarrow> focus_parent r)))"

definition Nav_down :: "int \<Rightarrow> ResultsPage \<Rightarrow> ResultsPage + ResultsPage" where
  "Nav_down itemIndex r =
     (let newIndex = itemIndex + 1; d = document r
      in bindr (item_child r itemIndex) (\<lambda>elem.
           let focusItem = (if is_open r elem then getElementById d (child_name itemIndex 0) else None);
               focusItem = (case focusItem of Some p \<Rightarrow> Some p | None \<Rightarrow> NavNext d newIndex)
           in Inr (case focusItem of Some p \<Rightarrow> focus_on p r | None \<Rightarrow> r)))"

definition leave_results :: "ResultsPage \<Rightarrow> ResultsPage" where
  "leave_results r = focus_parent (r\<lparr>parent_page := CloseResultsWindow (parent_page r)\<rparr>)"

definition Nav :: "key_event \<Rightarrow> nat \<Rightarrow> int \<Rightarrow> ResultsPage \<Rightarrow> ResultsPage + ResultsPage \<times> bool" where
  "Nav e keyCode itemIndex r =
     (if keyCode = 13 then Inr (r, True)
      else case ProcessKeys e keyCode r of (r, go) \<Rightarrow>
        if \<not> go then Inr (r, False)
        else if lastKey r = 38 then bindr (Nav_up itemIndex r) (\<lambda>r. Inr (r, False))
        else if lastKey r = 40 then bindr (Nav_down itemIndex r) (\<lambda>r. Inr (r, False))
        else if lastKey r = 39 then bindr (item_child r itemIndex) (\<lambda>q. Inr (set_open ''block'' q r, False))
        else if lastKey r = 37 then bindr (item_child r itemIndex) (\<lambda>q. Inr (set_open ''none'' q r, False))
        else if lastKey r = 27 then Inr (leave_results r, False)
        else if lastKey r = 13 then Inr (r, True)
        else Inr (r, False))"

definition NavChild :: "key_event \<Rightarrow> nat \<Rightarrow> int \<Rightarrow> int \<Rightarrow> ResultsPage \<Rightarrow> ResultsPage + ResultsPage \<times> bool" where
  "NavChild e keyCode itemIndex childIndex r =
     (let focus_id = (\<lambda>x r. case getElementById (document r) x of
            None \<Rightarrow> Inl r | Some p \<Rightarrow> Inr (focus_on p r, False)) in
      if keyCode = 13 then Inr (r, True)
      else case ProcessKeys e keyCode r of (r, go) \<Rightarrow>
        if \<not> go then Inr (r, False)
        else if lastKey r = 38 then
          (if childIndex > 0 then focus_id (child_name itemIndex (childIndex - 1)) r
           else focus_id (item_name itemIndex) r)
        else if lastKey r = 40 then
          Inr (case getElementById (document r) (child_name itemIndex (childIndex + 1)) of
              Some p \<Rightarrow> focus_on p r
            | None \<Rightarrow> (case NavNext (document r) (itemIndex + 1) of Some p \<Rightarrow> focus_on p r | None \<Rightarrow> r), False)
        else if lastKey r = 27 then Inr (leave_results r, False)
        else if lastKey r = 13 then Inr (r, True)
        else Inr (r, False))"

subsection \<open>The rows of a page\<close>

text \<open>The identifiers and displays of the rows, in document order.\<close>

fun result_rows :: "dom \<Rightarrow> (jstring \<times> jstring) list" where
  "result_rows (Elem t as s ks) =
     (if t = ''div'' \<and> class_is (js ''SRResult'') (Elem t as s ks)
      then [(case map_of as ''id'' of Some x \<Rightarrow> x | None \<Rightarrow> [], s)] else []) @
     concat (map result_rows ks)"
| "result_rows (Html h) = []"

definition marked :: "(jstring \<Rightarrow> jstring) \<Rightarrow> jstring \<Rightarrow> jstring \<times> jstring \<Rightarrow> jstring \<times> jstring" where
  "marked U search = (\<lambda>(x, s). (x, if row_matches U search x then js ''block'' else js ''none''))"

lemma mark_rows_result:
  shows "result_rows (fst (mark_rows U q d m)) = map (marked U q) (result_rows d) \<and>
    snd (mark_rows U q d m) = m + length (filter (\<lambda>r. row_matches U q (fst r)) (result_rows d))"
  and "concat (map result_rows (fst (mark_all U q ds m))) = map (marked U q) (concat (map result_rows ds)) \<and>
    snd (mark_all U q ds m) = m + length (filter (\<lambda>r. row_matches U q (fst r)) (concat (map result_rows ds)))"
proof (induction U q d m and U q ds m rule: mark_rows_mark_all.induct)
  case (1 U q t as s ks m)
  then show ?case
    by (auto simp: Let_def case_prod_beta class_is_def marked_def)
next
  case (4 U q k ks m)
  obtain k' m1 where k: "mark_rows U q k m = (k', m1)" by (cases "mark_rows U q k m")
  obtain ks' m2 where ks: "mark_all U q ks m1 = (ks', m2)" by (cases "mark_all U q ks m1")
  from 4(1) 4(2) [OF k [symmetric] refl] show ?case by (simp add: k case_prod_beta)
qed simp_all

lemma mark_rows_ids:
  shows "find_dom (id_is x) (fst (mark_rows U q d m)) = find_dom (id_is x) d"
  and "find_doms (id_is x) i (fst (mark_all U q ds m)) = find_doms (id_is x) i ds"
proof (induction U q d m and U q ds m arbitrary: and i rule: mark_rows_mark_all.induct)
  case (1 U q t as s ks m)
  then show ?case by (auto simp: Let_def case_prod_beta id_is_def)
next
  case (4 U q k ks m)
  obtain k' m1 where k: "mark_rows U q k m = (k', m1)" by (cases "mark_rows U q k m")
  obtain ks' m2 where ks: "mark_all U q ks m1 = (ks', m2)" by (cases "mark_all U q ks m1")
  from 4(1) 4(2) [OF k [symmetric] refl] show ?case by (simp add: k case_prod_beta split: option.split)
qed simp_all


subsection \<open>The page of one index file\<close>

text \<open>
  The body of a results page (docs/html/search/all_0.html and its kin) when its script calls
  \<open>Search\<close>: the rows of the entries between the three messages.
\<close>

definition message :: "string \<Rightarrow> string \<Rightarrow> jstring \<Rightarrow> dom" where
  "message x s text = Elem ''div'' [(''class'', js ''SRStatus''), (''id'', js x)] (js s) [Html text]"

definition results_document :: "Entry list \<Rightarrow> dom" where
  "results_document searchData = Elem ''div'' [(''id'', js ''SRIndex'')] []
     [message ''Loading'' ''none'' (js ''Loading...''),
      createResults searchData (Elem ''div'' [(''id'', js ''SRResults'')] [] []),
      message ''Searching'' [] (js ''Searching...''),
      message ''NoMatches'' ''none'' (js ''No Matches'')]"

lemma append_all:
  "foldl (\<lambda>r x. appendChild (f x) r) (Elem t as s ks) xs = Elem t as s (ks @ map f xs)"
  by (induction xs arbitrary: ks) simp_all

lemma createResults_rows:
  "createResults es (Elem t as s ks) = Elem t as s (ks @ map (\<lambda>e. srResult e (es ! e)) [0..<length es])"
  by (simp add: createResults_def append_all)

definition row_content :: "nat \<Rightarrow> Entry \<Rightarrow> dom" where
  "row_content e d = hd (child_nodes (srResult e d))"

lemmas build_simps = createElement_def setClassAttr_def setKeyActions_def link_target_def Let_def

lemma srResult_shape:
  "srResult e d = Elem ''div'' [(''id'', js ''SR_'' @ e_id d), (''class'', js ''SRResult''),
     (''className'', js ''SRResult'')] [] [row_content e d]"
  by (simp add: srResult_def row_content_def build_simps split: list.split)

lemma row_content_rows: "result_rows (row_content e d) = []"
proof -
  have c: "result_rows (srChild e c l) = []" for c l
    by (cases l) (simp add: srChild_def build_simps)
  then have cs: "concat (map (result_rows \<circ> (\<lambda>c. srChild e c (f c))) ns) = []" for f ns
    by (induction ns) simp_all
  show ?thesis
    by (auto simp: row_content_def srResult_def build_simps class_is_def append_all c cs split: list.split)
qed


lemma find_doms_None: "(\<And>d. d \<in> set ds \<Longrightarrow> find_dom P d = None) \<Longrightarrow> find_doms P i ds = None"
  by (induction ds arbitrary: i) simp_all

lemma find_doms_append:
  "find_doms P i (as @ bs) = (case find_doms P i as of Some p \<Rightarrow> Some p | None \<Rightarrow> find_doms P (i + length as) bs)"
  by (induction as arbitrary: i) (simp_all split: option.split)

lemma row_content_ids:
  assumes "take 4 x \<noteq> js ''Item''"
  shows "find_dom (id_is x) (row_content e d) = None"
proof -
  have n: "item_name i \<noteq> x" "child_name i j \<noteq> x" for i j
    using assms by (auto simp: item_name_def child_name_def)
  then have c: "find_dom (id_is x) (srChild e c l) = None" for c l
    by (cases l) (simp add: srChild_def build_simps id_is_def)
  then have cs: "find_doms (id_is x) i (map (\<lambda>c. srChild e c (f c)) ns) = None" for f ns i
    by (intro find_doms_None) (metis (no_types, lifting) c imageE list.set_map)
  show ?thesis
    using n by (auto simp: row_content_def srResult_def build_simps id_is_def append_all c cs find_doms_append
      split: list.split)
qed

lemma rows_ids:
  assumes "take 4 x \<noteq> js ''Item''" and "take 3 x \<noteq> js ''SR_''"
  shows "find_doms (id_is x) i (map (\<lambda>e. srResult e (f e)) ns) = None"
proof (rule find_doms_None)
  fix d assume "d \<in> set (map (\<lambda>e. srResult e (f e)) ns)"
  moreover have "js ''SR_'' @ y \<noteq> x" for y using assms(2) by auto
  ultimately show "find_dom (id_is x) d = None"
    using row_content_ids [OF assms(1)] by (auto simp: srResult_shape id_is_def)
qed

lemma getElementById_messages:
  "getElementById (results_document es) (js ''Searching'') = Some [2]"
  "getElementById (results_document es) (js ''NoMatches'') = Some [3]"
  by (simp_all add: getElementById_def results_document_def createResults_rows message_def id_is_def
      rows_ids)

lemma results_document_rows:
  "result_rows (results_document es) = map (\<lambda>e. (js ''SR_'' @ e_id e, [])) es"
proof -
  have "concat (map (result_rows \<circ> (\<lambda>e. srResult e (es ! e))) ns) = map (\<lambda>e. (js ''SR_'' @ e_id (es ! e), [])) ns" for ns
    by (induction ns) (simp_all add: srResult_shape row_content_rows class_is_def)
  then have "concat (map (result_rows \<circ> (\<lambda>e. srResult e (es ! e))) [0..<length es])
      = map (\<lambda>e. (js ''SR_'' @ e_id e, [])) (map (\<lambda>e. es ! e) [0..<length es])" by simp
  then show ?thesis
    unfolding map_nth by (simp add: results_document_def createResults_rows message_def class_is_def)
qed

text \<open>Displaying a message changes neither the rows nor what the other message is.\<close>

lemma mark_results_document:
  obtains rows where
    "mark_rows U q (results_document es) 0 =
      (Elem ''div'' [(''id'', js ''SRIndex'')] []
         [message ''Loading'' ''none'' (js ''Loading...''), Elem ''div'' [(''id'', js ''SRResults'')] [] rows,
          message ''Searching'' [] (js ''Searching...''), message ''NoMatches'' ''none'' (js ''No Matches'')],
       length (filter (\<lambda>e. row_matches U q (js ''SR_'' @ e_id e)) es))"
    and "find_doms (id_is (js ''Searching'')) 0 rows = None"
    and "find_doms (id_is (js ''NoMatches'')) 0 rows = None"
    and "concat (map result_rows rows) = map (\<lambda>e. (js ''SR_'' @ e_id e,
      if row_matches U q (js ''SR_'' @ e_id e) then js ''block'' else js ''none'')) es"
proof -
  let ?rows = "map (\<lambda>e. srResult e (es ! e)) [0..<length es]"
  obtain rows m where r: "mark_all U q ?rows 0 = (rows, m)" by (cases "mark_all U q ?rows 0")
  have d: "mark_rows U q (results_document es) 0 =
      (Elem ''div'' [(''id'', js ''SRIndex'')] []
         [message ''Loading'' ''none'' (js ''Loading...''), Elem ''div'' [(''id'', js ''SRResults'')] [] rows,
          message ''Searching'' [] (js ''Searching...''), message ''NoMatches'' ''none'' (js ''No Matches'')], m)"
    by (simp add: results_document_def createResults_rows message_def class_is_def r)
  have rr: "concat (map result_rows ?rows) = map (\<lambda>e. (js ''SR_'' @ e_id e, [])) es"
    using results_document_rows [of es]
    by (simp add: results_document_def createResults_rows message_def class_is_def)
  have m: "m = length (filter (\<lambda>e. row_matches U q (js ''SR_'' @ e_id e)) es)"
    using mark_rows_result(2) [of U q ?rows 0] unfolding rr r by (simp add: filter_map o_def)
  have "concat (map result_rows rows) = map (\<lambda>e. (js ''SR_'' @ e_id e,
      if row_matches U q (js ''SR_'' @ e_id e) then js ''block'' else js ''none'')) es"
    using mark_rows_result(2) [of U q ?rows 0] unfolding rr r by (simp add: marked_def)
  moreover have "find_doms (id_is (js ''Searching'')) 0 rows = None" "find_doms (id_is (js ''NoMatches'')) 0 rows = None"
    using mark_rows_ids(2) [of _ 0 U q ?rows 0] by (simp_all add: r rows_ids)
  ultimately show ?thesis using that d m by simp
qed

lemma Results_Search_document:
  assumes "document r = results_document es"
    and "U = unicode_lower (parent_page r)" and "q = search_term U (if search = [] then unescape (tl (location_search r)) else search)"
  shows "\<exists>r'. Results_Search search r = Inr r' \<and>
    result_rows (document r') = map (\<lambda>e. (js ''SR_'' @ e_id e,
      if row_matches U q (js ''SR_'' @ e_id e) then js ''block'' else js ''none'')) es \<and>
    lastMatchCount r' = length (filter (\<lambda>e. row_matches U q (js ''SR_'' @ e_id e)) es)"
proof -
  obtain rows where rows: "mark_rows U q (results_document es) 0 =
      (Elem ''div'' [(''id'', js ''SRIndex'')] []
         [message ''Loading'' ''none'' (js ''Loading...''), Elem ''div'' [(''id'', js ''SRResults'')] [] rows,
          message ''Searching'' [] (js ''Searching...''), message ''NoMatches'' ''none'' (js ''No Matches'')],
       length (filter (\<lambda>e. row_matches U q (js ''SR_'' @ e_id e)) es))"
    "find_doms (id_is (js ''Searching'')) 0 rows = None" "find_doms (id_is (js ''NoMatches'')) 0 rows = None"
    "concat (map result_rows rows) = map (\<lambda>e. (js ''SR_'' @ e_id e,
      if row_matches U q (js ''SR_'' @ e_id e) then js ''block'' else js ''none'')) es"
    by (rule mark_results_document)
  show ?thesis
    unfolding Results_Search_def Let_def assms(2) [symmetric] assms(3) [symmetric] assms(1) rows(1)
    using rows(2,3)
    by (simp add: show_element_def getElementById_def message_def id_is_def class_is_def rows(4) del: js_simps(2))
qed

subsection \<open>Searching from the box to the rows\<close>

text \<open>The identifiers of the index files: the lower-case name, converted, and a number.\<close>

definition entry_id :: "jstring \<Rightarrow> nat \<Rightarrow> jstring" where
  "entry_id name n = convertToId (lower name) @ js ''_'' @ dec_nat n"

text \<open>
  A text may run past the name into the number: its next unit is one whose two hexadecimal
  digits are the number's first two digits, and the rest are digits that follow.
\<close>

definition runs_into_number :: "jstring \<Rightarrow> jstring \<Rightarrow> nat \<Rightarrow> bool" where
  "runs_into_number t name n \<longleftrightarrow> (\<exists>c r ds. t = name @ c # r \<and> \<not> id_unit c \<and>
     dec_nat n = hex_digit (c div 16) # hex_digit (c mod 16) # ds \<and> prefix r ds)"

lemma convertToId_digits: "\<forall>c \<in> set r. is_digit c \<Longrightarrow> convertToId r = r"
  by (induction r) (auto simp: convert_unit_eq id_unit_def is_digit_def)

lemma convertToId_prefix_digits:
  assumes "\<forall>c \<in> set ds. is_digit c"
  shows "prefix (convertToId r) ds \<longleftrightarrow> prefix r ds"
  using assms
proof (induction r arbitrary: ds)
  case (Cons c r)
  have "\<not> is_digit 95" by (simp add: is_digit_def)
  moreover have "is_digit c \<Longrightarrow> id_unit c" by (simp add: is_digit_def id_unit_def)
  ultimately show ?case
    using Cons by (cases ds) (auto simp: convert_unit_eq)
qed simp

lemma take_eq_prefix: "length s \<le> length x \<and> take (length s) x = s \<longleftrightarrow> prefix s x"
  by (metis append_eq_conv_conj prefix_def prefix_length_le)

lemma row_matches_name:
  assumes "latin1 name"
  shows "row_matches U (convertToId (lower t)) (js ''SR_'' @ entry_id name n) \<longleftrightarrow>
     prefix (lower t) (lower name) \<or> runs_into_number (lower t) (lower name) n"
proof -
  let ?t = "lower t" and ?n = "lower name" and ?ds = "dec_nat n"
  have ds: "\<forall>c \<in> set ?ds. is_digit c" using dec_nat_digits by blast
  have "latin1 (js ''SR_'' @ entry_id name n)"
    using latin1_convertToId [OF latin1_lower [OF assms]] latin1_digits [OF ds] by (simp add: entry_id_def)
  then have "toLowerCase U (js ''SR_'' @ entry_id name n) = lower (js ''SR_'' @ entry_id name n)"
    by (rule toLowerCase_latin1)
  also have "\<dots> = js ''sr_'' @ convertToId ?n @ 95 # ?ds"
    using lower_digits [OF ds] by (simp add: entry_id_def lower_convertToId lower_unit_def)
  finally have low: "toLowerCase U (js ''SR_'' @ entry_id name n) = js ''sr_'' @ convertToId ?n @ 95 # ?ds" .
  have "strip_sr (js ''sr_'' @ x) = x" for x by (simp add: strip_sr_def is_digit_def)
  with low have "row_matches U (convertToId ?t) (js ''SR_'' @ entry_id name n) \<longleftrightarrow>
      prefix (convertToId ?t) (convertToId ?n @ 95 # ?ds)"
    unfolding row_matches_def low Let_def take_eq_prefix by simp
  also have "\<dots> \<longleftrightarrow> prefix ?t ?n \<or> (\<exists>r. ?t = ?n @ r \<and> prefix (convertToId r) (95 # ?ds))"
    by (rule convertToId_prefix_append)
  also have "\<dots> \<longleftrightarrow> prefix ?t ?n \<or> runs_into_number ?t ?n n"
  proof -
    have "prefix (convertToId (c # r)) (95 # ?ds) \<longleftrightarrow> \<not> id_unit c \<and>
        (\<exists>ds. ?ds = hex_digit (c div 16) # hex_digit (c mod 16) # ds \<and> prefix r ds)" for c r
    proof -
      have "id_unit c \<Longrightarrow> c \<noteq> 95" using not_id_unit_95 by blast
      moreover have "prefix (convertToId r) d \<longleftrightarrow> prefix r d"
        if "?ds = a # b # d" for a b d using ds that by (intro convertToId_prefix_digits) auto
      moreover have "prefix (a # b # x) D \<longleftrightarrow> (\<exists>d. D = a # b # d \<and> prefix x d)" for a b x and D :: jstring
        by (auto simp: prefix_def)
      ultimately show ?thesis by (auto simp: convert_unit_eq)
    qed
    then have "(\<exists>r. r \<noteq> [] \<and> ?t = ?n @ r \<and> prefix (convertToId r) (95 # ?ds)) \<longleftrightarrow> runs_into_number ?t ?n n"
      unfolding runs_into_number_def by (metis neq_Nil_conv)
    moreover have "?t = ?n @ [] \<Longrightarrow> prefix ?t ?n" by simp
    ultimately show ?thesis by (metis append_Nil2 prefix_order.refl)
  qed
  finally show ?thesis .
qed

text \<open>
  What the browser hands to the frame's page of an address: from the first question mark on, in the part
  before the first number sign.
\<close>

definition location_query :: "jstring \<Rightarrow> jstring" where
  "location_query url = dropWhile (\<lambda>c. c \<noteq> 63) (takeWhile (\<lambda>c. c \<noteq> 35) url)"

text \<open>A text without either sign.\<close>

definition plain_path :: "jstring \<Rightarrow> bool" where
  "plain_path s \<longleftrightarrow> 63 \<notin> set s \<and> 35 \<notin> set s"

lemma plain_path_simps [simp]:
  "plain_path []" "plain_path (c # s) \<longleftrightarrow> c \<noteq> 63 \<and> c \<noteq> 35 \<and> plain_path s"
  "plain_path (s @ t) \<longleftrightarrow> plain_path s \<and> plain_path t"
  by (auto simp: plain_path_def)

lemma location_query_escape:
  assumes "plain_path page"
  shows "tl (location_query (page @ js ''?'' @ escape v)) = escape v"
proof -
  have "35 \<notin> set (page @ js ''?'' @ escape v)"
    using assms escape_no_query [of 35 v] by (auto simp: plain_path_def)
  then have t: "takeWhile (\<lambda>c. c \<noteq> 35) (page @ js ''?'' @ escape v) = page @ js ''?'' @ escape v"
    by (auto simp: takeWhile_eq_all_conv)
  have d: "dropWhile (\<lambda>c. c \<noteq> 63) (page @ js ''?'' @ escape v) = js ''?'' @ escape v"
    using assms by (subst dropWhile_append2) (auto simp: plain_path_def)
  show ?thesis unfolding location_query_def t d by simp
qed

lemma to_hex_plain: "plain_path (to_hex n)"
  by (induction n rule: to_hex.induct) (subst to_hex.simps, auto simp: hex_digit_def)

lemma section_names_plain: "i < length indexSectionNames \<Longrightarrow> plain_path (indexSectionNames ! i)"
proof -
  have "\<forall>s \<in> set indexSectionNames. plain_path s" by (simp add: indexSectionNames_def)
  then show "i < length indexSectionNames \<Longrightarrow> ?thesis" by simp
qed

lemma show_results_location: "frame_location (show_results p) = frame_location p"
  by (simp add: show_results_def Let_def)

definition shown_as :: "bool \<Rightarrow> jstring" where
  "shown_as b = (if b then js ''block'' else js ''none'')"

lemma search_shows_rows:
  assumes "Search p = Inr p'"
    and "indexOf (indexSectionsWithContent ! searchIndex p) (index_char (unicode_lower p) (strip_leading (field_value p))) = Some idx"
    and "latin1 (field_value p)" and "plain_path (resultsPath p)" and "plain_path (extension p)"
    and "document r = results_document es" and "location_search r = location_query (frame_location p')"
    and "map e_id es = map (\<lambda>(name, n). entry_id name n) names" and "\<forall>(name, n) \<in> set names. latin1 name"
    and "t = lower (strip_trailing (strip_leading (field_value p)))"
  shows "\<exists>r'. Results_Search [] r = Inr r' \<and>
    result_rows (document r') = map (\<lambda>(name, n). (js ''SR_'' @ entry_id name n,
      shown_as (prefix t (lower name) \<or> runs_into_number t (lower name) n))) names \<and>
    lastMatchCount r' = length (filter (\<lambda>(name, n).
      prefix t (lower name) \<or> runs_into_number t (lower name) n) names)"
proof -
  let ?v = "strip_leading (field_value p)" and ?U = "unicode_lower (parent_page r)"
  let ?q = "convertToId (lower (strip_trailing ?v))"
  have i: "searchIndex p < length indexSectionsWithContent"
    using assms(1) by (auto simp: Search_def results_page_def Let_def split: if_splits)
  then have j: "searchIndex p < length indexSectionNames"
    by (simp add: indexSectionsWithContent_def indexSectionNames_def)
  let ?page = "resultsPath p @ js ''/'' @ indexSectionNames ! searchIndex p @ js ''_'' @ to_hex idx @ extension p"
  have l: "frame_location p' = ?page @ js ''?'' @ escape ?v"
    using assms(1,2) i by (auto simp: Search_def results_page_def Let_def show_results_location)
  have "plain_path ?page"
    using assms(4,5) section_names_plain [OF j] to_hex_plain by simp
  then have "tl (location_search r) = escape ?v"
    unfolding assms(7) l by (rule location_query_escape)
  moreover have v: "latin1 ?v"
    by (rule latin1_subset [OF assms(3)]) (auto simp: strip_leading_def dest: set_dropWhileD)
  moreover have "latin1 (strip_trailing ?v)"
    by (rule latin1_subset [OF v]) (auto simp: strip_trailing_def dest: set_dropWhileD)
  moreover have "strip_leading ?v = ?v"
    by (simp add: strip_leading_def dropWhile_idem)
  ultimately have q: "?q = search_term ?U (if [] = ([] :: jstring) then unescape (tl (location_search r)) else [])"
    by (simp add: search_term_def unescape_escape latin1_units toLowerCase_latin1)
  from Results_Search_document [OF assms(6) refl q] obtain r' where r': "Results_Search [] r = Inr r'"
    "result_rows (document r') = map (\<lambda>x. (js ''SR_'' @ x, shown_as (row_matches ?U ?q (js ''SR_'' @ x)))) (map e_id es)"
    "lastMatchCount r' = length (filter (\<lambda>x. row_matches ?U ?q (js ''SR_'' @ x)) (map e_id es))"
    unfolding shown_as_def by (auto simp: filter_map o_def)
  have m: "row_matches ?U ?q (js ''SR_'' @ entry_id (fst x) (snd x)) \<longleftrightarrow>
      prefix t (lower (fst x)) \<or> runs_into_number t (lower (fst x)) (snd x)" if "x \<in> set names" for x
    using row_matches_name [of "fst x" ?U "strip_trailing ?v"] assms(9,10) that by auto
  have "result_rows (document r') = map (\<lambda>x. (js ''SR_'' @ entry_id (fst x) (snd x),
      shown_as (row_matches ?U ?q (js ''SR_'' @ entry_id (fst x) (snd x))))) names"
    unfolding r'(2) assms(8) map_map by (simp add: case_prod_beta' o_def)
  also have "\<dots> = map (\<lambda>x. (js ''SR_'' @ entry_id (fst x) (snd x),
      shown_as (prefix t (lower (fst x)) \<or> runs_into_number t (lower (fst x)) (snd x)))) names"
    by (rule map_cong [OF refl]) (simp only: m)
  finally have rows: "result_rows (document r') = map (\<lambda>(name, n). (js ''SR_'' @ entry_id name n,
      shown_as (prefix t (lower name) \<or> runs_into_number t (lower name) n))) names"
    by (simp only: case_prod_beta')
  have "lastMatchCount r' = length (filter (\<lambda>x. row_matches ?U ?q (js ''SR_'' @ entry_id (fst x) (snd x))) names)"
    unfolding r'(3) assms(8) by (simp add: filter_map o_def case_prod_beta')
  also have "filter (\<lambda>x. row_matches ?U ?q (js ''SR_'' @ entry_id (fst x) (snd x))) names =
      filter (\<lambda>x. prefix t (lower (fst x)) \<or> runs_into_number t (lower (fst x)) (snd x)) names"
    by (rule filter_cong [OF refl m])
  finally show ?thesis using r'(1) rows by (simp only: case_prod_beta') blast
qed

text \<open>
  C30. Searching works from the box to the rows: when the search box finds an index page for
  the typed text and the frame's page holds entries with identifiers made of their names, the
  search of that page displays exactly the rows whose name begins with the text, both without
  regard to case and the text without leading and trailing spaces, and the rows whose name the
  text continues into the number of the identifier; it counts them as the matches. Text and names
  consist of units below 256, and neither the path nor the extension of the result pages contains
  a question mark or number sign.
\<close>

theorem search_shows_prefixes:
  assumes "Search p = Inr p'"
    and "indexOf (indexSectionsWithContent ! searchIndex p) (index_char (unicode_lower p) (strip_leading (field_value p))) = Some idx"
    and "latin1 (field_value p)" and "plain_path (resultsPath p)" and "plain_path (extension p)"
    and "document r = results_document es" and "location_search r = location_query (frame_location p')"
    and "map e_id es = map (\<lambda>(name, n). entry_id name n) names" and "\<forall>(name, n) \<in> set names. latin1 name"
    and "t = lower (strip_trailing (strip_leading (field_value p)))"
  shows "\<exists>r'. Results_Search [] r = Inr r' \<and>
    result_rows (document r') = map (\<lambda>(name, n). (js ''SR_'' @ entry_id name n,
      shown_as (prefix t (lower name) \<or> runs_into_number t (lower name) n))) names \<and>
    lastMatchCount r' = length (filter (\<lambda>(name, n).
      prefix t (lower name) \<or> runs_into_number t (lower name) n) names)"
  using assms by (rule search_shows_rows)

definition sample_entry :: "string \<Rightarrow> nat \<Rightarrow> jstring list \<Rightarrow> Entry" where
  "sample_entry name n scopes = \<lparr>e_id = entry_id (js name) n, e_name = js name,
     e_links = map (\<lambda>s. (js ''../x.html'', 1, s)) scopes\<rparr>"

definition sample_index :: "Entry list" where
  "sample_index = [sample_entry ''Fetch'' 28 [js ''RVSSVM''], sample_entry ''fp'' 9 [js ''A'', js ''B'']]"

definition searching_page :: SearchPage where
  "searching_page = sample_page\<lparr>field_value := js ''FE''\<rparr>"

definition sample_results :: ResultsPage where
  "sample_results = new_SearchResults (results_document sample_index)
     (location_query (frame_location (outcome (Search searching_page)))) (outcome (Search searching_page))"

lemma searching_page_fields:
  "field_value searching_page = js ''FE''" "searchIndex searching_page = 0"
  "resultsPath searching_page = js ''search''" "extension searching_page = js ''.html''"
  by (simp_all add: searching_page_def sample_page_def outcome_def init_search_def OnSelectItem_def
      SelectItemSet_def new_SearchBox_def blank_page_def Let_def)

lemma index_F: "indexOf (indexSectionsWithContent ! 0) (index_char U (strip_leading (js ''FE''))) = Some 6"
  by (simp add: indexSectionsWithContent_def index_char_def strip_leading_def toLowerCase_def lower_unit_def indexOf_def index_from.simps)

lemma Search_searching_page: "Search searching_page = Inr (outcome (Search searching_page))"
  using index_F by (simp add: Search_def results_page_def searching_page_fields outcome_def Let_def
      indexSectionsWithContent_def del: js_simps(2) split: option.split)

theorem search_shows_prefixes_witness:
  "\<exists>r'. Results_Search [] sample_results = Inr r' \<and>
    result_rows (document r') = map (\<lambda>(name, n). (js ''SR_'' @ entry_id name n,
      shown_as (prefix (js ''fe'') (lower name) \<or> runs_into_number (js ''fe'') (lower name) n)))
      [(js ''Fetch'', 28), (js ''fp'', 9)] \<and>
    lastMatchCount r' = length (filter (\<lambda>(name, n).
      prefix (js ''fe'') (lower name) \<or> runs_into_number (js ''fe'') (lower name) n)
      [(js ''Fetch'', 28), (js ''fp'', 9)])"
proof (rule search_shows_prefixes [OF Search_searching_page, where idx = 6])
  show "indexOf (indexSectionsWithContent ! searchIndex searching_page)
      (index_char (unicode_lower searching_page) (strip_leading (field_value searching_page))) = Some 6"
    unfolding searching_page_fields by (rule index_F)
  show "document sample_results = results_document sample_index"
    by (simp add: sample_results_def new_SearchResults_def)
  show "map e_id sample_index = map (\<lambda>(name, n). entry_id name n) [(js ''Fetch'', 28), (js ''fp'', 9)]"
    by (simp add: sample_index_def sample_entry_def)
qed (simp_all add: searching_page_fields sample_results_def new_SearchResults_def sample_index_def
      sample_entry_def strip_leading_def strip_trailing_def lower_unit_def)

subsection \<open>Moving among the items\<close>

lemma item_name_inj: "item_name i = item_name j \<longleftrightarrow> i = j"
  by (simp add: item_name_def dec_inj)

text \<open>The identifiers of a tree; there are no more than nodes.\<close>

fun ids :: "dom \<Rightarrow> jstring list" where
  "ids (Elem t as s ks) = (case map_of as ''id'' of Some x \<Rightarrow> [x] | None \<Rightarrow> []) @ concat (map ids ks)"
| "ids (Html h) = []"

lemma length_ids: "length (ids d) \<le> dom_size d"
proof (induction d)
  case (Elem t as s ks)
  then have "length (concat (map ids ks)) \<le> sum_list (map dom_size ks)"
    by (induction ks) (auto intro: add_mono)
  then show ?case by (simp split: option.split)
qed simp

lemma find_dom_ids:
  shows "find_dom (id_is x) d = Some p \<Longrightarrow> x \<in> set (ids d)"
    and "find_doms (id_is x) i ds = Some p \<Longrightarrow> x \<in> set (concat (map ids ds))"
  by (induction "id_is x" d and "id_is x" i ds arbitrary: p and p rule: find_dom_find_doms.induct)
    (auto simp: id_is_def split: if_splits option.splits)

lemma nav_loop_out_of_fuel:
  assumes "nav_loop s n d i = None"
  shows "\<forall>k < n. item_name (i + int k * s) \<in> set (ids d)"
  using assms
proof (induction n arbitrary: i)
  case (Suc n)
  then obtain p where p: "getElementById d (item_name i) = Some p" "nav_loop s n d (i + s) = None"
    by (auto split: option.splits if_splits)
  have "item_name i \<in> set (ids d)" using p(1) find_dom_ids(1) by (simp add: getElementById_def)
  moreover have "item_name (i + int (Suc k) * s) \<in> set (ids d)" if "k < n" for k
    using Suc.IH [OF p(2)] that by (simp add: algebra_simps)
  ultimately show ?case by (auto simp: less_Suc_eq_0_disj)
qed simp

lemma nav_loop_terminates:
  assumes "s \<noteq> 0"
  shows "nav_loop s (dom_size d + 1) d i \<noteq> None"
proof
  assume "nav_loop s (dom_size d + 1) d i = None"
  then have "(\<lambda>k. item_name (i + int k * s)) ` {..dom_size d} \<subseteq> set (ids d)"
    using nav_loop_out_of_fuel [of s "dom_size d + 1" d i] by (auto simp: less_Suc_eq_le)
  moreover have "inj_on (\<lambda>k. item_name (i + int k * s)) {..dom_size d}"
    using assms by (auto simp: inj_on_def item_name_inj)
  ultimately have "Suc (dom_size d) \<le> card (set (ids d))"
    by (metis List.finite_set card_atMost card_image card_mono)
  also have "\<dots> \<le> dom_size d" using card_length length_ids le_trans by blast
  finally show False by simp
qed

lemma nav_loop_first:
  "nav_loop s n d i = Some (Some p) \<Longrightarrow>
    \<exists>k. getElementById d (item_name (i + int k * s)) = Some p \<and> item_visible d p \<and>
      (\<forall>j < k. \<exists>q. getElementById d (item_name (i + int j * s)) = Some q \<and> \<not> item_visible d q)"
  "nav_loop s n d i = Some None \<Longrightarrow>
    \<exists>k. getElementById d (item_name (i + int k * s)) = None \<and>
      (\<forall>j < k. \<exists>q. getElementById d (item_name (i + int j * s)) = Some q \<and> \<not> item_visible d q)"
proof (induction n arbitrary: i)
  case (Suc n)
  {
    case 1
    show ?case
    proof (cases "getElementById d (item_name i)")
      case (Some q)
      show ?thesis
      proof (cases "item_visible d q")
        case True
        with 1 Some show ?thesis by (intro exI [of _ 0]) simp
      next
        case False
        with 1 Some have "nav_loop s n d (i + s) = Some (Some p)" by simp
        from Suc.IH(1) [OF this] obtain k where
          "getElementById d (item_name (i + s + int k * s)) = Some p" "item_visible d p"
          "\<forall>j < k. \<exists>q. getElementById d (item_name (i + s + int j * s)) = Some q \<and> \<not> item_visible d q" by blast
        with Some False show ?thesis
          by (intro exI [of _ "Suc k"]) (auto simp: less_Suc_eq_0_disj algebra_simps)
      qed
    qed (use 1 in simp)
  next
    case 2
    show ?case
    proof (cases "getElementById d (item_name i)")
      case None
      then show ?thesis by (intro exI [of _ 0]) simp
    next
      case (Some q)
      with 2 have "\<not> item_visible d q" "nav_loop s n d (i + s) = Some None" by (auto split: if_splits)
      with Suc.IH(2) [OF this(2)] Some obtain k where
        "getElementById d (item_name (i + s + int k * s)) = None"
        "\<forall>j < k. \<exists>q. getElementById d (item_name (i + s + int j * s)) = Some q \<and> \<not> item_visible d q" by blast
      with Some \<open>\<not> item_visible d q\<close> show ?thesis
        by (intro exI [of _ "Suc k"]) (auto simp: less_Suc_eq_0_disj algebra_simps)
    qed
  }
qed simp_all

text \<open>The indices of the items that exist and are hidden.\<close>

definition hidden_items :: "dom \<Rightarrow> int set" where
  "hidden_items d = {i. \<exists>q. getElementById d (item_name i) = Some q \<and> \<not> item_visible d q}"

lemma nav_loop_hidden:
  assumes "s \<in> {1, -1}"
  shows "case nav_loop s (dom_size d + 1) d i of
      None \<Rightarrow> False
    | Some (Some p) \<Rightarrow> \<exists>k. getElementById d (item_name (i + int k * s)) = Some p \<and> item_visible d p \<and>
        (\<lambda>j. i + int j * s) ` {..<k} \<subseteq> hidden_items d
    | Some None \<Rightarrow> \<exists>k. getElementById d (item_name (i + int k * s)) = None \<and>
        (\<lambda>j. i + int j * s) ` {..<k} \<subseteq> hidden_items d"
proof -
  obtain r where r: "nav_loop s (dom_size d + 1) d i = Some r" using nav_loop_terminates [of s d i] assms by auto
  show ?thesis
  proof (cases r)
    case None
    with nav_loop_first(2) [of s "dom_size d + 1" d i] r obtain k where
      k: "getElementById d (item_name (i + int k * s)) = None"
      "\<forall>j < k. \<exists>q. getElementById d (item_name (i + int j * s)) = Some q \<and> \<not> item_visible d q" by blast
    then have "(\<lambda>j. i + int j * s) ` {..<k} \<subseteq> hidden_items d" by (auto simp: hidden_items_def)
    with k(1) show ?thesis unfolding r None option.case by blast
  next
    case (Some p)
    with nav_loop_first(1) [of s "dom_size d + 1" d i p] r obtain k where
      k: "getElementById d (item_name (i + int k * s)) = Some p" "item_visible d p"
      "\<forall>j < k. \<exists>q. getElementById d (item_name (i + int j * s)) = Some q \<and> \<not> item_visible d q" by blast
    then have "(\<lambda>j. i + int j * s) ` {..<k} \<subseteq> hidden_items d" by (auto simp: hidden_items_def)
    with k(1,2) show ?thesis unfolding r Some option.case by blast
  qed
qed

text \<open>
  C33. \<open>NavNext\<close> and \<open>NavPrev\<close> always return, and they return what they say: the first visible
  item at or after the index, or before it, with all items in between hidden, and nothing only
  when the numbering of the items ends before a visible one.
\<close>

theorem Nav_first_visible:
  "(case NavNext d i of
      Some p \<Rightarrow> \<exists>k. getElementById d (item_name (i + int k)) = Some p \<and> item_visible d p \<and>
        (\<lambda>j. i + int j) ` {..<k} \<subseteq> hidden_items d
    | None \<Rightarrow> \<exists>k. getElementById d (item_name (i + int k)) = None \<and> (\<lambda>j. i + int j) ` {..<k} \<subseteq> hidden_items d) \<and>
   (case NavPrev d i of
      Some p \<Rightarrow> \<exists>k. getElementById d (item_name (i - int k)) = Some p \<and> item_visible d p \<and>
        (\<lambda>j. i - int j) ` {..<k} \<subseteq> hidden_items d
    | None \<Rightarrow> \<exists>k. getElementById d (item_name (i - int k)) = None \<and> (\<lambda>j. i - int j) ` {..<k} \<subseteq> hidden_items d)"
proof -
  obtain r where r: "nav_loop 1 (dom_size d + 1) d i = Some r" using nav_loop_terminates [of 1 d i] by auto
  obtain l where l: "nav_loop (- 1) (dom_size d + 1) d i = Some l" using nav_loop_terminates [of "- 1" d i] by auto
  have "NavNext d i = r" "NavPrev d i = l" unfolding NavNext_def NavPrev_def r l by simp_all
  with nav_loop_hidden [of 1 d i] nav_loop_hidden [of "- 1" d i] show ?thesis
    unfolding r l option.case by (cases r; cases l) simp_all
qed

lemma last_child_exists:
  "last_child n d i k (Some p) = Some q \<Longrightarrow> q = p \<or> (\<exists>m \<ge> k. getElementById d (child_name i m) = Some q)"
  by (induction n arbitrary: k p) (auto split: option.splits, fastforce)

lemma last_child_Some: "\<exists>q. last_child n d i k (Some p) = Some q"
  by (induction n arbitrary: k p) (auto split: option.split)

text \<open>
  C37. The up key may move into a hidden row: if the item before the current one is hidden and has
  children, and the visible item found further up has its children open, then the focus goes to
  a child of the hidden item, because the children are looked for under the item before, not the
  item found.
\<close>

theorem Nav_up_enters_hidden_row:
  assumes "getElementById (document r) (item_name (i - 1)) = Some h" and "\<not> item_visible (document r) h"
    and "getElementById (document r) (item_name (i - 2)) = Some p" and "item_visible (document r) p"
    and "FindChildElement (document r) (the (row_id (document r) p)) = Some (Inr (Some c))"
    and "row_id (document r) p \<noteq> None" and "is_open r (Some c)"
    and "getElementById (document r) (child_name (i - 1) 0) = Some q0"
  shows "\<exists>q m. Nav KeyDown 38 i r =
      Inr (r\<lparr>repeatOn := False, lastKey := 38, active_element := Some q\<rparr>, False) \<and>
    0 \<le> m \<and> getElementById (document r) (child_name (i - 1) m) = Some q"
proof -
  let ?r = "r\<lparr>repeatOn := False, lastKey := 38\<rparr>" and ?d = "document r"
  have "0 < dom_size ?d" by (cases ?d) simp_all
  then obtain n where n: "dom_size ?d = Suc n" using gr0_conv_Suc by blast
  have p: "NavPrev ?d (i - 1) = Some p"
    using assms(1-4) by (simp add: NavPrev_def n)
  obtain x where x: "row_id ?d p = Some x" using assms(6) by blast
  obtain q where q: "last_child (dom_size ?d + 1) ?d (i - 1) 0 (Some p) = Some q" using last_child_Some by blast
  have "last_child (Suc n) ?d (i - 1) 1 (Some q0) = Some q" using q assms(8) by (simp add: n)
  from last_child_exists [OF this] assms(8) obtain m where
    m: "0 \<le> m" "getElementById ?d (child_name (i - 1) m) = Some q" by (metis order.refl order_trans zero_le_one)
  have "Nav_up i ?r = Inr (?r\<lparr>active_element := Some q\<rparr>)"
    using p x q assms(5,7) by (simp add: Nav_up_def row_child_def find_child_def is_open_def focus_on_def Let_def)
  then have "Nav KeyDown 38 i r = Inr (r\<lparr>repeatOn := False, lastKey := 38, active_element := Some q\<rparr>, False)"
    by (simp add: Nav_def ProcessKeys_def Let_def)
  with m show ?thesis by blast
qed

definition sample_row :: "string \<Rightarrow> string \<Rightarrow> int \<Rightarrow> dom" where
  "sample_row x s i = Elem ''div'' [(''id'', js x), (''class'', js ''SRResult'')] (js s)
     [Elem ''div'' [(''class'', js ''SREntry'')] []
       [Elem ''a'' [(''id'', item_name i)] [] [],
        Elem ''div'' [(''class'', js ''SRChildren'')] (js ''block'') [Elem ''a'' [(''id'', child_name i 0)] [] []]]]"

definition sample_focus :: ResultsPage where
  "sample_focus = new_SearchResults (Elem ''div'' [] []
     [sample_row ''SR_a'' ''block'' 0, sample_row ''SR_b'' ''none'' 1, sample_row ''SR_c'' ''block'' 2]) [] sample_page"

theorem Nav_up_enters_hidden_row_witness:
  "\<exists>q m. Nav KeyDown 38 2 sample_focus =
      Inr (sample_focus\<lparr>repeatOn := False, lastKey := 38, active_element := Some q\<rparr>, False) \<and>
    0 \<le> m \<and> getElementById (document sample_focus) (child_name (2 - 1) m) = Some q"
  by (rule Nav_up_enters_hidden_row [where h = "[1, 0, 0]" and p = "[0, 0, 0]" and c = "[0, 0, 1]" and ?q0.0 = "[1, 0, 1, 0]"])
    (simp_all add: sample_focus_def new_SearchResults_def sample_row_def getElementById_def id_is_def item_name_def
      child_name_def dec_def dec_nat.simps item_visible_def grandparent_def parentNode_def row_id_def
      FindChildElement_search is_SRChildren_def class_is_def is_open_def)

end
