(* ===== verification/DocIndex.thy ===== *)
theory DocIndex
  imports DocResults
begin

text \<open>
  Pages of the search index (docs/html/search/all_6.js and others): the array \<open>searchData\<close> a
  results page loads before it calls \<open>createResults\<close>. An element is the identifier, the name
  and the links of an entry. These are the pages of the section All for the letters f, g, i, r
  and s.
\<close>

definition entry :: "string \<Rightarrow> string \<Rightarrow> (string \<times> nat \<times> string) list \<Rightarrow> Entry" where
  "entry i n ls = \<lparr>e_id = js i, e_name = js n, e_links = map (\<lambda>(u, f, s). (js u, f, js s)) ls\<rparr>"

lemma entry_fields: "e_id (entry i n ls) = js i" "e_name (entry i n ls) = js n"
  by (simp_all add: entry_def)

subsection \<open>The pages\<close>

definition all_6 :: "Entry list" where
  "all_6 = [
    entry ''f_5fd_5fformats_2ecpp_142'' ''f_d_formats.cpp''
      [(''../f__d__formats_8cpp.html'', 1, '''')],
    entry ''f_5fd_5fi_5ftype_5finstruction_5fencoding_5fmap_143'' ''F_D_I_type_instruction_encoding_map''
      [(''../namespaceinstruction__set.html#af5c5f93de8a03f2601cc9f734101d966'', 1, ''instruction_set'')],
    entry ''f_5fd_5fr1_5ftype_5finstruction_5fencoding_5fmap_144'' ''F_D_R1_type_instruction_encoding_map''
      [(''../namespaceinstruction__set.html#a4bc401050f099acc0422f451287d5da1'', 1, ''instruction_set'')],
    entry ''f_5fd_5fr2_5ftype_5finstruction_5fencoding_5fmap_145'' ''F_D_R2_type_instruction_encoding_map''
      [(''../namespaceinstruction__set.html#a4ff8e79787a2060e8e8b53c20348cb66'', 1, ''instruction_set'')],
    entry ''f_5fd_5fr3_5ftype_5finstruction_5fencoding_5fmap_146'' ''F_D_R3_type_instruction_encoding_map''
      [(''../namespaceinstruction__set.html#add9dd2648cc982b1271c28b41c99e18b'', 1, ''instruction_set'')],
    entry ''f_5fd_5fr4_5ftype_5finstruction_5fencoding_5fmap_147'' ''F_D_R4_type_instruction_encoding_map''
      [(''../namespaceinstruction__set.html#a430c1ddcd83a4d8f4f2d6686e4be53d5'', 1, ''instruction_set'')],
    entry ''f_5fd_5fr_5ftype_5finstruction_5fencoding_5fmap_148'' ''F_D_R_type_instruction_encoding_map''
      [(''../namespaceinstruction__set.html#a5cf78416d8c2c005a6fd3c9caead1ff2'', 1, ''instruction_set'')],
    entry ''f_5fd_5fs_5ftype_5finstruction_5fencoding_5fmap_149'' ''F_D_S_type_instruction_encoding_map''
      [(''../namespaceinstruction__set.html#a5d37d30556dd68b58a56ac0e134aa17c'', 1, ''instruction_set'')],
    entry ''fadd_5fd_150'' ''FADD_D''
      [(''../namespacealu.html#a168383e119a615fcfa97506988a23985ab8aa91ba3b9470f730fe5cda1592c385'', 1, ''alu'')],
    entry ''fadd_5fs_151'' ''FADD_S''
      [(''../namespacealu.html#a168383e119a615fcfa97506988a23985ac107de66ca007fc3fa224d05986cfa08'', 1, ''alu'')],
    entry ''fclass_5fd_152'' ''FCLASS_D''
      [(''../namespacealu.html#a168383e119a615fcfa97506988a23985a80963e7f0fba844b89adb5e240e6add1'', 1, ''alu'')],
    entry ''fclass_5fs_153'' ''FCLASS_S''
      [(''../namespacealu.html#a168383e119a615fcfa97506988a23985a62b59c003809d74898061e90ce3b4cf8'', 1, ''alu'')],
    entry ''fcsr_5fdiv_5fby_5fzero_154'' ''FCSR_DIV_BY_ZERO''
      [(''../alu_8h.html#a7a9a09b6531a62d829677d832777b904'', 1, ''alu.h'')],
    entry ''fcsr_5finexact_155'' ''FCSR_INEXACT''
      [(''../alu_8h.html#ad974e8f51fdf5f9bd3344bb823be49a0'', 1, ''alu.h'')],
    entry ''fcsr_5finvalid_5fop_156'' ''FCSR_INVALID_OP''
      [(''../alu_8h.html#a891bc992cb99a5663b75102af36530a0'', 1, ''alu.h'')],
    entry ''fcsr_5foverflow_157'' ''FCSR_OVERFLOW''
      [(''../alu_8h.html#a0dc8d8489f329d8fe45499c8c1c02142'', 1, ''alu.h'')],
    entry ''fcsr_5funderflow_158'' ''FCSR_UNDERFLOW''
      [(''../alu_8h.html#af66df4d1afa5b11e3eb8fd39b2a45a2f'', 1, ''alu.h'')],
    entry ''fcvt_5fd_5fl_159'' ''FCVT_D_L''
      [(''../namespacealu.html#a168383e119a615fcfa97506988a23985a8a0c8c5e9ad233b11f38ccc052d1d7de'', 1, ''alu'')],
    entry ''fcvt_5fd_5flu_160'' ''FCVT_D_LU''
      [(''../namespacealu.html#a168383e119a615fcfa97506988a23985a618206f29785c745ed8dce43a3745b3a'', 1, ''alu'')],
    entry ''fcvt_5fd_5fs_161'' ''FCVT_D_S''
      [(''../namespacealu.html#a168383e119a615fcfa97506988a23985a472d04feb36c85d0c3a02f42b5f32017'', 1, ''alu'')],
    entry ''fcvt_5fd_5fw_162'' ''FCVT_D_W''
      [(''../namespacealu.html#a168383e119a615fcfa97506988a23985ae422def72ae64f315e098c7105f9adf5'', 1, ''alu'')],
    entry ''fcvt_5fd_5fwu_163'' ''FCVT_D_WU''
      [(''../namespacealu.html#a168383e119a615fcfa97506988a23985ab0b93a4f794311a71a89198abad1563c'', 1, ''alu'')],
    entry ''fcvt_5fl_5fd_164'' ''FCVT_L_D''
      [(''../namespacealu.html#a168383e119a615fcfa97506988a23985a1f4da7b460aed10d391276d3fb339ad3'', 1, ''alu'')],
    entry ''fcvt_5fl_5fs_165'' ''FCVT_L_S''
      [(''../namespacealu.html#a168383e119a615fcfa97506988a23985a649655ec1017a96f517093325d29f29b'', 1, ''alu'')],
    entry ''fcvt_5flu_5fd_166'' ''FCVT_LU_D''
      [(''../namespacealu.html#a168383e119a615fcfa97506988a23985acd44034c7d6e503672f4d2605f0d0dbf'', 1, ''alu'')],
    entry ''fcvt_5flu_5fs_167'' ''FCVT_LU_S''
      [(''../namespacealu.html#a168383e119a615fcfa97506988a23985a1e6967b8f50d68a577315db894032088'', 1, ''alu'')],
    entry ''fcvt_5fs_5fd_168'' ''FCVT_S_D''
      [(''../namespacealu.html#a168383e119a615fcfa97506988a23985aea810709950fcf2a825dd435d8570d83'', 1, ''alu'')],
    entry ''fcvt_5fs_5fl_169'' ''FCVT_S_L''
      [(''../namespacealu.html#a168383e119a615fcfa97506988a23985a851b0935b7dd8c5040c15fde7663263f'', 1, ''alu'')],
    entry ''fcvt_5fs_5flu_170'' ''FCVT_S_LU''
      [(''../namespacealu.html#a168383e119a615fcfa97506988a23985a0a08a3f2327314f46ac1a1aca24ae8fe'', 1, ''alu'')],
    entry ''fcvt_5fs_5fw_171'' ''FCVT_S_W''
      [(''../namespacealu.html#a168383e119a615fcfa97506988a23985a8f48d2c51d6b6988080900463dba2772'', 1, ''alu'')],
    entry ''fcvt_5fs_5fwu_172'' ''FCVT_S_WU''
      [(''../namespacealu.html#a168383e119a615fcfa97506988a23985aad5fb824d7659d49cf79a07ac4e5377a'', 1, ''alu'')],
    entry ''fcvt_5fw_5fd_173'' ''FCVT_W_D''
      [(''../namespacealu.html#a168383e119a615fcfa97506988a23985a63c070bfa598011e75b5c7726a311502'', 1, ''alu'')],
    entry ''fcvt_5fw_5fs_174'' ''FCVT_W_S''
      [(''../namespacealu.html#a168383e119a615fcfa97506988a23985a4fbe4dabd25f51231c7e15147c65bf6c'', 1, ''alu'')],
    entry ''fcvt_5fwu_5fd_175'' ''FCVT_WU_D''
      [(''../namespacealu.html#a168383e119a615fcfa97506988a23985a25bda27e263673b15f1086df68032344'', 1, ''alu'')],
    entry ''fcvt_5fwu_5fs_176'' ''FCVT_WU_S''
      [(''../namespacealu.html#a168383e119a615fcfa97506988a23985acdcdc90aa2168f46de6386753b85cae9'', 1, ''alu'')],
    entry ''fditypeinstructionencoding_177'' ''FDITypeInstructionEncoding''
      [(''../structinstruction__set_1_1FDITypeInstructionEncoding.html#ac40ca1bbaa39c6d9c9c2286eca0246be'', 1, ''instruction_set::FDITypeInstructionEncoding::FDITypeInstructionEncoding()''), (''../structinstruction__set_1_1FDITypeInstructionEncoding.html'', 1, ''instruction_set::FDITypeInstructionEncoding'')],
    entry ''fdiv_5fd_178'' ''FDIV_D''
      [(''../namespacealu.html#a168383e119a615fcfa97506988a23985ac5aeef5300baeb32375e88fbbfe64b1d'', 1, ''alu'')],
    entry ''fdiv_5fs_179'' ''FDIV_S''
      [(''../namespacealu.html#a168383e119a615fcfa97506988a23985a66ab6345455dd20bb88bb282a53e2eb5'', 1, ''alu'')],
    entry ''fdr1typeinstructionencoding_180'' ''FDR1TypeInstructionEncoding''
      [(''../structinstruction__set_1_1FDR1TypeInstructionEncoding.html#a855870293bfec624124d4df1073b2d90'', 1, ''instruction_set::FDR1TypeInstructionEncoding::FDR1TypeInstructionEncoding()''), (''../structinstruction__set_1_1FDR1TypeInstructionEncoding.html'', 1, ''instruction_set::FDR1TypeInstructionEncoding'')],
    entry ''fdr2typeinstructionencoding_181'' ''FDR2TypeInstructionEncoding''
      [(''../structinstruction__set_1_1FDR2TypeInstructionEncoding.html#a005002957bf2b27b9d963ecc9d1381c7'', 1, ''instruction_set::FDR2TypeInstructionEncoding::FDR2TypeInstructionEncoding()''), (''../structinstruction__set_1_1FDR2TypeInstructionEncoding.html'', 1, ''instruction_set::FDR2TypeInstructionEncoding'')],
    entry ''fdr3typeinstructionencoding_182'' ''FDR3TypeInstructionEncoding''
      [(''../structinstruction__set_1_1FDR3TypeInstructionEncoding.html#aae61ae9bcd9c93439c2c8f163712757a'', 1, ''instruction_set::FDR3TypeInstructionEncoding::FDR3TypeInstructionEncoding()''), (''../structinstruction__set_1_1FDR3TypeInstructionEncoding.html'', 1, ''instruction_set::FDR3TypeInstructionEncoding'')],
    entry ''fdr4typeinstructionencoding_183'' ''FDR4TypeInstructionEncoding''
      [(''../structinstruction__set_1_1FDR4TypeInstructionEncoding.html#a2837c0dd7b802bb625222b733fc69dfe'', 1, ''instruction_set::FDR4TypeInstructionEncoding::FDR4TypeInstructionEncoding()''), (''../structinstruction__set_1_1FDR4TypeInstructionEncoding.html'', 1, ''instruction_set::FDR4TypeInstructionEncoding'')],
    entry ''fdrtypeinstructionencoding_184'' ''FDRTypeInstructionEncoding''
      [(''../structinstruction__set_1_1FDRTypeInstructionEncoding.html#a5a3029cc66958d777a03b6003065289e'', 1, ''instruction_set::FDRTypeInstructionEncoding::FDRTypeInstructionEncoding()''), (''../structinstruction__set_1_1FDRTypeInstructionEncoding.html'', 1, ''instruction_set::FDRTypeInstructionEncoding'')],
    entry ''fdstypeinstructionencoding_185'' ''FDSTypeInstructionEncoding''
      [(''../structinstruction__set_1_1FDSTypeInstructionEncoding.html#a246348bf75f700aa3d77f4233d44fea4'', 1, ''instruction_set::FDSTypeInstructionEncoding::FDSTypeInstructionEncoding()''), (''../structinstruction__set_1_1FDSTypeInstructionEncoding.html'', 1, ''instruction_set::FDSTypeInstructionEncoding'')],
    entry ''feq_5fd_186'' ''FEQ_D''
      [(''../namespacealu.html#a168383e119a615fcfa97506988a23985ad36deef1de95edc020a46c7d326a6d33'', 1, ''alu'')],
    entry ''feq_5fs_187'' ''FEQ_S''
      [(''../namespacealu.html#a168383e119a615fcfa97506988a23985a6bc85118b0ed7d3689decc8fcf0223f0'', 1, ''alu'')],
    entry ''fetch_188'' ''Fetch''
      [(''../classRVSSVM.html#a1be53e68e06b88a720e8c50c1a884595'', 1, ''RVSSVM'')],
    entry ''file_189'' ''FILE''
      [(''../namespacecommand__handler.html#a44c251e1711cea6749a00f36fcb08cf4a9fc5887c030f7a3e19821ebec457e719'', 1, ''command_handler'')],
    entry ''filename_190'' ''filename''
      [(''../structAssembledProgram.html#afe8761d1f655b60e13b565f1fec54e76'', 1, ''AssembledProgram::filename()''), (''../structerrors_1_1InvalidRegisterError.html#afeeb98d590525ec9e6e01e36d3c34c98'', 1, ''errors::InvalidRegisterError::filename()''), (''../structerrors_1_1LabelRedefinitionError.html#a07c0ca45c5a48bb8ce5488865e13586e'', 1, ''errors::LabelRedefinitionError::filename()''), (''../structerrors_1_1InvalidLabelRefError.html#ab6d2587974dace37ac17572ea6f4ab38'', 1, ''errors::InvalidLabelRefError::filename()''), (''../structerrors_1_1UnexpectedOperandError.html#ad4b1bbdce58a125123430a1b632a64a6'', 1, ''errors::UnexpectedOperandError::filename()''), (''../structerrors_1_1MisalignedImmediateError.html#a570796f68e60fe299f829224d5decf39'', 1, ''errors::MisalignedImmediateError::filename()''), (''../structerrors_1_1ImmediateOutOfRangeError.html#a64603c66382f555a83c2427579315031'', 1, ''errors::ImmediateOutOfRangeError::filename()''), (''../structerrors_1_1UnexpectedTokenError.html#af0a2d62001318244e7f2e5d75a858436'', 1, ''errors::UnexpectedTokenError::filename()''), (''../structerrors_1_1SyntaxError.html#a04e7f71bb0937d5a66ff50e314a62bfa'', 1, ''errors::SyntaxError::filename()'')],
    entry ''fle_5fd_191'' ''FLE_D''
      [(''../namespacealu.html#a168383e119a615fcfa97506988a23985ad2cd6ea178048ef3af5cf6286a421844'', 1, ''alu'')],
    entry ''fle_5fs_192'' ''FLE_S''
      [(''../namespacealu.html#a168383e119a615fcfa97506988a23985a57eb9af4807eaf4727adb4169d9d602d'', 1, ''alu'')],
    entry ''float_193'' ''FLOAT''
      [(''../tokens_8h.html#aa520fbf142ba1e7e659590c07da31921ae738c26bf4ce1037fa81b039a915cbf6'', 1, ''tokens.h'')],
    entry ''floating_5fpoint_194'' ''FLOATING_POINT''
      [(''../classRegisterFile.html#ad20885f84b337c67fd63b230e11ba230a30ccd51223e55d0a8ce2bd253733f579'', 1, ''RegisterFile'')],
    entry ''flt_5fd_195'' ''FLT_D''
      [(''../namespacealu.html#a168383e119a615fcfa97506988a23985ae45538bbb6dd3c5f83a894e0bfe6b90b'', 1, ''alu'')],
    entry ''flt_5fs_196'' ''FLT_S''
      [(''../namespacealu.html#a168383e119a615fcfa97506988a23985a51644b97cff6ac7d706cdbda4e85bab7'', 1, ''alu'')],
    entry ''fmadd_5fd_197'' ''FMADD_D''
      [(''../namespacealu.html#a168383e119a615fcfa97506988a23985aa517c0a80bd5d7e9548b32cb1bb4e958'', 1, ''alu'')],
    entry ''fmax_5fd_198'' ''FMAX_D''
      [(''../namespacealu.html#a168383e119a615fcfa97506988a23985acf31ec465e8f2c8ce90922e8bd9bde67'', 1, ''alu'')],
    entry ''fmax_5fs_199'' ''FMAX_S''
      [(''../namespacealu.html#a168383e119a615fcfa97506988a23985a0a9ecfa347fcbe8f992c50acbd0e9a81'', 1, ''alu'')],
    entry ''fmin_5fd_200'' ''FMIN_D''
      [(''../namespacealu.html#a168383e119a615fcfa97506988a23985a215fa004d889ea4601eb9a3fbfbd4536'', 1, ''alu'')],
    entry ''fmin_5fs_201'' ''FMIN_S''
      [(''../namespacealu.html#a168383e119a615fcfa97506988a23985a2c17e161c8f8dd7c6f000dcf1e8761ce'', 1, ''alu'')],
    entry ''fmsub_5fd_202'' ''FMSUB_D''
      [(''../namespacealu.html#a168383e119a615fcfa97506988a23985aadf4b4488c22f5fa2eeef5701ff7de4b'', 1, ''alu'')],
    entry ''fmul_5fd_203'' ''FMUL_D''
      [(''../namespacealu.html#a168383e119a615fcfa97506988a23985af17f07c4991375cad3516e251540e551'', 1, ''alu'')],
    entry ''fmul_5fs_204'' ''FMUL_S''
      [(''../namespacealu.html#a168383e119a615fcfa97506988a23985a4e1f4b5e737c8b5bbebc5825beed2f56'', 1, ''alu'')],
    entry ''fmv_5fd_5fx_205'' ''FMV_D_X''
      [(''../namespacealu.html#a168383e119a615fcfa97506988a23985a1879daa996a14bf6b4526cdccd4d6a7d'', 1, ''alu'')],
    entry ''fmv_5fw_5fx_206'' ''FMV_W_X''
      [(''../namespacealu.html#a168383e119a615fcfa97506988a23985a156f79d476ac2489ac5972536339fe60'', 1, ''alu'')],
    entry ''fmv_5fx_5fd_207'' ''FMV_X_D''
      [(''../namespacealu.html#a168383e119a615fcfa97506988a23985a9ae5838e54ed93c698c0b3707bc28cc5'', 1, ''alu'')],
    entry ''fmv_5fx_5fw_208'' ''FMV_X_W''
      [(''../namespacealu.html#a168383e119a615fcfa97506988a23985a56c1373b3fce3d4cca0299b9869bed2e'', 1, ''alu'')],
    entry ''fnmadd_5fd_209'' ''FNMADD_D''
      [(''../namespacealu.html#a168383e119a615fcfa97506988a23985acccf68986dbd04ba54b4ebafa276a87c'', 1, ''alu'')],
    entry ''fnmsub_5fd_210'' ''FNMSUB_D''
      [(''../namespacealu.html#a168383e119a615fcfa97506988a23985abcf54fa75ec2c6e966fe7762dc5c7dbc'', 1, ''alu'')],
    entry ''fp_5fregister_211'' ''FP_REGISTER''
      [(''../tokens_8h.html#aa520fbf142ba1e7e659590c07da31921a509d68099e3f0347fb2425f1a2432564'', 1, ''tokens.h'')],
    entry ''fpexecute_212'' ''fpexecute''
      [(''../classalu_1_1Alu.html#a0c8e729c4658fa7de36a9220bfbef713'', 1, ''alu::Alu'')],
    entry ''fsgnj_5fd_213'' ''FSGNJ_D''
      [(''../namespacealu.html#a168383e119a615fcfa97506988a23985a1a3536cb9a1ceca60e085e0bbf1e919f'', 1, ''alu'')],
    entry ''fsgnj_5fs_214'' ''FSGNJ_S''
      [(''../namespacealu.html#a168383e119a615fcfa97506988a23985a46552ee28b754889304793b799c7b80a'', 1, ''alu'')],
    entry ''fsgnjn_5fd_215'' ''FSGNJN_D''
      [(''../namespacealu.html#a168383e119a615fcfa97506988a23985af512e409f6dbaf400fff95c054dc3102'', 1, ''alu'')],
    entry ''fsgnjn_5fs_216'' ''FSGNJN_S''
      [(''../namespacealu.html#a168383e119a615fcfa97506988a23985a865c8c81a8ab028a1ffc7c12423e8fa1'', 1, ''alu'')],
    entry ''fsgnjx_5fd_217'' ''FSGNJX_D''
      [(''../namespacealu.html#a168383e119a615fcfa97506988a23985ad88c0e59c7f367954cbc623eef26ad6e'', 1, ''alu'')],
    entry ''fsgnjx_5fs_218'' ''FSGNJX_S''
      [(''../namespacealu.html#a168383e119a615fcfa97506988a23985aefd9f447c49655f44e48651e510792cf'', 1, ''alu'')],
    entry ''fsqrt_5fd_219'' ''FSQRT_D''
      [(''../namespacealu.html#a168383e119a615fcfa97506988a23985a160254873bf6410473aee157220463b4'', 1, ''alu'')],
    entry ''fsqrt_5fs_220'' ''FSQRT_S''
      [(''../namespacealu.html#a168383e119a615fcfa97506988a23985a606f8aedd399fd2a05dd2a6536152f09'', 1, ''alu'')],
    entry ''fsub_5fd_221'' ''FSUB_D''
      [(''../namespacealu.html#a168383e119a615fcfa97506988a23985a11b9308c574b725019abcab40946c61c'', 1, ''alu'')],
    entry ''fsub_5fs_222'' ''FSUB_S''
      [(''../namespacealu.html#a168383e119a615fcfa97506988a23985af9f23b93c8a781a0fc9d7516c14a5955'', 1, ''alu'')],
    entry ''funct2_223'' ''funct2''
      [(''../structinstruction__set_1_1FDR4TypeInstructionEncoding.html#a3a455291d676b40cda5f23e93bf821c1'', 1, ''instruction_set::FDR4TypeInstructionEncoding'')],
    entry ''funct3_224'' ''funct3''
      [(''../structinstruction__set_1_1RTypeInstructionEncoding.html#a4e43f9ea5f70379a613129b5bdd4fda5'', 1, ''instruction_set::RTypeInstructionEncoding::funct3()''), (''../structinstruction__set_1_1FDSTypeInstructionEncoding.html#a4b1e290f4cb54d19ee03fbbff869244e'', 1, ''instruction_set::FDSTypeInstructionEncoding::funct3()''), (''../structinstruction__set_1_1FDITypeInstructionEncoding.html#aa93e447bb29391176472f39583050cec'', 1, ''instruction_set::FDITypeInstructionEncoding::funct3()''), (''../structinstruction__set_1_1FDR3TypeInstructionEncoding.html#aa18c0044ad4d05c3d99c69281b76c672'', 1, ''instruction_set::FDR3TypeInstructionEncoding::funct3()''), (''../structinstruction__set_1_1FDRTypeInstructionEncoding.html#a18f69a8d2bdc35a7d66506c0cc5d4d70'', 1, ''instruction_set::FDRTypeInstructionEncoding::funct3()''), (''../structinstruction__set_1_1CSR__ITypeInstructionEncoding.html#a3c5b7a9c03e9eeca47da3d536a0a9678'', 1, ''instruction_set::CSR_ITypeInstructionEncoding::funct3()''), (''../structinstruction__set_1_1CSR__RTypeInstructionEncoding.html#a7335a3a72d68e420e858add414a3e64b'', 1, ''instruction_set::CSR_RTypeInstructionEncoding::funct3()''), (''../structinstruction__set_1_1BTypeInstructionEncoding.html#a985dff63e46234327fc3d81a337e9d6c'', 1, ''instruction_set::BTypeInstructionEncoding::funct3()''), (''../structinstruction__set_1_1STypeInstructionEncoding.html#a6f211efd16df18f66a993f5d5b1a8e8a'', 1, ''instruction_set::STypeInstructionEncoding::funct3()''), (''../structinstruction__set_1_1I3TypeInstructionEncoding.html#a8519056dfaae40eddcb40eb3b6b8e6bf'', 1, ''instruction_set::I3TypeInstructionEncoding::funct3()''), (''../structinstruction__set_1_1I2TypeInstructionEncoding.html#a4c3a771e638deb2a9fecc8295d882580'', 1, ''instruction_set::I2TypeInstructionEncoding::funct3()''), (''../structinstruction__set_1_1I1TypeInstructionEncoding.html#a460bd8c66be953e3b6ebe2c6326186f4'', 1, ''instruction_set::I1TypeInstructionEncoding::funct3()'')],
    entry ''funct5_225'' ''funct5''
      [(''../structinstruction__set_1_1FDR2TypeInstructionEncoding.html#a5653f0285514063bd5501e08039ddd9f'', 1, ''instruction_set::FDR2TypeInstructionEncoding::funct5()''), (''../structinstruction__set_1_1FDR3TypeInstructionEncoding.html#a8823e88dc7b661a9598c1ae9167b8ac0'', 1, ''instruction_set::FDR3TypeInstructionEncoding::funct5()'')],
    entry ''funct6_226'' ''funct6''
      [(''../structinstruction__set_1_1I2TypeInstructionEncoding.html#a552de44fd98aaefc6746378d0576e78d'', 1, ''instruction_set::I2TypeInstructionEncoding'')],
    entry ''funct7_227'' ''funct7''
      [(''../structinstruction__set_1_1FDR3TypeInstructionEncoding.html#a761f544a9c0c7d693ada88232393249d'', 1, ''instruction_set::FDR3TypeInstructionEncoding::funct7()''), (''../structinstruction__set_1_1FDR2TypeInstructionEncoding.html#aa72b2415274ff2657c4c59ce8c2b177b'', 1, ''instruction_set::FDR2TypeInstructionEncoding::funct7()''), (''../structinstruction__set_1_1FDR1TypeInstructionEncoding.html#a0379667c273cf707d36212084ac6d0a9'', 1, ''instruction_set::FDR1TypeInstructionEncoding::funct7()''), (''../structinstruction__set_1_1FDRTypeInstructionEncoding.html#aed1e74714139717252495123c588c3f5'', 1, ''instruction_set::FDRTypeInstructionEncoding::funct7()''), (''../structinstruction__set_1_1I3TypeInstructionEncoding.html#a0c6468b965c8a3cc9e5a686fd72b4ee9'', 1, ''instruction_set::I3TypeInstructionEncoding::funct7()''), (''../structinstruction__set_1_1RTypeInstructionEncoding.html#a6942b880848d4bb2b88e14ab9f33f702'', 1, ''instruction_set::RTypeInstructionEncoding::funct7()'')]]"

definition all_7 :: "Entry list" where
  "all_7 = [
    entry ''generatebtypemachinecode_228'' ''generateBTypeMachineCode''
      [(''../code__generator_8h.html#a4d81b6f02d549e52c8d94d9ec42a6693'', 1, ''generateBTypeMachineCode(const ICUnit &amp;block):&#160;code_generator.cpp''), (''../code__generator_8cpp.html#a4d81b6f02d549e52c8d94d9ec42a6693'', 1, ''generateBTypeMachineCode(const ICUnit &amp;block):&#160;code_generator.cpp'')],
    entry ''generatecsritypemachinecode_229'' ''generateCSRITypeMachineCode''
      [(''../code__generator_8h.html#a87c6114dd098c78db991c97a9a06d5bf'', 1, ''generateCSRITypeMachineCode(const ICUnit &amp;block):&#160;code_generator.cpp''), (''../code__generator_8cpp.html#a87c6114dd098c78db991c97a9a06d5bf'', 1, ''generateCSRITypeMachineCode(const ICUnit &amp;block):&#160;code_generator.cpp'')],
    entry ''generatecsrrtypemachinecode_230'' ''generateCSRRTypeMachineCode''
      [(''../code__generator_8h.html#a0a624ae61d0c71c3223900cd9b6b22c0'', 1, ''generateCSRRTypeMachineCode(const ICUnit &amp;block):&#160;code_generator.cpp''), (''../code__generator_8cpp.html#a0a624ae61d0c71c3223900cd9b6b22c0'', 1, ''generateCSRRTypeMachineCode(const ICUnit &amp;block):&#160;code_generator.cpp'')],
    entry ''generateelffile_231'' ''generateElfFile''
      [(''../elf__util_8h.html#a3a3ddea539457c8134e9322a6d89cc29'', 1, ''generateElfFile(const AssembledProgram &amp;program, const std::string &amp;output_filename):&#160;elf_util.cpp''), (''../elf__util_8cpp.html#a3a3ddea539457c8134e9322a6d89cc29'', 1, ''generateElfFile(const AssembledProgram &amp;program, const std::string &amp;output_filename):&#160;elf_util.cpp'')],
    entry ''generatefditypemachinecode_232'' ''generateFDITypeMachineCode''
      [(''../code__generator_8h.html#a0d3eb18aa6888165eb840a1a79e29b8f'', 1, ''generateFDITypeMachineCode(const ICUnit &amp;block):&#160;code_generator.cpp''), (''../code__generator_8cpp.html#a0d3eb18aa6888165eb840a1a79e29b8f'', 1, ''generateFDITypeMachineCode(const ICUnit &amp;block):&#160;code_generator.cpp'')],
    entry ''generatefdr1typemachinecode_233'' ''generateFDR1TypeMachineCode''
      [(''../code__generator_8cpp.html#a8d546c09d03f4ce95067f74f563e8a8c'', 1, ''generateFDR1TypeMachineCode(const ICUnit &amp;block):&#160;code_generator.cpp''), (''../code__generator_8h.html#a8d546c09d03f4ce95067f74f563e8a8c'', 1, ''generateFDR1TypeMachineCode(const ICUnit &amp;block):&#160;code_generator.cpp'')],
    entry ''generatefdr2typemachinecode_234'' ''generateFDR2TypeMachineCode''
      [(''../code__generator_8cpp.html#a65f8a813d8a8fe2136f6756315e882bf'', 1, ''generateFDR2TypeMachineCode(const ICUnit &amp;block):&#160;code_generator.cpp''), (''../code__generator_8h.html#a65f8a813d8a8fe2136f6756315e882bf'', 1, ''generateFDR2TypeMachineCode(const ICUnit &amp;block):&#160;code_generator.cpp'')],
    entry ''generatefdr3typemachinecode_235'' ''generateFDR3TypeMachineCode''
      [(''../code__generator_8cpp.html#ab1e34732bad346700526196030dcd36c'', 1, ''generateFDR3TypeMachineCode(const ICUnit &amp;block):&#160;code_generator.cpp''), (''../code__generator_8h.html#ab1e34732bad346700526196030dcd36c'', 1, ''generateFDR3TypeMachineCode(const ICUnit &amp;block):&#160;code_generator.cpp'')],
    entry ''generatefdr4typemachinecode_236'' ''generateFDR4TypeMachineCode''
      [(''../code__generator_8cpp.html#a3d9c2799a503820dc9d97ec036b53850'', 1, ''generateFDR4TypeMachineCode(const ICUnit &amp;block):&#160;code_generator.cpp''), (''../code__generator_8h.html#a3d9c2799a503820dc9d97ec036b53850'', 1, ''generateFDR4TypeMachineCode(const ICUnit &amp;block):&#160;code_generator.cpp'')],
    entry ''generatefdrtypemachinecode_237'' ''generateFDRTypeMachineCode''
      [(''../code__generator_8cpp.html#a868bed6e507a3a1255a3767b6cd33c88'', 1, ''generateFDRTypeMachineCode(const ICUnit &amp;block):&#160;code_generator.cpp''), (''../code__generator_8h.html#a868bed6e507a3a1255a3767b6cd33c88'', 1, ''generateFDRTypeMachineCode(const ICUnit &amp;block):&#160;code_generator.cpp'')],
    entry ''generatefdstypemachinecode_238'' ''generateFDSTypeMachineCode''
      [(''../code__generator_8cpp.html#a5a3cbdf4cb88ec1982133d7de248e258'', 1, ''generateFDSTypeMachineCode(const ICUnit &amp;block):&#160;code_generator.cpp''), (''../code__generator_8h.html#a5a3cbdf4cb88ec1982133d7de248e258'', 1, ''generateFDSTypeMachineCode(const ICUnit &amp;block):&#160;code_generator.cpp'')],
    entry ''generatei1typemachinecode_239'' ''generateI1TypeMachineCode''
      [(''../code__generator_8cpp.html#a33872fd00aeb2c4854301c2359183d41'', 1, ''generateI1TypeMachineCode(const ICUnit &amp;block):&#160;code_generator.cpp''), (''../code__generator_8h.html#a33872fd00aeb2c4854301c2359183d41'', 1, ''generateI1TypeMachineCode(const ICUnit &amp;block):&#160;code_generator.cpp'')],
    entry ''generatei2typemachinecode_240'' ''generateI2TypeMachineCode''
      [(''../code__generator_8h.html#af4bdbd7df647e1570161f55e57efb5f9'', 1, ''generateI2TypeMachineCode(const ICUnit &amp;block):&#160;code_generator.cpp''), (''../code__generator_8cpp.html#af4bdbd7df647e1570161f55e57efb5f9'', 1, ''generateI2TypeMachineCode(const ICUnit &amp;block):&#160;code_generator.cpp'')],
    entry ''generatei3typemachinecode_241'' ''generateI3TypeMachineCode''
      [(''../code__generator_8cpp.html#ac649c0340f846ca6b6397eccfa8e63d7'', 1, ''generateI3TypeMachineCode(const ICUnit &amp;block):&#160;code_generator.cpp''), (''../code__generator_8h.html#ac649c0340f846ca6b6397eccfa8e63d7'', 1, ''generateI3TypeMachineCode(const ICUnit &amp;block):&#160;code_generator.cpp'')],
    entry ''generatejtypemachinecode_242'' ''generateJTypeMachineCode''
      [(''../code__generator_8h.html#a088dd6d34e9ab61e47387668051ed29d'', 1, ''generateJTypeMachineCode(const ICUnit &amp;block):&#160;code_generator.cpp''), (''../code__generator_8cpp.html#a088dd6d34e9ab61e47387668051ed29d'', 1, ''generateJTypeMachineCode(const ICUnit &amp;block):&#160;code_generator.cpp'')],
    entry ''generatemachinecode_243'' ''generateMachineCode''
      [(''../code__generator_8cpp.html#aa739ed0fa6ab154bf045cc165592be2e'', 1, ''generateMachineCode(const std::vector&lt; std::pair&lt; ICUnit, bool &gt;&gt; &amp;IntermediateCode):&#160;code_generator.cpp''), (''../code__generator_8h.html#aa739ed0fa6ab154bf045cc165592be2e'', 1, ''generateMachineCode(const std::vector&lt; std::pair&lt; ICUnit, bool &gt;&gt; &amp;IntermediateCode):&#160;code_generator.cpp'')],
    entry ''generatertypemachinecode_244'' ''generateRTypeMachineCode''
      [(''../code__generator_8h.html#ae2f66c19cde80bc9fc71361fe77b3f00'', 1, ''generateRTypeMachineCode(const ICUnit &amp;block):&#160;code_generator.cpp''), (''../code__generator_8cpp.html#ae2f66c19cde80bc9fc71361fe77b3f00'', 1, ''generateRTypeMachineCode(const ICUnit &amp;block):&#160;code_generator.cpp'')],
    entry ''generatestypemachinecode_245'' ''generateSTypeMachineCode''
      [(''../code__generator_8h.html#a6e338288e3a9f58755f65ea74598fee1'', 1, ''generateSTypeMachineCode(const ICUnit &amp;block):&#160;code_generator.cpp''), (''../code__generator_8cpp.html#a6e338288e3a9f58755f65ea74598fee1'', 1, ''generateSTypeMachineCode(const ICUnit &amp;block):&#160;code_generator.cpp'')],
    entry ''generateutypemachinecode_246'' ''generateUTypeMachineCode''
      [(''../code__generator_8cpp.html#a35e8e9da9a7ad0efdd00d1dad39024aa'', 1, ''generateUTypeMachineCode(const ICUnit &amp;block):&#160;code_generator.cpp''), (''../code__generator_8h.html#a35e8e9da9a7ad0efdd00d1dad39024aa'', 1, ''generateUTypeMachineCode(const ICUnit &amp;block):&#160;code_generator.cpp'')],
    entry ''get_5fmemory_5fpoint_247'' ''GET_MEMORY_POINT''
      [(''../namespacecommand__handler.html#a49f72bb84305031f68e77b48be812681a8c3c1a5f272ba8b70b2de2d21d98ef69'', 1, ''command_handler'')],
    entry ''getaluop_248'' ''GetAluOp''
      [(''../classControlUnit.html#a565e160c83b2eb0df2b1d3dea39bd020'', 1, ''ControlUnit'')],
    entry ''getalusignal_249'' ''GetAluSignal''
      [(''../classControlUnit.html#a1afc2ad8d7fbf319ad99c0e6ea79f5be'', 1, ''ControlUnit::GetAluSignal()''), (''../classRVSSControlUnit.html#a779395276e46b48b9a7865fc34ae9833'', 1, ''RVSSControlUnit::GetAluSignal()'')],
    entry ''getalusrc_250'' ''GetAluSrc''
      [(''../classControlUnit.html#acd431538d9150b789bfc7bc9a2f472ff'', 1, ''ControlUnit'')],
    entry ''getbranch_251'' ''GetBranch''
      [(''../classControlUnit.html#a04a26bf58d120d77849b9e6eeb0bdeec'', 1, ''ControlUnit'')],
    entry ''getbsssectionstart_252'' ''getBssSectionStart''
      [(''../structvm__config_1_1VmConfig.html#a0e7ae7889bdc62a23cbc66fad14e35f2'', 1, ''vm_config::VmConfig'')],
    entry ''getcsr_253'' ''getCsr''
      [(''../structICUnit.html#a5712a8ffe1abc00cf9ac290ff449e528'', 1, ''ICUnit'')],
    entry ''getdatabuffer_254'' ''getDataBuffer''
      [(''../classParser.html#a2a9e753b21da475990d24d6cc76df432'', 1, ''Parser'')],
    entry ''getdatasectionstart_255'' ''getDataSectionStart''
      [(''../structvm__config_1_1VmConfig.html#ad0e10a53f879c0e238cad84910424999'', 1, ''vm_config::VmConfig'')],
    entry ''geterrorcount_256'' ''getErrorCount''
      [(''../classParser.html#a77be2d371758afe4ce067b3bd73f5693'', 1, ''Parser'')],
    entry ''geterrors_257'' ''getErrors''
      [(''../classParser.html#a3013f3bc6bb73bffe54413d7d6e24d3c'', 1, ''Parser'')],
    entry ''getexpectedsyntaxes_258'' ''getExpectedSyntaxes''
      [(''../namespaceinstruction__set.html#a605befee774c8275dccbdf096ac5b66f'', 1, ''instruction_set'')],
    entry ''getfilename_259'' ''getFilename''
      [(''../classLexer.html#ac9f432d29889532c2930bdb462c906da'', 1, ''Lexer'')],
    entry ''getfprvalues_260'' ''GetFprValues''
      [(''../classRegisterFile.html#a93f099cce5c1bb800d4a481d2424732c'', 1, ''RegisterFile'')],
    entry ''getgprvalues_261'' ''GetGprValues''
      [(''../classRegisterFile.html#a106a489cfac656e42303821efc8e1d8d'', 1, ''RegisterFile'')],
    entry ''getimm_262'' ''getImm''
      [(''../structICUnit.html#a6c90684f9efa240a24612c7e73166acb'', 1, ''ICUnit'')],
    entry ''getinstructionindex_263'' ''getInstructionIndex''
      [(''../structICUnit.html#a83e2b707b35e48f75f123b32e6cb15fb'', 1, ''ICUnit'')],
    entry ''getinstructionnumberlinenumbermapping_264'' ''getInstructionNumberLineNumberMapping''
      [(''../classParser.html#ab87f4b382a805319397f0dc334cb6846'', 1, ''Parser'')],
    entry ''getintermediatecode_265'' ''getIntermediateCode''
      [(''../classParser.html#ab107a7fe36c012612760c415b45ce30d'', 1, ''Parser'')],
    entry ''getlabel_266'' ''getLabel''
      [(''../structICUnit.html#a48541c71a4005599181fa9ec022551f4'', 1, ''ICUnit'')],
    entry ''getlinefromfile_267'' ''GetLineFromFile''
      [(''../utils_8cpp.html#a110b46ab6e189c14e24ed3e35680b91a'', 1, ''GetLineFromFile(const std::string &amp;fileName, unsigned int lineNumber):&#160;utils.cpp''), (''../utils_8h.html#a110b46ab6e189c14e24ed3e35680b91a'', 1, ''GetLineFromFile(const std::string &amp;fileName, unsigned int lineNumber):&#160;utils.cpp'')],
    entry ''getlinenumber_268'' ''getLineNumber''
      [(''../structICUnit.html#aa90e09cadd85f9e91d0f365b9d991a49'', 1, ''ICUnit'')],
    entry ''getmemoryblocksize_269'' ''getMemoryBlockSize''
      [(''../structvm__config_1_1VmConfig.html#a2dcb5a8dd0a4ae911fea084c2f300ada'', 1, ''vm_config::VmConfig'')],
    entry ''getmemorypoint_270'' ''GetMemoryPoint''
      [(''../classMemory.html#a9e97d95abba646be547575aba6040b3d'', 1, ''Memory::GetMemoryPoint()''), (''../classMemoryController.html#aef994bbc0b076d2cc6ba3ec7b0874ddc'', 1, ''MemoryController::GetMemoryPoint()'')],
    entry ''getmemorysize_271'' ''getMemorySize''
      [(''../structvm__config_1_1VmConfig.html#a659405ba2c6bba936a3b9aeb83048624'', 1, ''vm_config::VmConfig'')],
    entry ''getmemread_272'' ''GetMemRead''
      [(''../classControlUnit.html#a80b4ea7f72df18dd6f131d3df78b53bc'', 1, ''ControlUnit'')],
    entry ''getmemtoreg_273'' ''GetMemToReg''
      [(''../classControlUnit.html#ad9b4db62cc16d6b84dcd4e151e833827'', 1, ''ControlUnit'')],
    entry ''getmemwrite_274'' ''GetMemWrite''
      [(''../classControlUnit.html#aba7acd531c64f7437878c58405e3c9dc'', 1, ''ControlUnit'')],
    entry ''getopcode_275'' ''getOpcode''
      [(''../structICUnit.html#adb5ed326c13be41d0ed272878ee7f261'', 1, ''ICUnit'')],
    entry ''getprogramcounter_276'' ''GetProgramCounter''
      [(''../classVmBase.html#ae06d1a2ba1a7a9fbece71f643943dbd2'', 1, ''VmBase'')],
    entry ''getrd_277'' ''getRd''
      [(''../structICUnit.html#a21974b7d3094b23d555327a06106320f'', 1, ''ICUnit'')],
    entry ''getregwrite_278'' ''GetRegWrite''
      [(''../classControlUnit.html#a227e2639cc27b79d0d6b75b56484bce4'', 1, ''ControlUnit'')],
    entry ''getrm_279'' ''getRm''
      [(''../structICUnit.html#ab07219f827335b338905e555b5a05263'', 1, ''ICUnit'')],
    entry ''getroundingmodeencoding_280'' ''getRoundingModeEncoding''
      [(''../rounding__modes_8h.html#a962a82ec0d2a48a2dbc57543dcac47f3'', 1, ''rounding_modes.h'')],
    entry ''getrs1_281'' ''getRs1''
      [(''../structICUnit.html#aca70c5bd0f84b5a76f4b8ea54d8a5142'', 1, ''ICUnit'')],
    entry ''getrs2_282'' ''getRs2''
      [(''../structICUnit.html#af81c7a33972a78b4c84e5f87a002f519'', 1, ''ICUnit'')],
    entry ''getrs3_283'' ''getRs3''
      [(''../structICUnit.html#acd6d068cf95577e4a2b13fc5c15f5912'', 1, ''ICUnit'')],
    entry ''getrunstepdelay_284'' ''getRunStepDelay''
      [(''../structvm__config_1_1VmConfig.html#a1362515d9135ef841481091006ba0200'', 1, ''vm_config::VmConfig'')],
    entry ''getsymboltable_285'' ''getSymbolTable''
      [(''../classParser.html#a55ac3e96e11c10a98adedfb0c7abdb70'', 1, ''Parser'')],
    entry ''gettextsectionstart_286'' ''getTextSectionStart''
      [(''../structvm__config_1_1VmConfig.html#a8957ed6ce1a78c46440ddd4a6a59558b'', 1, ''vm_config::VmConfig'')],
    entry ''gettokenlist_287'' ''getTokenList''
      [(''../classLexer.html#ad66eb14085f3fe976763c53f9bbaf3e8'', 1, ''Lexer'')],
    entry ''getvmtype_288'' ''getVmType''
      [(''../structvm__config_1_1VmConfig.html#aebb2b9192cf97c6c5f996c355fe52e5d'', 1, ''vm_config::VmConfig'')],
    entry ''globals_289'' ''globals''
      [(''../namespaceglobals.html'', 1, '''')],
    entry ''globals_2ecpp_290'' ''globals.cpp''
      [(''../globals_8cpp.html'', 1, '''')],
    entry ''globals_2eh_291'' ''globals.h''
      [(''../globals_8h.html'', 1, '''')],
    entry ''gp_5fregister_292'' ''GP_REGISTER''
      [(''../tokens_8h.html#aa520fbf142ba1e7e659590c07da31921a1d60368c2a139a81b67353e844cc5ad7'', 1, ''tokens.h'')]]"

definition all_9 :: "Entry list" where
  "all_9 = [
    entry ''i1_5ftype_5finstruction_5fencoding_5fmap_295'' ''I1_type_instruction_encoding_map''
      [(''../namespaceinstruction__set.html#ad362b1b3167d50a18c67c280b54012b3'', 1, ''instruction_set'')],
    entry ''i1typeinstructionencoding_296'' ''I1TypeInstructionEncoding''
      [(''../structinstruction__set_1_1I1TypeInstructionEncoding.html#a7f66a058923d214fbd7a6c2d2fef4dfb'', 1, ''instruction_set::I1TypeInstructionEncoding::I1TypeInstructionEncoding()''), (''../structinstruction__set_1_1I1TypeInstructionEncoding.html'', 1, ''instruction_set::I1TypeInstructionEncoding'')],
    entry ''i2_5ftype_5finstruction_5fencoding_5fmap_297'' ''I2_type_instruction_encoding_map''
      [(''../namespaceinstruction__set.html#a51290da536b0f0b8fad0e76c5d63300c'', 1, ''instruction_set'')],
    entry ''i2typeinstructionencoding_298'' ''I2TypeInstructionEncoding''
      [(''../structinstruction__set_1_1I2TypeInstructionEncoding.html#a92358a53cd1c0f302bf3aa013caa0e16'', 1, ''instruction_set::I2TypeInstructionEncoding::I2TypeInstructionEncoding()''), (''../structinstruction__set_1_1I2TypeInstructionEncoding.html'', 1, ''instruction_set::I2TypeInstructionEncoding'')],
    entry ''i3_5ftype_5finstruction_5fencoding_5fmap_299'' ''I3_type_instruction_encoding_map''
      [(''../namespaceinstruction__set.html#a1e1482a4d9c3475f9750286a89db56ac'', 1, ''instruction_set'')],
    entry ''i3typeinstructionencoding_300'' ''I3TypeInstructionEncoding''
      [(''../structinstruction__set_1_1I3TypeInstructionEncoding.html#a0861c0732d16aed1b4c583a195ad2edc'', 1, ''instruction_set::I3TypeInstructionEncoding::I3TypeInstructionEncoding()''), (''../structinstruction__set_1_1I3TypeInstructionEncoding.html'', 1, ''instruction_set::I3TypeInstructionEncoding'')],
    entry ''i_5fm_5fformats_2ecpp_301'' ''i_m_formats.cpp''
      [(''../i__m__formats_8cpp.html'', 1, '''')],
    entry ''icunit_302'' ''ICUnit''
      [(''../structICUnit.html#a4d709ebd2a3d1a0611f26b2ae8f7aae7'', 1, ''ICUnit::ICUnit()''), (''../structICUnit.html'', 1, ''ICUnit'')],
    entry ''identifier_303'' ''IDENTIFIER''
      [(''../tokens_8h.html#aa520fbf142ba1e7e659590c07da31921a6fcc416051346daca31c571646af127a'', 1, ''tokens.h'')],
    entry ''imm_304'' ''imm''
      [(''../structICUnit.html#af49f5da98a756c635f14a0201dee9076'', 1, ''ICUnit'')],
    entry ''immediate_5fout_5fof_5frange_305'' ''IMMEDIATE_OUT_OF_RANGE''
      [(''../namespaceerrors.html#a08d49fe09bd28d4b06dc27d2a5e3e2aea1a90c26e5e0d02b67ccd5eeb0437752a'', 1, ''errors'')],
    entry ''immediateoutofrangeerror_306'' ''ImmediateOutOfRangeError''
      [(''../structerrors_1_1ImmediateOutOfRangeError.html'', 1, ''errors::ImmediateOutOfRangeError''), (''../structerrors_1_1ImmediateOutOfRangeError.html#aac7879e5e7c1b6c819704f6d77c34cae'', 1, ''errors::ImmediateOutOfRangeError::ImmediateOutOfRangeError()'')],
    entry ''immgenerator_307'' ''ImmGenerator''
      [(''../classVmBase.html#a9199d1c306e603e506cf57f274b9e184'', 1, ''VmBase'')],
    entry ''info_5farch_308'' ''info_arch''
      [(''../cmake-build-debug_2CMakeFiles_23_831_86_2CompilerIdCXX_2CMakeCXXCompilerId_8cpp.html#a59647e99d304ed33b15cb284c27ed391'', 1, ''info_arch():&#160;CMakeCXXCompilerId.cpp''), (''../build_2CMakeFiles_23_822_81_2CompilerIdCXX_2CMakeCXXCompilerId_8cpp.html#a59647e99d304ed33b15cb284c27ed391'', 1, ''info_arch():&#160;CMakeCXXCompilerId.cpp'')],
    entry ''info_5fcompiler_309'' ''info_compiler''
      [(''../cmake-build-debug_2CMakeFiles_23_831_86_2CompilerIdCXX_2CMakeCXXCompilerId_8cpp.html#a4b0efeb7a5d59313986b3a0390f050f6'', 1, ''info_compiler():&#160;CMakeCXXCompilerId.cpp''), (''../build_2CMakeFiles_23_822_81_2CompilerIdCXX_2CMakeCXXCompilerId_8cpp.html#a4b0efeb7a5d59313986b3a0390f050f6'', 1, ''info_compiler():&#160;CMakeCXXCompilerId.cpp'')],
    entry ''info_5flanguage_5fextensions_5fdefault_310'' ''info_language_extensions_default''
      [(''../cmake-build-debug_2CMakeFiles_23_831_86_2CompilerIdCXX_2CMakeCXXCompilerId_8cpp.html#a0f46a8a39e09d9b803c4766904fd7e99'', 1, ''info_language_extensions_default():&#160;CMakeCXXCompilerId.cpp''), (''../build_2CMakeFiles_23_822_81_2CompilerIdCXX_2CMakeCXXCompilerId_8cpp.html#a0f46a8a39e09d9b803c4766904fd7e99'', 1, ''info_language_extensions_default():&#160;CMakeCXXCompilerId.cpp'')],
    entry ''info_5flanguage_5fstandard_5fdefault_311'' ''info_language_standard_default''
      [(''../build_2CMakeFiles_23_822_81_2CompilerIdCXX_2CMakeCXXCompilerId_8cpp.html#a4607cccf070750927b458473ca82c090'', 1, ''info_language_standard_default():&#160;CMakeCXXCompilerId.cpp''), (''../cmake-build-debug_2CMakeFiles_23_831_86_2CompilerIdCXX_2CMakeCXXCompilerId_8cpp.html#a4607cccf070750927b458473ca82c090'', 1, ''info_language_standard_default():&#160;CMakeCXXCompilerId.cpp'')],
    entry ''info_5fplatform_312'' ''info_platform''
      [(''../cmake-build-debug_2CMakeFiles_23_831_86_2CompilerIdCXX_2CMakeCXXCompilerId_8cpp.html#a2321403dee54ee23f0c2fa849c60f7d4'', 1, ''info_platform():&#160;CMakeCXXCompilerId.cpp''), (''../build_2CMakeFiles_23_822_81_2CompilerIdCXX_2CMakeCXXCompilerId_8cpp.html#a2321403dee54ee23f0c2fa849c60f7d4'', 1, ''info_platform():&#160;CMakeCXXCompilerId.cpp'')],
    entry ''initglobals_313'' ''initGlobals''
      [(''../namespaceglobals.html#aa11e5b4f00b5bec36fe4cf155707e56b'', 1, ''globals'')],
    entry ''input_5fcv_5f_314'' ''input_cv_''
      [(''../classVmBase.html#a3f3f7acd3cdc0f509085049ae541f5e1'', 1, ''VmBase'')],
    entry ''input_5fmutex_5f_315'' ''input_mutex_''
      [(''../classVmBase.html#adf47d6d0cc8d768751cac1c2d6f11dd9'', 1, ''VmBase'')],
    entry ''input_5fqueue_5f_316'' ''input_queue_''
      [(''../classVmBase.html#a413f7f50a3817358470807a248d1d804'', 1, ''VmBase'')],
    entry ''instruction_5findex_317'' ''instruction_index''
      [(''../structICUnit.html#a081ce1e12c3d898aae2c2e42c75a8254'', 1, ''ICUnit'')],
    entry ''instruction_5fnumber_5fdisassembly_5fmapping_318'' ''instruction_number_disassembly_mapping''
      [(''../structAssembledProgram.html#aea01dd49d19c5c2a4f1d3581514d57e7'', 1, ''AssembledProgram'')],
    entry ''instruction_5fnumber_5fline_5fnumber_5fmapping_319'' ''instruction_number_line_number_mapping''
      [(''../structAssembledProgram.html#ade3312b57abb948a18eee54e64cb4203'', 1, ''AssembledProgram'')],
    entry ''instruction_5fset_320'' ''instruction_set''
      [(''../namespaceinstruction__set.html'', 1, '''')],
    entry ''instruction_5fsyntax_5fmap_321'' ''instruction_syntax_map''
      [(''../namespaceinstruction__set.html#a5e20a1ab57999f19806854d6ccceeedb'', 1, ''instruction_set'')],
    entry ''instructions_2ecpp_322'' ''instructions.cpp''
      [(''../instructions_8cpp.html'', 1, '''')],
    entry ''instructions_2eh_323'' ''instructions.h''
      [(''../instructions_8h.html'', 1, '''')],
    entry ''instructions_5fretired_5f_324'' ''instructions_retired_''
      [(''../classVmBase.html#a7c2b1c72a3420353a658128abfbb5a68'', 1, ''VmBase'')],
    entry ''integer_325'' ''INTEGER''
      [(''../classRegisterFile.html#ad20885f84b337c67fd63b230e11ba230a5d5cd46919fa987731fb2edefe0f2a0c'', 1, ''RegisterFile'')],
    entry ''intermediate_5fcode_326'' ''intermediate_code''
      [(''../structAssembledProgram.html#a74bda4728c9cf522dfffb108f9f4af2f'', 1, ''AssembledProgram'')],
    entry ''invalid_327'' ''INVALID''
      [(''../namespacecommand__handler.html#a49f72bb84305031f68e77b48be812681accc0377a8afbf50e7094f5c23a8af223'', 1, ''command_handler::INVALID()''), (''../tokens_8h.html#aa520fbf142ba1e7e659590c07da31921accc0377a8afbf50e7094f5c23a8af223'', 1, ''INVALID():&#160;tokens.h''), (''../classRegisterFile.html#ad20885f84b337c67fd63b230e11ba230accc0377a8afbf50e7094f5c23a8af223'', 1, ''RegisterFile::INVALID()'')],
    entry ''invalid_5fdirective_328'' ''INVALID_DIRECTIVE''
      [(''../namespaceerrors.html#a08d49fe09bd28d4b06dc27d2a5e3e2aeac9a9219dfe74bd3ad1c359a2f1082822'', 1, ''errors'')],
    entry ''invalid_5fimmediate_329'' ''INVALID_IMMEDIATE''
      [(''../namespaceerrors.html#a08d49fe09bd28d4b06dc27d2a5e3e2aeae1b0ba36bd640cb2081a4b665a8765bf'', 1, ''errors'')],
    entry ''invalid_5finstruction_330'' ''INVALID_INSTRUCTION''
      [(''../namespaceerrors.html#a08d49fe09bd28d4b06dc27d2a5e3e2aea2e28fa293e2ca8aca645d85ad05096c3'', 1, ''errors'')],
    entry ''invalid_5flabel_331'' ''INVALID_LABEL''
      [(''../namespaceerrors.html#a08d49fe09bd28d4b06dc27d2a5e3e2aeab3d145c731fec2adf80f7632dd981b47'', 1, ''errors'')],
    entry ''invalid_5flabel_5fref_332'' ''INVALID_LABEL_REF''
      [(''../namespaceerrors.html#a08d49fe09bd28d4b06dc27d2a5e3e2aeac4b6dda0a90cf1815860d0860989623d'', 1, ''errors'')],
    entry ''invalid_5foperand_333'' ''INVALID_OPERAND''
      [(''../namespaceerrors.html#a08d49fe09bd28d4b06dc27d2a5e3e2aea6bf179afa8f7fba18cf39bc0ca6fe043'', 1, ''errors'')],
    entry ''invalid_5fregister_334'' ''INVALID_REGISTER''
      [(''../namespaceerrors.html#a08d49fe09bd28d4b06dc27d2a5e3e2aea7277cc675779f41d6cd80f43a8ec702f'', 1, ''errors'')],
    entry ''invalid_5fsyntax_335'' ''INVALID_SYNTAX''
      [(''../namespaceerrors.html#a08d49fe09bd28d4b06dc27d2a5e3e2aea3fba68b9108afef4ec5c2eb304dd63ff'', 1, ''errors'')],
    entry ''invalid_5ftoken_336'' ''INVALID_TOKEN''
      [(''../namespaceerrors.html#a08d49fe09bd28d4b06dc27d2a5e3e2aea506556a229186f5b45f364032625ff5b'', 1, ''errors'')],
    entry ''invalidlabelreferror_337'' ''InvalidLabelRefError''
      [(''../structerrors_1_1InvalidLabelRefError.html'', 1, ''errors::InvalidLabelRefError''), (''../structerrors_1_1InvalidLabelRefError.html#a36496c8b6282dead983d9944a9c22f84'', 1, ''errors::InvalidLabelRefError::InvalidLabelRefError()'')],
    entry ''invalidregistererror_338'' ''InvalidRegisterError''
      [(''../structerrors_1_1InvalidRegisterError.html'', 1, ''errors::InvalidRegisterError''), (''../structerrors_1_1InvalidRegisterError.html#a68e3f93c7dc5d12afd4e76edbcf7f65f'', 1, ''errors::InvalidRegisterError::InvalidRegisterError()'')],
    entry ''ipc_5f_339'' ''ipc_''
      [(''../classVmBase.html#aaf1754c3ace71973679ec2f9a212d737'', 1, ''VmBase'')],
    entry ''isdata_340'' ''isData''
      [(''../structSymbolData.html#a492cfec3ac0ddfa948d5697d461b2d7b'', 1, ''SymbolData'')],
    entry ''isdinstruction_341'' ''isDInstruction''
      [(''../namespaceinstruction__set.html#a5303fb0dd8dd34c268231c47f85a02fc'', 1, ''instruction_set'')],
    entry ''isfinstruction_342'' ''isFInstruction''
      [(''../namespaceinstruction__set.html#aa2718ca4cc03370f5c3d248ed59028b6'', 1, ''instruction_set'')],
    entry ''isready_343'' ''isReady''
      [(''../classMMIODevice.html#a8ac879e79e627377225ba4deadff8cf2'', 1, ''MMIODevice::isReady()''), (''../classNullMMIODevice.html#a8729e229bae85836add7a151cc3f1968'', 1, ''NullMMIODevice::isReady()'')],
    entry ''isstoprequested_344'' ''IsStopRequested''
      [(''../classRVSSVM.html#a5e21b4bd05329a9f78579208988de719'', 1, ''RVSSVM'')],
    entry ''isvalidbaseextensioninstruction_345'' ''isValidBaseExtensionInstruction''
      [(''../namespaceinstruction__set.html#a3e26615428ea0891ded649073e440d88'', 1, ''instruction_set'')],
    entry ''isvalidbtypeinstruction_346'' ''isValidBTypeInstruction''
      [(''../namespaceinstruction__set.html#a9f7fd6439b8f1fdf3fa6c4b846161a60'', 1, ''instruction_set'')],
    entry ''isvalidcsr_347'' ''IsValidCsr''
      [(''../registers_8h.html#aca47a0deb2cf271388bcba061c11ba94'', 1, ''IsValidCsr(const std::string &amp;reg):&#160;registers.cpp''), (''../registers_8cpp.html#aca47a0deb2cf271388bcba061c11ba94'', 1, ''IsValidCsr(const std::string &amp;reg):&#160;registers.cpp'')],
    entry ''isvalidcsrinstruction_348'' ''isValidCSRInstruction''
      [(''../namespaceinstruction__set.html#a200e08acd1cac12dc89b25fba97fa6ac'', 1, ''instruction_set'')],
    entry ''isvalidcsritypeinstruction_349'' ''isValidCSRITypeInstruction''
      [(''../namespaceinstruction__set.html#ac19e70a283ee2e1b15125faad66ba23e'', 1, ''instruction_set'')],
    entry ''isvalidcsrrtypeinstruction_350'' ''isValidCSRRTypeInstruction''
      [(''../namespaceinstruction__set.html#a390f2245d92958d7d6e67df52fdeab34'', 1, ''instruction_set'')],
    entry ''isvalidfditypeinstruction_351'' ''isValidFDITypeInstruction''
      [(''../namespaceinstruction__set.html#afafd6b6e78053bc61fb215a4e3134ca3'', 1, ''instruction_set'')],
    entry ''isvalidfdr1typeinstruction_352'' ''isValidFDR1TypeInstruction''
      [(''../namespaceinstruction__set.html#a41eeac0550849ef37fa33ff84cf76a2f'', 1, ''instruction_set'')],
    entry ''isvalidfdr2typeinstruction_353'' ''isValidFDR2TypeInstruction''
      [(''../namespaceinstruction__set.html#a708f1663efb124992763e7df4a28345e'', 1, ''instruction_set'')],
    entry ''isvalidfdr3typeinstruction_354'' ''isValidFDR3TypeInstruction''
      [(''../namespaceinstruction__set.html#ab0c4f49b586d5b40444c37be298aad10'', 1, ''instruction_set'')],
    entry ''isvalidfdr4typeinstruction_355'' ''isValidFDR4TypeInstruction''
      [(''../namespaceinstruction__set.html#a431026007ab52b5f443f62b0282a5632'', 1, ''instruction_set'')],
    entry ''isvalidfdrtypeinstruction_356'' ''isValidFDRTypeInstruction''
      [(''../namespaceinstruction__set.html#a1dd7f86382bd6577c7b880367f5912fa'', 1, ''instruction_set'')],
    entry ''isvalidfdstypeinstruction_357'' ''isValidFDSTypeInstruction''
      [(''../namespaceinstruction__set.html#aab688f810da37e8780510aab2f2232a0'', 1, ''instruction_set'')],
    entry ''isvalidfloatingpointregister_358'' ''IsValidFloatingPointRegister''
      [(''../registers_8h.html#aa1a257a2fc15d22847dad688c8b3bedd'', 1, ''IsValidFloatingPointRegister(const std::string &amp;reg):&#160;registers.cpp''), (''../registers_8cpp.html#aa1a257a2fc15d22847dad688c8b3bedd'', 1, ''IsValidFloatingPointRegister(const std::string &amp;reg):&#160;registers.cpp'')],
    entry ''isvalidgeneralpurposeregister_359'' ''IsValidGeneralPurposeRegister''
      [(''../registers_8h.html#ac5db3171f17fd09e341027d11d438649'', 1, ''IsValidGeneralPurposeRegister(const std::string &amp;reg):&#160;registers.cpp''), (''../registers_8cpp.html#ac5db3171f17fd09e341027d11d438649'', 1, ''IsValidGeneralPurposeRegister(const std::string &amp;reg):&#160;registers.cpp'')],
    entry ''isvalidi1typeinstruction_360'' ''isValidI1TypeInstruction''
      [(''../namespaceinstruction__set.html#a2686c6cb47421100c0845826a00d6686'', 1, ''instruction_set'')],
    entry ''isvalidi2typeinstruction_361'' ''isValidI2TypeInstruction''
      [(''../namespaceinstruction__set.html#a1157d60c5ad00551432b62c74dce93ce'', 1, ''instruction_set'')],
    entry ''isvalidi3typeinstruction_362'' ''isValidI3TypeInstruction''
      [(''../namespaceinstruction__set.html#ab009114befd859670c1b6a60a4d4a675'', 1, ''instruction_set'')],
    entry ''isvalidinstruction_363'' ''isValidInstruction''
      [(''../namespaceinstruction__set.html#a684c8ea1bb0cd5f2fcdb698286ce49bd'', 1, ''instruction_set'')],
    entry ''isvaliditypeinstruction_364'' ''isValidITypeInstruction''
      [(''../namespaceinstruction__set.html#ac10fca95259b7db81e9d64605dd6d7fd'', 1, ''instruction_set'')],
    entry ''isvalidjtypeinstruction_365'' ''isValidJTypeInstruction''
      [(''../namespaceinstruction__set.html#a40834369e5972193df7c74fa8d3cd7c4'', 1, ''instruction_set'')],
    entry ''isvalidpseudoinstruction_366'' ''isValidPseudoInstruction''
      [(''../namespaceinstruction__set.html#adf2c87a1fa7b27e0012e3eaf1f575538'', 1, ''instruction_set'')],
    entry ''isvalidroundingmode_367'' ''isValidRoundingMode''
      [(''../rounding__modes_8h.html#aa3da17e665094fd5998a93e445d00574'', 1, ''rounding_modes.h'')],
    entry ''isvalidrtypeinstruction_368'' ''isValidRTypeInstruction''
      [(''../namespaceinstruction__set.html#a2dbf58ce982702b5ebd65bedbad55f1a'', 1, ''instruction_set'')],
    entry ''isvalidstypeinstruction_369'' ''isValidSTypeInstruction''
      [(''../namespaceinstruction__set.html#a402f2c32c5f3981e732c5a7bada97398'', 1, ''instruction_set'')],
    entry ''isvalidutypeinstruction_370'' ''isValidUTypeInstruction''
      [(''../namespaceinstruction__set.html#a72120155b1b49e86de5a21a140757e0c'', 1, ''instruction_set'')]]"

definition all_11 :: "Entry list" where
  "all_11 = [
    entry ''r_5ftype_5finstruction_5fencoding_5fmap_522'' ''R_type_instruction_encoding_map''
      [(''../namespaceinstruction__set.html#a859191af4ff841c4c7486a6a19c7fa7a'', 1, ''instruction_set'')],
    entry ''rd_523'' ''rd''
      [(''../structICUnit.html#aa9aa05995849c6ac8cbe1d127d1f922e'', 1, ''ICUnit'')],
    entry ''rdn_524'' ''RDN''
      [(''../rounding__modes_8h.html#a5959c934b204c7bcb6766cfaea8ae101a099ecf1e2eedcbbb36750f8ad7fc7f81'', 1, ''rounding_modes.h'')],
    entry ''read_525'' ''read''
      [(''../classMMIODevice.html#a6f9adf6e93f19bbfa338e7949a9883e3'', 1, ''MMIODevice'')],
    entry ''read_526'' ''Read''
      [(''../classMemory.html#a0592958b79513334df0e9f232e5a163c'', 1, ''Memory'')],
    entry ''read_527'' ''read''
      [(''../classNullMMIODevice.html#aa4b093620ac33855095b696eb0ae20fc'', 1, ''NullMMIODevice'')],
    entry ''readbyte_528'' ''ReadByte''
      [(''../classMemory.html#aa53fe987c4303016ac2a91b32d65b309'', 1, ''Memory::ReadByte()''), (''../classMemoryController.html#ac0a504cb9ae8065ebc91cbce203dacf0'', 1, ''MemoryController::ReadByte()'')],
    entry ''readcsr_529'' ''ReadCsr''
      [(''../classRegisterFile.html#a864f6e3b6ccc65796223c13c390a8d60'', 1, ''RegisterFile'')],
    entry ''readdouble_530'' ''ReadDouble''
      [(''../classMemory.html#ab7acb8461bac56c3eb1c3be43ef3feff'', 1, ''Memory'')],
    entry ''readdoubleword_531'' ''ReadDoubleWord''
      [(''../classMemory.html#ae1900b5cdf0c66884cb93429c64811d6'', 1, ''Memory::ReadDoubleWord()''), (''../classMemoryController.html#a56739a684cfb225821f97705375d0f5e'', 1, ''MemoryController::ReadDoubleWord()'')],
    entry ''readfloat_532'' ''ReadFloat''
      [(''../classMemory.html#a82b7d51b7b49f9cc0d50d813e9b77e60'', 1, ''Memory'')],
    entry ''readfpr_533'' ''ReadFpr''
      [(''../classRegisterFile.html#ab208db6a17dac266e798394febce6c0b'', 1, ''RegisterFile'')],
    entry ''readgpr_534'' ''ReadGpr''
      [(''../classRegisterFile.html#a6704c638818fdc97fc5d432687c94459'', 1, ''RegisterFile'')],
    entry ''readhalfword_535'' ''ReadHalfWord''
      [(''../classMemory.html#aa7701c410bbb32090b6910212c8a586a'', 1, ''Memory::ReadHalfWord()''), (''../classMemoryController.html#a62594f53e0fccbe647db3fdf5a0027dc'', 1, ''MemoryController::ReadHalfWord()'')],
    entry ''readme_2emd_536'' ''README.md''
      [(''../README_8md.html'', 1, '''')],
    entry ''readword_537'' ''ReadWord''
      [(''../classMemoryController.html#addf77851cb24edf69828e751a22d6850'', 1, ''MemoryController::ReadWord()''), (''../classMemory.html#a3bc0c3ed25c705a2d3013b1c56e3693d'', 1, ''Memory::ReadWord()'')],
    entry ''redo_538'' ''Redo''
      [(''../classRVSSVM.html#a9cb130b8c84159be82027d49ce3e4279'', 1, ''RVSSVM::Redo()''), (''../classVmBase.html#ab323c0d074c2ceb9885746d1073ed505'', 1, ''VmBase::Redo()'')],
    entry ''redo_539'' ''REDO''
      [(''../namespacecommand__handler.html#a49f72bb84305031f68e77b48be812681ac07bf946a7da4553f9f2776656e0d60f'', 1, ''command_handler'')],
    entry ''redo_5fstack_5f_540'' ''redo_stack_''
      [(''../classRVSSVM.html#ab108a22ac8ca3f2634b8cd2322736f1d'', 1, ''RVSSVM'')],
    entry ''reg_5falias_5fto_5fname_541'' ''reg_alias_to_name''
      [(''../registers_8h.html#af4ede5aac2f7597ad13f0a67cb8b13b5'', 1, ''reg_alias_to_name():&#160;registers.cpp''), (''../registers_8cpp.html#af4ede5aac2f7597ad13f0a67cb8b13b5'', 1, ''reg_alias_to_name():&#160;registers.cpp'')],
    entry ''reg_5findex_542'' ''reg_index''
      [(''../structRegisterChange.html#afb16485a17aff6acb690782da5dcb713'', 1, ''RegisterChange'')],
    entry ''reg_5ftype_543'' ''reg_type''
      [(''../structRegisterChange.html#ac04acbfc8d09357500d12c1d9acc7f8c'', 1, ''RegisterChange'')],
    entry ''reg_5fwrite_5f_544'' ''reg_write_''
      [(''../classControlUnit.html#a5b002e22ea0e96d2d2ce24daf74a1e8b'', 1, ''ControlUnit'')],
    entry ''register_545'' ''REGISTER''
      [(''../namespacecommand__handler.html#a44c251e1711cea6749a00f36fcb08cf4ad17455cfcb88a53f1603fb817e09c2d6'', 1, ''command_handler'')],
    entry ''register_5fchanges_546'' ''register_changes''
      [(''../structStepDelta.html#a3e41fab118a0d4425af18a7dac832086'', 1, ''StepDelta'')],
    entry ''registerchange_547'' ''RegisterChange''
      [(''../structRegisterChange.html'', 1, '''')],
    entry ''registerfile_548'' ''RegisterFile''
      [(''../classRegisterFile.html#a9513989ee395d14943de66f99ec8014a'', 1, ''RegisterFile::RegisterFile()''), (''../classRegisterFile.html'', 1, ''RegisterFile'')],
    entry ''registers_2ecpp_549'' ''registers.cpp''
      [(''../registers_8cpp.html'', 1, '''')],
    entry ''registers_2eh_550'' ''registers.h''
      [(''../registers_8h.html'', 1, '''')],
    entry ''registers_5f_551'' ''registers_''
      [(''../classVmBase.html#a3edc0e9c3765ae9720874b361c58e947'', 1, ''VmBase'')],
    entry ''registers_5fdump_5ffile_5fpath_552'' ''registers_dump_file_path''
      [(''../namespaceglobals.html#a71fe4e87fbec0b990ffe7bc7e592d0d1'', 1, ''globals'')],
    entry ''registertype_553'' ''RegisterType''
      [(''../classRegisterFile.html#ad20885f84b337c67fd63b230e11ba230'', 1, ''RegisterFile'')],
    entry ''remove_5fbreakpoint_554'' ''REMOVE_BREAKPOINT''
      [(''../namespacecommand__handler.html#a49f72bb84305031f68e77b48be812681a1af1483e77cfe2abd58e8eb639768b15'', 1, ''command_handler'')],
    entry ''removebreakpoint_555'' ''RemoveBreakpoint''
      [(''../classVmBase.html#aecc5b0b4fdfa89cfae4c71aff1275210'', 1, ''VmBase'')],
    entry ''requeststop_556'' ''RequestStop''
      [(''../classRVSSVM.html#a989ddd15e98b143799703dd41b859bf7'', 1, ''RVSSVM'')],
    entry ''reset_557'' ''Reset''
      [(''../classRegisterFile.html#a70bbec9de8daf3195bc7d1fc827c113c'', 1, ''RegisterFile'')],
    entry ''reset_558'' ''RESET''
      [(''../namespacecommand__handler.html#a49f72bb84305031f68e77b48be812681ab5859d8721cfdc0312b2838b9c985bc1'', 1, ''command_handler'')],
    entry ''reset_559'' ''Reset''
      [(''../classVmBase.html#ae8262f906074f8e778665b73841b0352'', 1, ''VmBase::Reset()''), (''../classRVSSVM.html#aa75bbde8be42c275f928681e372d6c7c'', 1, ''RVSSVM::Reset()''), (''../classMemoryController.html#af0d58cab4e7fcda0a1c767c68e383826'', 1, ''MemoryController::Reset()''), (''../classControlUnit.html#a9fedc1442f71ebdb9b19ff4d5a7d9210'', 1, ''ControlUnit::Reset()''), (''../classMemory.html#af8c16d327e0d504003af4d0798d8abd8'', 1, ''Memory::Reset()'')],
    entry ''return_5faddress_5f_560'' ''return_address_''
      [(''../classRVSSVM.html#a22bbb0ff1567f0a6483f74f4327b606a'', 1, ''RVSSVM'')],
    entry ''risc_2dv_20simulator_561'' ''RISC-V simulator''
      [(''../md_README.html'', 1, '''')],
    entry ''rm_562'' ''rm''
      [(''../structICUnit.html#a1862ec48ba599365d6f38c5e0f69f84c'', 1, ''ICUnit'')],
    entry ''rm_563'' ''RM''
      [(''../tokens_8h.html#aa520fbf142ba1e7e659590c07da31921a2622e9b348f05f74e3e4bb9b7d213dc8'', 1, ''tokens.h'')],
    entry ''rmm_564'' ''RMM''
      [(''../rounding__modes_8h.html#a5959c934b204c7bcb6766cfaea8ae101a595b30b7583a6cd50bdc591e4420034b'', 1, ''rounding_modes.h'')],
    entry ''rne_565'' ''RNE''
      [(''../rounding__modes_8h.html#a5959c934b204c7bcb6766cfaea8ae101abbbffe540e9df36d8c8f847b529e3282'', 1, ''rounding_modes.h'')],
    entry ''rounding_5fmodes_2eh_566'' ''rounding_modes.h''
      [(''../rounding__modes_8h.html'', 1, '''')],
    entry ''roundingmode_567'' ''RoundingMode''
      [(''../rounding__modes_8h.html#a5959c934b204c7bcb6766cfaea8ae101'', 1, ''rounding_modes.h'')],
    entry ''roundingmodeencoding_568'' ''roundingModeEncoding''
      [(''../rounding__modes_8h.html#a0f5fc322fb6db7cb06e5a912be28bf20'', 1, ''rounding_modes.h'')],
    entry ''rparen_569'' ''RPAREN''
      [(''../tokens_8h.html#aa520fbf142ba1e7e659590c07da31921afccedc90f87593a3b31536bd658808b1'', 1, ''tokens.h'')],
    entry ''rs1_570'' ''rs1''
      [(''../structICUnit.html#a5cc64dcce86bb9c70403503ddd1e6978'', 1, ''ICUnit'')],
    entry ''rs2_571'' ''rs2''
      [(''../structICUnit.html#a65f2bf2a14c45bb210439ed02862232c'', 1, ''ICUnit'')],
    entry ''rs3_572'' ''rs3''
      [(''../structICUnit.html#a4fa54a29e2374eeb6204d4d36c3a198d'', 1, ''ICUnit'')],
    entry ''rtypeinstructionencoding_573'' ''RTypeInstructionEncoding''
      [(''../structinstruction__set_1_1RTypeInstructionEncoding.html'', 1, ''instruction_set::RTypeInstructionEncoding''), (''../structinstruction__set_1_1RTypeInstructionEncoding.html#abf2db83d5b0e5422b5cb6532075b900e'', 1, ''instruction_set::RTypeInstructionEncoding::RTypeInstructionEncoding()'')],
    entry ''rtz_574'' ''RTZ''
      [(''../rounding__modes_8h.html#a5959c934b204c7bcb6766cfaea8ae101a529a841dde2e78d144c1814e3fc5ac60'', 1, ''rounding_modes.h'')],
    entry ''run_575'' ''RUN''
      [(''../namespacecommand__handler.html#a49f72bb84305031f68e77b48be812681a855520d2a5b0b1a64b939e7e30889e2a'', 1, ''command_handler'')],
    entry ''run_576'' ''Run''
      [(''../classVmBase.html#ab99aff7b91e22e2b041d310791ae0281'', 1, ''VmBase::Run()''), (''../classRVSSVM.html#a0aa85843a97344299380afebc83d2a5e'', 1, ''RVSSVM::Run()'')],
    entry ''run_5fstep_5fdelay_577'' ''run_step_delay''
      [(''../structvm__config_1_1VmConfig.html#a9438d71dc02eca394d21d60da75d50f9'', 1, ''vm_config::VmConfig'')],
    entry ''rup_578'' ''RUP''
      [(''../rounding__modes_8h.html#a5959c934b204c7bcb6766cfaea8ae101a5ba30c5a3edeca6b0b2fd1050ecf3370'', 1, ''rounding_modes.h'')],
    entry ''rv5s_5fcontrol_5funit_2ecpp_579'' ''rv5s_control_unit.cpp''
      [(''../rv5s__control__unit_8cpp.html'', 1, '''')],
    entry ''rv5s_5fcontrol_5funit_2eh_580'' ''rv5s_control_unit.h''
      [(''../rv5s__control__unit_8h.html'', 1, '''')],
    entry ''rv5s_5fvm_2ecpp_581'' ''rv5s_vm.cpp''
      [(''../rv5s__vm_8cpp.html'', 1, '''')],
    entry ''rv5s_5fvm_2eh_582'' ''rv5s_vm.h''
      [(''../rv5s__vm_8h.html'', 1, '''')],
    entry ''rvss_5fcontrol_5funit_2ecpp_583'' ''rvss_control_unit.cpp''
      [(''../rvss__control__unit_8cpp.html'', 1, '''')],
    entry ''rvss_5fcontrol_5funit_2eh_584'' ''rvss_control_unit.h''
      [(''../rvss__control__unit_8h.html'', 1, '''')],
    entry ''rvss_5fvm_2ecpp_585'' ''rvss_vm.cpp''
      [(''../rvss__vm_8cpp.html'', 1, '''')],
    entry ''rvss_5fvm_2eh_586'' ''rvss_vm.h''
      [(''../rvss__vm_8h.html'', 1, '''')],
    entry ''rvsscontrolunit_587'' ''RVSSControlUnit''
      [(''../classRVSSControlUnit.html'', 1, '''')],
    entry ''rvssvm_588'' ''RVSSVM''
      [(''../classRVSSVM.html#a25a6b5b3cd17447bfe4e88819ff55c48'', 1, ''RVSSVM::RVSSVM()''), (''../classRVSSVM.html'', 1, ''RVSSVM'')]]"

definition all_12 :: "Entry list" where
  "all_12 = [
    entry ''s_5ftype_5finstruction_5fencoding_5fmap_589'' ''S_type_instruction_encoding_map''
      [(''../namespaceinstruction__set.html#ab50cca829f0e03ebbe8b71abc0145f8c'', 1, ''instruction_set'')],
    entry ''setbsssectionstart_590'' ''setBssSectionStart''
      [(''../structvm__config_1_1VmConfig.html#aa81411167ed2848f96178becea4f8a03'', 1, ''vm_config::VmConfig'')],
    entry ''setcontrolsignals_591'' ''SetControlSignals''
      [(''../classControlUnit.html#a0f833e38023892becb4e17884e6bf25f'', 1, ''ControlUnit::SetControlSignals()''), (''../classRVSSControlUnit.html#adf26df59ddd8b4e69e94ed8b881127bc'', 1, ''RVSSControlUnit::SetControlSignals()'')],
    entry ''setcsr_592'' ''setCsr''
      [(''../structICUnit.html#a1eafc9c926a02caeb618a9114f551f0b'', 1, ''ICUnit'')],
    entry ''setdatasectionstart_593'' ''setDataSectionStart''
      [(''../structvm__config_1_1VmConfig.html#a348dde0e252bab4136c92f29c8eb1a19'', 1, ''vm_config::VmConfig'')],
    entry ''setflags_594'' ''setFlags''
      [(''../classalu_1_1Alu.html#a37bb2aac9cb2c8ae05ceee0d6404e5cc'', 1, ''alu::Alu'')],
    entry ''setimm_595'' ''setImm''
      [(''../structICUnit.html#a1691a21f18ee3fedcf460a67f82a3099'', 1, ''ICUnit'')],
    entry ''setinstructionindex_596'' ''setInstructionIndex''
      [(''../structICUnit.html#a6636fb97fb7cabdd8fb198bca5ba1c25'', 1, ''ICUnit'')],
    entry ''setlabel_597'' ''setLabel''
      [(''../structICUnit.html#a91d304043cc6b35beba02b90704101dc'', 1, ''ICUnit'')],
    entry ''setlinenumber_598'' ''setLineNumber''
      [(''../structICUnit.html#a422db7dc5ec05859dff23f857db9032c'', 1, ''ICUnit'')],
    entry ''setmemoryblocksize_599'' ''setMemoryBlockSize''
      [(''../structvm__config_1_1VmConfig.html#a44f1922ab068f74985fde26a0900f071'', 1, ''vm_config::VmConfig'')],
    entry ''setmemorysize_600'' ''setMemorySize''
      [(''../structvm__config_1_1VmConfig.html#a8bc0665349553003a77e7ffb7fc695ac'', 1, ''vm_config::VmConfig'')],
    entry ''setopcode_601'' ''setOpcode''
      [(''../structICUnit.html#ad0edc47ffa9a7197a588ec02f01bf7c0'', 1, ''ICUnit'')],
    entry ''setrd_602'' ''setRd''
      [(''../structICUnit.html#a566ba9cecb196f02a2ca1b03236f3c13'', 1, ''ICUnit'')],
    entry ''setrm_603'' ''setRm''
      [(''../structICUnit.html#a964fe26dccc9c4088774a66a2de5ec05'', 1, ''ICUnit'')],
    entry ''setrs1_604'' ''setRs1''
      [(''../structICUnit.html#ac084bccd7290a3ba7990b90b91b149f7'', 1, ''ICUnit'')],
    entry ''setrs2_605'' ''setRs2''
      [(''../structICUnit.html#a8bf533e866d8cf995a41530052598883'', 1, ''ICUnit'')],
    entry ''setrs3_606'' ''setRs3''
      [(''../structICUnit.html#a4161046a12e2d38b90b88ecc19be8896'', 1, ''ICUnit'')],
    entry ''setrunstepdelay_607'' ''setRunStepDelay''
      [(''../structvm__config_1_1VmConfig.html#a2de4c51b360792be181645482b79d6e1'', 1, ''vm_config::VmConfig'')],
    entry ''settextsectionstart_608'' ''setTextSectionStart''
      [(''../structvm__config_1_1VmConfig.html#af406d40769fc5eac2781670afd7dfe1b'', 1, ''vm_config::VmConfig'')],
    entry ''setupconfigfile_609'' ''SetupConfigFile''
      [(''../utils_8cpp.html#a105ade81d4e257f3764e557f57773066'', 1, ''SetupConfigFile():&#160;utils.cpp''), (''../utils_8h.html#a105ade81d4e257f3764e557f57773066'', 1, ''SetupConfigFile():&#160;utils.cpp'')],
    entry ''setupvmstatedirectory_610'' ''setupVmStateDirectory''
      [(''../utils_8h.html#af3f95999ef175e14de3c42754e4224aa'', 1, ''setupVmStateDirectory():&#160;utils.cpp''), (''../utils_8cpp.html#af3f95999ef175e14de3c42754e4224aa'', 1, ''setupVmStateDirectory():&#160;utils.cpp'')],
    entry ''setvmtype_611'' ''setVmType''
      [(''../structvm__config_1_1VmConfig.html#abb8a00c8652daed6dfa60eba3c042f68'', 1, ''vm_config::VmConfig'')],
    entry ''sh_5faddr_612'' ''sh_addr''
      [(''../structElfSectionHeader.html#ad5d88153c5f6bf428f925f5aafb285e7'', 1, ''ElfSectionHeader'')],
    entry ''sh_5faddralign_613'' ''sh_addralign''
      [(''../structElfSectionHeader.html#aa3aefd99c8400c4e08dbe9e45e981ca4'', 1, ''ElfSectionHeader'')],
    entry ''sh_5fentsize_614'' ''sh_entsize''
      [(''../structElfSectionHeader.html#a1e6e43a4f102b2702f69a4db18c38fd4'', 1, ''ElfSectionHeader'')],
    entry ''sh_5fflags_615'' ''sh_flags''
      [(''../structElfSectionHeader.html#ab7a1e6c118c1ce0752120ba9d0449f3c'', 1, ''ElfSectionHeader'')],
    entry ''sh_5finfo_616'' ''sh_info''
      [(''../structElfSectionHeader.html#a9c689202b2e4c96175764ba0ae8967f7'', 1, ''ElfSectionHeader'')],
    entry ''sh_5flink_617'' ''sh_link''
      [(''../structElfSectionHeader.html#afebe046f2258be1385e3ea6ff7f7d0a2'', 1, ''ElfSectionHeader'')],
    entry ''sh_5fname_618'' ''sh_name''
      [(''../structElfSectionHeader.html#aba858bec97a385159f47ed421e3f2a0a'', 1, ''ElfSectionHeader'')],
    entry ''sh_5foffset_619'' ''sh_offset''
      [(''../structElfSectionHeader.html#a55220a72daa59c1a4f6115da600c0246'', 1, ''ElfSectionHeader'')],
    entry ''sh_5fsize_620'' ''sh_size''
      [(''../structElfSectionHeader.html#ae596297e82c312af2840926abc58462c'', 1, ''ElfSectionHeader'')],
    entry ''sh_5ftype_621'' ''sh_type''
      [(''../structElfSectionHeader.html#a2d37c2c6240268f26236410233a31247'', 1, ''ElfSectionHeader'')],
    entry ''sign_5fextend_622'' ''sign_extend''
      [(''../vm__base_8cpp.html#a282f36b03b3d072954255b57378bed7b'', 1, ''vm_base.cpp'')],
    entry ''single_5fstage_623'' ''SINGLE_STAGE''
      [(''../namespacevm__config.html#aa4eeb50c28c404f656938f58b44562b5a2c4a0af0ffe5afecf34ef3401408722c'', 1, ''vm_config'')],
    entry ''size_624'' ''size''
      [(''../classMMIODevice.html#a35d491d39a061f7f8b6651738c174308'', 1, ''MMIODevice::size()''), (''../classNullMMIODevice.html#a105428471ec2f25969932aadffb59d37'', 1, ''NullMMIODevice::size()'')],
    entry ''stall_5fcycles_5f_625'' ''stall_cycles_''
      [(''../classVmBase.html#a38693d7be1698897816ea448231f12b9'', 1, ''VmBase'')],
    entry ''step_626'' ''Step''
      [(''../classRVSSVM.html#a5547766e7446048242849d2510e3b2ef'', 1, ''RVSSVM::Step()''), (''../classVmBase.html#a78fa2e4cc76ab45ca84e164b7b0af119'', 1, ''VmBase::Step()'')],
    entry ''step_627'' ''STEP''
      [(''../namespacecommand__handler.html#a49f72bb84305031f68e77b48be812681a522f694f92e679d874a1cc2b2616c3d7'', 1, ''command_handler'')],
    entry ''stepdelta_628'' ''StepDelta''
      [(''../structStepDelta.html'', 1, '''')],
    entry ''stop_629'' ''STOP''
      [(''../namespacecommand__handler.html#a49f72bb84305031f68e77b48be812681a615a46af313786fc4e349f34118be111'', 1, ''command_handler'')],
    entry ''stop_5frequested_5f_630'' ''stop_requested_''
      [(''../classVmBase.html#a88a5d125a77b93c647fe2a375b66dbe2'', 1, ''VmBase::stop_requested_()''), (''../classRVSSVM.html#a65484df815fde89d6fddb059c192b414'', 1, ''RVSSVM::stop_requested_()'')],
    entry ''string_631'' ''STRING''
      [(''../tokens_8h.html#aa520fbf142ba1e7e659590c07da31921a63b588d5559f64f89a416e656880b949'', 1, ''tokens.h'')],
    entry ''stringify_632'' ''STRINGIFY''
      [(''../build_2CMakeFiles_23_822_81_2CompilerIdCXX_2CMakeCXXCompilerId_8cpp.html#a43e1cad902b6477bec893cb6430bd6c8'', 1, ''STRINGIFY():&#160;CMakeCXXCompilerId.cpp''), (''../cmake-build-debug_2CMakeFiles_23_831_86_2CompilerIdCXX_2CMakeCXXCompilerId_8cpp.html#a43e1cad902b6477bec893cb6430bd6c8'', 1, ''STRINGIFY():&#160;CMakeCXXCompilerId.cpp'')],
    entry ''stringify_5fhelper_633'' ''STRINGIFY_HELPER''
      [(''../build_2CMakeFiles_23_822_81_2CompilerIdCXX_2CMakeCXXCompilerId_8cpp.html#a2ae9b72bb13abaabfcf2ee0ba7d3fa1d'', 1, ''STRINGIFY_HELPER():&#160;CMakeCXXCompilerId.cpp''), (''../cmake-build-debug_2CMakeFiles_23_831_86_2CompilerIdCXX_2CMakeCXXCompilerId_8cpp.html#a2ae9b72bb13abaabfcf2ee0ba7d3fa1d'', 1, ''STRINGIFY_HELPER():&#160;CMakeCXXCompilerId.cpp'')],
    entry ''stringtoroundingmode_634'' ''stringToRoundingMode''
      [(''../rounding__modes_8h.html#a6691b0b0fa94eba7094768f014c079f2'', 1, ''rounding_modes.h'')],
    entry ''stypeinstructionencoding_635'' ''STypeInstructionEncoding''
      [(''../structinstruction__set_1_1STypeInstructionEncoding.html'', 1, ''instruction_set::STypeInstructionEncoding''), (''../structinstruction__set_1_1STypeInstructionEncoding.html#a4c9cdc1bd9e71aecfe7ed1137791570e'', 1, ''instruction_set::STypeInstructionEncoding::STypeInstructionEncoding()'')],
    entry ''sub_5fmessage_636'' ''sub_message''
      [(''../structerrors_1_1InvalidRegisterError.html#a5eb3cbe91e6104dead298ba2554f3bf7'', 1, ''errors::InvalidRegisterError::sub_message()''), (''../structerrors_1_1LabelRedefinitionError.html#a8ae466157b682b998a0b3e710cda2010'', 1, ''errors::LabelRedefinitionError::sub_message()''), (''../structerrors_1_1InvalidLabelRefError.html#aa4ce4accdf817e88c8c44a707b756c08'', 1, ''errors::InvalidLabelRefError::sub_message()''), (''../structerrors_1_1UnexpectedOperandError.html#aa7eb42aa30e8a33ce97a8fa67e652969'', 1, ''errors::UnexpectedOperandError::sub_message()''), (''../structerrors_1_1MisalignedImmediateError.html#abd40d834d9c7e0d46742b86ce62367d9'', 1, ''errors::MisalignedImmediateError::sub_message()''), (''../structerrors_1_1ImmediateOutOfRangeError.html#ae1c6388e9f6c86c66c302d6f0d4d828b'', 1, ''errors::ImmediateOutOfRangeError::sub_message()''), (''../structerrors_1_1SyntaxError.html#a27cd10228b6ede09fafd6206898bf6bd'', 1, ''errors::SyntaxError::sub_message()'')],
    entry ''symbol_5ftable_637'' ''symbol_table''
      [(''../structAssembledProgram.html#a92a97311854032cb913c492333e26525'', 1, ''AssembledProgram'')],
    entry ''symboldata_638'' ''SymbolData''
      [(''../structSymbolData.html'', 1, '''')],
    entry ''syntaxerror_639'' ''SyntaxError''
      [(''../structerrors_1_1SyntaxError.html'', 1, ''errors::SyntaxError''), (''../structerrors_1_1SyntaxError.html#ae116ac1e776cddc9d31436700ea66769'', 1, ''errors::SyntaxError::SyntaxError()'')],
    entry ''syntaxtype_640'' ''SyntaxType''
      [(''../namespaceinstruction__set.html#a7c366784cebccd7fbfda77874d229462'', 1, ''instruction_set'')],
    entry ''syscall_5fexit_641'' ''SYSCALL_EXIT''
      [(''../vm__base_8h.html#a0151f3169cfe19daa8c8478396f91765a4777b04e1ffe7c43d3bf5173ea6121f7'', 1, ''vm_base.h'')],
    entry ''syscall_5fprint_5fdouble_642'' ''SYSCALL_PRINT_DOUBLE''
      [(''../vm__base_8h.html#a0151f3169cfe19daa8c8478396f91765a036357630a45b24a33dd5ed8c4f4be72'', 1, ''vm_base.h'')],
    entry ''syscall_5fprint_5ffloat_643'' ''SYSCALL_PRINT_FLOAT''
      [(''../vm__base_8h.html#a0151f3169cfe19daa8c8478396f91765a485b6ccf51eb1988c9ed86f21f980174'', 1, ''vm_base.h'')],
    entry ''syscall_5fprint_5fint_644'' ''SYSCALL_PRINT_INT''
      [(''../vm__base_8h.html#a0151f3169cfe19daa8c8478396f91765ad41b74c705938b0944e19f50bff3607a'', 1, ''vm_base.h'')],
    entry ''syscall_5fprint_5fstring_645'' ''SYSCALL_PRINT_STRING''
      [(''../vm__base_8h.html#a0151f3169cfe19daa8c8478396f91765a3d4bf3b4c92468bb5c5a101d6d656ae2'', 1, ''vm_base.h'')],
    entry ''syscall_5fread_646'' ''SYSCALL_READ''
      [(''../vm__base_8h.html#a0151f3169cfe19daa8c8478396f91765aae28428803bceb12fac6559507142ffc'', 1, ''vm_base.h'')],
    entry ''syscall_5fwrite_647'' ''SYSCALL_WRITE''
      [(''../vm__base_8h.html#a0151f3169cfe19daa8c8478396f91765a39a423648a02c841cfdb884d5d08cbad'', 1, ''vm_base.h'')],
    entry ''syscallcode_648'' ''SyscallCode''
      [(''../vm__base_8h.html#a0151f3169cfe19daa8c8478396f91765'', 1, ''vm_base.h'')]]"

subsection \<open>Their identifiers\<close>

text \<open>The identifiers the search expects: those of the names, numbered from \<open>n\<close> on.\<close>

fun entry_ids :: "nat \<Rightarrow> Entry list \<Rightarrow> jstring list" where
  "entry_ids n [] = []"
| "entry_ids n (e # es) = entry_id (e_name e) n # entry_ids (Suc n) es"

lemmas id_eval = entry_id_def convert_unit_eq id_unit_def lower_unit_def hex_digit_def dec_nat.simps

lemma all_6_ids: "map e_id all_6 = entry_ids 142 all_6"
  by (simp only: all_6_def list.map entry_ids.simps entry_fields) (simp add: id_eval)

lemma all_7_ids: "map e_id all_7 = entry_ids 228 all_7"
  by (simp only: all_7_def list.map entry_ids.simps entry_fields) (simp add: id_eval)

lemma all_9_ids: "map e_id all_9 = entry_ids 295 all_9"
  by (simp only: all_9_def list.map entry_ids.simps entry_fields) (simp add: id_eval)

lemma all_11_ids: "map e_id all_11 = entry_ids 522 all_11"
  by (simp only: all_11_def list.map entry_ids.simps entry_fields) (simp add: id_eval)

lemma all_12_ids: "map e_id all_12 = entry_ids 589 all_12"
  by (simp only: all_12_def list.map entry_ids.simps entry_fields) (simp add: id_eval)

text \<open>The position of the page in the section, its first number and its entries.\<close>

definition index_pages :: "(nat \<times> nat \<times> Entry list) list" where
  "index_pages = [(6, 142, all_6), (7, 228, all_7), (9, 295, all_9), (17, 522, all_11), (18, 589, all_12)]"

lemma index_pages_ids: "(i, n, es) \<in> set index_pages \<Longrightarrow> map e_id es = entry_ids n es"
  using all_6_ids all_7_ids all_9_ids all_11_ids all_12_ids
  by (auto simp: index_pages_def)

lemma index_pages_latin1:
  assumes "(i, n, es) \<in> set index_pages"
  shows "\<forall>(name, k) \<in> set (map (\<lambda>(k, e). (e_name e, k)) (enumerate n es)). latin1 name"
proof -
  have entries: "latin1 (e_name (entry x name ls))" for x name ls by (simp add: entry_fields)
  have "list_all (\<lambda>e. latin1 (e_name e)) es"
    using assms unfolding index_pages_def
    by (auto simp only: list.set insert_iff empty_iff prod.inject all_6_def all_7_def all_9_def all_11_def all_12_def list.pred_inject entries simp_thms)
  then show ?thesis by (auto simp: list_all_iff enumerate_eq_zip dest: set_zip_rightD)
qed

lemma entry_ids_enumerate: "entry_ids n es = map (\<lambda>(name, k). entry_id name k) (map (\<lambda>(k, e). (e_name e, k)) (enumerate n es))"
  by (induction n es rule: entry_ids.induct) simp_all

text \<open>
  C31. The search works on the index it ships with. In the section of all names, for a text of units below 256
  whose page is one of the five modelled (the names that begin with f, g, i, s or \<open>r\<close>, by
  their position in the section's characters), the search of the page displays and counts exactly the
  entries whose name begins with the text, without regard to case and to spaces around the text, and those
  whose name the text continues into the number of the identifier.
\<close>

theorem index_search:
  assumes "(idx, n, es) \<in> set index_pages" and "Search p = Inr p'"
    and "indexOf (indexSectionsWithContent ! searchIndex p) (index_char (unicode_lower p) (strip_leading (field_value p))) = Some idx"
    and "latin1 (field_value p)" and "plain_path (resultsPath p)" and "plain_path (extension p)"
    and "document r = results_document es" and "location_search r = location_query (frame_location p')"
    and "searchIndex p = 0" and "t = lower (strip_trailing (strip_leading (field_value p)))"
  shows "\<exists>r'. Results_Search [] r = Inr r' \<and>
    result_rows (document r') = map (\<lambda>(k, e). (js ''SR_'' @ e_id e,
      shown_as (prefix t (lower (e_name e)) \<or> runs_into_number t (lower (e_name e)) k))) (enumerate n es) \<and>
    lastMatchCount r' = length (filter (\<lambda>(k, e).
      prefix t (lower (e_name e)) \<or> runs_into_number t (lower (e_name e)) k) (enumerate n es))"
proof -
  note ids = index_pages_ids [OF assms(1)]
  have "map e_id (map snd (enumerate n es)) =
      map (\<lambda>(name, k). entry_id name k) (map (\<lambda>(k, e). (e_name e, k)) (enumerate n es))"
    using ids unfolding entry_ids_enumerate by (simp only: map_snd_enumerate)
  then have "\<forall>x \<in> set (enumerate n es). e_id (snd x) = entry_id (e_name (snd x)) (fst x)"
    unfolding map_map map_eq_conv by (simp add: case_prod_beta')
  then have e: "js ''SR_'' @ entry_id (e_name (snd x)) (fst x) = js ''SR_'' @ e_id (snd x)" if "x \<in> set (enumerate n es)" for x
    using that by simp
  from search_shows_rows [OF assms(2-8) ids [unfolded entry_ids_enumerate] index_pages_latin1 [OF assms(1)] assms(10)] obtain r' where
    r': "Results_Search [] r = Inr r'"
    "result_rows (document r') = map (\<lambda>(name, n). (js ''SR_'' @ entry_id name n,
      shown_as (prefix t (lower name) \<or> runs_into_number t (lower name) n))) (map (\<lambda>(k, e). (e_name e, k)) (enumerate n es))"
    "lastMatchCount r' = length (filter (\<lambda>(name, n).
      prefix t (lower name) \<or> runs_into_number t (lower name) n) (map (\<lambda>(k, e). (e_name e, k)) (enumerate n es)))"
    by blast
  have "result_rows (document r') = map (\<lambda>(k, e). (js ''SR_'' @ e_id e,
      shown_as (prefix t (lower (e_name e)) \<or> runs_into_number t (lower (e_name e)) k))) (enumerate n es)"
    unfolding r'(2) map_map by (rule map_cong [OF refl]) (use e in \<open>simp add: case_prod_beta' del: append_same_eq same_append_eq js_simps\<close>)
  moreover have "lastMatchCount r' = length (filter (\<lambda>(k, e).
      prefix t (lower (e_name e)) \<or> runs_into_number t (lower (e_name e)) k) (enumerate n es))"
    unfolding r'(3) by (simp add: filter_map o_def case_prod_beta')
  ultimately show ?thesis using r'(1) by blast
qed

definition index_results :: ResultsPage where
  "index_results = new_SearchResults (results_document all_6)
     (location_query (frame_location (outcome (Search searching_page)))) (outcome (Search searching_page))"

theorem index_search_witness:
  "\<exists>r'. Results_Search [] index_results = Inr r' \<and>
    result_rows (document r') = map (\<lambda>(k, e). (js ''SR_'' @ e_id e,
      shown_as (prefix (js ''fe'') (lower (e_name e)) \<or> runs_into_number (js ''fe'') (lower (e_name e)) k)))
      (enumerate 142 all_6) \<and>
    lastMatchCount r' = length (filter (\<lambda>(k, e).
      prefix (js ''fe'') (lower (e_name e)) \<or> runs_into_number (js ''fe'') (lower (e_name e)) k)
      (enumerate 142 all_6))"
proof (rule index_search [OF _ Search_searching_page, where idx = 6])
  show "indexOf (indexSectionsWithContent ! searchIndex searching_page)
      (index_char (unicode_lower searching_page) (strip_leading (field_value searching_page))) = Some 6"
    unfolding searching_page_fields by (rule index_F)
  show "document index_results = results_document all_6"
    by (simp add: index_results_def new_SearchResults_def)
  show "(6, 142, all_6) \<in> set index_pages" by (simp add: index_pages_def)
qed (simp_all add: searching_page_fields index_results_def new_SearchResults_def
      strip_leading_def strip_trailing_def lower_unit_def)

end
