(* ===== verification/DocSections.thy ===== *)
theory DocSections
  imports DocJs
begin

text \<open>
  The folding of sections and of the file tree in the documentation pages
  (docs/html/dynsections.js). The functions select elements with jQuery; the model keeps the
  elements they select: a section with its link, summary, content and trigger image, the rows of
  the directory table with their spans, and the rows and images of inherited members. A class
  list is the list of its names, and an element counts as visible when it is shown itself.
\<close>

definition removeClass :: "string \<Rightarrow> string list \<Rightarrow> string list" where
  "removeClass c cs = filter (\<lambda>x. x \<noteq> c) cs"

definition addClass :: "string \<Rightarrow> string list \<Rightarrow> string list" where
  "addClass c cs = (if c \<in> set cs then cs else cs @ [c])"

text \<open>\<open>substring(0, length - n)\<close>\<close>

definition drop_last :: "nat \<Rightarrow> jstring \<Rightarrow> jstring" where
  "drop_last n s = take (length s - n) s"

subsection \<open>Sections\<close>

record Section =
  link_class :: "string list"
  summary_shown :: bool
  content_shown :: bool
  trigger_src :: jstring

definition toggleVisibility :: "Section \<Rightarrow> Section" where
  "toggleVisibility x =
     (let src = trigger_src x in
      if content_shown x then
        x\<lparr>content_shown := False, summary_shown := True,
          link_class := removeClass ''opened'' (addClass ''closed'' (link_class x)),
          trigger_src := drop_last 8 src @ js ''closed.png''\<rparr>
      else
        x\<lparr>content_shown := True, summary_shown := False,
          link_class := addClass ''opened'' (removeClass ''closed'' (link_class x)),
          trigger_src := drop_last 10 src @ js ''open.png''\<rparr>)"

subsection \<open>The directory table\<close>

record Span =
  span_id :: jstring
  span_class :: "string list"
  span_html :: jstring

record Row =
  row_id :: jstring
  row_class :: "string list"
  row_shown :: bool
  spans :: "Span list"

text \<open>The class \<open>even\<close> goes to the shown rows at even positions among the shown ones; \<open>n\<close>
  counts the shown rows passed.\<close>

fun stripes :: "nat \<Rightarrow> Row list \<Rightarrow> Row list" where
  "stripes n [] = []"
| "stripes n (r # rs) =
     (let cs = removeClass ''even'' (row_class r)
      in if row_shown r
         then r\<lparr>row_class := if even n then addClass ''even'' cs else cs\<rparr> # stripes (n + 1) rs
         else r\<lparr>row_class := cs\<rparr> # stripes n rs)"

definition updateStripes :: "Row list \<Rightarrow> Row list" where
  "updateStripes rows = stripes 0 rows"

text \<open>\<open>$('#id')\<close> among the spans: the first with the id.\<close>

fun update_span :: "jstring \<Rightarrow> (Span \<Rightarrow> Span) \<Rightarrow> Span list \<Rightarrow> Span list" where
  "update_span x f [] = []"
| "update_span x f (s # ss) = (if span_id s = x then f s # ss else s # update_span x f ss)"

fun update_table_span :: "jstring \<Rightarrow> (Span \<Rightarrow> Span) \<Rightarrow> Row list \<Rightarrow> Row list" where
  "update_table_span x f [] = []"
| "update_table_span x f (r # rs) =
     (if x \<in> span_id ` set (spans r) then r\<lparr>spans := update_span x f (spans r)\<rparr> # rs
      else r # update_table_span x f rs)"

definition arrow_down :: jstring where "arrow_down = js ''&#9660;''"
definition arrow_right :: jstring where "arrow_right = js ''&#9658;''"

definition set_icon :: "string \<Rightarrow> Span \<Rightarrow> Span" where
  "set_icon c s = s\<lparr>span_class := addClass c (removeClass ''iconfclosed'' (removeClass ''iconfopen'' (span_class s)))\<rparr>"

text \<open>\<open>id.split('_').length - 1\<close>: the number of underscores.\<close>

definition row_level :: "Row \<Rightarrow> nat" where
  "row_level r = length (filter (\<lambda>c. c = 95) (row_id r))"

definition level_row :: "nat \<Rightarrow> nat \<Rightarrow> Row list \<Rightarrow> Row list" where
  "level_row level k rows =
     (let r = rows ! k; l = row_level r; suffix = drop 3 (row_id r);
          mark = (\<lambda>icon arrow rows. update_table_span (js ''arr'' @ suffix) (\<lambda>s. s\<lparr>span_html := arrow\<rparr>)
            (update_table_span (js ''img'' @ suffix) (set_icon icon) rows));
          show_it = (\<lambda>b rows. rows[k := (rows ! k)\<lparr>row_shown := b\<rparr>])
      in if l < level + 1 then show_it True (mark ''iconfopen'' arrow_down rows)
         else if l = level + 1 then show_it True (mark ''iconfclosed'' arrow_right rows)
         else show_it False rows)"

definition toggleLevel :: "nat \<Rightarrow> Row list \<Rightarrow> Row list" where
  "toggleLevel level rows = updateStripes (foldl (\<lambda>rs k. level_row level k rs) rows [0..<length rows])"

subsection \<open>Folders\<close>

text \<open>
  The expression \<open>^row_<id>\d+_$\<close>, matched without regard to case. The identifier is
  spliced into the expression and into the selectors: the model is that of identifiers
  of ASCII letters, digits and underscores, which stand for themselves there, and of which a
  letter matches its two cases only. The pages call \<open>toggleFolder\<close> with digits and underscores.
\<close>

definition fold_case :: "nat \<Rightarrow> nat" where
  "fold_case c = (if 65 \<le> c \<and> c \<le> 90 then c + 32 else c)"

definition is_child_of :: "jstring \<Rightarrow> Row \<Rightarrow> bool" where
  "is_child_of x r =
     (let s = map fold_case (row_id r); p = map fold_case (js ''row_'' @ x); t = drop (length p) s
      in take (length p) s = p \<and> t \<noteq> [] \<and> last t = 95 \<and> butlast t \<noteq> [] \<and> (\<forall>c \<in> set (butlast t). is_digit c))"

definition starts_with :: "jstring \<Rightarrow> Row \<Rightarrow> bool" where
  "starts_with x r \<longleftrightarrow> take (length x) (row_id r) = x"

definition open_to_closed :: "Span \<Rightarrow> Span" where
  "open_to_closed s = (let s = (if ''iconfopen'' \<in> set (span_class s)
      then s\<lparr>span_class := addClass ''iconfclosed'' (removeClass ''iconfopen'' (span_class s))\<rparr> else s)
    in if ''arrow'' \<in> set (span_class s) then s\<lparr>span_html := arrow_right\<rparr> else s)"

definition closed_to_open :: "Span \<Rightarrow> Span" where
  "closed_to_open s = (let s = (if ''iconfclosed'' \<in> set (span_class s)
      then s\<lparr>span_class := addClass ''iconfopen'' (removeClass ''iconfclosed'' (span_class s))\<rparr> else s)
    in if ''arrow'' \<in> set (span_class s) then s\<lparr>span_html := arrow_down\<rparr> else s)"

text \<open>The clicked row, if there is one, and the rows after it.\<close>

fun split_row :: "jstring \<Rightarrow> Row list \<Rightarrow> Row list \<times> Row list \<times> Row list" where
  "split_row x [] = ([], [], [])"
| "split_row x (r # rs) = (if row_id r = x then ([], [r], rs)
     else case split_row x rs of (before, current, after) \<Rightarrow> (r # before, current, after))"

definition map_spans :: "(Span \<Rightarrow> Span) \<Rightarrow> Row \<Rightarrow> Row" where
  "map_spans f r = r\<lparr>spans := map f (spans r)\<rparr>"

definition toggleFolder :: "jstring \<Rightarrow> Row list \<Rightarrow> Row list" where
  "toggleFolder x rows =
     (case split_row (js ''row_'' @ x) rows of (before, current, after) \<Rightarrow>
        (case filter (is_child_of x) after of
           c # _ \<Rightarrow> if row_shown c then
               updateStripes (before @ map (map_spans open_to_closed) current @
                 map (\<lambda>r. if starts_with (js ''row_'' @ x) r then r\<lparr>row_shown := False\<rparr> else r) after)
             else
               updateStripes (before @ map (map_spans closed_to_open) current @
                 map (\<lambda>r. if is_child_of x r then (map_spans open_to_closed r)\<lparr>row_shown := True\<rparr> else r) after)
         | [] \<Rightarrow> updateStripes (before @ map (map_spans closed_to_open) current @ after)))"

subsection \<open>Inherited members\<close>

record Inherited =
  inherit_shown :: "bool list"
  image_src :: "jstring list"

text \<open>Without an image its \<open>src\<close> is undefined and the last statement is a \<open>TypeError\<close>.\<close>

definition toggleInherit :: "Inherited \<Rightarrow> Inherited + Inherited" where
  "toggleInherit x =
     (let hide = (inherit_shown x \<noteq> [] \<and> hd (inherit_shown x));
          y = x\<lparr>inherit_shown := map (\<lambda>_. \<not> hide) (inherit_shown x)\<rparr>
      in case image_src x of
           [] \<Rightarrow> Inl y
         | src # _ \<Rightarrow> Inr (y\<lparr>image_src := map (\<lambda>_. if hide then drop_last 8 src @ js ''closed.png''
               else drop_last 10 src @ js ''open.png'') (image_src x)\<rparr>))"

subsection \<open>Properties\<close>

lemma stripes_shown: "map (\<lambda>r. (row_id r, row_shown r)) (stripes n rs) = map (\<lambda>r. (row_id r, row_shown r)) rs"
  by (induction n rs rule: stripes.induct) (auto simp: Let_def)

lemma stripes_spans: "map spans (stripes n rs) = map spans rs"
  by (induction n rs rule: stripes.induct) (auto simp: Let_def)

lemma length_stripes [simp]: "length (stripes n rs) = length rs"
  by (induction n rs rule: stripes.induct) (auto simp: Let_def)

lemma even_classes: "''even'' \<notin> set (removeClass ''even'' cs)" "''even'' \<in> set (addClass ''even'' cs)"
  by (simp_all add: removeClass_def addClass_def)

lemma stripes_nth:
  "i < length rs \<Longrightarrow> (''even'' \<in> set (row_class (stripes n rs ! i))) \<longleftrightarrow>
     row_shown (rs ! i) \<and> even (n + length (filter row_shown (take i rs)))"
proof (induction n rs arbitrary: i rule: stripes.induct)
  case (2 n r rs)
  then show ?case by (cases i) (auto simp: Let_def even_classes)
qed simp

text \<open>
  After \<open>updateStripes\<close> the shown rows are striped alternately: a row has the class
  \<open>even\<close> exactly when it is shown and an even number of the rows before it are, and no row
  changes its identifier, its spans or whether it is shown.
\<close>

theorem updateStripes_alternate:
  "length (updateStripes rows) = length rows \<and>
   map (\<lambda>r. (row_id r, row_shown r)) (updateStripes rows) = map (\<lambda>r. (row_id r, row_shown r)) rows \<and>
   map spans (updateStripes rows) = map spans rows \<and>
   {i. i < length rows \<and> ''even'' \<in> set (row_class (updateStripes rows ! i))} =
   {i. i < length rows \<and> row_shown (rows ! i) \<and> even (length (filter row_shown (take i rows)))}"
  using stripes_nth [of _ rows 0] by (auto simp: updateStripes_def stripes_shown stripes_spans)

definition section_of :: "jstring \<Rightarrow> string list \<Rightarrow> bool \<Rightarrow> Section" where
  "section_of base cs opn = \<lparr>link_class = cs @ [if opn then ''opened'' else ''closed''],
     summary_shown = (\<not> opn), content_shown = opn,
     trigger_src = base @ (if opn then js ''open.png'' else js ''closed.png'')\<rparr>"

text \<open>
  C39. \<open>toggleVisibility\<close> opens a closed section and closes an open one: content, summary, link
  class and trigger image change together, so that two clicks restore the section.
\<close>

theorem toggleVisibility_toggles:
  assumes "''opened'' \<notin> set cs" and "''closed'' \<notin> set cs"
  shows "toggleVisibility (section_of base cs opn) = section_of base cs (\<not> opn) \<and>
    toggleVisibility (toggleVisibility (section_of base cs opn)) = section_of base cs opn"
proof -
  have "filter (\<lambda>x. x \<noteq> c) cs = cs" if "c \<notin> set cs" for c
    using that by (induction cs) auto
  then show ?thesis
    using assms by (cases opn) (simp_all add: toggleVisibility_def section_of_def addClass_def removeClass_def
      drop_last_def Let_def del: js_simps(2))
qed

theorem toggleVisibility_toggles_witness:
  "toggleVisibility (section_of (js ''ftv2'') [''dynheader''] False) = section_of (js ''ftv2'') [''dynheader''] (\<not> False) \<and>
    toggleVisibility (toggleVisibility (section_of (js ''ftv2'') [''dynheader''] False)) = section_of (js ''ftv2'') [''dynheader''] False"
  by (rule toggleVisibility_toggles) simp_all

subsection \<open>Levels\<close>

lemma update_table_span_rows:
  "map (\<lambda>r. (row_id r, row_shown r)) (update_table_span x f rs) = map (\<lambda>r. (row_id r, row_shown r)) rs"
  by (induction x f rs rule: update_table_span.induct) auto

lemma length_update_table_span [simp]: "length (update_table_span x f rs) = length rs"
  by (induction x f rs rule: update_table_span.induct) auto

lemma level_row_rows:
  assumes "k < length rows"
  shows "map (\<lambda>r. (row_id r, row_shown r)) (level_row level k rows) =
    (map (\<lambda>r. (row_id r, row_shown r)) rows)[k := (row_id (rows ! k), row_level (rows ! k) \<le> level + 1)]"
proof -
  have u: "map (\<lambda>r. (row_id r, row_shown r)) (rs[k := (rs ! k)\<lparr>row_shown := b\<rparr>]) =
      (map (\<lambda>r. (row_id r, row_shown r)) rows)[k := (row_id (rows ! k), b)]"
    if "map (\<lambda>r. (row_id r, row_shown r)) rs = map (\<lambda>r. (row_id r, row_shown r)) rows" for rs b
  proof -
    have "length rs = length rows" using that map_eq_imp_length_eq by blast
    then have "row_id (rs ! k) = row_id (rows ! k)"
      using arg_cong [OF that, of "\<lambda>l. l ! k"] assms by simp
    with that show ?thesis by (simp add: map_update)
  qed
  consider "row_level (rows ! k) < level + 1" | "row_level (rows ! k) = level + 1" | "row_level (rows ! k) > level + 1"
    by linarith
  then show ?thesis
    unfolding level_row_def Let_def
    by cases (simp_all del: js_simps, (rule u, simp add: update_table_span_rows)+)
qed

lemma level_of_id: "row_id r = row_id s \<Longrightarrow> row_level r = row_level s"
  by (simp add: row_level_def)

lemma toggle_rows:
  "k \<le> length rows \<Longrightarrow> map (\<lambda>r. (row_id r, row_shown r)) (foldl (\<lambda>rs k. level_row level k rs) rows [0..<k]) =
     map (\<lambda>r. (row_id r, row_level r \<le> level + 1)) (take k rows) @ map (\<lambda>r. (row_id r, row_shown r)) (drop k rows)"
proof (induction k)
  case (Suc k)
  let ?rs = "foldl (\<lambda>rs k. level_row level k rs) rows [0..<k]" and ?v = "\<lambda>r. (row_id r, row_shown r)"
  have ih: "map ?v ?rs = map (\<lambda>r. (row_id r, row_level r \<le> level + 1)) (take k rows) @ map ?v (drop k rows)"
    using Suc by simp
  have "length ?rs = length (map ?v ?rs)" by simp
  also have "\<dots> = length rows" unfolding ih using Suc.prems by simp
  finally have len: "length ?rs = length rows" .
  have "map ?v ?rs ! k = ?v (rows ! k)" using Suc.prems by (simp add: ih nth_append)
  then have id: "row_id (?rs ! k) = row_id (rows ! k)" using Suc.prems len by simp
  have "map ?v (level_row level k ?rs) = (map ?v ?rs)[k := (row_id (rows ! k), row_level (rows ! k) \<le> level + 1)]"
    using level_row_rows [of k ?rs level] Suc.prems len id level_of_id [OF id] by simp
  also have "\<dots> = map (\<lambda>r. (row_id r, row_level r \<le> level + 1)) (take (Suc k) rows) @ map ?v (drop (Suc k) rows)"
    using Suc.prems by (simp add: ih list_update_append take_Suc_conv_app_nth Cons_nth_drop_Suc [symmetric])
  finally show ?case by simp
qed simp

text \<open>
  \<open>toggleLevel\<close> shows exactly the rows of the given level and above: a row is shown
  afterwards if and only if its identifier has at most one more underscore than the level.
\<close>

theorem toggleLevel_shows:
  "map (\<lambda>r. (row_id r, row_shown r)) (toggleLevel level rows) =
     map (\<lambda>r. (row_id r, row_level r \<le> level + 1)) rows"
  using toggle_rows [of "length rows" rows level] by (simp add: toggleLevel_def updateStripes_def stripes_shown)

subsection \<open>Folders\<close>

lemma map_spans_simps [simp]: "row_id (map_spans f r) = row_id r" "row_shown (map_spans f r) = row_shown r"
  by (simp_all add: map_spans_def)

text \<open>
  The identifiers of the tables: the path of a row, the numbers of its ancestors and its own
  among their children, each followed by an underscore.
\<close>

definition path_id :: "nat list \<Rightarrow> jstring" where
  "path_id p = concat (map (\<lambda>n. dec_nat n @ [95]) p)"

lemma path_id_simps [simp]: "path_id [] = []" "path_id (n # p) = dec_nat n @ 95 # path_id p"
  "path_id (p @ q) = path_id p @ path_id q"
  by (simp_all add: path_id_def)

lemma digits_underscore:
  assumes "\<forall>c \<in> set s. is_digit c" and "\<forall>c \<in> set t. is_digit c"
  shows "s @ 95 # x = t @ 95 # y \<longleftrightarrow> s = t \<and> x = y"
proof -
  have "\<not> is_digit 95" by (simp add: is_digit_def)
  with assms show ?thesis
  proof (induction s arbitrary: t)
    case Nil
    then show ?case by (cases t) auto
  next
    case (Cons a s)
    then show ?case by (cases t) auto
  qed
qed

lemma dec_nat_underscore: "dec_nat m @ 95 # x = dec_nat n @ 95 # y \<longleftrightarrow> m = n \<and> x = y"
  using digits_underscore [of "dec_nat m" "dec_nat n"] dec_nat_digits dec_nat_inj by blast

text \<open>What follows a path in an identifier is the identifier of the rest of the row's path.\<close>

lemma path_id_split: "path_id q = path_id p @ x \<longleftrightarrow> (\<exists>r. q = p @ r \<and> x = path_id r)"
proof (induction p arbitrary: q)
  case Nil
  then show ?case by auto
next
  case (Cons n p)
  show ?case
  proof (cases q)
    case Nil
    then show ?thesis by simp
  next
    case (Cons m q')
    with Cons.IH [of q'] show ?thesis by (auto simp: dec_nat_underscore)
  qed
qed

lemma path_id_inj: "path_id p = path_id q \<longleftrightarrow> p = q"
proof
  assume "path_id p = path_id q"
  then have "path_id p = path_id q @ []" by simp
  then obtain r where "p = q @ r" "path_id r = []" unfolding path_id_split by auto
  then show "p = q" by (cases r) auto
qed simp

lemma path_id_units: "c \<in> set (path_id p) \<Longrightarrow> is_digit c \<or> c = 95"
  by (induction p) (auto dest: dec_nat_digits)

lemma path_id_fold [simp]: "map fold_case (path_id p) = path_id p"
proof (rule map_idI)
  fix c assume "c \<in> set (path_id p)"
  from path_id_units [OF this] show "fold_case c = c" by (auto simp: fold_case_def is_digit_def)
qed

lemma path_id_single:
  assumes "ds \<noteq> []" and "\<forall>c \<in> set ds. is_digit c" and "path_id r = ds @ [95]"
  shows "\<exists>n. r = [n]"
proof (cases r)
  case Nil
  with assms show ?thesis by simp
next
  case (Cons n q)
  with assms digits_underscore [of "dec_nat n" ds "path_id q" "[]"] dec_nat_digits have "path_id q = []" by auto
  then have "q = []" using path_id_inj [of q "[]"] by simp
  with Cons show ?thesis by simp
qed

lemma is_child_of_path:
  assumes "row_id r = js ''row_'' @ path_id q"
  shows "is_child_of (path_id p) r \<longleftrightarrow> (\<exists>n. q = p @ [n])"
proof -
  let ?pre = "js ''row_'' @ path_id p"
  have f: "map fold_case (row_id r) = js ''row_'' @ path_id q" "map fold_case ?pre = ?pre"
    by (simp_all add: assms fold_case_def)
  have "is_child_of (path_id p) r \<longleftrightarrow> (\<exists>ds. js ''row_'' @ path_id q = ?pre @ ds @ [95] \<and> ds \<noteq> [] \<and> (\<forall>c \<in> set ds. is_digit c))"
    (is "_ \<longleftrightarrow> ?r")
  proof
    assume h: "is_child_of (path_id p) r"
    let ?t = "drop (length ?pre) (js ''row_'' @ path_id q)"
    from h have t: "take (length ?pre) (js ''row_'' @ path_id q) = ?pre" "?t \<noteq> []" "last ?t = 95" "butlast ?t \<noteq> []"
      "\<forall>c \<in> set (butlast ?t). is_digit c"
      unfolding is_child_of_def Let_def f by blast+
    have "js ''row_'' @ path_id q = ?pre @ ?t" using t(1) append_take_drop_id by metis
    moreover have "?t = butlast ?t @ [95]" using t(2,3) append_butlast_last_id by metis
    ultimately show ?r using t(4,5) by metis
  next
    assume ?r
    then obtain ds where d: "js ''row_'' @ path_id q = ?pre @ ds @ [95]" "ds \<noteq> []" "\<forall>c \<in> set ds. is_digit c" by blast
    show "is_child_of (path_id p) r"
      unfolding is_child_of_def Let_def f unfolding d(1) using d(2,3) by (simp del: js_simps)
  qed
  also have "\<dots> \<longleftrightarrow> (\<exists>ds. path_id q = path_id p @ ds @ [95] \<and> ds \<noteq> [] \<and> (\<forall>c \<in> set ds. is_digit c))"
    by (simp only: append_assoc same_append_eq)
  also have "\<dots> \<longleftrightarrow> (\<exists>n. q = p @ [n])"
  proof
    assume "\<exists>ds. path_id q = path_id p @ ds @ [95] \<and> ds \<noteq> [] \<and> (\<forall>c \<in> set ds. is_digit c)"
    then obtain ds where d: "path_id q = path_id p @ ds @ [95]" "ds \<noteq> []" "\<forall>c \<in> set ds. is_digit c" by blast
    from d(1) obtain x where "q = p @ x" "path_id x = ds @ [95]" unfolding path_id_split by metis
    with path_id_single [OF d(2,3)] show "\<exists>n. q = p @ [n]" by blast
  next
    assume "\<exists>n. q = p @ [n]"
    then obtain n where "q = p @ [n]" by blast
    then show "\<exists>ds. path_id q = path_id p @ ds @ [95] \<and> ds \<noteq> [] \<and> (\<forall>c \<in> set ds. is_digit c)"
      using dec_nat_digits by (intro exI [of _ "dec_nat n"]) auto
  qed
  finally show ?thesis .
qed

lemma starts_with_path:
  assumes "row_id r = js ''row_'' @ path_id q"
  shows "starts_with (js ''row_'' @ path_id p) r \<longleftrightarrow> prefix p q"
proof -
  have "starts_with (js ''row_'' @ path_id p) r \<longleftrightarrow> prefix (js ''row_'' @ path_id p) (js ''row_'' @ path_id q)"
    unfolding starts_with_def assms by (metis append_eq_conv_conj prefix_def)
  also have "\<dots> \<longleftrightarrow> (\<exists>x. path_id q = path_id p @ x)" by (simp only: prefix_def append_assoc same_append_eq)
  also have "\<dots> \<longleftrightarrow> prefix p q" unfolding path_id_split prefix_def by blast
  finally show ?thesis .
qed

lemma split_row_path:
  assumes "map row_id rows = map (\<lambda>q. js ''row_'' @ path_id q) (before @ p # after)" and "p \<notin> set before"
  shows "split_row (js ''row_'' @ path_id p) rows =
    (take (length before) rows, [rows ! length before], drop (Suc (length before)) rows)"
  using assms
proof (induction before arbitrary: rows)
  case Nil
  then obtain r rs where "rows = r # rs" by (cases rows) auto
  with Nil show ?case by simp
next
  case (Cons b bs)
  then obtain r rs where r: "rows = r # rs" by (cases rows) auto
  have "row_id r \<noteq> js ''row_'' @ path_id p"
    using Cons.prems r path_id_inj [of b p] by (auto simp del: js_simps)
  with Cons r show ?case by (simp del: js_simps)
qed

text \<open>Whether the first child of the folder among the rows that follow is shown.\<close>

fun first_child_shown :: "nat list \<Rightarrow> nat list list \<Rightarrow> bool list \<Rightarrow> bool" where
  "first_child_shown p (q # qs) (s # ss) =
     (if q \<noteq> [] \<and> butlast q = p then s else first_child_shown p qs ss)"
| "first_child_shown p _ _ = False"

lemma child_path: "(\<exists>n. q = p @ [n]) \<longleftrightarrow> q \<noteq> [] \<and> butlast q = p"
  by (metis append_butlast_last_id butlast_snoc snoc_eq_iff_butlast)

lemma first_child_filter:
  assumes "map row_id rows = map (\<lambda>q. js ''row_'' @ path_id q) after"
  shows "(case filter (is_child_of (path_id p)) rows of [] \<Rightarrow> False | c # _ \<Rightarrow> row_shown c) =
    first_child_shown p after (map row_shown rows)"
  using assms
proof (induction rows arbitrary: after)
  case (Cons r rs)
  then obtain q qs where q: "after = q # qs" "row_id r = js ''row_'' @ path_id q"
    "map row_id rs = map (\<lambda>q. js ''row_'' @ path_id q) qs" by (cases after) (auto simp del: js_simps)
  from Cons.IH [OF q(3)] show ?case
    by (simp add: q(1) is_child_of_path [OF q(2)] child_path)
qed simp

lemma toggleFolder_branches:
  assumes "split_row (js ''row_'' @ x) rows = (before, current, after)"
  shows "map (\<lambda>r. (row_id r, row_shown r)) (toggleFolder x rows) =
    map (\<lambda>r. (row_id r, row_shown r)) (before @ current) @
    map (\<lambda>r. (row_id r, if (case filter (is_child_of x) after of [] \<Rightarrow> False | c # _ \<Rightarrow> row_shown c)
                        then row_shown r \<and> \<not> starts_with (js ''row_'' @ x) r
                        else row_shown r \<or> is_child_of x r)) after"
proof (cases "filter (is_child_of x) after")
  case Nil
  then have "\<And>r. r \<in> set after \<Longrightarrow> \<not> is_child_of x r" by (simp add: filter_empty_conv)
  with Nil show ?thesis
    by (simp add: toggleFolder_def assms updateStripes_def stripes_shown del: js_simps)
next
  case (Cons c cs)
  then show ?thesis
    by (simp add: toggleFolder_def assms updateStripes_def stripes_shown del: js_simps)
qed

text \<open>
  C38. In a table whose rows are named by their paths, a click on the folder \<open>p\<close> looks at its first
  child among the rows that follow. If it is shown, exactly the rows below \<open>p\<close> are hidden, at any
  depth; otherwise exactly the rows directly below \<open>p\<close> are shown, and those further down stay
  as they are. No other row appears or disappears, and the rows keep their identifiers.
\<close>

theorem toggleFolder_shows:
  assumes "map row_id rows = map (\<lambda>q. js ''row_'' @ path_id q) (before @ p # after)" and "p \<notin> set before"
    and "shown_after = map row_shown (drop (Suc (length before)) rows)"
  shows "map row_id (toggleFolder (path_id p) rows) = map row_id rows \<and>
    map row_shown (toggleFolder (path_id p) rows) = map row_shown (take (Suc (length before)) rows) @
      map2 (\<lambda>q s. if first_child_shown p after shown_after then s \<and> \<not> prefix p q else s \<or> (\<exists>n. q = p @ [n]))
        after shown_after"
proof -
  let ?b = "take (length before) rows" and ?c = "rows ! length before" and ?a = "drop (Suc (length before)) rows"
  have len: "length rows = Suc (length before + length after)" using assms(1) map_eq_imp_length_eq by fastforce
  have ids: "map row_id ?a = map (\<lambda>q. js ''row_'' @ path_id q) after"
    using assms(1) by (simp add: drop_map del: js_simps flip: drop_map)
  have t: "take (Suc (length before)) rows = ?b @ [?c]" using len by (simp add: take_Suc_conv_app_nth)
  note branches = toggleFolder_branches [OF split_row_path [OF assms(1,2)], unfolded first_child_filter [OF ids] assms(3) [symmetric]]
  have "row_shown r \<and> \<not> starts_with (js ''row_'' @ path_id p) r \<longleftrightarrow> row_shown r \<and> \<not> prefix p q"
    "row_shown r \<or> is_child_of (path_id p) r \<longleftrightarrow> row_shown r \<or> (\<exists>n. q = p @ [n])"
    if "row_id r = js ''row_'' @ path_id q" for r q
    using starts_with_path [OF that] is_child_of_path [OF that] by simp_all
  then have rel: "map (\<lambda>r. if b then row_shown r \<and> \<not> starts_with (js ''row_'' @ path_id p) r
      else row_shown r \<or> is_child_of (path_id p) r) rs =
    map2 (\<lambda>q s. if b then s \<and> \<not> prefix p q else s \<or> (\<exists>n. q = p @ [n])) qs (map row_shown rs)"
    if "map row_id rs = map (\<lambda>q. js ''row_'' @ path_id q) qs" for b rs qs
    using that
  proof (induction rs arbitrary: qs)
    case (Cons r rs)
    then obtain q qs' where "qs = q # qs'" by (cases qs) auto
    with Cons show ?case by (simp del: js_simps)
  qed simp
  have "map row_id (toggleFolder (path_id p) rows) = map row_id (?b @ [?c] @ ?a)"
    using arg_cong [OF branches, of "map fst"] by (simp add: o_def)
  moreover have "?b @ [?c] @ ?a = rows" using t by (metis append.assoc append_take_drop_id)
  moreover have "map row_shown (toggleFolder (path_id p) rows) = map row_shown (?b @ [?c]) @
      map (\<lambda>r. if first_child_shown p after shown_after then row_shown r \<and> \<not> starts_with (js ''row_'' @ path_id p) r
        else row_shown r \<or> is_child_of (path_id p) r) ?a"
    using arg_cong [OF branches, of "map snd"] by (simp add: o_def del: js_simps)
  ultimately show ?thesis unfolding t assms(3) rel [OF ids] by (simp only: map_append append_assoc)
qed

definition sample_tr :: "string \<Rightarrow> bool \<Rightarrow> Row" where
  "sample_tr i s = \<lparr>row_id = js i, row_class = [], row_shown = s, spans = []\<rparr>"

text \<open>A closed folder with an open one inside it: only the inner folder appears.\<close>

theorem toggleFolder_shows_witness:
  "map row_shown (toggleFolder (path_id [0])
      [sample_tr ''row_0_'' True, sample_tr ''row_0_3_'' False, sample_tr ''row_0_3_1_'' False, sample_tr ''row_1_'' True]) =
    [True, True, False, True]"
proof -
  let ?rows = "[sample_tr ''row_0_'' True, sample_tr ''row_0_3_'' False, sample_tr ''row_0_3_1_'' False, sample_tr ''row_1_'' True]"
  have "map row_id ?rows = map (\<lambda>q. js ''row_'' @ path_id q) ([] @ [0] # [[0, 3], [0, 3, 1], [1]])"
    by (simp add: sample_tr_def dec_nat.simps)
  from toggleFolder_shows [OF this _ refl] show ?thesis by (simp add: sample_tr_def)
qed

end
