(* ===== verification/DocMenu.thy ===== *)
theory DocMenu
  imports DocJs
begin

text \<open>
  The navigation menu of the documentation pages: the tree \<open>menudata\<close>
  (docs/html/menudata.js) and \<open>initMenu\<close> with its \<open>makeTree\<close> (docs/html/menu.js), which
  render it as nested lists. An object's missing property is \<open>None\<close>; read as text it is
  \<open>undefined\<close>. jQuery's \<open>append\<close>, \<open>addClass\<close> and \<open>attr\<close> act on the children of
  \<open>#main-nav\<close>; the plugin \<open>smartmenus\<close> is not part of the sources and is a parameter.
\<close>

datatype MenuData = MenuData (md_text: "jstring option") (md_url: "jstring option") (md_children: "MenuData list option")

definition menu_link :: "jstring \<Rightarrow> jstring \<Rightarrow> MenuData" where
  "menu_link t u = MenuData (Some t) (Some u) None"

definition menu_node :: "jstring \<Rightarrow> jstring \<Rightarrow> MenuData list \<Rightarrow> MenuData" where
  "menu_node t u cs = MenuData (Some t) (Some u) (Some cs)"

subsection \<open>The tree of the pages\<close>

definition namespaces_menu :: MenuData where
  "namespaces_menu =
     menu_node (js ''Namespaces'') (js ''namespaces.html'') [
      menu_link (js ''Namespace List'') (js ''namespaces.html''),
      menu_node (js ''Namespace Members'') (js ''namespacemembers.html'') [
       menu_node (js ''All'') (js ''namespacemembers.html'') [
        menu_link (js ''a'') (js ''namespacemembers.html#index_a''),
        menu_link (js ''b'') (js ''namespacemembers.html#index_b''),
        menu_link (js ''c'') (js ''namespacemembers.html#index_c''),
        menu_link (js ''d'') (js ''namespacemembers.html#index_d''),
        menu_link (js ''e'') (js ''namespacemembers.html#index_e''),
        menu_link (js ''f'') (js ''namespacemembers.html#index_f''),
        menu_link (js ''g'') (js ''namespacemembers.html#index_g''),
        menu_link (js ''i'') (js ''namespacemembers.html#index_i''),
        menu_link (js ''j'') (js ''namespacemembers.html#index_j''),
        menu_link (js ''m'') (js ''namespacemembers.html#index_m''),
        menu_link (js ''o'') (js ''namespacemembers.html#index_o''),
        menu_link (js ''p'') (js ''namespacemembers.html#index_p''),
        menu_link (js ''r'') (js ''namespacemembers.html#index_r''),
        menu_link (js ''s'') (js ''namespacemembers.html#index_s''),
        menu_link (js ''t'') (js ''namespacemembers.html#index_t''),
        menu_link (js ''u'') (js ''namespacemembers.html#index_u''),
        menu_link (js ''v'') (js ''namespacemembers.html#index_v'')],
       menu_node (js ''Functions'') (js ''namespacemembers_func.html'') [
        menu_link (js ''e'') (js ''namespacemembers_func.html#index_e''),
        menu_link (js ''g'') (js ''namespacemembers_func.html#index_g''),
        menu_link (js ''i'') (js ''namespacemembers_func.html#index_i''),
        menu_link (js ''o'') (js ''namespacemembers_func.html#index_o''),
        menu_link (js ''p'') (js ''namespacemembers_func.html#index_p'')],
       menu_node (js ''Variables'') (js ''namespacemembers_vars.html'') [
        menu_link (js ''a'') (js ''namespacemembers_vars.html#index_a''),
        menu_link (js ''b'') (js ''namespacemembers_vars.html#index_b''),
        menu_link (js ''c'') (js ''namespacemembers_vars.html#index_c''),
        menu_link (js ''d'') (js ''namespacemembers_vars.html#index_d''),
        menu_link (js ''e'') (js ''namespacemembers_vars.html#index_e''),
        menu_link (js ''f'') (js ''namespacemembers_vars.html#index_f''),
        menu_link (js ''i'') (js ''namespacemembers_vars.html#index_i''),
        menu_link (js ''j'') (js ''namespacemembers_vars.html#index_j''),
        menu_link (js ''m'') (js ''namespacemembers_vars.html#index_m''),
        menu_link (js ''r'') (js ''namespacemembers_vars.html#index_r''),
        menu_link (js ''s'') (js ''namespacemembers_vars.html#index_s''),
        menu_link (js ''t'') (js ''namespacemembers_vars.html#index_t''),
        menu_link (js ''u'') (js ''namespacemembers_vars.html#index_u''),
        menu_link (js ''v'') (js ''namespacemembers_vars.html#index_v'')],
       menu_link (js ''Enumerations'') (js ''namespacemembers_enum.html'')]]"

definition classes_menu :: MenuData where
  "classes_menu =
     menu_node (js ''Classes'') (js ''annotated.html'') [
      menu_link (js ''Class List'') (js ''annotated.html''),
      menu_link (js ''Class Index'') (js ''classes.html''),
      menu_link (js ''Class Hierarchy'') (js ''inherits.html''),
      menu_node (js ''Class Members'') (js ''functions.html'') [
       menu_node (js ''All'') (js ''functions.html'') [
        menu_link (js ''a'') (js ''functions.html#index_a''),
        menu_link (js ''b'') (js ''functions_b.html#index_b''),
        menu_link (js ''c'') (js ''functions_c.html#index_c''),
        menu_link (js ''d'') (js ''functions_d.html#index_d''),
        menu_link (js ''e'') (js ''functions_e.html#index_e''),
        menu_link (js ''f'') (js ''functions_f.html#index_f''),
        menu_link (js ''g'') (js ''functions_g.html#index_g''),
        menu_link (js ''h'') (js ''functions_h.html#index_h''),
        menu_link (js ''i'') (js ''functions_i.html#index_i''),
        menu_link (js ''j'') (js ''functions_j.html#index_j''),
        menu_link (js ''l'') (js ''functions_l.html#index_l''),
        menu_link (js ''m'') (js ''functions_m.html#index_m''),
        menu_link (js ''n'') (js ''functions_n.html#index_n''),
        menu_link (js ''o'') (js ''functions_o.html#index_o''),
        menu_link (js ''p'') (js ''functions_p.html#index_p''),
        menu_link (js ''r'') (js ''functions_r.html#index_r''),
        menu_link (js ''s'') (js ''functions_s.html#index_s''),
        menu_link (js ''t'') (js ''functions_t.html#index_t''),
        menu_link (js ''u'') (js ''functions_u.html#index_u''),
        menu_link (js ''v'') (js ''functions_v.html#index_v''),
        menu_link (js ''w'') (js ''functions_w.html#index_w''),
        menu_link (js ''z'') (js ''functions_z.html#index_z''),
        menu_link (js ''~'') (js ''functions_~.html#index__7E'')],
       menu_node (js ''Functions'') (js ''functions_func.html'') [
        menu_link (js ''a'') (js ''functions_func.html#index_a''),
        menu_link (js ''b'') (js ''functions_func_b.html#index_b''),
        menu_link (js ''c'') (js ''functions_func_c.html#index_c''),
        menu_link (js ''d'') (js ''functions_func_d.html#index_d''),
        menu_link (js ''e'') (js ''functions_func_e.html#index_e''),
        menu_link (js ''f'') (js ''functions_func_f.html#index_f''),
        menu_link (js ''g'') (js ''functions_func_g.html#index_g''),
        menu_link (js ''h'') (js ''functions_func_h.html#index_h''),
        menu_link (js ''i'') (js ''functions_func_i.html#index_i''),
        menu_link (js ''j'') (js ''functions_func_j.html#index_j''),
        menu_link (js ''l'') (js ''functions_func_l.html#index_l''),
        menu_link (js ''m'') (js ''functions_func_m.html#index_m''),
        menu_link (js ''n'') (js ''functions_func_n.html#index_n''),
        menu_link (js ''p'') (js ''functions_func_p.html#index_p''),
        menu_link (js ''r'') (js ''functions_func_r.html#index_r''),
        menu_link (js ''s'') (js ''functions_func_s.html#index_s''),
        menu_link (js ''t'') (js ''functions_func_t.html#index_t''),
        menu_link (js ''u'') (js ''functions_func_u.html#index_u''),
        menu_link (js ''v'') (js ''functions_func_v.html#index_v''),
        menu_link (js ''w'') (js ''functions_func_w.html#index_w''),
        menu_link (js ''~'') (js ''functions_func_~.html#index__7E'')],
       menu_node (js ''Variables'') (js ''functions_vars.html'') [
        menu_link (js ''a'') (js ''functions_vars.html#index_a''),
        menu_link (js ''b'') (js ''functions_vars_b.html#index_b''),
        menu_link (js ''c'') (js ''functions_vars_c.html#index_c''),
        menu_link (js ''d'') (js ''functions_vars_d.html#index_d''),
        menu_link (js ''e'') (js ''functions_vars_e.html#index_e''),
        menu_link (js ''f'') (js ''functions_vars_f.html#index_f''),
        menu_link (js ''i'') (js ''functions_vars_i.html#index_i''),
        menu_link (js ''l'') (js ''functions_vars_l.html#index_l''),
        menu_link (js ''m'') (js ''functions_vars_m.html#index_m''),
        menu_link (js ''n'') (js ''functions_vars_n.html#index_n''),
        menu_link (js ''o'') (js ''functions_vars_o.html#index_o''),
        menu_link (js ''p'') (js ''functions_vars_p.html#index_p''),
        menu_link (js ''r'') (js ''functions_vars_r.html#index_r''),
        menu_link (js ''s'') (js ''functions_vars_s.html#index_s''),
        menu_link (js ''t'') (js ''functions_vars_t.html#index_t''),
        menu_link (js ''u'') (js ''functions_vars_u.html#index_u''),
        menu_link (js ''v'') (js ''functions_vars_v.html#index_v''),
        menu_link (js ''z'') (js ''functions_vars_z.html#index_z'')],
       menu_link (js ''Enumerations'') (js ''functions_enum.html''),
       menu_link (js ''Related Functions'') (js ''functions_rela.html'')]]"

definition files_menu :: MenuData where
  "files_menu =
     menu_node (js ''Files'') (js ''files.html'') [
      menu_link (js ''File List'') (js ''files.html''),
      menu_node (js ''File Members'') (js ''globals.html'') [
       menu_node (js ''All'') (js ''globals.html'') [
        menu_link (js ''_'') (js ''globals.html#index__5F''),
        menu_link (js ''a'') (js ''globals.html#index_a''),
        menu_link (js ''c'') (js ''globals.html#index_c''),
        menu_link (js ''d'') (js ''globals.html#index_d''),
        menu_link (js ''f'') (js ''globals.html#index_f''),
        menu_link (js ''g'') (js ''globals.html#index_g''),
        menu_link (js ''h'') (js ''globals.html#index_h''),
        menu_link (js ''i'') (js ''globals.html#index_i''),
        menu_link (js ''m'') (js ''globals.html#index_m''),
        menu_link (js ''o'') (js ''globals.html#index_o''),
        menu_link (js ''p'') (js ''globals.html#index_p''),
        menu_link (js ''r'') (js ''globals.html#index_r''),
        menu_link (js ''s'') (js ''globals.html#index_s''),
        menu_link (js ''t'') (js ''globals.html#index_t''),
        menu_link (js ''v'') (js ''globals.html#index_v'')],
       menu_node (js ''Functions'') (js ''globals_func.html'') [
        menu_link (js ''a'') (js ''globals_func.html#index_a''),
        menu_link (js ''c'') (js ''globals_func.html#index_c''),
        menu_link (js ''d'') (js ''globals_func.html#index_d''),
        menu_link (js ''g'') (js ''globals_func.html#index_g''),
        menu_link (js ''i'') (js ''globals_func.html#index_i''),
        menu_link (js ''m'') (js ''globals_func.html#index_m''),
        menu_link (js ''o'') (js ''globals_func.html#index_o''),
        menu_link (js ''p'') (js ''globals_func.html#index_p''),
        menu_link (js ''s'') (js ''globals_func.html#index_s''),
        menu_link (js ''t'') (js ''globals_func.html#index_t'')],
       menu_link (js ''Variables'') (js ''globals_vars.html''),
       menu_link (js ''Enumerations'') (js ''globals_enum.html''),
       menu_link (js ''Enumerator'') (js ''globals_eval.html''),
       menu_link (js ''Macros'') (js ''globals_defs.html'')]]"

definition menudata :: MenuData where
  "menudata = MenuData None None (Some [
     menu_link (js ''Main Page'') (js ''index.html''),
     menu_link (js ''Related Pages'') (js ''pages.html''),
     namespaces_menu,
     classes_menu,
     files_menu])"

subsection \<open>Rendering\<close>

definition as_text :: "jstring option \<Rightarrow> jstring" where
  "as_text v = (case v of Some s \<Rightarrow> s | None \<Rightarrow> js ''undefined'')"

fun makeTree :: "MenuData \<Rightarrow> jstring \<Rightarrow> jstring"
  and makeTree_loop :: "MenuData list \<Rightarrow> jstring \<Rightarrow> jstring \<Rightarrow> jstring" where
  "makeTree (MenuData t u None) relPath = []"
| "makeTree (MenuData t u (Some cs)) relPath = makeTree_loop cs relPath (js ''<ul>'') @ js ''</ul>''"
| "makeTree_loop [] relPath result = result"
| "makeTree_loop (c # cs) relPath result = makeTree_loop cs relPath
     (result @ js ''<li><a href=\"'' @ relPath @ as_text (md_url c) @ js ''\">'' @ as_text (md_text c) @
      js ''</a>'' @ makeTree c relPath @ js ''</li>'')"

text \<open>A child of \<open>#main-nav\<close>: the HTML inserted for it and the items appended to it later.\<close>

record NavElement =
  nav_html :: jstring
  nav_id :: jstring
  nav_class :: "string list"
  nav_items :: "jstring list"

definition append_html :: "jstring \<Rightarrow> NavElement list \<Rightarrow> NavElement list" where
  "append_html h es = (if h = [] then es else es @ [\<lparr>nav_html = h, nav_id = [], nav_class = [], nav_items = []\<rparr>])"

definition main_menu :: jstring where
  "main_menu = js ''main-menu''"

text \<open>\<open>children(':first').addClass('sm sm-dox').attr('id','main-menu')\<close>\<close>

fun mark_first :: "NavElement list \<Rightarrow> NavElement list" where
  "mark_first [] = []"
| "mark_first (e # es) = e\<lparr>nav_id := main_menu,
     nav_class := nav_class e @ filter (\<lambda>c. c \<notin> set (nav_class e)) [''sm'', ''sm-dox'']\<rparr> # es"

fun update_menu :: "(NavElement \<Rightarrow> NavElement) \<Rightarrow> NavElement list \<Rightarrow> NavElement list" where
  "update_menu f [] = []"
| "update_menu f (e # es) = (if nav_id e = main_menu then f e # es else e # update_menu f es)"

definition server_item :: "jstring \<Rightarrow> jstring \<Rightarrow> jstring \<Rightarrow> jstring" where
  "server_item relPath searchPage search =
     js ''<li style=\"float:right\"><div id=\"MSearchBox\" class=\"MSearchBoxInactive\"><div class=\"left\"><form id=\"FSearchBox\" action=\"'' @
     relPath @ searchPage @
     js ''\" method=\"get\"><img id=\"MSearchSelect\" src=\"'' @ relPath @
     js ''search/mag.svg\" alt=\"\"/><input type=\"text\" id=\"MSearchField\" name=\"query\" value=\"'' @ search @
     js ''\" size=\"20\" accesskey=\"S\" onfocus=\"searchBox.OnSearchFieldFocus(true)\" onblur=\"searchBox.OnSearchFieldFocus(false)\"></form></div><div class=\"right\"></div></div></li>''"

definition client_item :: "jstring \<Rightarrow> jstring \<Rightarrow> jstring" where
  "client_item relPath search =
     js ''<li style=\"float:right\"><div id=\"MSearchBox\" class=\"MSearchBoxInactive\"><span class=\"left\"><img id=\"MSearchSelect\" src=\"'' @
     relPath @
     js ''search/mag_sel.svg\" onmouseover=\"return searchBox.OnSearchSelectShow()\" onmouseout=\"return searchBox.OnSearchSelectHide()\" alt=\"\"/><input type=\"text\" id=\"MSearchField\" value=\"'' @
     search @
     js ''\" accesskey=\"S\" onfocus=\"searchBox.OnSearchFieldFocus(true)\" onblur=\"searchBox.OnSearchFieldFocus(false)\" onkeyup=\"searchBox.OnSearchFieldChange(event)\"/></span><span class=\"right\"><a id=\"MSearchClose\" href=\"javascript:searchBox.CloseResultsWindow()\"><img id=\"MSearchCloseImg\" border=\"0\" src=\"'' @
     relPath @ js ''search/close.svg\" alt=\"\"/></a></span></div></li>''"

definition initMenu :: "(NavElement \<Rightarrow> NavElement) \<Rightarrow> jstring \<Rightarrow> bool \<Rightarrow> bool \<Rightarrow> jstring \<Rightarrow> jstring \<Rightarrow>
    NavElement list \<Rightarrow> NavElement list" where
  "initMenu smartmenus relPath searchEnabled serverSide searchPage search nav =
     (let nav = mark_first (append_html (makeTree menudata relPath) nav);
          nav = (if searchEnabled then
              update_menu (\<lambda>e. e\<lparr>nav_items := nav_items e @
                [if serverSide then server_item relPath searchPage search
                 else client_item relPath search]\<rparr>) nav
            else nav)
      in update_menu smartmenus nav)"

subsection \<open>Reading a rendered menu back\<close>

text \<open>
  A reader for the lists \<open>makeTree\<close> writes: the address up to the quote, the text up to the
  next tag, then the nested list if there is one. The fuel bounds the number of items and lists
  read.
\<close>

definition expect :: "jstring \<Rightarrow> jstring \<Rightarrow> jstring option" where
  "expect p s = (if take (length p) s = p then Some (drop (length p) s) else None)"

fun read_list :: "nat \<Rightarrow> jstring \<Rightarrow> (MenuData list option \<times> jstring) option"
  and read_items :: "nat \<Rightarrow> jstring \<Rightarrow> (MenuData list \<times> jstring) option" where
  "read_list 0 s = None"
| "read_list (Suc n) s = (case expect (js ''<ul>'') s of
       None \<Rightarrow> Some (None, s)
     | Some s \<Rightarrow> (case read_items n s of
         None \<Rightarrow> None
       | Some (cs, s) \<Rightarrow> map_option (\<lambda>s. (Some cs, s)) (expect (js ''</ul>'') s)))"
| "read_items 0 s = None"
| "read_items (Suc n) s = (case expect (js ''<li><a href=\"'') s of
       None \<Rightarrow> Some ([], s)
     | Some s \<Rightarrow>
        (let u = takeWhile (\<lambda>c. c \<noteq> 34) s in
         case expect (js ''\">'') (drop (length u) s) of None \<Rightarrow> None | Some s \<Rightarrow>
        (let t = takeWhile (\<lambda>c. c \<noteq> 60) s in
         case expect (js ''</a>'') (drop (length t) s) of None \<Rightarrow> None | Some s \<Rightarrow>
         case read_list n s of None \<Rightarrow> None | Some (cs, s) \<Rightarrow>
         case expect (js ''</li>'') s of None \<Rightarrow> None | Some s \<Rightarrow>
         case read_items n s of None \<Rightarrow> None | Some (is, s) \<Rightarrow>
           Some (MenuData (Some t) (Some u) cs # is, s))))"

text \<open>What the reader can read: no tag begins in a text and no quote ends an address early.\<close>

fun readable :: "MenuData \<Rightarrow> bool" where
  "readable (MenuData (Some t) (Some u) None) \<longleftrightarrow> 60 \<notin> set t \<and> 34 \<notin> set u"
| "readable (MenuData (Some t) (Some u) (Some cs)) \<longleftrightarrow> 60 \<notin> set t \<and> 34 \<notin> set u \<and> (\<forall>c \<in> set cs. readable c)"
| "readable (MenuData None u cs) \<longleftrightarrow> False"
| "readable (MenuData (Some t) None cs) \<longleftrightarrow> False"

text \<open>The tree with the path to the root of the pages before every address.\<close>

fun rebase :: "jstring \<Rightarrow> MenuData \<Rightarrow> MenuData" where
  "rebase relPath (MenuData t u None) = MenuData t (map_option ((@) relPath) u) None"
| "rebase relPath (MenuData t u (Some cs)) =
     MenuData t (map_option ((@) relPath) u) (Some (map (rebase relPath) cs))"

definition menu_item :: "jstring \<Rightarrow> MenuData \<Rightarrow> jstring" where
  "menu_item relPath c = js ''<li><a href=\"'' @ relPath @ as_text (md_url c) @ js ''\">'' @
     as_text (md_text c) @ js ''</a>'' @ makeTree c relPath @ js ''</li>''"

lemma menu_item_Some:
  "menu_item relPath (MenuData (Some t) (Some u) ds) = js ''<li><a href=\"'' @ relPath @ u @ js ''\">'' @
     t @ js ''</a>'' @ makeTree (MenuData (Some t) (Some u) ds) relPath @ js ''</li>''"
  by (simp add: menu_item_def as_text_def del: js_simps makeTree.simps)

lemma makeTree_loop_eq: "makeTree_loop cs relPath r = r @ concat (map (menu_item relPath) cs)"
  by (induction cs arbitrary: r) (simp_all add: menu_item_def del: js_simps)

lemma makeTree_Some:
  "makeTree (MenuData t u (Some cs)) relPath =
     js ''<ul>'' @ concat (map (menu_item relPath) cs) @ js ''</ul>''"
  by (simp add: makeTree_loop_eq del: js_simps)

lemma expect_append [simp]: "expect p (p @ s) = Some s"
  by (simp add: expect_def)

lemma expect_same [simp]: "expect p p = Some []"
  by (simp add: expect_def)

lemma expect_other:
  "expect (js ''<ul>'') (js ''</li>'' @ s) = None" "expect (js ''<li><a href=\"'') (js ''</ul>'' @ s) = None"
  by (simp_all add: expect_def)

lemma takeWhile_until: "x \<notin> set a \<Longrightarrow> takeWhile (\<lambda>c. c \<noteq> x) (a @ x # b) = a"
  by (induction a) auto

lemma read_upto:
  "34 \<notin> set a \<Longrightarrow> takeWhile (\<lambda>c. c \<noteq> 34) (a @ js ''\">'' @ b) = a"
  "60 \<notin> set a \<Longrightarrow> takeWhile (\<lambda>c. c \<noteq> 60) (a @ js ''</a>'' @ b) = a"
  using takeWhile_until [of 34 a "62 # b"] takeWhile_until [of 60 a "js ''/a>'' @ b"] by simp_all

lemma read_items_eq:
  assumes "\<And>c n r. \<lbrakk>c \<in> set cs; length (makeTree c relPath) < n\<rbrakk> \<Longrightarrow>
      read_list n (makeTree c relPath @ js ''</li>'' @ r) =
        Some (map_option (map (rebase relPath)) (md_children c), js ''</li>'' @ r)"
    and "\<forall>c \<in> set cs. readable c" and "34 \<notin> set relPath"
    and "length (concat (map (menu_item relPath) cs)) < n"
  shows "read_items n (concat (map (menu_item relPath) cs) @ js ''</ul>'' @ r) =
    Some (map (rebase relPath) cs, js ''</ul>'' @ r)"
  using assms
proof (induction cs arbitrary: n)
  case Nil
  then obtain m where "n = Suc m" by (cases n) auto
  then show ?case by (simp add: expect_other del: js_simps)
next
  case (Cons c cs)
  then obtain m where n: "n = Suc m" by (cases n) auto
  obtain t u ds where c: "c = MenuData (Some t) (Some u) ds" and t: "60 \<notin> set t" and u: "34 \<notin> set u"
    using Cons.prems(2) by (cases c rule: readable.cases) auto
  let ?rest = "concat (map (menu_item relPath) cs) @ js ''</ul>'' @ r"
  have len: "length (makeTree c relPath) < m" "length (concat (map (menu_item relPath) cs)) < m"
    using Cons.prems(4) by (simp_all add: n menu_item_def [of relPath c])
  have tree: "read_list m (makeTree c relPath @ js ''</li>'' @ ?rest) =
      Some (map_option (map (rebase relPath)) ds, js ''</li>'' @ ?rest)"
    using Cons.prems(1) [OF _ len(1)] by (simp add: c del: js_simps)
  have more: "read_items m ?rest = Some (map (rebase relPath) cs, js ''</ul>'' @ r)"
    using Cons.IH [OF _ _ Cons.prems(3) len(2)] Cons.prems(1,2) by (simp del: js_simps)
  have addr: "34 \<notin> set (relPath @ u)" using u Cons.prems(3) by simp
  have "rebase relPath c = MenuData (Some t) (Some (relPath @ u)) (map_option (map (rebase relPath)) ds)"
    by (cases ds) (simp_all add: c)
  then show ?case
    using tree more read_upto(1) [OF addr, of "t @ js ''</a>'' @ makeTree c relPath @ js ''</li>'' @ ?rest"]
      read_upto(2) [OF t, of "makeTree c relPath @ js ''</li>'' @ ?rest"]
    by (simp add: n c menu_item_Some Let_def del: js_simps makeTree.simps)
qed

lemma read_list_eq:
  "\<lbrakk>readable d; 34 \<notin> set relPath; length (makeTree d relPath) < n\<rbrakk> \<Longrightarrow>
     read_list n (makeTree d relPath @ js ''</li>'' @ r) =
       Some (map_option (map (rebase relPath)) (md_children d), js ''</li>'' @ r)"
proof (induction d arbitrary: n r)
  case (MenuData t u ds)
  then obtain m where n: "n = Suc m" by (cases n) auto
  show ?case
  proof (cases ds)
    case None
    then show ?thesis by (simp add: n expect_other del: js_simps)
  next
    case (Some cs)
    have ok: "\<forall>c \<in> set cs. readable c" using MenuData.prems(1) by (cases t; cases u) (auto simp: Some)
    have len: "length (concat (map (menu_item relPath) cs)) < m"
      using MenuData.prems(3) by (simp only: n Some makeTree_Some) simp
    have "read_items m (concat (map (menu_item relPath) cs) @ js ''</ul>'' @ js ''</li>'' @ r) =
        Some (map (rebase relPath) cs, js ''</ul>'' @ js ''</li>'' @ r)"
      by (rule read_items_eq [OF _ ok MenuData.prems(2) len])
        (use MenuData.IH [of cs] ok MenuData.prems(2) in \<open>simp add: Some del: js_simps\<close>)
    then show ?thesis by (simp add: n Some makeTree_Some del: js_simps makeTree.simps)
  qed
qed

text \<open>
  C35. The rendered menu loses nothing: reading the HTML that \<open>makeTree\<close> writes gives back the
  tree below the node, with the relative path before every address, for a path without quotes
  and a tree without tags in its texts and quotes in its addresses.
\<close>

theorem makeTree_roundtrip:
  assumes "md_children d = Some cs" and "\<forall>c \<in> set cs. readable c" and "34 \<notin> set relPath"
  shows "read_list (Suc (length (makeTree d relPath))) (makeTree d relPath) =
    Some (Some (map (rebase relPath) cs), [])"
proof -
  obtain t u where d: "d = MenuData t u (Some cs)" using assms(1) by (cases d) auto
  have len: "length (concat (map (menu_item relPath) cs)) < length (makeTree d relPath)"
    by (simp only: d makeTree_Some) simp
  have "read_items (length (makeTree d relPath)) (concat (map (menu_item relPath) cs) @ js ''</ul>'' @ []) =
      Some (map (rebase relPath) cs, js ''</ul>'' @ [])"
    by (rule read_items_eq [OF _ assms(2,3) len]) (rule read_list_eq, use assms in auto)
  moreover have "expect (js ''<ul>'') (makeTree d relPath) = Some (concat (map (menu_item relPath) cs) @ js ''</ul>'')"
    by (simp only: d makeTree_Some expect_append)
  ultimately show ?thesis by (simp del: js_simps)
qed

lemma js_set: "n \<in> set (js s) \<longleftrightarrow> (\<exists>c \<in> set s. of_char c = n)"
  by (auto simp: js_def)

lemma menudata_readable: "\<forall>c \<in> set (the (md_children menudata)). readable c"
  by (simp add: menudata_def namespaces_menu_def classes_menu_def files_menu_def menu_node_def menu_link_def)

theorem makeTree_roundtrip_witness:
  "\<exists>cs. md_children menudata = Some cs \<and>
     read_list (Suc (length (makeTree menudata (js ''../'')))) (makeTree menudata (js ''../'')) =
       Some (Some (map (rebase (js ''../'')) cs), [])"
proof -
  obtain cs where cs: "md_children menudata = Some cs" by (simp add: menudata_def)
  moreover have "\<forall>c \<in> set cs. readable c" using menudata_readable cs by simp
  moreover have "34 \<notin> set (js ''../'')" by simp
  ultimately show ?thesis using makeTree_roundtrip [of menudata cs "js ''../''"] by blast
qed

end
