(* ===== verification/Spec2Isabelle.thy ===== *)
theory Spec2Isabelle
  imports RvssRuns ParserLabels DocIndex DocSections DocMenu
begin

text \<open>
  A verification development for the RISC-V simulator of this repository: an assembler and a
  single-stage virtual machine with a custom big-integer multiplication unit (C++, src/ and
  include/), and the scripts of the documentation that is generated for it and kept beside it
  (JavaScript, docs/html).

  \<^bold>\<open>How the program works.\<close> The lexer cuts the lines of an assembly file into tokens; the parser
  turns them into units of intermediate code; the code generator makes a machine word of each
  unit. \<open>VmBase::LoadProgram\<close> writes the words and the data of the program to the memory.
  \<open>RVSSVM\<close> then executes it: fetch, decode, execute (integer and floating-point ALU), memory
  access and write back, with control signals set from the opcode. Two custom instructions, LDBM
  and BIGMUL, move numbers of up to 64 doublewords between the memory and the caches of the
  multiplication unit and multiply them; they take many cycles, in which \<open>Run\<close> and \<open>Step\<close> stall.
  Every step records what it changed, so that it can be undone and redone. The page scripts work
  on the tree of a documentation page: a search box with timers, a page of search results per
  initial letter, foldable sections and a menu.

  \<^bold>\<open>The theories and the code.\<close>
  \<^item> Prelude: the integer types (\<open>u8\<close> to \<open>u128\<close>), the outcomes \<open>error\<close> of an operation that does
    not return (exceptions by their kind, undefined behaviour, no fuel left), the type
    \<open>'a result = error + 'a\<close> with its sequencing \<open>bindr\<close>, and facts on words all others share.
  \<^item> CString: \<open>std::stoi\<close>, \<open>std::stoll\<close>, \<open>std::stoull\<close> and \<open>std::to_string\<close>.
  \<^item> Config (include/config.h, config.cpp): the configuration and \<open>modifyConfig\<close>.
  \<^item> Memory (vm/main_memory.cpp, vm/memory_controller.h): blocks allocated at their first write;
    the locale \<open>byte_store\<close> is the interface the multi-byte accesses use, and is interpreted on
    the block memory as \<open>mem\<close>.
  \<^item> Registers (vm/registers.cpp): the three register files and the tables of names.
  \<^item> Instructions (common/instructions.cpp): encodings, mnemonics and operand syntax.
  \<^item> Alu, AluFp (vm/alu.cpp): \<open>execute\<close>, \<open>fpexecute\<close>, \<open>dfpexecute\<close>, every operation. The host's
    floating-point arithmetic is the parameter \<open>HostFloat\<close>; comparisons, classification, sign
    injection, minimum, maximum and the flags are written out on bit patterns.
  \<^item> ControlUnit (vm/rvss/rvss_control_unit.cpp): the control signals and the operation selected.
  \<^item> Bigmul (vm/bigmul_unit.cpp): the global variables of the unit as one record, its five
    datapaths, its load and write cycles, snapshots. BigmulArith and BigmulCorrect hold the
    arithmetic of the 192-bit accumulator and the correctness of the single-cycle datapath; the
    locale \<open>multiplier\<close> is the contract of a datapath and is interpreted on it as \<open>single\<close>.
  \<^item> VmBase (vm/vm_base.cpp): loading, immediates, breakpoints, program counter.
  \<^item> RvssVm (vm/rvss/rvss_vm.cpp): the machine, one definition per member function.
    RvssUndo, RvssBigmul, RvssEffects, RvssLoad and RvssRuns hold its properties: undo and redo;
    the custom instructions with all their stall cycles; the effect of one instruction; loading
    and running what was assembled; that runs end.
  \<^item> Lexer (assembler/lexer.cpp, tokens.h, common/rounding_modes.h): the token list of a text.
  \<^item> Parser (assembler/parser.cpp, parser.h and the four files of assembler/parse_formats): from tokens
    to units, data and symbols, one definition per parse function; a parse function returns \<open>None\<close>
    where the code returns false. ParserRuns proves which texts it ends on, ParserLabels that no
    reference to a label stays open.
  \<^item> CodeGenerator (assembler/code_generator.cpp): words and listings; Encoding relates its words
    to what the machine decodes.
  \<^item> DocJs: what the page scripts use of JavaScript. DocSearchBox, DocDom, DocResults (docs/html/
    search/search.js), DocIndex (docs/html/search/all_6.js and four other pages), DocSections
    (docs/html/dynsections.js), DocMenu (docs/html/menu.js, menudata.js).

  \<^bold>\<open>How the code is modelled.\<close> A class is a record, a derived class an extension of the record of
  its base. A member function takes the record and returns it updated, inside \<open>result\<close> where the
  code can throw, call \<open>at\<close> or \<open>stoi\<close>, or run into undefined behaviour. Integers keep their width.
  Output is a list of the items printed. Stop requests from another thread are a parameter that
  tells in which rounds of a loop one has arrived. Page scripts are functions on the tree of the
  page or on a record of the elements they select; the handlers and timers of the search box form
  a step relation.

  \<^bold>\<open>What is proved.\<close>
  \<^item> Of the machine: LDBM followed by BIGMUL leaves the exact product in memory and counts exactly
    the cycles it stalls; undo after a step restores the machine and redo brings the step back;
    arithmetic instructions have the effect their mnemonic names, from the unit of intermediate
    code through the generated word, the loader, the decoder and the ALU to the register file;
    immediates read back; runs and steps end; the instruction limit.
  \<^item> Of the components: the memory refines a flat array of bytes; the ALU's integer operations as
    arithmetic on integers, with the exact set of operands on which the code is undefined; the
    lexer reads back whatever a lexical grammar can write; the parser ends and resolves its labels
    to the distances between instructions; the multiplication unit multiplies.
  \<^item> Of the pages: from the text typed to the rows displayed, the search shows exactly the entries
    whose name begins with the text; an invariant of all reachable states of the search box;
    keyboard navigation ends at the first visible item; menus can be read back from their HTML.
  \<^item> Where the code does something a reader would not expect, a theorem says what it does: word
    instructions without effect, additions and products whose overflow is undefined, right shifts
    that select no operation, unsigned divisions of words that are not sign-extended, register
    fields read with seven bits, writes that undo misses, operands longer than the caches, a
    systolic datapath that drops carries, a label name that hangs the parser, a selection one past
    the last section.

  \<^bold>\<open>Fuel and bounds.\<close> \<open>Run\<close>, \<open>DebugRun\<close>, \<open>Step\<close> and their stall loops take fuel, and end in
  \<open>OutOfFuel\<close> without enough. Run_ends and Step_ends prove that for every steady machine there is
  an amount from which on more fuel changes nothing and the outcome is not \<open>OutOfFuel\<close>; a new
  machine is steady, and every instruction and every stall cycle keeps it so. The program of LDBM and
  BIGMUL is given the number of cycles it needs as its fuel, and needs no more. The two passes of
  the parser take a number of rounds; the number of tokens is enough unless a label or mnemonic has the name of
  a section (parse_ends), and then no number may be enough (parse_hangs_at_section_label). The walk of
  \<open>FindChildElement\<close> returns \<open>None\<close> where it would run out of rounds, and never does. All other loops
  are recursions with a termination proof; the navigation among search results has its own by
  position in the tree.

  \<^bold>\<open>Not modelled.\<close>
  \<^item> The assembler driver, which reads the file, runs lexer, parser and code generator in turn and
    collects what they return: the theories state what each of the three returns.
  \<^item> The ELF writer, the layout of error messages, the command line, the main loop, the
    dumps of registers and memory to files: they read or write files and terminals and format
    text. The thread of the runner is seen only through the stop requests.
  \<^item> Cache, memory-mapped devices and the five-stage machine: declarations without operations.
  \<^item> The host's floating-point arithmetic, the text and the value of a floating-point literal, and the lower case of
    characters beyond Latin-1 (parameters),
    the smartmenus plugin and jQuery's animations (parameters or left out), the other pages of the
    search index, which hold entries of the same form as the five that are modelled.
  \<^item> The Verilog and its synthesis outputs.
\<close>

end
